(* ===== verification/Prelude.thy ===== *)
theory Prelude
  imports Main "HOL-Library.Monad_Syntax"
begin

text \<open>
  What every component of the development shares: the collections of rewrite rules the component
  proofs name, the result type of fallible code, and the list lemmas behind the bounded queue, the
  cookie jar and the query string.

  A computation that may throw is a value of \<open>js_error + 'a\<close>-shaped type \<open>('e, 'a) result\<close>:
  \<open>Inl\<close> carries the thrown error and \<open>Inr\<close> the returned value. Every throw and early return of the
  source is a branch of the model.
\<close>

named_theorems js_defs \<open>definitions of the JavaScript primitives, unfolded on demand\<close>
named_theorems frame_simps \<open>which fields an operation leaves unchanged\<close>
named_theorems inv_intros \<open>each operation keeps its component's invariant\<close>

type_synonym ('e, 'a) result = "'e + 'a"

section \<open>Results\<close>

definition res_bind :: "('e, 'a) result \<Rightarrow> ('a \<Rightarrow> ('e, 'b) result) \<Rightarrow> ('e, 'b) result" where
  "res_bind r f = (case r of Inl e \<Rightarrow> Inl e | Inr x \<Rightarrow> f x)"

text \<open>\<open>v ?? d\<close> and a parameter with a default value.\<close>

definition opt_or :: "'a option \<Rightarrow> 'a \<Rightarrow> 'a" where
  "opt_or v d = (case v of Some x \<Rightarrow> x | None \<Rightarrow> d)"

definition is_ok :: "('e, 'a) result \<Rightarrow> bool" where
  "is_ok r = (case r of Inl _ \<Rightarrow> False | Inr _ \<Rightarrow> True)"

lemma res_bind_simps [simp]:
  "res_bind (Inl e) f = Inl e"
  "res_bind (Inr x) f = f x"
  by (simp_all add: res_bind_def)

lemma res_bind_assoc: "res_bind (res_bind r f) g = res_bind r (\<lambda>x. res_bind (f x) g)"
  by (simp add: res_bind_def split: sum.split)

lemma res_bind_Inr_iff: "res_bind r f = Inr y \<longleftrightarrow> (\<exists>x. r = Inr x \<and> f x = Inr y)"
  by (simp add: res_bind_def split: sum.split)

lemma res_bind_Inl_iff:
  "res_bind r f = Inl e \<longleftrightarrow> r = Inl e \<or> (\<exists>x. r = Inr x \<and> f x = Inl e)"
  by (auto simp: res_bind_def split: sum.split)

lemma is_ok_simps [simp]: "\<not> is_ok (Inl e)" "is_ok (Inr x)"
  by (simp_all add: is_ok_def)

lemma is_ok_iff: "is_ok r \<longleftrightarrow> (\<exists>x. r = Inr x)"
  by (cases r) simp_all

text \<open>A loop that stops at the first throw.\<close>

fun res_map :: "('a \<Rightarrow> ('e, 'b) result) \<Rightarrow> 'a list \<Rightarrow> ('e, 'b list) result" where
  "res_map f [] = Inr []"
| "res_map f (x # xs) = res_bind (f x) (\<lambda>y. res_bind (res_map f xs) (\<lambda>ys. Inr (y # ys)))"

lemma res_map_Inr_iff:
  "res_map f xs = Inr ys \<longleftrightarrow> list_all2 (\<lambda>x y. f x = Inr y) xs ys"
proof (induction xs arbitrary: ys)
  case Nil
  then show ?case by auto
next
  case (Cons x xs)
  then show ?case by (cases ys) (auto simp: res_bind_Inr_iff)
qed

section \<open>Lists read in a ring\<close>

lemma mod_add_cancel_lt:
  fixes h c i j :: nat
  assumes "i < c" and "j < c" and "(h + i) mod c = (h + j) mod c"
  shows "i = j"
proof -
  from assms(3) obtain q r where "h + i + c * q = h + j + c * r"
    by (auto simp: nat_mod_eq_iff)
  then have "i + c * q = j + c * r" by simp
  then have "i mod c = j mod c" by (auto simp: nat_mod_eq_iff)
  with assms(1,2) show ?thesis by simp
qed

lemma nth_update_if: "xs[i := x] ! j = (if i = j \<and> i < length xs then x else xs ! j)"
  by (cases "i < length xs") (simp_all add: list_update_beyond)

end
