(* ===== verification/Js_Numbers.thy ===== *)
theory Js_Numbers
  imports Prelude Complex_Main
begin

text \<open>
  JavaScript's \<open>number\<close> type as the sources use it. A \<open>jsnumber\<close> is a finite value (a rational, with
  \<open>-0\<close> apart because \<open>Object.is\<close> sees it), an infinity or \<open>NaN\<close>; the predicates
  \<open>Number.isFinite\<close>, \<open>Number.isInteger\<close> and \<open>Number.isSafeInteger\<close> and the operations
  \<open>Math.floor\<close>, \<open>Math.min\<close> and \<open>Math.max\<close> are written out on it.

  The one place where the code's integer arithmetic leaves the exactly representable range is the
  varint scanner of \<open>frames.ts\<close>, whose accumulator can pass \<open>2^53\<close>: \<open>round53\<close> is the
  round-half-to-even of IEEE 754 doubles on natural numbers, and the lemmas say that it is the
  identity up to \<open>2^53\<close> and never crosses that bound downwards.
\<close>

section \<open>Numbers and their predicates\<close>

datatype jsnumber = Fin rat | NegZero | PosInf | NegInf | NaN

abbreviation js_int :: "int \<Rightarrow> jsnumber" where
  "js_int i \<equiv> Fin (of_int i)"

definition MAX_SAFE_INTEGER :: int where
  "MAX_SAFE_INTEGER = 9007199254740991"

definition MAX_TIMER_MS :: int where
  "MAX_TIMER_MS = 2147483647"

definition is_integral :: "rat \<Rightarrow> bool" where
  "is_integral x \<longleftrightarrow> of_int \<lfloor>x\<rfloor> = x"

definition safe_int :: "int \<Rightarrow> bool" where
  "safe_int i \<longleftrightarrow> \<bar>i\<bar> \<le> MAX_SAFE_INTEGER"

fun isFinite :: "jsnumber \<Rightarrow> bool" where
  "isFinite (Fin x) = True"
| "isFinite NegZero = True"
| "isFinite _ = False"

fun isInteger :: "jsnumber \<Rightarrow> bool" where
  "isInteger (Fin x) = is_integral x"
| "isInteger NegZero = True"
| "isInteger _ = False"

text \<open>The mathematical value of a finite number; only read behind a finiteness check.\<close>

fun num_val :: "jsnumber \<Rightarrow> rat" where
  "num_val (Fin x) = x"
| "num_val _ = 0"

fun isSafeInteger :: "jsnumber \<Rightarrow> bool" where
  "isSafeInteger (Fin x) = (is_integral x \<and> \<bar>x\<bar> \<le> of_int MAX_SAFE_INTEGER)"
| "isSafeInteger NegZero = True"
| "isSafeInteger _ = False"

definition int_val :: "jsnumber \<Rightarrow> int" where
  "int_val n = \<lfloor>num_val n\<rfloor>"

text \<open>\<open>a < b\<close> and \<open>a \<le> b\<close>: false as soon as one side is \<open>NaN\<close>.\<close>

fun js_less :: "jsnumber \<Rightarrow> jsnumber \<Rightarrow> bool" where
  "js_less NaN _ = False"
| "js_less _ NaN = False"
| "js_less PosInf _ = False"
| "js_less _ NegInf = False"
| "js_less NegInf _ = True"
| "js_less _ PosInf = True"
| "js_less a b = (num_val a < num_val b)"

fun js_le :: "jsnumber \<Rightarrow> jsnumber \<Rightarrow> bool" where
  "js_le NaN _ = False"
| "js_le _ NaN = False"
| "js_le NegInf _ = True"
| "js_le _ PosInf = True"
| "js_le PosInf _ = False"
| "js_le _ NegInf = False"
| "js_le a b = (num_val a \<le> num_val b)"

text \<open>\<open>Object.is\<close>: tells \<open>0\<close> from \<open>-0\<close> and holds of \<open>NaN\<close> with itself, which is HOL equality here;
  \<open>===\<close> identifies the two zeros and never holds of \<open>NaN\<close>.\<close>

definition js_strict_eq :: "jsnumber \<Rightarrow> jsnumber \<Rightarrow> bool" where
  "js_strict_eq a b \<longleftrightarrow> a \<noteq> NaN \<and> b \<noteq> NaN \<and>
     (a = b \<or> isFinite a \<and> isFinite b \<and> num_val a = num_val b)"

lemma is_integral_of_int [simp]: "is_integral (of_int i)"
  by (simp add: is_integral_def)

lemma is_integral_numeral [simp]:
  "is_integral (numeral k)" "is_integral (- numeral k)" "is_integral 0" "is_integral 1"
  using is_integral_of_int [of "numeral k"] is_integral_of_int [of "- numeral k"]
    is_integral_of_int [of 0] is_integral_of_int [of 1] by simp_all

lemma is_integralE:
  assumes "is_integral x"
  obtains i where "x = of_int i"
  using assms by (metis is_integral_def)

lemma int_val_of_int [simp]: "int_val (js_int i) = i"
  by (simp add: int_val_def)

lemma isSafeInteger_js_int [simp]: "isSafeInteger (js_int i) = safe_int i"
  by (simp add: safe_int_def) (metis of_int_abs of_int_le_iff)

lemma isSafeInteger_isInteger: "isSafeInteger n \<Longrightarrow> isInteger n"
  by (cases n) auto

lemma isInteger_isFinite: "isInteger n \<Longrightarrow> isFinite n"
  by (cases n) auto

lemma isSafeInteger_bound:
  assumes "isSafeInteger n"
  shows "safe_int (int_val n)"
proof (cases n)
  case (Fin x)
  with assms obtain i where "x = of_int i" by (auto elim: is_integralE)
  with Fin assms show ?thesis using isSafeInteger_js_int [of i] by simp
qed (use assms in \<open>auto simp: int_val_def safe_int_def MAX_SAFE_INTEGER_def\<close>)

section \<open>Rounding to 53 significant bits\<close>

text \<open>The number of low bits a natural number loses when stored as a double.\<close>

fun excess_bits :: "nat \<Rightarrow> nat" where
  "excess_bits n = (if n < 2 ^ 53 then 0 else Suc (excess_bits (n div 2)))"

declare excess_bits.simps [simp del]

definition round53 :: "nat \<Rightarrow> nat" where
  "round53 n =
     (let s = excess_bits n; q = n div 2 ^ s; r = n mod 2 ^ s
      in if 2 * r < 2 ^ s \<or> 2 * r = 2 ^ s \<and> even q then q * 2 ^ s else (q + 1) * 2 ^ s)"

lemma excess_bits_small [simp]: "n < 2 ^ 53 \<Longrightarrow> excess_bits n = 0"
  by (subst excess_bits.simps) simp

lemma excess_bits_large: "2 ^ 53 \<le> n \<Longrightarrow> excess_bits n = Suc (excess_bits (n div 2))"
  by (subst excess_bits.simps) simp

lemma excess_bits_quotient:
  "2 ^ 53 \<le> n \<Longrightarrow> 2 ^ 52 \<le> n div 2 ^ excess_bits n"
proof (induction n rule: excess_bits.induct)
  case (1 n)
  then have n: "\<not> n < 2 ^ 53" by simp
  have *: "n div 2 ^ Suc k = n div 2 div 2 ^ k" for k
    by (simp add: div_mult2_eq)
  show ?case
  proof (cases "2 ^ 53 \<le> n div 2")
    case True
    with "1.IH" [OF n] show ?thesis
      using "1.prems" by (simp only: excess_bits_large *)
  next
    case False
    then show ?thesis using n by (simp add: excess_bits_large)
  qed
qed

lemma round53_exact [simp]: "n < 2 ^ 53 \<Longrightarrow> round53 n = n"
  by (simp add: round53_def)

lemma round53_large:
  assumes "2 ^ 53 \<le> n"
  shows "2 ^ 53 \<le> round53 n"
proof -
  let ?s = "excess_bits n"
  have "0 < ?s" using assms by (simp add: excess_bits_large)
  then have "(2::nat) ^ 1 \<le> 2 ^ ?s" by (intro power_increasing) auto
  then have "2 ^ 52 * 2 \<le> n div 2 ^ ?s * 2 ^ ?s"
    using excess_bits_quotient [OF assms] by (intro mult_le_mono) auto
  also have "\<dots> \<le> round53 n" by (simp add: round53_def Let_def)
  finally show ?thesis by simp
qed

text \<open>Sum and product of two natural numbers held as doubles.\<close>

definition fl_add :: "nat \<Rightarrow> nat \<Rightarrow> nat" where
  "fl_add a b = round53 (a + b)"

definition fl_mul :: "nat \<Rightarrow> nat \<Rightarrow> nat" where
  "fl_mul a b = round53 (a * b)"

text \<open>\<open>x\<close> stands for the exact \<open>n\<close>: equal below \<open>2^53\<close>, and on the same side of that bound.\<close>

definition approximates :: "nat \<Rightarrow> nat \<Rightarrow> bool" where
  "approximates x n \<longleftrightarrow> (if n < 2 ^ 53 then x = n else 2 ^ 53 \<le> x)"

lemma approximates_refl [simp]: "approximates n n"
  by (simp add: approximates_def)

lemma approximates_round53: "approximates (round53 n) n"
  using round53_large by (simp add: approximates_def)

lemma approximates_add:
  assumes "approximates x m" and "approximates y n"
  shows "approximates (fl_add x y) (m + n)"
proof (cases "m + n < 2 ^ 53")
  case True
  with assms show ?thesis by (simp add: approximates_def fl_add_def)
next
  case False
  with assms have "2 ^ 53 \<le> x + y" by (auto simp: approximates_def split: if_splits)
  with False show ?thesis using round53_large by (simp add: approximates_def fl_add_def)
qed

lemma le_mult_either:
  fixes x y :: nat
  assumes "0 < x" and "0 < y" and "b \<le> x \<or> b \<le> y"
  shows "b \<le> x * y"
proof -
  have "x \<le> x * y" and "y \<le> x * y" using assms(1,2) by simp_all
  with assms(3) show ?thesis by (meson le_trans)
qed

lemma approximates_mul:
  assumes "approximates x m" and "approximates y n"
  shows "approximates (fl_mul x y) (m * n)"
proof (cases "m = 0 \<or> n = 0 \<or> m < 2 ^ 53 \<and> n < 2 ^ 53")
  case True
  with assms approximates_round53 [of "m * n"] show ?thesis
    by (auto simp: approximates_def fl_mul_def)
next
  case False
  then have mn: "0 < m" "0 < n" and "2 ^ 53 \<le> m \<or> 2 ^ 53 \<le> n" by auto
  with assms have "0 < x" "0 < y" and big: "2 ^ 53 \<le> x \<or> 2 ^ 53 \<le> y"
    by (auto simp: approximates_def split: if_splits)
  then have "2 ^ 53 \<le> x * y" by (rule le_mult_either)
  moreover have "2 ^ 53 \<le> m * n"
    using mn \<open>2 ^ 53 \<le> m \<or> 2 ^ 53 \<le> n\<close> by (rule le_mult_either)
  ultimately show ?thesis using round53_large by (simp add: approximates_def fl_mul_def)
qed

end
