(* ===== verification/Errors.thy ===== *)
theory Errors
  imports Js_Numbers
begin

text \<open>
  The error classes of the two packages, as values. \<open>js_error\<close> has one constructor per class that the
  sources throw or reject with; the built-in \<open>Error\<close>, \<open>RangeError\<close>, \<open>TypeError\<close> and \<open>SyntaxError\<close> carry
  their message, the packages' own classes carry the fields callers branch on. \<open>live_api_error\<close> is
  \<open>LiveApiError\<close> of \<open>live-sdk/src/errors.ts\<close>, whose two subclasses \<open>ProtocolError\<close> and
  \<open>SocketError\<close> fix its code and its retryability.
\<close>

datatype guest_error_code =
  BOOTSTRAP_NO_COOKIES | RATE_LIMIT_OR_VERIFICATION | WS_HANDSHAKE_REJECTED | UNKNOWN

datatype live_api_class = PlainLiveApi | ProtocolClass | SocketClass "int option"

record live_api_error =
  lae_class :: live_api_class
  lae_code :: string
  lae_message :: string
  lae_retryable :: bool
  lae_retryAfterMs :: "int option"
  lae_status :: "int option"
  lae_requestId :: "string option"

datatype js_error =
    Err string
  | RangeErr string
  | TypeErr string
  | SyntaxErr string
  | GuestSessionErr guest_error_code string "int option" "int option"
  | HandshakeRejectedErr string int
  | NotLiveErr string
  | WebcastRefusalErr int string
  | JsonValidationErr string string string string
  | SocketWriteOverflowErr string
  | LiveApiErr live_api_error

definition LiveApiError ::
  "string \<Rightarrow> string \<Rightarrow> bool option \<Rightarrow> int option \<Rightarrow> int option \<Rightarrow> string option \<Rightarrow> live_api_error" where
  "LiveApiError code message retryable retryAfterMs status requestId =
     \<lparr>lae_class = PlainLiveApi, lae_code = code, lae_message = message,
      lae_retryable = (case retryable of None \<Rightarrow> False | Some b \<Rightarrow> b),
      lae_retryAfterMs = retryAfterMs, lae_status = status, lae_requestId = requestId\<rparr>"

definition ProtocolError :: "string \<Rightarrow> live_api_error" where
  "ProtocolError message =
     (LiveApiError ''PROTOCOL_ERROR'' message (Some False) None None None)
       \<lparr>lae_class := ProtocolClass\<rparr>"

definition SocketError :: "string \<Rightarrow> int option \<Rightarrow> live_api_error" where
  "SocketError message closeCode =
     (LiveApiError ''SOCKET_ERROR'' message (Some True) None None None)
       \<lparr>lae_class := SocketClass closeCode\<rparr>"

text \<open>\<open>isRetryable\<close>: only a \<open>LiveApiError\<close> can say that it must not be retried.\<close>

fun isRetryable :: "js_error \<Rightarrow> bool" where
  "isRetryable (LiveApiErr e) = lae_retryable e"
| "isRetryable _ = True"

text \<open>\<open>isHandshakeRejected\<close> of \<open>client.ts\<close>.\<close>

fun isHandshakeRejected :: "js_error \<Rightarrow> bool" where
  "isHandshakeRejected (GuestSessionErr c _ _ _) = (c = WS_HANDSHAKE_REJECTED)"
| "isHandshakeRejected (HandshakeRejectedErr _ _) = True"
| "isHandshakeRejected _ = False"

lemma live_api_error_simps [simp]:
  "lae_retryable (ProtocolError m) = False"
  "lae_retryable (SocketError m c) = True"
  "lae_retryable (LiveApiError k m None ra st ri) = False"
  "lae_retryable (LiveApiError k m (Some b) ra st ri) = b"
  "lae_retryAfterMs (LiveApiError k m r ra st ri) = ra"
  "lae_retryAfterMs (ProtocolError m) = None"
  "lae_retryAfterMs (SocketError m c) = None"
  by (simp_all add: LiveApiError_def ProtocolError_def SocketError_def)

end
