(* ===== verification/Js_Strings.thy ===== *)
theory Js_Strings
  imports Js_Numbers
begin

text \<open>
  The string operations the sources call, on HOL's \<open>string\<close>: a list of characters with codes below
  256, that is, a JavaScript string whose code units are Latin-1. This covers the strings these parts
  of the code handle (HTTP header values, identifiers, URLs, JSON keys, protocol constants). Free text
  that passes through unchanged (a comment, a nickname) is carried in the same type; the one function
  that measures arbitrary UTF-16 text, \<open>utf8Length\<close> of the event normaliser, is defined on code units.

  \<open>js_trim\<close>, \<open>split_on\<close>, \<open>cut_at\<close> (an \<open>indexOf\<close> followed by two \<open>slice\<close>s), \<open>js_join\<close>, \<open>nat_str\<close>
  (\<open>String(n)\<close>), \<open>BigInt\<close> of a string and \<open>encodeURIComponent\<close> are executable; the lemmas are the
  round trips the cookie jar, the identifier parser and the URL builders rest on.
\<close>

section \<open>Character classes\<close>

definition code :: "char \<Rightarrow> nat" where
  "code c = of_char c"

definition is_digit :: "char \<Rightarrow> bool" where
  "is_digit c \<longleftrightarrow> 48 \<le> code c \<and> code c \<le> 57"

definition is_upper :: "char \<Rightarrow> bool" where
  "is_upper c \<longleftrightarrow> 65 \<le> code c \<and> code c \<le> 90"

definition is_lower :: "char \<Rightarrow> bool" where
  "is_lower c \<longleftrightarrow> 97 \<le> code c \<and> code c \<le> 122"

text \<open>\<open>\s\<close> and what \<open>trim\<close> removes, within Latin-1.\<close>

definition is_space :: "char \<Rightarrow> bool" where
  "is_space c \<longleftrightarrow> (9 \<le> code c \<and> code c \<le> 13) \<or> code c = 32 \<or> code c = 160"

definition to_lower :: "char \<Rightarrow> char" where
  "to_lower c = (if is_upper c then char_of (code c + 32)
     else if 192 \<le> code c \<and> code c \<le> 222 \<and> code c \<noteq> 215 then char_of (code c + 32) else c)"

definition all_digits :: "string \<Rightarrow> bool" where
  "all_digits s \<longleftrightarrow> list_all is_digit s"

text \<open>\<open>/^[0-9]+$/.test(s)\<close>\<close>

definition numeric_string :: "string \<Rightarrow> bool" where
  "numeric_string s \<longleftrightarrow> s \<noteq> [] \<and> all_digits s"

section \<open>Trimming, splitting, joining\<close>

definition trim_start :: "string \<Rightarrow> string" where
  "trim_start s = dropWhile is_space s"

definition js_trim :: "string \<Rightarrow> string" where
  "js_trim s = rev (trim_start (rev (trim_start s)))"

definition starts_with :: "string \<Rightarrow> string \<Rightarrow> bool" where
  "starts_with p s \<longleftrightarrow> take (length p) s = p"

text \<open>\<open>const i = s.indexOf(c)\<close> with \<open>s.slice(0, i)\<close> and \<open>s.slice(i + 1)\<close>; \<open>None\<close> is \<open>-1\<close>.\<close>

fun cut_at :: "'a \<Rightarrow> 'a list \<Rightarrow> ('a list \<times> 'a list) option" where
  "cut_at c [] = None"
| "cut_at c (x # xs) = (if x = c then Some ([], xs)
     else map_option (\<lambda>(a, b). (x # a, b)) (cut_at c xs))"

fun split_on :: "'a \<Rightarrow> 'a list \<Rightarrow> 'a list list" where
  "split_on c [] = [[]]"
| "split_on c (x # xs) = (if x = c then [] # split_on c xs
     else (case split_on c xs of [] \<Rightarrow> [[x]] | p # ps \<Rightarrow> (x # p) # ps))"

fun js_join :: "'a list \<Rightarrow> 'a list list \<Rightarrow> 'a list" where
  "js_join sep [] = []"
| "js_join sep [p] = p"
| "js_join sep (p # q # ps) = p @ sep @ js_join sep (q # ps)"

lemma split_on_nonempty [simp]: "split_on c s \<noteq> []"
  by (induction s) (auto split: list.splits)

lemma split_on_no_sep: "c \<notin> set s \<Longrightarrow> split_on c s = [s]"
  by (induction s) auto

lemma split_on_append:
  "c \<notin> set a \<Longrightarrow> split_on c (a @ c # b) = a # split_on c b"
  by (induction a) auto

lemma split_on_parts: "p \<in> set (split_on c s) \<Longrightarrow> c \<notin> set p"
proof (induction s arbitrary: p)
  case (Cons x xs)
  then show ?case by (auto split: if_splits list.splits)
qed simp

lemma join_split: "js_join [c] (split_on c s) = s"
proof (induction s)
  case (Cons x xs)
  then show ?case
    by (cases "split_on c xs"; cases "tl (split_on c xs)") auto
qed simp

lemma split_join:
  assumes "ps \<noteq> []" and "\<forall>p \<in> set ps. c \<notin> set p"
  shows "split_on c (js_join [c] ps) = ps"
  using assms
proof (induction "[c]" ps rule: js_join.induct)
  case (3 p q ps)
  then show ?case by (simp add: split_on_append)
qed (simp_all add: split_on_no_sep)

lemma cut_at_None: "cut_at c s = None \<longleftrightarrow> c \<notin> set s"
  by (induction s) auto

lemma cut_at_Some: "cut_at c s = Some (a, b) \<longleftrightarrow> s = a @ c # b \<and> c \<notin> set a"
proof (induction s arbitrary: a)
  case (Cons x xs)
  show ?case
  proof (cases "x = c")
    case False
    then have "cut_at c (x # xs) = Some (a, b) \<longleftrightarrow> (\<exists>a'. a = x # a' \<and> cut_at c xs = Some (a', b))"
      by (cases "cut_at c xs") auto
    with False Cons.IH show ?thesis by (cases a) auto
  qed (cases a, auto)
qed simp

lemma cut_at_append: "c \<notin> set a \<Longrightarrow> cut_at c (a @ c # b) = Some (a, b)"
  by (simp add: cut_at_Some)

lemma trim_start_id: "s = [] \<or> \<not> is_space (hd s) \<Longrightarrow> trim_start s = s"
  by (cases s) (auto simp: trim_start_def)

definition trimmed :: "string \<Rightarrow> bool" where
  "trimmed s \<longleftrightarrow> s = [] \<or> \<not> is_space (hd s) \<and> \<not> is_space (last s)"

lemma js_trim_id: "trimmed s \<Longrightarrow> js_trim s = s"
  by (auto simp: js_trim_def trimmed_def trim_start_id hd_rev)

lemma js_trim_space: "is_space c \<Longrightarrow> js_trim (c # s) = js_trim s"
  by (simp add: js_trim_def trim_start_def)

lemma trimmed_js_trim [simp]: "trimmed (js_trim s)"
proof -
  have hd_dw: "\<not> is_space (hd (dropWhile is_space t))" if "dropWhile is_space t \<noteq> []" for t
    using that by (rule hd_dropWhile)
  let ?t = "dropWhile is_space s"
  show ?thesis
  proof (cases "js_trim s = []")
    case False
    then have ne: "dropWhile is_space (rev ?t) \<noteq> []" by (simp add: js_trim_def trim_start_def)
    then have "?t \<noteq> []" by (metis dropWhile.simps(1) rev.simps(1))
    then have "hd (js_trim s) = hd ?t"
      using ne by (metis (no_types, lifting) js_trim_def trim_start_def dropWhile_eq_self_iff hd_rev
          last_appendR last_rev rev_rev_ident takeWhile_dropWhile_id)
    then show ?thesis
      using False hd_dw [OF ne] hd_dw [OF \<open>?t \<noteq> []\<close>]
      by (simp add: trimmed_def js_trim_def trim_start_def last_rev)
  qed (simp add: trimmed_def)
qed

lemma js_trim_idem [simp]: "js_trim (js_trim s) = js_trim s"
  by (simp add: js_trim_id)

section \<open>Decimal numbers\<close>

definition digit_char :: "nat \<Rightarrow> char" where
  "digit_char d = char_of (48 + d)"

fun nat_str :: "nat \<Rightarrow> string" where
  "nat_str n = (if n < 10 then [digit_char n] else nat_str (n div 10) @ [digit_char (n mod 10)])"

declare nat_str.simps [simp del]

definition int_str :: "int \<Rightarrow> string" where
  "int_str i = (if i < 0 then ''-'' @ nat_str (nat (- i)) else nat_str (nat i))"

definition digit_val :: "char \<Rightarrow> nat" where
  "digit_val c = code c - 48"

definition str_nat :: "string \<Rightarrow> nat" where
  "str_nat s = foldl (\<lambda>n c. 10 * n + digit_val c) 0 s"

lemma code_digit_char [simp]: "d < 10 \<Longrightarrow> code (digit_char d) = 48 + d"
  by (simp add: code_def digit_char_def)

lemma is_digit_digit_char [simp]: "d < 10 \<Longrightarrow> is_digit (digit_char d)"
  by (simp add: is_digit_def)

lemma digit_val_digit_char [simp]: "d < 10 \<Longrightarrow> digit_val (digit_char d) = d"
  by (simp add: digit_val_def)

lemma nat_str_numeric: "numeric_string (nat_str n)"
proof (induction n rule: nat_str.induct)
  case (1 n)
  then show ?case by (subst nat_str.simps) (auto simp: numeric_string_def all_digits_def)
qed

lemma str_nat_append: "str_nat (s @ [c]) = 10 * str_nat s + digit_val c"
  by (simp add: str_nat_def)

lemma str_nat_nat_str [simp]: "str_nat (nat_str n) = n"
proof (induction n rule: nat_str.induct)
  case (1 n)
  show ?case
  proof (cases "n < 10")
    case True
    then show ?thesis by (subst nat_str.simps) (simp add: str_nat_def)
  next
    case False
    with 1 show ?thesis by (subst nat_str.simps) (simp add: str_nat_append)
  qed
qed

lemma nat_str_inject [simp]: "nat_str m = nat_str n \<longleftrightarrow> m = n"
  using str_nat_nat_str by metis

lemma nat_str_nonempty [simp]: "nat_str n \<noteq> []"
  using nat_str_numeric [of n] by (simp add: numeric_string_def)

lemma minus_not_digit: "\<not> is_digit (CHR ''-'')"
  by (simp add: is_digit_def code_def)

lemma int_str_numeric_iff: "numeric_string (int_str i) \<longleftrightarrow> 0 \<le> i"
  using nat_str_numeric [of "nat i"] minus_not_digit
  by (auto simp: int_str_def numeric_string_def all_digits_def)

lemma int_str_inject [simp]: "int_str i = int_str j \<longleftrightarrow> i = j"
proof
  assume eq: "int_str i = int_str j"
  have "\<not> numeric_string (CHR ''-'' # s)" for s
    using minus_not_digit by (simp add: numeric_string_def all_digits_def)
  then have "(i < 0) = (j < 0)"
    using eq int_str_numeric_iff [of i] int_str_numeric_iff [of j] by (metis not_le)
  with eq show "i = j" by (auto simp: int_str_def split: if_splits)
qed simp

text \<open>\<open>BigInt(s)\<close> of a string: surrounding white space is ignored, the empty string is zero, a decimal
  literal may be signed, and hexadecimal, octal and binary literals are read; anything else is a
  SyntaxError (\<open>None\<close>).\<close>

definition radix_digit :: "nat \<Rightarrow> char \<Rightarrow> nat option" where
  "radix_digit r c =
     (let d = (if is_digit c then code c - 48 else if is_lower c then code c - 87
               else if is_upper c then code c - 55 else 99)
      in if d < r then Some d else None)"

fun radix_nat :: "nat \<Rightarrow> nat \<Rightarrow> string \<Rightarrow> nat option" where
  "radix_nat r acc [] = Some acc"
| "radix_nat r acc (c # cs) =
     (case radix_digit r c of None \<Rightarrow> None | Some d \<Rightarrow> radix_nat r (r * acc + d) cs)"

definition radix_literal :: "nat \<Rightarrow> string \<Rightarrow> nat option" where
  "radix_literal r s = (if s = [] then None else radix_nat r 0 s)"

definition BigInt :: "string \<Rightarrow> int option" where
  "BigInt s =
     (let t = js_trim s
      in if t = [] then Some 0
         else if hd t = CHR ''-'' then map_option (\<lambda>n. - int n) (radix_literal 10 (tl t))
         else if hd t = CHR ''+'' then map_option int (radix_literal 10 (tl t))
         else if starts_with ''0x'' t \<or> starts_with ''0X'' t then map_option int (radix_literal 16 (drop 2 t))
         else if starts_with ''0o'' t \<or> starts_with ''0O'' t then map_option int (radix_literal 8 (drop 2 t))
         else if starts_with ''0b'' t \<or> starts_with ''0B'' t then map_option int (radix_literal 2 (drop 2 t))
         else map_option int (radix_literal 10 t))"

lemma radix_nat_digits:
  "all_digits s \<Longrightarrow> radix_nat 10 n s = Some (foldl (\<lambda>n c. 10 * n + digit_val c) n s)"
proof (induction s arbitrary: n)
  case (Cons c s)
  have "digit_val c < 10" if "is_digit c" using that by (auto simp: is_digit_def digit_val_def)
  with Cons show ?case by (simp add: all_digits_def radix_digit_def digit_val_def Let_def)
qed simp

lemma is_digit_not_space: "is_digit c \<Longrightarrow> \<not> is_space c"
  by (simp add: is_digit_def is_space_def)

lemma numeric_string_trimmed: "numeric_string s \<Longrightarrow> trimmed s"
  using is_digit_not_space by (auto simp: numeric_string_def trimmed_def all_digits_def list_all_iff)

lemma BigInt_numeric:
  assumes "numeric_string s"
  shows "BigInt s = Some (int (str_nat s))"
proof -
  have d: "is_digit c" if "c \<in> set s" for c
    using assms that by (simp add: numeric_string_def all_digits_def list_all_iff)
  have ne: "s \<noteq> []" using assms by (simp add: numeric_string_def)
  have "hd s \<noteq> CHR ''-''" "hd s \<noteq> CHR ''+''"
    using d [of "hd s"] ne by (auto simp: is_digit_def code_def)
  moreover have "\<not> starts_with [CHR ''0'', x] s" if "\<not> is_digit x" for x
    using d that ne by (cases s; cases "tl s") (auto simp: starts_with_def)
  moreover have "\<not> is_digit x" if "x \<in> set ''xXoObB''" for x
    using that by (auto simp: is_digit_def code_def)
  ultimately show ?thesis
    using ne js_trim_id [OF numeric_string_trimmed [OF assms]] radix_nat_digits [of s 0] assms
    by (simp add: BigInt_def Let_def radix_literal_def str_nat_def numeric_string_def)
qed

section \<open>UTF-8 and percent-encoding\<close>

text \<open>The UTF-8 bytes of a Latin-1 code unit, and of a string (\<open>Buffer.from(s, 'utf8')\<close>).\<close>

definition utf8_char :: "char \<Rightarrow> nat list" where
  "utf8_char c = (if code c < 128 then [code c] else [192 + code c div 64, 128 + code c mod 64])"

definition utf8_bytes :: "string \<Rightarrow> nat list" where
  "utf8_bytes s = concat (map utf8_char s)"

definition uri_unreserved :: "char \<Rightarrow> bool" where
  "uri_unreserved c \<longleftrightarrow> is_digit c \<or> is_upper c \<or> is_lower c \<or> c \<in> set ''-_.!~*''  \<or> c = CHR 0x27
     \<or> c = CHR ''('' \<or> c = CHR '')''"

definition hex_char :: "nat \<Rightarrow> char" where
  "hex_char d = (if d < 10 then char_of (48 + d) else char_of (55 + d))"

definition percent :: "nat \<Rightarrow> string" where
  "percent b = [CHR ''%'', hex_char (b div 16), hex_char (b mod 16)]"

definition encodeURIComponent :: "string \<Rightarrow> string" where
  "encodeURIComponent s =
     concat (map (\<lambda>c. if uri_unreserved c then [c] else concat (map percent (utf8_char c))) s)"

lemma encodeURIComponent_unreserved: "list_all uri_unreserved s \<Longrightarrow> encodeURIComponent s = s"
  by (induction s) (auto simp: encodeURIComponent_def)

lemma encodeURIComponent_digits: "all_digits s \<Longrightarrow> encodeURIComponent s = s"
  by (rule encodeURIComponent_unreserved)
    (auto simp: all_digits_def list_all_iff uri_unreserved_def)

end
