(* ===== verification/Js_Objects.thy ===== *)
theory Js_Objects
  imports Js_Strings "HOL-Library.Multiset"
begin

text \<open>
  Plain JavaScript objects with string keys: an association list in insertion order in which a key
  occurs once. Assigning to an existing key keeps its place, a new key goes to the end, and
  enumeration (\<open>Object.keys\<close>, \<open>Object.entries\<close>, spread) visits the keys that are array indices
  first, in ascending order, and then the others in insertion order.
\<close>

type_synonym 'v jsobj = "(string \<times> 'v) list"

fun obj_put :: "string \<Rightarrow> 'v \<Rightarrow> 'v jsobj \<Rightarrow> 'v jsobj" where
  "obj_put k v [] = [(k, v)]"
| "obj_put k v ((k', v') # o1) = (if k = k' then (k, v) # o1 else (k', v') # obj_put k v o1)"

abbreviation obj_get :: "'v jsobj \<Rightarrow> string \<Rightarrow> 'v option" where
  "obj_get \<equiv> map_of"

definition is_index :: "string \<Rightarrow> bool" where
  "is_index k \<longleftrightarrow> numeric_string k \<and> (k = ''0'' \<or> hd k \<noteq> CHR ''0'') \<and> str_nat k < 2 ^ 32 - 1"

definition entries :: "'v jsobj \<Rightarrow> (string \<times> 'v) list" where
  "entries ob = sort_key (str_nat \<circ> fst) (filter (is_index \<circ> fst) ob) @ filter (Not \<circ> is_index \<circ> fst) ob"

definition obj_keys :: "'v jsobj \<Rightarrow> string list" where
  "obj_keys ob = map fst (entries ob)"

text \<open>\<open>{ ...target, ...source }\<close>, and a literal's fields assigned in order.\<close>

definition obj_assign :: "'v jsobj \<Rightarrow> (string \<times> 'v) list \<Rightarrow> 'v jsobj" where
  "obj_assign target kvs = fold (\<lambda>(k, v). obj_put k v) kvs target"

definition obj_spread :: "'v jsobj \<Rightarrow> 'v jsobj \<Rightarrow> 'v jsobj" where
  "obj_spread target source = obj_assign target (entries source)"

text \<open>The rest of a destructuring pattern: the object without the named keys.\<close>

definition obj_without :: "string list \<Rightarrow> 'v jsobj \<Rightarrow> 'v jsobj" where
  "obj_without ks ob = filter (\<lambda>(k, v). k \<notin> set ks) (entries ob)"

definition obj_wf :: "'v jsobj \<Rightarrow> bool" where
  "obj_wf ob \<longleftrightarrow> distinct (map fst ob)"

lemma obj_get_put [simp]: "obj_get (obj_put k v ob) k' = (if k' = k then Some v else obj_get ob k')"
  by (induction ob) auto

lemma keys_put [simp]: "fst ` set (obj_put k v ob) = insert k (fst ` set ob)"
  by (induction k v ob rule: obj_put.induct) (simp_all add: insert_commute)

lemma obj_wf_put [inv_intros]: "obj_wf ob \<Longrightarrow> obj_wf (obj_put k v ob)"
proof (induction ob)
  case (Cons p ob)
  then show ?case by (cases p) (auto simp: obj_wf_def)
qed (simp add: obj_wf_def)

lemma obj_wf_assign [inv_intros]: "obj_wf ob \<Longrightarrow> obj_wf (obj_assign ob kvs)"
  unfolding obj_assign_def by (induction kvs arbitrary: ob) (auto intro: obj_wf_put)

lemma obj_put_new: "k \<notin> set (map fst ob) \<Longrightarrow> obj_put k v ob = ob @ [(k, v)]"
  by (induction ob) auto

lemma obj_get_assign:
  "obj_get (obj_assign ob kvs) k = (case map_of (rev kvs) k of None \<Rightarrow> obj_get ob k | Some v \<Rightarrow> Some v)"
  unfolding obj_assign_def
  by (induction kvs arbitrary: ob) (auto simp: map_add_def split: option.splits)

lemma set_entries [simp]: "set (entries ob) = set ob"
  by (auto simp: entries_def)

lemma entries_plain: "\<forall>k \<in> set (map fst ob). \<not> is_index k \<Longrightarrow> entries ob = ob"
  by (induction ob) (auto simp: entries_def)

lemma distinct_entries: "obj_wf ob \<Longrightarrow> obj_wf (entries ob)"
proof -
  assume "obj_wf ob"
  moreover have "mset (entries ob) = mset ob"
    unfolding entries_def by (induction ob) auto
  then have "mset (map fst (entries ob)) = mset (map fst ob)" by (metis mset_map)
  ultimately show ?thesis
    unfolding obj_wf_def using mset_eq_imp_distinct_iff by blast
qed

lemma obj_get_entries [simp]:
  assumes "obj_wf ob"
  shows "obj_get (entries ob) = obj_get ob"
  using assms distinct_entries [OF assms] unfolding obj_wf_def
  by (intro map_of_inject_set [THEN iffD2]) simp_all

end
