(* ===== verification/Json.thy ===== *)
theory Json
  imports Errors Js_Objects
begin

text \<open>
  JavaScript values as \<open>JSON.parse\<close> produces them. An object keeps its properties in insertion order;
  \<open>entries\<close> reads them in the order the language enumerates them. A schema of
  \<open>json-validation.ts\<close> is itself such a value.

  The second half is the part of \<open>RegExp\<close> that the \<open>pattern\<close>s of the repository's schemas use: anchors,
  literal characters, character classes, and the quantifiers \<open>?\<close>, \<open>*\<close> and \<open>+\<close>.
\<close>

datatype json =
    JNull
  | JBool bool
  | JNum jsnumber
  | JStr string
  | JArr "json list"
  | JObj "(string \<times> json) list"

abbreviation jint :: "int \<Rightarrow> json" where
  "jint i \<equiv> JNum (js_int i)"

section \<open>Reading values\<close>

text \<open>\<open>v.k\<close> and \<open>v?.k\<close> of a value that may be missing; \<open>None\<close> is \<open>undefined\<close>.\<close>

fun j_get :: "json \<Rightarrow> string \<Rightarrow> json option" where
  "j_get (JObj ps) k = obj_get ps k"
| "j_get _ k = None"

fun j_opt :: "json option \<Rightarrow> string \<Rightarrow> json option" where
  "j_opt None k = None"
| "j_opt (Some v) k = j_get v k"

fun j_isArray :: "json \<Rightarrow> bool" where
  "j_isArray (JArr _) = True"
| "j_isArray _ = False"

text \<open>The recursion of every walk over a value or a schema goes through \<open>obj_get\<close> and list members.\<close>

lemma obj_get_size: "obj_get ps k = Some v \<Longrightarrow> size v < size (JObj ps)"
  by (induction ps) (auto split: if_splits)

lemma obj_get_mem: "obj_get ps k = Some v \<Longrightarrow> (k, v) \<in> set ps"
  by (induction ps) (auto split: if_splits)

lemma member_size: "v \<in> set vs \<Longrightarrow> size v < size (JArr vs)"
  by (induction vs) auto

lemma entry_size: "(k, v) \<in> set ps \<Longrightarrow> size v < size (JObj ps)"
  by (induction ps) auto

section \<open>Regular expressions\<close>

datatype quantifier = Once | Optional | Star | Plus

text \<open>A class is the list of its inclusive code ranges.\<close>

record regex =
  rx_start :: bool
  rx_items :: "((nat \<times> nat) list \<times> quantifier) list"
  rx_end :: bool

definition in_class :: "(nat \<times> nat) list \<Rightarrow> char \<Rightarrow> bool" where
  "in_class rs c \<longleftrightarrow> list_ex (\<lambda>(a, b). a \<le> code c \<and> code c \<le> b) rs"

fun class_ranges :: "string \<Rightarrow> (nat \<times> nat) list" where
  "class_ranges (a # d # b # cs) =
     (if d = CHR ''-'' then (code a, code b) # class_ranges cs
      else (code a, code a) # class_ranges (d # b # cs))"
| "class_ranges (a # cs) = (code a, code a) # class_ranges cs"
| "class_ranges [] = []"

definition take_quantifier :: "string \<Rightarrow> quantifier \<times> string" where
  "take_quantifier cs = (case cs of
       [] \<Rightarrow> (Once, [])
     | c # r \<Rightarrow> if c = CHR ''?'' then (Optional, r) else if c = CHR ''*'' then (Star, r)
               else if c = CHR ''+'' then (Plus, r) else (Once, cs))"

definition regex_meta :: string where
  "regex_meta = ''^$.*+?()[]{}|'' @ [CHR 0x5C]"

fun parse_items :: "nat \<Rightarrow> string \<Rightarrow> ((((nat \<times> nat) list \<times> quantifier) list) \<times> bool) option" where
  "parse_items 0 cs = None"
| "parse_items (Suc n) [] = Some ([], False)"
| "parse_items (Suc n) (c # cs) =
     (if c = CHR ''$'' then (if cs = [] then Some ([], True) else None)
      else if c = CHR ''['' then
        (case cut_at (CHR '']'') cs of None \<Rightarrow> None
         | Some (inner, rest) \<Rightarrow>
             if inner = [] \<or> hd inner = CHR ''^'' \<or> list_ex (\<lambda>d. d = CHR 0x5C) inner then None
             else let (q, rest') = take_quantifier rest
                  in map_option (\<lambda>(items, e). ((class_ranges inner, q) # items, e)) (parse_items n rest'))
      else if c \<in> set regex_meta then None
      else let (q, rest') = take_quantifier cs
           in map_option (\<lambda>(items, e). (([(code c, code c)], q) # items, e)) (parse_items n rest'))"

definition parse_regex :: "string \<Rightarrow> regex option" where
  "parse_regex p =
     (let (start, body) = (case p of [] \<Rightarrow> (False, []) | c # cs \<Rightarrow> if c = CHR ''^'' then (True, cs) else (False, p))
      in map_option (\<lambda>(items, e). \<lparr>rx_start = start, rx_items = items, rx_end = e\<rparr>)
           (parse_items (Suc (length body)) body))"

text \<open>Matching from a fixed position; \<open>at_end\<close> is the final \<open>$\<close>.\<close>

function match_items :: "bool \<Rightarrow> ((nat \<times> nat) list \<times> quantifier) list \<Rightarrow> string \<Rightarrow> bool" where
  "match_items at_end [] cs = (at_end \<longrightarrow> cs = [])"
| "match_items at_end ((r, Once) # its) cs =
     (case cs of [] \<Rightarrow> False | c # cs' \<Rightarrow> in_class r c \<and> match_items at_end its cs')"
| "match_items at_end ((r, Optional) # its) cs =
     (match_items at_end its cs \<or> (case cs of [] \<Rightarrow> False | c # cs' \<Rightarrow> in_class r c \<and> match_items at_end its cs'))"
| "match_items at_end ((r, Star) # its) cs =
     (match_items at_end its cs \<or>
      (case cs of [] \<Rightarrow> False | c # cs' \<Rightarrow> in_class r c \<and> match_items at_end ((r, Star) # its) cs'))"
| "match_items at_end ((r, Plus) # its) cs =
     (case cs of [] \<Rightarrow> False | c # cs' \<Rightarrow> in_class r c \<and> match_items at_end ((r, Star) # its) cs')"
  by pat_completeness auto
termination
  by (relation "measures [\<lambda>(e, its, cs). length cs, \<lambda>(e, its, cs). length its]") auto

fun suffixes :: "string \<Rightarrow> string list" where
  "suffixes [] = [[]]"
| "suffixes (c # cs) = (c # cs) # suffixes cs"

definition regex_test :: "regex \<Rightarrow> string \<Rightarrow> bool" where
  "regex_test r s =
     (if rx_start r then match_items (rx_end r) (rx_items r) s
      else list_ex (match_items (rx_end r) (rx_items r)) (suffixes s))"

definition RegExp_test :: "string \<Rightarrow> string \<Rightarrow> (js_error, bool) result" where
  "RegExp_test pattern s = (case parse_regex pattern of
       None \<Rightarrow> Inl (SyntaxErr (''Invalid regular expression: /'' @ pattern @ ''/''))
     | Some r \<Rightarrow> Inr (regex_test r s))"

lemma match_digits_star:
  "match_items True [([(48, 57)], Star)] s \<longleftrightarrow> list_all is_digit s"
  by (induction s) (auto simp: in_class_def is_digit_def)

lemma match_digits_plus:
  "match_items True [([(48, 57)], Plus)] s \<longleftrightarrow> numeric_string s"
  by (cases s) (auto simp: match_digits_star numeric_string_def all_digits_def in_class_def is_digit_def
      simp del: match_items.simps(4))

lemma parse_digit_patterns:
  "parse_regex ''^[0-9]+$'' = Some \<lparr>rx_start = True, rx_items = [([(48, 57)], Plus)], rx_end = True\<rparr>"
  "parse_regex ''^[0-9]*$'' = Some \<lparr>rx_start = True, rx_items = [([(48, 57)], Star)], rx_end = True\<rparr>"
  by code_simp+

lemma pattern_digits [simp]:
  "RegExp_test ''^[0-9]+$'' s = Inr (numeric_string s)"
  "RegExp_test ''^[0-9]*$'' s = Inr (list_all is_digit s)"
  by (simp_all only: RegExp_test_def parse_digit_patterns regex_test_def regex.simps option.case
      if_True match_digits_star match_digits_plus)

end
