(* ===== verification/Json_Validation.thy ===== *)
theory Json_Validation
  imports Json
begin

text \<open>
  \<open>packages/tiktok-live/src/json-validation.ts\<close>: the validator for the JSON Schema subset the package
  embeds. A schema is a JSON value, read field by field as the code reads it; \<open>None\<close> of a field is
  \<open>undefined\<close>. \<open>check\<close> recurses through \<open>$ref\<close>, so it is bounded by the depth of the call stack, and
  running out of it is the \<open>RangeError\<close> the runtime throws. \<open>new URL(value)\<close> (\<open>None\<close> when it throws) and the printing of
  a non-integral number are arguments (record \<open>host\<close>).

  Shown: on a schema without references whose formats and patterns are supported, any stack deeper
  than the schema gives the same answer, and the answer is \<open>null\<close> exactly for the values a
  declarative reading of the schema admits; \<open>validateJson\<close> returns its argument unchanged or throws.
\<close>

record URL =
  url_protocol :: string
  url_username :: string
  url_password :: string
  url_hostname :: string

record host =
  host_URL :: "string \<Rightarrow> URL option"
  host_number :: "rat \<Rightarrow> string"

record Failure =
  fl_path :: string
  fl_expected :: string
  fl_received :: string

type_synonym outcome = "(js_error, Failure option) result"

section \<open>Describing what was expected and received\<close>

definition schema_str :: "json \<Rightarrow> string \<Rightarrow> string option" where
  "schema_str schema k = (case j_get schema k of Some (JStr s) \<Rightarrow> Some s | _ \<Rightarrow> None)"

definition schema_list :: "json \<Rightarrow> string \<Rightarrow> json list option" where
  "schema_list schema k = (case j_get schema k of Some (JArr xs) \<Rightarrow> Some xs | _ \<Rightarrow> None)"

fun json_strings :: "json list \<Rightarrow> string list" where
  "json_strings [] = []"
| "json_strings (JStr s # xs) = s # json_strings xs"
| "json_strings (_ # xs) = json_strings xs"

definition expected :: "json \<Rightarrow> string" where
  "expected schema =
     (if schema = JBool False then ''a value allowed by the schema''
      else if schema = JBool True then ''any value''
      else case schema_str schema ''x-expected'' of Some l \<Rightarrow> l | None \<Rightarrow>
        (if schema_str schema ''pattern'' = Some ''^[0-9]+$'' then ''numeric string''
         else if schema_str schema ''format'' = Some ''uri'' then ''a valid URI''
         else case j_get schema ''type'' of
             Some (JArr ts) \<Rightarrow> js_join '' or '' (json_strings ts)
           | Some (JStr t) \<Rightarrow> t
           | _ \<Rightarrow> if schema_list schema ''anyOf'' \<noteq> None then ''one of the allowed shapes''
                 else ''a valid value''))"

fun received :: "json option \<Rightarrow> string" where
  "received None = ''undefined''"
| "received (Some JNull) = ''null''"
| "received (Some (JArr _)) = ''array''"
| "received (Some (JBool _)) = ''boolean''"
| "received (Some (JNum _)) = ''number''"
| "received (Some (JStr _)) = ''string''"
| "received (Some (JObj _)) = ''object''"

definition failure :: "string \<Rightarrow> string \<Rightarrow> json option \<Rightarrow> json \<Rightarrow> Failure" where
  "failure path expectedValue v schema =
     \<lparr>fl_path = path,
      fl_expected = (case schema_str schema ''x-expected'' of
          Some l \<Rightarrow> if l \<noteq> [] then l else expectedValue | None \<Rightarrow> expectedValue),
      fl_received = received v\<rparr>"

text \<open>\<open>JSON.stringify\<close>, for the message about a constant.\<close>

definition escape_char :: "char \<Rightarrow> string" where
  "escape_char c =
     (if c = CHR 0x22 \<or> c = CHR 0x5C then [CHR 0x5C, c]
      else if code c = 8 then CHR 0x5C # ''b'' else if code c = 9 then CHR 0x5C # ''t''
      else if code c = 10 then CHR 0x5C # ''n'' else if code c = 12 then CHR 0x5C # ''f''
      else if code c = 13 then CHR 0x5C # ''r''
      else if code c < 32 then CHR 0x5C # ''u00'' @ map to_lower [hex_char (code c div 16), hex_char (code c mod 16)]
      else [c])"

definition json_quote :: "string \<Rightarrow> string" where
  "json_quote s = [CHR 0x22] @ concat (map escape_char s) @ [CHR 0x22]"

fun number_str :: "host \<Rightarrow> jsnumber \<Rightarrow> string" where
  "number_str h (Fin q) = (if is_integral q then int_str \<lfloor>q\<rfloor> else host_number h q)"
| "number_str h NegZero = ''0''"
| "number_str h _ = ''null''"

fun JSON_stringify :: "host \<Rightarrow> json \<Rightarrow> string" where
  "JSON_stringify h JNull = ''null''"
| "JSON_stringify h (JBool b) = (if b then ''true'' else ''false'')"
| "JSON_stringify h (JNum n) = number_str h n"
| "JSON_stringify h (JStr s) = json_quote s"
| "JSON_stringify h (JArr xs) = ''['' @ js_join '','' (map (JSON_stringify h) xs) @ '']''"
| "JSON_stringify h (JObj ps) =
     ''{'' @ js_join '','' (map (\<lambda>(k, v). json_quote k @ '':'' @ v) (entries (map (\<lambda>(k, v). (k, JSON_stringify h v)) ps))) @ ''}''"

section \<open>Tests on values\<close>

text \<open>\<open>Object.is\<close>: an array or object parsed from the input is never the schema's own object.\<close>

fun Object_is :: "json \<Rightarrow> json \<Rightarrow> bool" where
  "Object_is (JArr _) _ = False"
| "Object_is (JObj _) _ = False"
| "Object_is a b = (a = b)"

fun isRecord :: "json \<Rightarrow> bool" where
  "isRecord (JObj _) = True"
| "isRecord _ = False"

definition matchesType :: "json \<Rightarrow> string \<Rightarrow> bool" where
  "matchesType v type =
     (if type = ''null'' then v = JNull
      else if type = ''boolean'' then (case v of JBool _ \<Rightarrow> True | _ \<Rightarrow> False)
      else if type = ''integer'' then (case v of JNum n \<Rightarrow> isInteger n | _ \<Rightarrow> False)
      else if type = ''number'' then (case v of JNum n \<Rightarrow> isFinite n | _ \<Rightarrow> False)
      else if type = ''string'' then (case v of JStr _ \<Rightarrow> True | _ \<Rightarrow> False)
      else if type = ''array'' then j_isArray v
      else if type = ''object'' then isRecord v
      else True)"

definition isUri :: "host \<Rightarrow> string \<Rightarrow> bool" where
  "isUri h s \<longleftrightarrow> host_URL h s \<noteq> None"

section \<open>References\<close>

text \<open>\<open>s.replaceAll(ab, c)\<close> for a two-character \<open>ab\<close>.\<close>

fun replace2 :: "char \<Rightarrow> char \<Rightarrow> char \<Rightarrow> string \<Rightarrow> string" where
  "replace2 a b c (x # y # s) =
     (if x = a \<and> y = b then c # replace2 a b c s else x # replace2 a b c (y # s))"
| "replace2 a b c s = s"

definition ref_key :: "string \<Rightarrow> string" where
  "ref_key segment =
     replace2 (CHR ''~'') (CHR ''0'') (CHR ''~'') (replace2 (CHR ''~'') (CHR ''1'') (CHR ''/'') segment)"

text \<open>\<open>value[key]\<close> when \<open>key in value\<close>: the own properties of an object, the elements of an array.\<close>

fun ref_step :: "json \<Rightarrow> string \<Rightarrow> json option" where
  "ref_step (JObj ps) k = obj_get ps k"
| "ref_step (JArr xs) k = (if is_index k \<and> str_nat k < length xs then Some (xs ! str_nat k) else None)"
| "ref_step _ k = None"

fun ref_walk :: "json \<Rightarrow> string list \<Rightarrow> json option" where
  "ref_walk v [] = Some v"
| "ref_walk v (s # ss) = (case ref_step v (ref_key s) of None \<Rightarrow> None | Some w \<Rightarrow> ref_walk w ss)"

fun is_schema :: "json \<Rightarrow> bool" where
  "is_schema (JBool _) = True"
| "is_schema (JObj _) = True"
| "is_schema _ = False"

definition resolveLocalReference :: "json \<Rightarrow> string \<Rightarrow> (js_error, json) result" where
  "resolveLocalReference root_schema reference =
     (if reference = ''#'' then Inr root_schema
      else if \<not> starts_with ''#/'' reference
      then Inl (TypeErr (''Unsupported JSON Schema reference: '' @ reference))
      else case ref_walk root_schema (split_on (CHR ''/'') (drop 2 reference)) of
          None \<Rightarrow> Inl (TypeErr (''JSON Schema reference does not exist: '' @ reference))
        | Some v \<Rightarrow> if is_schema v then Inr v
            else Inl (TypeErr (''JSON Schema reference is not a schema: '' @ reference)))"

section \<open>The walk\<close>

text \<open>An early \<open>return failure\<close>, and a \<open>for\<close> loop that returns at the first failure.\<close>

definition and_then :: "outcome \<Rightarrow> outcome \<Rightarrow> outcome" where
  "and_then r k = res_bind r (\<lambda>f. case f of Some x \<Rightarrow> Inr (Some x) | None \<Rightarrow> k)"

definition fail_if :: "bool \<Rightarrow> Failure \<Rightarrow> outcome" where
  "fail_if b f = Inr (if b then Some f else None)"

fun first_failure :: "('a \<Rightarrow> outcome) \<Rightarrow> 'a list \<Rightarrow> outcome" where
  "first_failure f [] = Inr None"
| "first_failure f (x # xs) = and_then (f x) (first_failure f xs)"

type_synonym checker = "json \<Rightarrow> json \<Rightarrow> string \<Rightarrow> outcome"

definition check_const :: "host \<Rightarrow> json \<Rightarrow> json \<Rightarrow> string \<Rightarrow> outcome" where
  "check_const h v schema path = (case j_get schema ''const'' of
       None \<Rightarrow> Inr None
     | Some c \<Rightarrow> fail_if (\<not> Object_is v c)
         (failure path (''the constant '' @ JSON_stringify h c) (Some v) schema))"

definition check_enum :: "json \<Rightarrow> json \<Rightarrow> string \<Rightarrow> outcome" where
  "check_enum v schema path = (case schema_list schema ''enum'' of
       None \<Rightarrow> Inr None
     | Some items \<Rightarrow> fail_if (\<not> list_ex (\<lambda>item. Object_is item v) items)
         (failure path ''an allowed value'' (Some v) schema))"

text \<open>Keywords are read at the types \<open>JsonSchema\<close> gives them, here \<open>format?: string\<close>: a value of another type, which only an untyped caller
  could pass, counts as absent (as in \<open>schema_str\<close>, \<open>schema_list\<close> and \<open>schema_num\<close> throughout).\<close>

definition check_format :: "json \<Rightarrow> outcome" where
  "check_format schema = (case schema_str schema ''format'' of
       Some f \<Rightarrow> if f \<noteq> ''uri'' then Inl (TypeErr (''Unsupported JSON Schema format: '' @ f)) else Inr None
     | None \<Rightarrow> Inr None)"

definition check_allOf :: "checker \<Rightarrow> json \<Rightarrow> json \<Rightarrow> string \<Rightarrow> outcome" where
  "check_allOf chk v schema path = (case schema_list schema ''allOf'' of
       None \<Rightarrow> Inr None
     | Some branches \<Rightarrow> first_failure (\<lambda>b. chk v b path) branches)"

text \<open>\<open>anyOf\<close> wins over \<open>oneOf\<close>; every branch is run, so a branch that throws always throws.\<close>

definition check_anyOf :: "checker \<Rightarrow> json \<Rightarrow> json \<Rightarrow> string \<Rightarrow> outcome" where
  "check_anyOf chk v schema path =
     (let any = schema_list schema ''anyOf''; one = schema_list schema ''oneOf''
      in if any = None \<and> one = None then Inr None
         else let branches = (case any of Some bs \<Rightarrow> bs | None \<Rightarrow> (case one of Some bs \<Rightarrow> bs | None \<Rightarrow> []))
              in res_bind (res_map (\<lambda>b. chk v b path) branches) (\<lambda>rs.
                   let matches = length (filter (\<lambda>r. r = None) rs);
                       valid = (if any \<noteq> None then matches > 0 else matches = 1)
                   in fail_if (\<not> valid) (failure path (expected schema) (Some v) schema)))"

definition schema_types :: "json \<Rightarrow> string list" where
  "schema_types schema = (case j_get schema ''type'' of
       Some (JArr ts) \<Rightarrow> json_strings ts
     | Some (JStr t) \<Rightarrow> (if t \<noteq> [] then [t] else [])
     | _ \<Rightarrow> [])"

definition check_type :: "json \<Rightarrow> json \<Rightarrow> string \<Rightarrow> outcome" where
  "check_type v schema path =
     fail_if (schema_types schema \<noteq> [] \<and> \<not> list_ex (matchesType v) (schema_types schema))
       (failure path (expected schema) (Some v) schema)"

definition check_string :: "host \<Rightarrow> json \<Rightarrow> json \<Rightarrow> string \<Rightarrow> outcome" where
  "check_string h v schema path = (case v of
       JStr s \<Rightarrow>
         and_then
           (case schema_str schema ''pattern'' of
              Some p \<Rightarrow> if p = [] then Inr None
                else res_bind (RegExp_test p s) (\<lambda>ok. fail_if (\<not> ok) (failure path (expected schema) (Some v) schema))
            | None \<Rightarrow> Inr None)
           (fail_if (schema_str schema ''format'' = Some ''uri'' \<and> \<not> isUri h s)
             (failure path (expected schema) (Some v) schema))
     | _ \<Rightarrow> Inr None)"

definition schema_num :: "json \<Rightarrow> string \<Rightarrow> jsnumber option" where
  "schema_num schema k = (case j_get schema k of Some (JNum n) \<Rightarrow> Some n | _ \<Rightarrow> None)"

definition below_minimum :: "jsnumber \<Rightarrow> json \<Rightarrow> bool" where
  "below_minimum n schema = (case schema_num schema ''minimum'' of Some m \<Rightarrow> js_less n m | None \<Rightarrow> False)"

definition above_maximum :: "jsnumber \<Rightarrow> json \<Rightarrow> bool" where
  "above_maximum n schema = (case schema_num schema ''maximum'' of Some m \<Rightarrow> js_less m n | None \<Rightarrow> False)"

definition check_number :: "json \<Rightarrow> json \<Rightarrow> string \<Rightarrow> outcome" where
  "check_number v schema path = (case v of
       JNum n \<Rightarrow> and_then
         (fail_if (below_minimum n schema) (failure path (expected schema) (Some v) schema))
         (fail_if (above_maximum n schema) (failure path (expected schema) (Some v) schema))
     | _ \<Rightarrow> Inr None)"

definition index_path :: "string \<Rightarrow> nat \<Rightarrow> string" where
  "index_path path i = path @ ''['' @ nat_str i @ '']''"

definition key_path :: "string \<Rightarrow> string \<Rightarrow> string" where
  "key_path path k = path @ ''.'' @ k"

definition truthy_schema :: "json \<Rightarrow> bool" where
  "truthy_schema s \<longleftrightarrow> s \<noteq> JBool False \<and> s \<noteq> JNull"

definition check_items :: "checker \<Rightarrow> json list \<Rightarrow> json \<Rightarrow> string \<Rightarrow> outcome" where
  "check_items chk vs schema path = (case j_get schema ''items'' of
       Some items \<Rightarrow> if truthy_schema items
         then first_failure (\<lambda>(i, x). chk x items (index_path path i)) (enumerate 0 vs) else Inr None
     | None \<Rightarrow> Inr None)"

definition schema_props :: "json \<Rightarrow> (string \<times> json) list" where
  "schema_props schema = (case j_get schema ''properties'' of Some (JObj ps) \<Rightarrow> ps | _ \<Rightarrow> [])"

definition schema_required :: "json \<Rightarrow> string list" where
  "schema_required schema = (case schema_list schema ''required'' of Some xs \<Rightarrow> json_strings xs | None \<Rightarrow> [])"

definition check_required :: "(string \<times> json) list \<Rightarrow> json \<Rightarrow> string \<Rightarrow> outcome" where
  "check_required ps schema path =
     first_failure (\<lambda>k. fail_if (obj_get ps k = None)
       (failure (key_path path k) ''a required property'' None schema)) (schema_required schema)"

definition check_properties :: "checker \<Rightarrow> (string \<times> json) list \<Rightarrow> json \<Rightarrow> string \<Rightarrow> outcome" where
  "check_properties chk ps schema path =
     first_failure (\<lambda>(k, sub). case obj_get ps k of None \<Rightarrow> Inr None
       | Some x \<Rightarrow> chk x sub (key_path path k)) (entries (schema_props schema))"

definition known_keys :: "json \<Rightarrow> string set" where
  "known_keys schema = set (map fst (schema_props schema))"

definition check_additional :: "checker \<Rightarrow> (string \<times> json) list \<Rightarrow> json \<Rightarrow> string \<Rightarrow> outcome" where
  "check_additional chk ps schema path = (case j_get schema ''additionalProperties'' of
       Some (JBool False) \<Rightarrow>
         first_failure (\<lambda>(k, x). fail_if (k \<notin> known_keys schema)
           (failure (key_path path k) ''no additional property'' (Some x) schema)) (entries ps)
     | Some (JObj sub) \<Rightarrow>
         first_failure (\<lambda>(k, x). if k \<in> known_keys schema then Inr None
           else chk x (JObj sub) (key_path path k)) (entries ps)
     | _ \<Rightarrow> Inr None)"

definition check_children :: "checker \<Rightarrow> json \<Rightarrow> json \<Rightarrow> string \<Rightarrow> outcome" where
  "check_children chk v schema path = (case v of
       JArr vs \<Rightarrow> check_items chk vs schema path
     | JObj ps \<Rightarrow> and_then (check_required ps schema path)
         (and_then (check_properties chk ps schema path) (check_additional chk ps schema path))
     | _ \<Rightarrow> Inr None)"

text \<open>The body of \<open>check\<close> for a schema object, with the recursive call as an argument.\<close>

definition check_object :: "host \<Rightarrow> checker \<Rightarrow> json \<Rightarrow> json \<Rightarrow> string \<Rightarrow> json \<Rightarrow> outcome" where
  "check_object h chk v schema path root_schema = (case schema_str schema ''$ref'' of
       Some r \<Rightarrow> res_bind (resolveLocalReference root_schema r) (\<lambda>target. chk v target path)
     | None \<Rightarrow>
         and_then (check_const h v schema path)
        (and_then (check_enum v schema path)
        (and_then (check_format schema)
        (and_then (check_allOf chk v schema path)
        (and_then (check_anyOf chk v schema path)
        (and_then (check_type v schema path)
        (and_then (check_string h v schema path)
        (and_then (check_number v schema path)
          (check_children chk v schema path)))))))))"

text \<open>\<open>check\<close> with at most \<open>depth\<close> nested calls. A value that is not \<open>null\<close> has no schema fields unless it
  is an object, which is what \<open>j_get\<close> says.\<close>

primrec check :: "nat \<Rightarrow> host \<Rightarrow> json \<Rightarrow> json \<Rightarrow> string \<Rightarrow> json \<Rightarrow> outcome" where
  "check 0 h v schema path root_schema = Inl (RangeErr ''Maximum call stack size exceeded'')"
| "check (Suc depth) h v schema path root_schema =
     (if schema = JBool True then Inr None
      else if schema = JBool False
      then Inr (Some (failure path ''a value allowed by the schema'' (Some v) schema))
      else if schema = JNull
      then Inl (TypeErr (''Cannot read properties of null (reading '' @ [CHR 0x27] @ ''$ref'' @ [CHR 0x27] @ '')''))
      else check_object h (\<lambda>v' s' p'. check depth h v' s' p' root_schema) v schema path root_schema)"

definition failure_path :: "string \<Rightarrow> string" where
  "failure_path p = (if p = ''$'' then ''$'' else drop 2 p)"

definition validateJson :: "nat \<Rightarrow> host \<Rightarrow> json \<Rightarrow> json \<Rightarrow> string \<Rightarrow> (js_error, json) result" where
  "validateJson depth h v schema endpoint =
     res_bind (check depth h v schema ''$'' schema) (\<lambda>f. case f of
         Some f \<Rightarrow> Inl (JsonValidationErr endpoint (failure_path (fl_path f)) (fl_expected f) (fl_received f))
       | None \<Rightarrow> Inr v)"

section \<open>The declarative reading\<close>

text \<open>The schemas \<open>check\<close> applies to children of the value or to the value itself.\<close>

definition sub_schemas :: "json \<Rightarrow> json list" where
  "sub_schemas schema =
     concat (map (\<lambda>k. case schema_list schema k of Some bs \<Rightarrow> bs | None \<Rightarrow> []) [''allOf'', ''anyOf'', ''oneOf'']) @
     (case j_get schema ''items'' of Some it \<Rightarrow> if truthy_schema it then [it] else [] | None \<Rightarrow> []) @
     map snd (schema_props schema) @
     (case j_get schema ''additionalProperties'' of Some (JObj sub) \<Rightarrow> [JObj sub] | _ \<Rightarrow> [])"

lemma j_get_size: "j_get schema k = Some x \<Longrightarrow> size x < size schema"
  by (cases schema) (auto dest: obj_get_size)

lemma schema_list_size: "schema_list schema k = Some bs \<Longrightarrow> b \<in> set bs \<Longrightarrow> size b < size schema"
  unfolding schema_list_def
  using j_get_size [of schema k "JArr bs"] member_size [of b bs]
  by (auto split: option.splits json.splits)

lemma schema_props_size: "(k, sub) \<in> set (schema_props schema) \<Longrightarrow> size sub < size schema"
  unfolding schema_props_def
  using j_get_size [of schema "''properties''"] entry_size
  by (fastforce split: option.splits json.splits)

lemma sub_schemas_size: "s \<in> set (sub_schemas schema) \<Longrightarrow> size s < size schema"
  by (auto simp: sub_schemas_def dest: j_get_size [OF sym] schema_list_size [OF sym] schema_props_size
      split: option.splits if_splits json.splits)

text \<open>The schemas \<open>check\<close> handles without following references: formats and patterns it knows, and
  schemas wherever it expects one.\<close>

definition plain_schema :: "json \<Rightarrow> bool" where
  "plain_schema schema \<longleftrightarrow> is_schema schema \<and> schema_str schema ''$ref'' = None \<and>
     (case schema_str schema ''format'' of Some f \<Rightarrow> f = ''uri'' | None \<Rightarrow> True) \<and>
     (case schema_str schema ''pattern'' of Some p \<Rightarrow> p = [] \<or> parse_regex p \<noteq> None | None \<Rightarrow> True)"

function supported :: "json \<Rightarrow> bool" where
  "supported schema \<longleftrightarrow> plain_schema schema \<and> list_all supported (sub_schemas schema)"
  by pat_completeness auto
termination
  by (relation "measure size") (auto dest: sub_schemas_size)

declare supported.simps [simp del]

definition type_ok :: "json \<Rightarrow> json \<Rightarrow> bool" where
  "type_ok schema v \<longleftrightarrow> schema_types schema = [] \<or> (\<exists>t \<in> set (schema_types schema). matchesType v t)"

definition const_ok :: "json \<Rightarrow> json \<Rightarrow> bool" where
  "const_ok schema v \<longleftrightarrow> (case j_get schema ''const'' of Some c \<Rightarrow> Object_is v c | None \<Rightarrow> True) \<and>
     (case schema_list schema ''enum'' of Some es \<Rightarrow> \<exists>e \<in> set es. Object_is e v | None \<Rightarrow> True)"

definition string_ok :: "host \<Rightarrow> json \<Rightarrow> json \<Rightarrow> bool" where
  "string_ok h schema v \<longleftrightarrow> (case v of
       JStr s \<Rightarrow> (case schema_str schema ''pattern'' of
           Some p \<Rightarrow> p = [] \<or> RegExp_test p s = Inr True | None \<Rightarrow> True) \<and>
         (schema_str schema ''format'' = Some ''uri'' \<longrightarrow> isUri h s)
     | _ \<Rightarrow> True)"

definition number_ok :: "json \<Rightarrow> json \<Rightarrow> bool" where
  "number_ok schema v \<longleftrightarrow> (case v of
       JNum n \<Rightarrow> \<not> below_minimum n schema \<and> \<not> above_maximum n schema | _ \<Rightarrow> True)"

function admits :: "host \<Rightarrow> json \<Rightarrow> json \<Rightarrow> bool" where
  "admits h schema v \<longleftrightarrow> schema = JBool True \<or> schema \<noteq> JBool False \<and>
     const_ok schema v \<and> type_ok schema v \<and> string_ok h schema v \<and> number_ok schema v \<and>
     (case schema_list schema ''allOf'' of Some bs \<Rightarrow> \<forall>b \<in> set bs. admits h b v | None \<Rightarrow> True) \<and>
     (case schema_list schema ''anyOf'' of Some bs \<Rightarrow> \<exists>b \<in> set bs. admits h b v
      | None \<Rightarrow> (case schema_list schema ''oneOf'' of
          Some bs \<Rightarrow> length (filter (\<lambda>b. admits h b v) bs) = 1 | None \<Rightarrow> True)) \<and>
     (case v of
        JArr vs \<Rightarrow> (case j_get schema ''items'' of
            Some it \<Rightarrow> truthy_schema it \<longrightarrow> (\<forall>x \<in> set vs. admits h it x) | None \<Rightarrow> True)
      | JObj ps \<Rightarrow> (\<forall>k \<in> set (schema_required schema). obj_get ps k \<noteq> None) \<and>
          (\<forall>(k, sub) \<in> set (schema_props schema).
             case obj_get ps k of Some x \<Rightarrow> admits h sub x | None \<Rightarrow> True) \<and>
          (case j_get schema ''additionalProperties'' of
             Some (JBool False) \<Rightarrow> \<forall>(k, x) \<in> set ps. k \<in> known_keys schema
           | Some (JObj sub) \<Rightarrow> \<forall>(k, x) \<in> set ps. k \<in> known_keys schema \<or> admits h (JObj sub) x
           | _ \<Rightarrow> True)
      | _ \<Rightarrow> True)"
  by pat_completeness auto
termination
  by (relation "measure (\<lambda>(h, schema, v). size schema)")
    (auto dest: j_get_size schema_list_size schema_props_size)

declare admits.simps [simp del]

section \<open>The walk decides the reading\<close>

definition decides :: "outcome \<Rightarrow> bool \<Rightarrow> bool" where
  "decides r b \<longleftrightarrow> (\<exists>f. r = Inr f \<and> (f = None) = b)"

named_theorems decide_intros \<open>each stage of the walk decides its part of the reading\<close>

lemma decides_Inr_None [simp]: "decides (Inr None) b = b"
  by (auto simp: decides_def)

lemma decides_and_then [decide_intros]:
  "decides a A \<Longrightarrow> decides b B \<Longrightarrow> decides (and_then a b) (A \<and> B)"
  by (auto simp: decides_def and_then_def split: option.splits)

lemma decides_fail_if [decide_intros]: "decides (fail_if c f) (\<not> c)"
  by (simp add: decides_def fail_if_def)

lemma decides_first_failure [decide_intros]:
  "(\<And>x. x \<in> set xs \<Longrightarrow> decides (f x) (P x)) \<Longrightarrow> decides (first_failure f xs) (\<forall>x \<in> set xs. P x)"
  by (induction xs) (simp_all add: decides_and_then)

lemma decides_res_map:
  assumes "\<And>x. x \<in> set xs \<Longrightarrow> decides (f x) (P x)"
  shows "\<exists>rs. res_map f xs = Inr rs \<and> length (filter (\<lambda>r. r = None) rs) = length (filter P xs)"
  using assms
proof (induction xs)
  case (Cons x xs)
  then obtain rs where "res_map f xs = Inr rs"
    "length (filter (\<lambda>r. r = None) rs) = length (filter P xs)" by auto
  moreover from Cons.prems obtain r where "f x = Inr r" "(r = None) = P x"
    by (auto simp: decides_def)
  ultimately show ?case by auto
qed simp

lemma decides_cong: "decides r A \<Longrightarrow> A = B \<Longrightarrow> decides r B"
  by simp

lemma decides_const:
  "decides (check_const h v schema path) (case j_get schema ''const'' of Some c \<Rightarrow> Object_is v c | None \<Rightarrow> True)"
  by (auto simp: check_const_def decides_def fail_if_def split: option.splits)

lemma decides_enum:
  "decides (check_enum v schema path)
     (case schema_list schema ''enum'' of Some es \<Rightarrow> \<exists>e \<in> set es. Object_is e v | None \<Rightarrow> True)"
  by (auto simp: check_enum_def decides_def fail_if_def list_ex_iff split: option.splits)

lemma decides_format: "plain_schema schema \<Longrightarrow> decides (check_format schema) True"
  by (auto simp: check_format_def plain_schema_def split: option.splits)

lemma decides_type: "decides (check_type v schema path) (type_ok schema v)"
  by (auto simp: check_type_def type_ok_def decides_def fail_if_def list_ex_iff)

lemma decides_number: "decides (check_number v schema path) (number_ok schema v)"
  by (auto simp: check_number_def number_ok_def decides_def fail_if_def and_then_def split: json.split)

lemma decides_string:
  assumes "plain_schema schema"
  shows "decides (check_string h v schema path) (string_ok h schema v)"
  using assms
  by (auto simp: check_string_def string_ok_def decides_def fail_if_def and_then_def plain_schema_def
      RegExp_test_def split: json.split option.splits)

lemma decides_allOf:
  assumes "\<And>b bs. schema_list schema ''allOf'' = Some bs \<Longrightarrow> b \<in> set bs \<Longrightarrow> decides (chk v b path) (P b)"
  shows "decides (check_allOf chk v schema path)
     (case schema_list schema ''allOf'' of Some bs \<Rightarrow> \<forall>b \<in> set bs. P b | None \<Rightarrow> True)"
  using assms by (auto simp: check_allOf_def intro: decides_first_failure split: option.split)

lemma decides_anyOf:
  assumes "\<And>b bs k. k \<in> {''anyOf'', ''oneOf''} \<Longrightarrow> schema_list schema k = Some bs \<Longrightarrow> b \<in> set bs \<Longrightarrow>
      decides (chk v b path) (P b)"
  shows "decides (check_anyOf chk v schema path)
     (case schema_list schema ''anyOf'' of Some bs \<Rightarrow> \<exists>b \<in> set bs. P b
      | None \<Rightarrow> (case schema_list schema ''oneOf'' of
          Some bs \<Rightarrow> length (filter P bs) = 1 | None \<Rightarrow> True))"
proof (cases "schema_list schema ''anyOf''")
  case (Some bs)
  with assms [of "''anyOf''" bs] decides_res_map [of bs "\<lambda>b. chk v b path" P]
  obtain rs where "res_map (\<lambda>b. chk v b path) bs = Inr rs"
    "length (filter (\<lambda>r. r = None) rs) = length (filter P bs)" by auto
  moreover from this have "filter (\<lambda>r. r = None) rs = [] \<longleftrightarrow> \<not> (\<exists>b \<in> set bs. P b)"
    by (metis (no_types, lifting) filter_empty_conv length_0_conv)
  ultimately show ?thesis using Some
    by (simp add: check_anyOf_def decides_def fail_if_def Let_def)
next
  case None
  show ?thesis
  proof (cases "schema_list schema ''oneOf''")
    case (Some bs)
    with assms [of "''oneOf''" bs] decides_res_map [of bs "\<lambda>b. chk v b path" P]
    obtain rs where "res_map (\<lambda>b. chk v b path) bs = Inr rs"
      "length (filter (\<lambda>r. r = None) rs) = length (filter P bs)" by auto
    with Some None show ?thesis
      by (simp add: check_anyOf_def decides_def fail_if_def Let_def)
  qed (use None in \<open>simp add: check_anyOf_def\<close>)
qed

lemma decides_items:
  assumes "\<And>it x p. j_get schema ''items'' = Some it \<Longrightarrow> truthy_schema it \<Longrightarrow> decides (chk x it p) (P it x)"
  shows "decides (check_items chk vs schema path)
     (case j_get schema ''items'' of Some it \<Rightarrow> truthy_schema it \<longrightarrow> (\<forall>x \<in> set vs. P it x) | None \<Rightarrow> True)"
proof -
  have "decides (first_failure (\<lambda>(i, x). chk x it (index_path path i)) (enumerate 0 vs))
      (\<forall>x \<in> set vs. P it x)" if "j_get schema ''items'' = Some it" "truthy_schema it" for it
  proof -
    have "decides (first_failure (\<lambda>(i, x). chk x it (index_path path i)) (enumerate 0 vs))
        (\<forall>ix \<in> set (enumerate 0 vs). P it (snd ix))"
      using assms [OF that] by (intro decides_first_failure) auto
    moreover have "set vs = snd ` set (enumerate 0 vs)"
      by (metis list.set_map map_snd_enumerate)
    then have "(\<forall>ix \<in> set (enumerate 0 vs). P it (snd ix)) = (\<forall>x \<in> set vs. P it x)" by simp
    ultimately show ?thesis by simp
  qed
  then show ?thesis by (auto simp: check_items_def split: option.split)
qed

lemma decides_required:
  "decides (check_required ps schema path) (\<forall>k \<in> set (schema_required schema). obj_get ps k \<noteq> None)"
  unfolding check_required_def by (intro decides_first_failure) (simp add: decides_def fail_if_def)

lemma decides_properties:
  assumes "\<And>k sub x p. (k, sub) \<in> set (schema_props schema) \<Longrightarrow> decides (chk x sub p) (P sub x)"
  shows "decides (check_properties chk ps schema path)
     (\<forall>(k, sub) \<in> set (schema_props schema). case obj_get ps k of Some x \<Rightarrow> P sub x | None \<Rightarrow> True)"
  unfolding check_properties_def set_entries [of "schema_props schema", symmetric]
  using assms by (intro decides_first_failure) (auto split: option.split)

lemma decides_additional:
  assumes "\<And>sub x p. j_get schema ''additionalProperties'' = Some (JObj sub) \<Longrightarrow> decides (chk x (JObj sub) p) (P (JObj sub) x)"
  shows "decides (check_additional chk ps schema path)
     (case j_get schema ''additionalProperties'' of
        Some (JBool False) \<Rightarrow> \<forall>(k, x) \<in> set ps. k \<in> known_keys schema
      | Some (JObj sub) \<Rightarrow> \<forall>(k, x) \<in> set ps. k \<in> known_keys schema \<or> P (JObj sub) x
      | _ \<Rightarrow> True)"
proof -
  have "decides (first_failure (\<lambda>(k, x). fail_if (k \<notin> known_keys schema)
      (failure (key_path path k) ''no additional property'' (Some x) schema)) (entries ps))
      (\<forall>(k, x) \<in> set (entries ps). k \<in> known_keys schema)"
    by (intro decides_first_failure) (auto simp: decides_def fail_if_def)
  moreover have "decides (first_failure (\<lambda>(k, x). if k \<in> known_keys schema then Inr None
           else chk x (JObj sub) (key_path path k)) (entries ps))
      (\<forall>(k, x) \<in> set (entries ps). k \<in> known_keys schema \<or> P (JObj sub) x)"
    if "j_get schema ''additionalProperties'' = Some (JObj sub)" for sub
    using assms [OF that] by (intro decides_first_failure) (auto split: if_splits)
  ultimately show ?thesis
    by (auto simp: check_additional_def split: option.split json.split bool.split)
qed

lemma sub_schemas_mem:
  "schema_list schema k = Some bs \<Longrightarrow> s \<in> set bs \<Longrightarrow> k = ''allOf'' \<or> k = ''anyOf'' \<or> k = ''oneOf'' \<Longrightarrow>
     s \<in> set (sub_schemas schema)"
  "j_get schema ''items'' = Some it \<Longrightarrow> truthy_schema it \<Longrightarrow> it \<in> set (sub_schemas schema)"
  "(key, sub) \<in> set (schema_props schema) \<Longrightarrow> sub \<in> set (sub_schemas schema)"
  "j_get schema ''additionalProperties'' = Some (JObj ap) \<Longrightarrow> JObj ap \<in> set (sub_schemas schema)"
  by (auto simp: sub_schemas_def intro: image_eqI [of sub snd "(key, sub)"])

definition children_ok :: "(json \<Rightarrow> json \<Rightarrow> bool) \<Rightarrow> json \<Rightarrow> json \<Rightarrow> bool" where
  "children_ok P schema v \<longleftrightarrow> (case v of
        JArr vs \<Rightarrow> (case j_get schema ''items'' of
            Some it \<Rightarrow> truthy_schema it \<longrightarrow> (\<forall>x \<in> set vs. P it x) | None \<Rightarrow> True)
      | JObj ps \<Rightarrow> (\<forall>k \<in> set (schema_required schema). obj_get ps k \<noteq> None) \<and>
          (\<forall>(k, sub) \<in> set (schema_props schema).
             case obj_get ps k of Some x \<Rightarrow> P sub x | None \<Rightarrow> True) \<and>
          (case j_get schema ''additionalProperties'' of
             Some (JBool False) \<Rightarrow> \<forall>(k, x) \<in> set ps. k \<in> known_keys schema
           | Some (JObj sub) \<Rightarrow> \<forall>(k, x) \<in> set ps. k \<in> known_keys schema \<or> P (JObj sub) x
           | _ \<Rightarrow> True)
      | _ \<Rightarrow> True)"

lemma decides_children:
  assumes "\<And>s x p. s \<in> set (sub_schemas schema) \<Longrightarrow> decides (chk x s p) (P s x)"
  shows "decides (check_children chk v schema path) (children_ok P schema v)"
proof (cases v)
  case (JArr vs)
  note items = decides_items [of schema chk P vs path, OF assms [OF sub_schemas_mem(2)]]
  show ?thesis using items by (simp add: check_children_def children_ok_def JArr)
next
  case (JObj ps)
  note props = decides_properties [of schema chk P ps path, OF assms [OF sub_schemas_mem(3)]]
  note ap = decides_additional [of schema chk P ps path, OF assms [OF sub_schemas_mem(4)]]
  show ?thesis
    using decides_and_then [OF decides_required decides_and_then [OF props ap]]
    by (simp add: check_children_def children_ok_def JObj)
qed (simp_all add: check_children_def children_ok_def)

lemma check_object_decides:
  assumes plain: "plain_schema schema" and "schema \<noteq> JBool True" and "schema \<noteq> JBool False"
    and chk: "\<And>s x p. s \<in> set (sub_schemas schema) \<Longrightarrow> decides (chk x s p) (admits h s x)"
  shows "decides (check_object h chk v schema path root_schema) (admits h schema v)"
proof -
  have "schema_str schema ''$ref'' = None" using plain by (simp add: plain_schema_def)
  then have e: "check_object h chk v schema path root_schema =
         and_then (check_const h v schema path)
        (and_then (check_enum v schema path)
        (and_then (check_format schema)
        (and_then (check_allOf chk v schema path)
        (and_then (check_anyOf chk v schema path)
        (and_then (check_type v schema path)
        (and_then (check_string h v schema path)
        (and_then (check_number v schema path)
          (check_children chk v schema path))))))))"
    by (simp add: check_object_def)
  have all: "decides (check_allOf chk v schema path)
      (case schema_list schema ''allOf'' of Some bs \<Rightarrow> \<forall>b \<in> set bs. admits h b v | None \<Rightarrow> True)"
    by (rule decides_allOf) (blast intro: chk sub_schemas_mem(1))
  have any: "decides (check_anyOf chk v schema path)
     (case schema_list schema ''anyOf'' of Some bs \<Rightarrow> \<exists>b \<in> set bs. admits h b v
      | None \<Rightarrow> (case schema_list schema ''oneOf'' of
          Some bs \<Rightarrow> length (filter (\<lambda>b. admits h b v) bs) = 1 | None \<Rightarrow> True))"
    by (rule decides_anyOf) (blast intro: chk sub_schemas_mem(1))
  have kids: "decides (check_children chk v schema path) (children_ok (admits h) schema v)"
    by (rule decides_children) (rule chk)
  note stages = decides_and_then [OF decides_const [of h v schema path]
      decides_and_then [OF decides_enum [of v schema path]
      decides_and_then [OF decides_format [OF plain]
      decides_and_then [OF all decides_and_then [OF any
      decides_and_then [OF decides_type [of v schema path]
      decides_and_then [OF decides_string [OF plain, of h v path]
      decides_and_then [OF decides_number [of v schema path] kids]]]]]]]]
  show ?thesis
    unfolding e by (rule decides_cong [OF stages]) (use assms(2,3) in \<open>simp add: admits.simps [of h schema v] const_ok_def children_ok_def conj_ac\<close>)
qed

lemma check_decides:
  "supported schema \<Longrightarrow> size schema < depth \<Longrightarrow>
    decides (check depth h v schema path root_schema) (admits h schema v)"
proof (induction schema arbitrary: depth v path rule: supported.induct)
  case (1 schema)
  obtain d where d: "depth = Suc d" using 1(3) by (cases depth) auto
  from 1(2) have plain: "plain_schema schema" and subs: "\<forall>s \<in> set (sub_schemas schema). supported s"
    by (simp_all add: supported.simps [of schema] list_all_iff)
  have chk: "decides (check d h x s p root_schema) (admits h s x)" if "s \<in> set (sub_schemas schema)" for s x p
    using 1(1) [OF that] that subs sub_schemas_size [OF that] 1(3) d by simp
  show ?case
  proof (cases "schema = JBool True \<or> schema = JBool False")
    case True
    then show ?thesis by (auto simp: d admits.simps decides_def)
  next
    case False
    with plain have "schema \<noteq> JNull" by (auto simp: plain_schema_def)
    with False check_object_decides [OF plain _ _ chk] show ?thesis by (simp add: d)
  qed
qed

section \<open>Properties\<close>

text \<open>C3: on a schema without references and with supported formats and patterns, \<open>validateJson\<close> run with
  a stack deeper than the schema is large returns the value itself when the declarative reading of the
  schema admits it, and throws a \<open>JsonValidationError\<close> naming the endpoint when it does not. No other
  outcome is possible.\<close>

theorem validateJson_decides:
  assumes "supported schema" and "size schema < depth"
  shows "if admits h schema v then validateJson depth h v schema endpoint = Inr v
    else \<exists>path expect receive.
      validateJson depth h v schema endpoint = Inl (JsonValidationErr endpoint path expect receive)"
  using check_decides [OF assms, of h v "''$''" schema]
  by (auto simp: decides_def validateJson_def)

theorem validateJson_decides_witness:
  "let schema = JObj [(''type'', JStr ''array''), (''items'', JObj [(''type'', JStr ''string''), (''pattern'', JStr ''^[0-9]+$'')])];
       h = \<lparr>host_URL = (\<lambda>_. None), host_number = (\<lambda>_. [])\<rparr>
   in supported schema \<and> validateJson 40 h (JArr [JStr ''42'']) schema ''ids'' = Inr (JArr [JStr ''42'']) \<and>
      (\<exists>p e r. validateJson 40 h (JArr [JStr ''x'']) schema ''ids'' = Inl (JsonValidationErr ''ids'' p e r))"
proof -
  let ?s = "JObj [(''type'', JStr ''array''), (''items'', JObj [(''type'', JStr ''string''), (''pattern'', JStr ''^[0-9]+$'')])]"
  let ?h = "\<lparr>host_URL = (\<lambda>_. None), host_number = (\<lambda>_. [])\<rparr>"
  have s: "supported ?s"
    by (simp add: supported.simps sub_schemas_def schema_list_def schema_props_def truthy_schema_def
        plain_schema_def schema_str_def parse_digit_patterns)
  have "admits ?h ?s (JArr [JStr ''42''])" and "\<not> admits ?h ?s (JArr [JStr ''x''])"
    by code_simp+
  with s validateJson_decides [OF s, of 40 ?h "JArr [JStr ''42'']" "''ids''"]
    validateJson_decides [OF s, of 40 ?h "JArr [JStr ''x'']" "''ids''"]
  show ?thesis by (simp add: Let_def)
qed

text \<open>The path reported for a failing element of an array at the top: \<open>slice(2)\<close> removes \<open>$.\<close> before a
  key, but \<open>$[\<close> before an index, so element 0 is reported as \<open>0]\<close>.\<close>

lemma validateJson_root_array_path:
  "validateJson 3 h (JArr [jint 1]) (JObj [(''items'', JObj [(''type'', JStr ''string'')])]) endpoint =
     Inl (JsonValidationErr endpoint ''0]'' ''string'' ''number'')"
proof -
  have "nat_str 0 = ''0''" by code_simp
  then show ?thesis
    by (simp add: validateJson_def check_object_def check_const_def check_enum_def check_format_def
      check_allOf_def check_anyOf_def check_type_def check_string_def check_number_def check_children_def
      check_items_def schema_str_def schema_list_def schema_types_def schema_num_def and_then_def fail_if_def
      truthy_schema_def matchesType_def expected_def failure_def index_path_def failure_path_def numeral_3_eq_3
      below_minimum_def above_maximum_def)
qed

text \<open>A schema that refers to itself has no answer at any depth.\<close>

lemma check_self_reference:
  "check depth h v (JObj [(''$ref'', JStr ''#'')]) path (JObj [(''$ref'', JStr ''#'')]) =
     Inl (RangeErr ''Maximum call stack size exceeded'')"
  by (induction depth)
    (simp_all add: check_object_def schema_str_def resolveLocalReference_def)

end
