(* ===== verification/Json_Schemas.thy ===== *)
theory Json_Schemas
  imports Json_Validation
begin

text \<open>
  The generated schema constants of \<open>packages/tiktok-live/src/gen/json\<close>, transcribed key by key in the
  order of the file. Where a generated constant repeats another one verbatim, the transcription names
  that one. The \<open>tiktok\<close> schemas are the ones \<open>discovery.ts\<close> validates untrusted responses with; the
  \<open>public\<close> ones describe the values the package hands to its callers.

  Shown: every schema is within what the validator supports, so \<open>validateJson\<close> decides each of them.
\<close>

definition TikTokImageSchema :: json where
  "TikTokImageSchema = JObj [
    (''$schema'', JStr ''https://json-schema.org/draft/2020-12/schema''),
    (''$id'', JStr ''https://ttl-live.dev/schema/tiktok/image.schema.json''),
    (''title'', JStr ''TikTok Image''),
    (''x-typescript-name'', JStr ''TikTokImage''),
    (''type'', JStr ''object''),
    (''properties'', JObj [
      (''url_list'', JObj [
        (''type'', JStr ''array''),
        (''items'', JObj [(''type'', JStr ''string''), (''format'', JStr ''uri'')])])]),
    (''additionalProperties'', JBool True)]"

definition TikTokRoomLookupResponseSchema :: json where
  "TikTokRoomLookupResponseSchema = JObj [
    (''$schema'', JStr ''https://json-schema.org/draft/2020-12/schema''),
    (''$id'', JStr ''https://ttl-live.dev/schema/tiktok/room-lookup.schema.json''),
    (''title'', JStr ''TikTok Room Lookup Response''),
    (''x-typescript-name'', JStr ''TikTokRoomLookupResponse''),
    (''type'', JStr ''object''),
    (''properties'', JObj [
      (''data'', JObj [
        (''type'', JStr ''object''),
        (''properties'', JObj [
          (''user'', JObj [
            (''type'', JStr ''object''),
            (''properties'', JObj [
              (''uniqueId'', JObj [(''type'', JStr ''string'')]),
              (''roomId'', JObj [
                (''type'', JStr ''string''),
                (''pattern'', JStr ''^[0-9]*$''),
                (''x-expected'', JStr ''numeric string'')]),
              (''nickname'', JObj [(''type'', JStr ''string'')]),
              (''status'', JObj [(''type'', JStr ''integer'')])]),
            (''additionalProperties'', JBool True)]),
          (''liveRoom'', JObj [
            (''type'', JStr ''object''),
            (''properties'', JObj [
              (''status'', JObj [(''type'', JStr ''integer'')]),
              (''title'', JObj [(''type'', JStr ''string'')])]),
            (''additionalProperties'', JBool True)])]),
        (''additionalProperties'', JBool True)])]),
    (''additionalProperties'', JBool True)]"

definition TikTokRoomInfoResponseSchema :: json where
  "TikTokRoomInfoResponseSchema = JObj [
    (''$schema'', JStr ''https://json-schema.org/draft/2020-12/schema''),
    (''$id'', JStr ''https://ttl-live.dev/schema/tiktok/room-info.schema.json''),
    (''title'', JStr ''TikTok Room Info Response''),
    (''x-typescript-name'', JStr ''TikTokRoomInfoResponse''),
    (''type'', JStr ''object''),
    (''properties'', JObj [
      (''status_code'', JObj [(''type'', JStr ''integer'')]),
      (''data'', JObj [
        (''type'', JStr ''object''),
        (''properties'', JObj [
          (''message'', JObj [(''type'', JStr ''string'')]),
          (''id_str'', JObj [
            (''type'', JStr ''string''),
            (''pattern'', JStr ''^[0-9]+$''),
            (''x-expected'', JStr ''numeric string'')]),
          (''title'', JObj [(''type'', JStr ''string'')]),
          (''status'', JObj [(''type'', JStr ''integer'')]),
          (''user_count'', JObj [
            (''type'', JStr ''integer''),
            (''minimum'', jint 0),
            (''maximum'', jint 9007199254740991),
            (''x-expected'', JStr ''safe non-negative integer'')]),
          (''cover'', TikTokImageSchema),
          (''share_url'', JObj [(''type'', JStr ''string'')]),
          (''owner'', JObj [
            (''type'', JStr ''object''),
            (''properties'', JObj [
              (''id_str'', JObj [
                (''type'', JStr ''string''),
                (''pattern'', JStr ''^[0-9]+$''),
                (''x-expected'', JStr ''numeric string'')]),
              (''display_id'', JObj [(''type'', JStr ''string'')]),
              (''nickname'', JObj [(''type'', JStr ''string'')]),
              (''sec_uid'', JObj [(''type'', JStr ''string'')]),
              (''avatar_thumb'', TikTokImageSchema),
              (''follow_info'', JObj [
                (''type'', JStr ''object''),
                (''properties'', JObj [
                  (''follower_count'', JObj [
                    (''type'', JStr ''integer''),
                    (''minimum'', jint 0),
                    (''maximum'', jint 9007199254740991),
                    (''x-expected'', JStr ''safe non-negative integer'')])]),
                (''additionalProperties'', JBool True)])]),
            (''additionalProperties'', JBool True)]),
          (''stats'', JObj [
            (''type'', JStr ''object''),
            (''properties'', JObj [
              (''total_user'', JObj [
                (''type'', JStr ''integer''),
                (''minimum'', jint 0),
                (''maximum'', jint 9007199254740991),
                (''x-expected'', JStr ''safe non-negative integer'')]),
              (''like_count'', JObj [
                (''type'', JStr ''integer''),
                (''minimum'', jint 0),
                (''maximum'', jint 9007199254740991),
                (''x-expected'', JStr ''safe non-negative integer'')]),
              (''comment_count'', JObj [
                (''type'', JStr ''integer''),
                (''minimum'', jint 0),
                (''maximum'', jint 9007199254740991),
                (''x-expected'', JStr ''safe non-negative integer'')]),
              (''share_count'', JObj [
                (''type'', JStr ''integer''),
                (''minimum'', jint 0),
                (''maximum'', jint 9007199254740991),
                (''x-expected'', JStr ''safe non-negative integer'')]),
              (''follow_count'', JObj [
                (''type'', JStr ''integer''),
                (''minimum'', jint 0),
                (''maximum'', jint 9007199254740991),
                (''x-expected'', JStr ''safe non-negative integer'')])]),
            (''additionalProperties'', JBool True)])]),
        (''additionalProperties'', JBool True)])]),
    (''required'', JArr [JStr ''status_code'']),
    (''additionalProperties'', JBool True)]"

definition TikTokGiftListResponseSchema :: json where
  "TikTokGiftListResponseSchema = JObj [
    (''$schema'', JStr ''https://json-schema.org/draft/2020-12/schema''),
    (''$id'', JStr ''https://ttl-live.dev/schema/tiktok/gift-list.schema.json''),
    (''title'', JStr ''TikTok Gift List Response''),
    (''x-typescript-name'', JStr ''TikTokGiftListResponse''),
    (''type'', JStr ''object''),
    (''properties'', JObj [
      (''status_code'', JObj [(''type'', JStr ''integer'')]),
      (''data'', JObj [
        (''type'', JStr ''object''),
        (''properties'', JObj [
          (''message'', JObj [(''type'', JStr ''string'')]),
          (''gifts'', JObj [
            (''type'', JStr ''array''),
            (''items'', JObj [
              (''type'', JStr ''object''),
              (''properties'', JObj [
                (''id'', JObj [
                  (''anyOf'', JArr [
                    JObj [
                      (''type'', JStr ''string''),
                      (''pattern'', JStr ''^[0-9]+$''),
                      (''x-expected'', JStr ''numeric string'')],
                    JObj [
                      (''type'', JStr ''integer''),
                      (''minimum'', jint 0),
                      (''maximum'', jint 9007199254740991)]]),
                  (''x-expected'', JStr ''numeric string or safe integer'')]),
                (''name'', JObj [(''type'', JStr ''string'')]),
                (''describe'', JObj [(''type'', JStr ''string'')]),
                (''diamond_count'', JObj [
                  (''type'', JStr ''integer''),
                  (''minimum'', jint 0),
                  (''maximum'', jint 9007199254740991),
                  (''x-expected'', JStr ''safe non-negative integer'')]),
                (''combo'', JObj [(''type'', JStr ''boolean'')]),
                (''type'', JObj [
                  (''type'', JStr ''integer''),
                  (''minimum'', jint 0),
                  (''maximum'', jint 9007199254740991),
                  (''x-expected'', JStr ''safe non-negative integer'')]),
                (''icon'', TikTokImageSchema)]),
              (''required'', JArr [JStr ''id'']),
              (''additionalProperties'', JBool True)])])]),
        (''additionalProperties'', JBool True)])]),
    (''required'', JArr [JStr ''status_code'']),
    (''additionalProperties'', JBool True)]"

definition TikTokLiveSearchResponseSchema :: json where
  "TikTokLiveSearchResponseSchema = JObj [
    (''$schema'', JStr ''https://json-schema.org/draft/2020-12/schema''),
    (''$id'', JStr ''https://ttl-live.dev/schema/tiktok/live-search.schema.json''),
    (''title'', JStr ''TikTok Live Search Response''),
    (''x-typescript-name'', JStr ''TikTokLiveSearchResponse''),
    (''type'', JStr ''object''),
    (''properties'', JObj [
      (''status_code'', JObj [(''type'', JStr ''integer'')]),
      (''status_msg'', JObj [(''type'', JStr ''string'')]),
      (''data'', JObj [
        (''type'', JStr ''array''),
        (''items'', JObj [
          (''type'', JStr ''object''),
          (''properties'', JObj [
            (''live_info'', JObj [
              (''type'', JStr ''object''),
              (''properties'', JObj [(''raw_data'', JObj [(''type'', JStr ''string'')])]),
              (''additionalProperties'', JBool True)])]),
          (''additionalProperties'', JBool True)])])]),
    (''additionalProperties'', JBool True)]"

definition TikTokSearchRoomSchema :: json where
  "TikTokSearchRoomSchema = JObj [
    (''$schema'', JStr ''https://json-schema.org/draft/2020-12/schema''),
    (''$id'', JStr ''https://ttl-live.dev/schema/tiktok/search-room.schema.json''),
    (''title'', JStr ''TikTok Live Search Room''),
    (''x-typescript-name'', JStr ''TikTokSearchRoom''),
    (''type'', JStr ''object''),
    (''properties'', JObj [
      (''status'', JObj [(''type'', JStr ''integer'')]),
      (''id_str'', JObj [
        (''type'', JStr ''string''),
        (''pattern'', JStr ''^[0-9]+$''),
        (''x-expected'', JStr ''numeric string'')]),
      (''title'', JObj [(''type'', JStr ''string'')]),
      (''user_count'', JObj [
        (''type'', JStr ''integer''),
        (''minimum'', jint 0),
        (''maximum'', jint 9007199254740991),
        (''x-expected'', JStr ''safe non-negative integer'')]),
      (''owner'', JObj [
        (''type'', JStr ''object''),
        (''properties'', JObj [
          (''display_id'', JObj [(''type'', JStr ''string'')]),
          (''nickname'', JObj [(''type'', JStr ''string'')])]),
        (''additionalProperties'', JBool True)])]),
    (''additionalProperties'', JBool True)]"

definition BaseEventSchema :: json where
  "BaseEventSchema = JObj [
    (''$schema'', JStr ''https://json-schema.org/draft/2020-12/schema''),
    (''$id'', JStr ''https://ttl-live.dev/schema/public/base-event.schema.json''),
    (''title'', JStr ''ttl-live Base Event''),
    (''x-typescript-name'', JStr ''BaseEvent''),
    (''type'', JStr ''object''),
    (''properties'', JObj [
      (''method'', JObj [(''type'', JStr ''string'')]),
      (''msgId'', JObj [(''type'', JStr ''string''), (''pattern'', JStr ''^[0-9]+$'')]),
      (''isHistory'', JObj [(''type'', JStr ''boolean'')])]),
    (''required'', JArr [JStr ''method'']),
    (''additionalProperties'', JBool True),
    (''x-typescript-no-index'', JBool True)]"

definition EventUserSchema :: json where
  "EventUserSchema = JObj [
    (''$schema'', JStr ''https://json-schema.org/draft/2020-12/schema''),
    (''$id'', JStr ''https://ttl-live.dev/schema/public/event-user.schema.json''),
    (''title'', JStr ''ttl-live Event User''),
    (''x-typescript-name'', JStr ''EventUser''),
    (''type'', JStr ''object''),
    (''properties'', JObj [
      (''userId'', JObj [(''type'', JStr ''string''), (''pattern'', JStr ''^[0-9]+$'')]),
      (''nickname'', JObj [(''type'', JStr ''string'')]),
      (''uniqueId'', JObj [(''type'', JStr ''string'')]),
      (''secUid'', JObj [(''type'', JStr ''string'')]),
      (''avatarUrl'', JObj [(''type'', JStr ''string''), (''format'', JStr ''uri'')])]),
    (''required'', JArr [JStr ''userId'', JStr ''nickname'', JStr ''uniqueId'', JStr ''secUid'']),
    (''additionalProperties'', JBool False)]"

definition LiveEmoteSchema :: json where
  "LiveEmoteSchema = JObj [
    (''$schema'', JStr ''https://json-schema.org/draft/2020-12/schema''),
    (''$id'', JStr ''https://ttl-live.dev/schema/public/live-emote.schema.json''),
    (''title'', JStr ''ttl-live Live Emote''),
    (''x-typescript-name'', JStr ''LiveEmote''),
    (''description'', JStr ''A graphical emote carried by a LIVE comment or emote message. Optional fields are omitted when the wire did not carry them; they are never filled with a guessed default.''),
    (''type'', JStr ''object''),
    (''properties'', JObj [
      (''id'', JObj [
        (''type'', JStr ''string''),
        (''description'', JStr ''The original emote identifier, verbatim.'')]),
      (''shortcode'', JObj [
        (''type'', JStr ''string''),
        (''description'', JStr (''The textual shortcode (for example '' @ [CHR 0x22] @ ''[laughcry]'' @ [CHR 0x22] @ ''), only when reliably known.''))]),
      (''imageUrl'', JObj [
        (''type'', JStr ''string''),
        (''format'', JStr ''uri''),
        (''description'', JStr ''Artwork URL from the protobuf ImageModel.'')]),
      (''index'', JObj [
        (''type'', JStr ''integer''),
        (''description'', JStr ''Raw EmoteWithIndex.index. Its unit is not confirmed, so it is preserved unmodified and never used to slice text.'')]),
      (''emoteType'', JObj [
        (''type'', JStr ''integer''),
        (''description'', JStr ''Raw EmoteModel.emote_type enum value when non-zero.'')]),
      (''packageId'', JObj [
        (''type'', JStr ''string''),
        (''description'', JStr ''Original package identifier for creator-specific or custom emotes.'')])]),
    (''required'', JArr [JStr ''id'']),
    (''additionalProperties'', JBool False)]"

definition TopViewerSchema :: json where
  "TopViewerSchema = JObj [
    (''$schema'', JStr ''https://json-schema.org/draft/2020-12/schema''),
    (''$id'', JStr ''https://ttl-live.dev/schema/public/top-viewer.schema.json''),
    (''title'', JStr ''ttl-live Top Viewer''),
    (''x-typescript-name'', JStr ''TopViewer''),
    (''type'', JStr ''object''),
    (''properties'', JObj [
      (''rank'', JObj [
        (''type'', JStr ''integer''),
        (''minimum'', jint 0),
        (''maximum'', jint 9007199254740991)]),
      (''score'', JObj [
        (''type'', JStr ''integer''),
        (''minimum'', jint 0),
        (''maximum'', jint 9007199254740991)]),
      (''delta'', JObj [
        (''type'', JStr ''integer''),
        (''minimum'', jint 0),
        (''maximum'', jint 9007199254740991)]),
      (''user'', EventUserSchema)]),
    (''required'', JArr [JStr ''rank'', JStr ''score'', JStr ''delta'', JStr ''user'']),
    (''additionalProperties'', JBool False)]"

definition GiftSchema :: json where
  "GiftSchema = JObj [
    (''$schema'', JStr ''https://json-schema.org/draft/2020-12/schema''),
    (''$id'', JStr ''https://ttl-live.dev/schema/public/gift.schema.json''),
    (''title'', JStr ''ttl-live Gift''),
    (''x-typescript-name'', JStr ''Gift''),
    (''type'', JStr ''object''),
    (''properties'', JObj [
      (''id'', JObj [(''type'', JStr ''string''), (''pattern'', JStr ''^[0-9]+$'')]),
      (''name'', JObj [(''type'', JStr ''string'')]),
      (''describe'', JObj [(''type'', JStr ''string'')]),
      (''diamondCount'', JObj [
        (''type'', JStr ''integer''),
        (''minimum'', jint 0),
        (''maximum'', jint 9007199254740991)]),
      (''combo'', JObj [(''type'', JStr ''boolean'')]),
      (''giftType'', JObj [
        (''type'', JStr ''integer''),
        (''minimum'', jint 0),
        (''maximum'', jint 9007199254740991)]),
      (''iconUrl'', JObj [(''type'', JStr ''string''), (''format'', JStr ''uri'')])]),
    (''required'', JArr [
      JStr ''id'',
      JStr ''name'',
      JStr ''describe'',
      JStr ''diamondCount'',
      JStr ''combo'',
      JStr ''giftType'',
      JStr ''iconUrl'']),
    (''additionalProperties'', JBool False)]"

definition RoomOwnerSchema :: json where
  "RoomOwnerSchema = JObj [
    (''$schema'', JStr ''https://json-schema.org/draft/2020-12/schema''),
    (''$id'', JStr ''https://ttl-live.dev/schema/public/room-owner.schema.json''),
    (''title'', JStr ''ttl-live Room Owner''),
    (''x-typescript-name'', JStr ''RoomOwner''),
    (''type'', JStr ''object''),
    (''properties'', JObj [
      (''userId'', JObj [(''type'', JStr ''string''), (''pattern'', JStr ''^[0-9]*$'')]),
      (''uniqueId'', JObj [(''type'', JStr ''string'')]),
      (''nickname'', JObj [(''type'', JStr ''string'')]),
      (''secUid'', JObj [(''type'', JStr ''string'')]),
      (''avatarUrl'', JObj [(''type'', JStr ''string''), (''format'', JStr ''uri'')]),
      (''followerCount'', JObj [
        (''type'', JStr ''integer''),
        (''minimum'', jint 0),
        (''maximum'', jint 9007199254740991)])]),
    (''required'', JArr [
      JStr ''userId'',
      JStr ''uniqueId'',
      JStr ''nickname'',
      JStr ''secUid'',
      JStr ''avatarUrl'',
      JStr ''followerCount'']),
    (''additionalProperties'', JBool False)]"

definition LiveRoomSchema :: json where
  "LiveRoomSchema = JObj [
    (''$schema'', JStr ''https://json-schema.org/draft/2020-12/schema''),
    (''$id'', JStr ''https://ttl-live.dev/schema/public/live-room.schema.json''),
    (''title'', JStr ''ttl-live Live Room''),
    (''x-typescript-name'', JStr ''LiveRoom''),
    (''type'', JStr ''object''),
    (''properties'', JObj [
      (''uniqueId'', JObj [(''type'', JStr ''string'')]),
      (''roomId'', JObj [(''type'', JStr ''string''), (''pattern'', JStr ''^[0-9]+$'')]),
      (''nickname'', JObj [(''type'', JStr ''string'')]),
      (''title'', JObj [(''type'', JStr ''string'')]),
      (''viewers'', JObj [
        (''type'', JStr ''integer''),
        (''minimum'', jint 0),
        (''maximum'', jint 9007199254740991)])]),
    (''required'', JArr [
      JStr ''uniqueId'',
      JStr ''roomId'',
      JStr ''nickname'',
      JStr ''title'',
      JStr ''viewers'']),
    (''additionalProperties'', JBool False)]"

definition ReconnectPolicySchema :: json where
  "ReconnectPolicySchema = JObj [
    (''$schema'', JStr ''https://json-schema.org/draft/2020-12/schema''),
    (''$id'', JStr ''https://ttl-live.dev/schema/public/reconnect-policy.schema.json''),
    (''title'', JStr ''ttl-live Reconnect Policy''),
    (''x-typescript-name'', JStr ''ReconnectPolicy''),
    (''type'', JStr ''object''),
    (''properties'', JObj [
      (''attempts'', JObj [
        (''type'', JStr ''integer''),
        (''minimum'', jint 0),
        (''maximum'', jint 9007199254740991)]),
      (''initialMs'', JObj [
        (''type'', JStr ''integer''),
        (''minimum'', jint 0),
        (''maximum'', jint 9007199254740991)]),
      (''maxMs'', JObj [
        (''type'', JStr ''integer''),
        (''minimum'', jint 0),
        (''maximum'', jint 9007199254740991)])]),
    (''required'', JArr [JStr ''attempts'', JStr ''initialMs'', JStr ''maxMs'']),
    (''additionalProperties'', JBool False)]"

definition RoomLookupSchema :: json where
  "RoomLookupSchema = JObj [
    (''$schema'', JStr ''https://json-schema.org/draft/2020-12/schema''),
    (''$id'', JStr ''https://ttl-live.dev/schema/public/room-lookup.schema.json''),
    (''title'', JStr ''ttl-live Room Lookup''),
    (''x-typescript-name'', JStr ''RoomLookup''),
    (''type'', JStr ''object''),
    (''properties'', JObj [
      (''uniqueId'', JObj [(''type'', JStr ''string'')]),
      (''roomId'', JObj [(''type'', JStr ''string''), (''pattern'', JStr ''^[0-9]*$'')]),
      (''nickname'', JObj [(''type'', JStr ''string'')]),
      (''status'', JObj [(''type'', JStr ''integer'')]),
      (''title'', JObj [(''type'', JStr ''string'')]),
      (''isLive'', JObj [(''type'', JStr ''boolean'')])]),
    (''required'', JArr [
      JStr ''uniqueId'',
      JStr ''roomId'',
      JStr ''nickname'',
      JStr ''status'',
      JStr ''title'',
      JStr ''isLive'']),
    (''additionalProperties'', JBool False)]"

definition RoomInfoSchema :: json where
  "RoomInfoSchema = JObj [
    (''$schema'', JStr ''https://json-schema.org/draft/2020-12/schema''),
    (''$id'', JStr ''https://ttl-live.dev/schema/public/room-info.schema.json''),
    (''title'', JStr ''ttl-live Room Info''),
    (''x-typescript-name'', JStr ''RoomInfo''),
    (''type'', JStr ''object''),
    (''properties'', JObj [
      (''roomId'', JObj [(''type'', JStr ''string''), (''pattern'', JStr ''^[0-9]+$'')]),
      (''title'', JObj [(''type'', JStr ''string'')]),
      (''status'', JObj [(''type'', JStr ''integer'')]),
      (''viewers'', JObj [
        (''type'', JStr ''integer''),
        (''minimum'', jint 0),
        (''maximum'', jint 9007199254740991)]),
      (''likes'', JObj [
        (''type'', JStr ''integer''),
        (''minimum'', jint 0),
        (''maximum'', jint 9007199254740991)]),
      (''comments'', JObj [
        (''type'', JStr ''integer''),
        (''minimum'', jint 0),
        (''maximum'', jint 9007199254740991)]),
      (''shares'', JObj [
        (''type'', JStr ''integer''),
        (''minimum'', jint 0),
        (''maximum'', jint 9007199254740991)]),
      (''follows'', JObj [
        (''type'', JStr ''integer''),
        (''minimum'', jint 0),
        (''maximum'', jint 9007199254740991)]),
      (''coverUrl'', JObj [(''type'', JStr ''string''), (''format'', JStr ''uri'')]),
      (''shareUrl'', JObj [(''type'', JStr ''string''), (''format'', JStr ''uri'')]),
      (''owner'', RoomOwnerSchema)]),
    (''required'', JArr [
      JStr ''roomId'',
      JStr ''title'',
      JStr ''status'',
      JStr ''viewers'',
      JStr ''likes'',
      JStr ''comments'',
      JStr ''shares'',
      JStr ''follows'',
      JStr ''coverUrl'',
      JStr ''shareUrl'',
      JStr ''owner'']),
    (''additionalProperties'', JBool False)]"

definition ChatEventSchema :: json where
  "ChatEventSchema = JObj [
    (''$schema'', JStr ''https://json-schema.org/draft/2020-12/schema''),
    (''$id'', JStr ''https://ttl-live.dev/schema/public/chat-event.schema.json''),
    (''title'', JStr ''ttl-live Chat Event''),
    (''x-typescript-name'', JStr ''ChatEvent''),
    (''allOf'', JArr [
      BaseEventSchema,
      JObj [
        (''type'', JStr ''object''),
        (''properties'', JObj [
          (''type'', JObj [(''const'', JStr ''chat'')]),
          (''user'', EventUserSchema),
          (''comment'', JObj [(''type'', JStr ''string'')]),
          (''emotes'', JObj [
            (''type'', JStr ''array''),
            (''items'', LiveEmoteSchema),
            (''description'', JStr ''Emotes embedded in the comment. Omitted (never required) so text-only chat stays compatible.'')])]),
        (''required'', JArr [JStr ''type'', JStr ''user'', JStr ''comment'']),
        (''additionalProperties'', JBool True),
        (''x-typescript-no-index'', JBool True)]])]"

definition EmoteChatEventSchema :: json where
  "EmoteChatEventSchema = JObj [
    (''$schema'', JStr ''https://json-schema.org/draft/2020-12/schema''),
    (''$id'', JStr ''https://ttl-live.dev/schema/public/emote-chat-event.schema.json''),
    (''title'', JStr ''ttl-live Emote Chat Event''),
    (''x-typescript-name'', JStr ''EmoteChatEvent''),
    (''allOf'', JArr [
      BaseEventSchema,
      JObj [
        (''type'', JStr ''object''),
        (''properties'', JObj [
          (''type'', JObj [(''const'', JStr ''emoteChat'')]),
          (''user'', EventUserSchema),
          (''emotes'', JObj [(''type'', JStr ''array''), (''items'', LiveEmoteSchema)])]),
        (''required'', JArr [JStr ''type'', JStr ''user'', JStr ''emotes'']),
        (''additionalProperties'', JBool True),
        (''x-typescript-no-index'', JBool True)]])]"

definition GiftEventSchema :: json where
  "GiftEventSchema = JObj [
    (''$schema'', JStr ''https://json-schema.org/draft/2020-12/schema''),
    (''$id'', JStr ''https://ttl-live.dev/schema/public/gift-event.schema.json''),
    (''title'', JStr ''ttl-live Gift Event''),
    (''x-typescript-name'', JStr ''GiftEvent''),
    (''allOf'', JArr [
      BaseEventSchema,
      JObj [
        (''type'', JStr ''object''),
        (''properties'', JObj [
          (''type'', JObj [(''const'', JStr ''gift'')]),
          (''user'', EventUserSchema),
          (''toUser'', EventUserSchema),
          (''giftId'', JObj [(''type'', JStr ''string''), (''pattern'', JStr ''^[0-9]+$'')]),
          (''giftName'', JObj [(''type'', JStr ''string'')]),
          (''diamondCount'', JObj [
            (''type'', JStr ''integer''),
            (''minimum'', jint 0),
            (''maximum'', jint 9007199254740991)]),
          (''repeatCount'', JObj [
            (''type'', JStr ''integer''),
            (''minimum'', jint 0),
            (''maximum'', jint 9007199254740991)]),
          (''comboCount'', JObj [
            (''type'', JStr ''integer''),
            (''minimum'', jint 0),
            (''maximum'', jint 9007199254740991)]),
          (''groupId'', JObj [(''type'', JStr ''string''), (''pattern'', JStr ''^[0-9]+$'')]),
          (''repeatEnd'', JObj [(''type'', JStr ''boolean'')]),
          (''streakable'', JObj [(''type'', JStr ''boolean'')]),
          (''giftIconUrl'', JObj [(''type'', JStr ''string''), (''format'', JStr ''uri'')])]),
        (''required'', JArr [
          JStr ''type'',
          JStr ''user'',
          JStr ''toUser'',
          JStr ''giftId'',
          JStr ''giftName'',
          JStr ''diamondCount'',
          JStr ''repeatCount'',
          JStr ''comboCount'',
          JStr ''groupId'',
          JStr ''repeatEnd'']),
        (''additionalProperties'', JBool True),
        (''x-typescript-no-index'', JBool True)]])]"

definition LikeEventSchema :: json where
  "LikeEventSchema = JObj [
    (''$schema'', JStr ''https://json-schema.org/draft/2020-12/schema''),
    (''$id'', JStr ''https://ttl-live.dev/schema/public/like-event.schema.json''),
    (''title'', JStr ''ttl-live Like Event''),
    (''x-typescript-name'', JStr ''LikeEvent''),
    (''allOf'', JArr [
      BaseEventSchema,
      JObj [
        (''type'', JStr ''object''),
        (''properties'', JObj [
          (''type'', JObj [(''const'', JStr ''like'')]),
          (''user'', EventUserSchema),
          (''count'', JObj [
            (''type'', JStr ''integer''),
            (''minimum'', jint 0),
            (''maximum'', jint 9007199254740991)]),
          (''total'', JObj [
            (''type'', JStr ''integer''),
            (''minimum'', jint 0),
            (''maximum'', jint 9007199254740991)])]),
        (''required'', JArr [JStr ''type'', JStr ''user'', JStr ''count'', JStr ''total'']),
        (''additionalProperties'', JBool True),
        (''x-typescript-no-index'', JBool True)]])]"

definition MemberEventSchema :: json where
  "MemberEventSchema = JObj [
    (''$schema'', JStr ''https://json-schema.org/draft/2020-12/schema''),
    (''$id'', JStr ''https://ttl-live.dev/schema/public/member-event.schema.json''),
    (''title'', JStr ''ttl-live Member Event''),
    (''x-typescript-name'', JStr ''MemberEvent''),
    (''allOf'', JArr [
      BaseEventSchema,
      JObj [
        (''type'', JStr ''object''),
        (''properties'', JObj [
          (''type'', JObj [(''const'', JStr ''member'')]),
          (''user'', EventUserSchema),
          (''memberCount'', JObj [
            (''type'', JStr ''integer''),
            (''minimum'', jint 0),
            (''maximum'', jint 9007199254740991)]),
          (''action'', JObj [
            (''type'', JStr ''integer''),
            (''minimum'', jint 0),
            (''maximum'', jint 9007199254740991)])]),
        (''required'', JArr [JStr ''type'', JStr ''user'', JStr ''memberCount'', JStr ''action'']),
        (''additionalProperties'', JBool True),
        (''x-typescript-no-index'', JBool True)]])]"

definition SocialEventSchema :: json where
  "SocialEventSchema = JObj [
    (''$schema'', JStr ''https://json-schema.org/draft/2020-12/schema''),
    (''$id'', JStr ''https://ttl-live.dev/schema/public/social-event.schema.json''),
    (''title'', JStr ''ttl-live Social Event''),
    (''x-typescript-name'', JStr ''SocialEvent''),
    (''allOf'', JArr [
      BaseEventSchema,
      JObj [
        (''type'', JStr ''object''),
        (''properties'', JObj [
          (''type'', JObj [(''const'', JStr ''social'')]),
          (''user'', EventUserSchema),
          (''action'', JObj [
            (''type'', JStr ''integer''),
            (''minimum'', jint 0),
            (''maximum'', jint 9007199254740991)]),
          (''followCount'', JObj [
            (''type'', JStr ''integer''),
            (''minimum'', jint 0),
            (''maximum'', jint 9007199254740991)]),
          (''shareCount'', JObj [
            (''type'', JStr ''integer''),
            (''minimum'', jint 0),
            (''maximum'', jint 9007199254740991)]),
          (''shareType'', JObj [
            (''type'', JStr ''integer''),
            (''minimum'', jint 0),
            (''maximum'', jint 9007199254740991)]),
          (''shareTarget'', JObj [(''type'', JStr ''string'')]),
          (''shareDisplayStyle'', JObj [
            (''type'', JStr ''integer''),
            (''minimum'', jint 0),
            (''maximum'', jint 9007199254740991)]),
          (''followType'', JObj [
            (''type'', JStr ''integer''),
            (''minimum'', jint 0),
            (''maximum'', jint 9007199254740991)]),
          (''scene'', JObj [(''type'', JStr ''string'')]),
          (''targetUserId'', JObj [
            (''type'', JStr ''string''),
            (''pattern'', JStr ''^-?[0-9]+$''),
            (''description'', JStr ''Raw int64 target; negative wire sentinels are preserved.'')])]),
        (''required'', JArr [
          JStr ''type'',
          JStr ''user'',
          JStr ''action'',
          JStr ''followCount'',
          JStr ''shareCount'']),
        (''additionalProperties'', JBool True),
        (''x-typescript-no-index'', JBool True)]])]"

definition RoomUserEventSchema :: json where
  "RoomUserEventSchema = JObj [
    (''$schema'', JStr ''https://json-schema.org/draft/2020-12/schema''),
    (''$id'', JStr ''https://ttl-live.dev/schema/public/room-user-event.schema.json''),
    (''title'', JStr ''ttl-live Room User Event''),
    (''x-typescript-name'', JStr ''RoomUserEvent''),
    (''allOf'', JArr [
      BaseEventSchema,
      JObj [
        (''type'', JStr ''object''),
        (''properties'', JObj [
          (''type'', JObj [(''const'', JStr ''roomUser'')]),
          (''viewers'', JObj [
            (''type'', JStr ''integer''),
            (''minimum'', jint 0),
            (''maximum'', jint 9007199254740991)]),
          (''popularity'', JObj [
            (''type'', JStr ''integer''),
            (''minimum'', jint 0),
            (''maximum'', jint 9007199254740991)]),
          (''totalUser'', JObj [
            (''type'', JStr ''integer''),
            (''minimum'', jint 0),
            (''maximum'', jint 9007199254740991)]),
          (''anonymous'', JObj [
            (''type'', JStr ''integer''),
            (''minimum'', jint 0),
            (''maximum'', jint 9007199254740991)]),
          (''topViewers'', JObj [(''type'', JStr ''array''), (''items'', TopViewerSchema)]),
          (''rankedViewers'', JObj [(''type'', JStr ''array''), (''items'', TopViewerSchema)])]),
        (''required'', JArr [
          JStr ''type'',
          JStr ''viewers'',
          JStr ''popularity'',
          JStr ''totalUser'',
          JStr ''anonymous'',
          JStr ''topViewers'',
          JStr ''rankedViewers'']),
        (''additionalProperties'', JBool True),
        (''x-typescript-no-index'', JBool True)]])]"

definition ClientStateSchema :: json where
  "ClientStateSchema = JObj [
    (''$schema'', JStr ''https://json-schema.org/draft/2020-12/schema''),
    (''$id'', JStr ''https://ttl-live.dev/schema/public/client-state.schema.json''),
    (''title'', JStr ''ttl-live Client State''),
    (''x-typescript-name'', JStr ''ClientState''),
    (''type'', JStr ''object''),
    (''properties'', JObj [
      (''uniqueId'', JObj [(''type'', JStr ''string'')]),
      (''roomId'', JObj [(''type'', JStr ''string''), (''pattern'', JStr ''^[0-9]*$'')]),
      (''connected'', JObj [(''type'', JStr ''boolean'')]),
      (''roomInfo'', JObj [(''anyOf'', JArr [RoomInfoSchema, JObj [(''type'', JStr ''null'')]])]),
      (''giftCount'', JObj [
        (''type'', JStr ''integer''),
        (''minimum'', jint 0),
        (''maximum'', jint 9007199254740991)])]),
    (''required'', JArr [
      JStr ''uniqueId'',
      JStr ''roomId'',
      JStr ''connected'',
      JStr ''roomInfo'',
      JStr ''giftCount'']),
    (''additionalProperties'', JBool False)]"

text \<open>The schemas \<open>discovery.ts\<close> validates with, and those of the values the package returns.\<close>

definition response_schemas :: "json list" where
  "response_schemas = [TikTokImageSchema,
     TikTokRoomLookupResponseSchema,
     TikTokRoomInfoResponseSchema,
     TikTokGiftListResponseSchema,
     TikTokLiveSearchResponseSchema,
     TikTokSearchRoomSchema]"

definition public_schemas :: "json list" where
  "public_schemas = [BaseEventSchema,
     EventUserSchema,
     LiveEmoteSchema,
     TopViewerSchema,
     GiftSchema,
     RoomOwnerSchema,
     LiveRoomSchema,
     ReconnectPolicySchema,
     RoomLookupSchema,
     RoomInfoSchema,
     ChatEventSchema,
     EmoteChatEventSchema,
     GiftEventSchema,
     LikeEventSchema,
     MemberEventSchema,
     SocialEventSchema,
     RoomUserEventSchema,
     ClientStateSchema]"

lemma schemas_supported:
  "list_all (\<lambda>s. supported s \<and> size s < 1000) (response_schemas @ public_schemas)"
  by code_simp

end
