(* ===== verification/Protobuf_Types.thy ===== *)
theory Protobuf_Types
  imports Errors "HOL-Library.Word"
begin

text \<open>
  The generated protobuf message types of \<open>packages/tiktok-live/src/gen/webcast\<close> that the transport
  reads and writes, one record per generated TypeScript type with its fields in order. An \<open>int64\<close> is a
  \<open>bigint\<close>, here \<open>int\<close>; \<open>bytes\<close> is a list of 8-bit words.

  The encoder and decoder of these messages are the runtime package \<open>@bufbuild/protobuf\<close>, which is not
  part of the repository: every definition that serialises or parses takes \<open>toBinary\<close> or \<open>fromBinary\<close>
  for the message as an argument.
\<close>

type_synonym byte = "8 word"
type_synonym bytes = "byte list"

record HeartBeatMessage =
  hb_roomId :: int
  hb_sendPacketSeqId :: int

record PushHeader =
  hdr_key :: string
  hdr_value :: string

record WebcastPushFrame =
  pf_seqId :: int
  pf_logId :: int
  pf_service :: int
  pf_method :: int
  pf_headers :: "PushHeader list"
  pf_payloadEncoding :: string
  pf_payloadType :: string
  pf_payload :: bytes

record WebcastImEnterRoomMessage =
  er_roomId :: int
  er_roomTag :: string
  er_liveRegion :: string
  er_liveId :: int
  er_identity :: string
  er_cursor :: string
  er_accountType :: int
  er_enterUniqueId :: int
  er_filterWelcomeMsg :: string
  er_isAnchorContinueKeepMsg :: bool

record BaseProtoMessage =
  bm_method :: string
  bm_payload :: bytes
  bm_msgId :: int
  bm_msgType :: int
  bm_offset :: int
  bm_isHistory :: bool
  bm_sampleFlag :: int

record ProtoMessageFetchResult =
  fr_messages :: "BaseProtoMessage list"
  fr_cursor :: string
  fr_fetchInterval :: int
  fr_now :: int
  fr_internalExt :: string
  fr_fetchType :: int
  fr_routeParams :: "(string \<times> string) list"
  fr_heartbeatDuration :: int
  fr_needAck :: bool
  fr_pushServer :: string
  fr_isFirst :: bool
  fr_historyCommentCursor :: string
  fr_historyNoMore :: bool

text \<open>What \<open>create(Schema)\<close> fills in for the fields an initialiser leaves out.\<close>

definition blank_PushFrame :: WebcastPushFrame where
  "blank_PushFrame = \<lparr>pf_seqId = 0, pf_logId = 0, pf_service = 0, pf_method = 0, pf_headers = [],
     pf_payloadEncoding = [], pf_payloadType = [], pf_payload = []\<rparr>"

definition blank_EnterRoom :: WebcastImEnterRoomMessage where
  "blank_EnterRoom = \<lparr>er_roomId = 0, er_roomTag = [], er_liveRegion = [], er_liveId = 0,
     er_identity = [], er_cursor = [], er_accountType = 0, er_enterUniqueId = 0,
     er_filterWelcomeMsg = [], er_isAnchorContinueKeepMsg = False\<rparr>"

definition blank_HeartBeat :: HeartBeatMessage where
  "blank_HeartBeat = \<lparr>hb_roomId = 0, hb_sendPacketSeqId = 0\<rparr>"

end
