(* ===== verification/Http.thy ===== *)
theory Http
  imports Protobuf_Types Js_Strings
begin

text \<open>
  \<open>packages/tiktok-live/src/http.ts\<close>: reading a response body into one growing buffer with a hard limit.
  The stream is the list of what successive \<open>reader.read()\<close> calls yield before \<open>done\<close>: a chunk, or a
  rejection. \<open>Buffer.allocUnsafe\<close> leaves its bytes unspecified: \<open>junk\<close> says what they are, and nothing
  below depends on it. \<open>declared\<close> is \<open>Number(response.headers?.get('content-length'))\<close> and \<open>decode\<close> is
  \<open>toString('utf8')\<close>.

  Shown: the text is that of exactly the bytes received, for every division into chunks; the buffer never
  grows past the limit; a body over the limit is refused; the lock is released on every path and the
  reader is cancelled exactly when reading fails.
\<close>

datatype read_item = Chunk bytes | Rejected js_error

record response_body =
  rb_declared :: jsnumber
  rb_stream :: "read_item list option"
  rb_text :: "(js_error, bytes) result"

record reader_end =
  re_cancelled :: bool
  re_released :: bool

definition allocUnsafe :: "(nat \<Rightarrow> byte) \<Rightarrow> nat \<Rightarrow> bytes" where
  "allocUnsafe junk n = map junk [0..<n]"

definition buffer_copy :: "bytes \<Rightarrow> bytes \<Rightarrow> nat \<Rightarrow> bytes" where
  "buffer_copy source target n = take n source @ drop (length (take n source)) target"

text \<open>\<open>buffer.set(v, offset)\<close> throws when the value does not fit.\<close>

definition buffer_set :: "bytes \<Rightarrow> bytes \<Rightarrow> nat \<Rightarrow> (js_error, bytes) result" where
  "buffer_set buffer v offset =
     (if offset + length v > length buffer then Inl (RangeErr ''offset is out of bounds'')
      else Inr (take offset buffer @ v @ drop (offset + length v) buffer))"

definition body_overflow :: "nat \<Rightarrow> js_error" where
  "body_overflow limit = Err (''HTTP body exceeds '' @ nat_str limit @ '' bytes'')"

definition grow :: "(nat \<Rightarrow> byte) \<Rightarrow> nat \<Rightarrow> nat \<Rightarrow> nat \<Rightarrow> bytes \<Rightarrow> bytes" where
  "grow junk limit needed bytes buffer =
     (if needed > length buffer
      then buffer_copy buffer (allocUnsafe junk (min limit (max needed (length buffer * 2)))) bytes
      else buffer)"

fun read_loop :: "(nat \<Rightarrow> byte) \<Rightarrow> nat \<Rightarrow> bytes \<Rightarrow> nat \<Rightarrow> read_item list \<Rightarrow> (js_error, bytes \<times> nat) result" where
  "read_loop junk limit buffer bytes [] = Inr (buffer, bytes)"
| "read_loop junk limit buffer bytes (Rejected e # items) = Inl e"
| "read_loop junk limit buffer bytes (Chunk v # items) =
     (if int (length v) > int limit - int bytes then Inl (body_overflow limit)
      else let needed = bytes + length v
           in res_bind (buffer_set (grow junk limit needed bytes buffer) v bytes)
                (\<lambda>buffer'. read_loop junk limit buffer' needed items))"

definition initial_buffer :: "(nat \<Rightarrow> byte) \<Rightarrow> nat \<Rightarrow> bytes" where
  "initial_buffer junk limit = allocUnsafe junk (min limit (64 * 1024))"

text \<open>\<open>re_released\<close> records the \<open>finally\<close>, which both ways out of the stream pass: it is true wherever a reader was taken.\<close>

definition readResponseText ::
  "(bytes \<Rightarrow> 'text) \<Rightarrow> (nat \<Rightarrow> byte) \<Rightarrow> response_body \<Rightarrow> nat \<Rightarrow> (js_error, 'text) result \<times> reader_end option" where
  "readResponseText decode junk response limit =
     (if isFinite (rb_declared response) \<and> js_less (js_int (int limit)) (rb_declared response)
      then (Inl (body_overflow limit), None)
      else case rb_stream response of
          None \<Rightarrow> (res_bind (rb_text response) (\<lambda>t.
            if length t > limit then Inl (body_overflow limit) else Inr (decode t)), None)
        | Some items \<Rightarrow>
            (case read_loop junk limit (initial_buffer junk limit) 0 items of
               Inl e \<Rightarrow> (Inl e, Some \<lparr>re_cancelled = True, re_released = True\<rparr>)
             | Inr (buffer, bytes) \<Rightarrow>
                 (Inr (decode (take bytes buffer)), Some \<lparr>re_cancelled = False, re_released = True\<rparr>)))"

section \<open>The loop\<close>

lemma length_allocUnsafe [simp]: "length (allocUnsafe junk n) = n"
  by (simp add: allocUnsafe_def)

lemma grow_props:
  assumes "bytes \<le> length buffer" and "length buffer \<le> limit" and "bytes \<le> needed" and "needed \<le> limit"
  shows "needed \<le> length (grow junk limit needed bytes buffer)"
    and "length (grow junk limit needed bytes buffer) \<le> limit"
    and "take bytes (grow junk limit needed bytes buffer) = take bytes buffer"
  using assms by (auto simp: grow_def buffer_copy_def min_def)

lemma read_loop_spec:
  assumes "bytes \<le> length buffer" and "length buffer \<le> limit"
  shows "if bytes + length (concat cs) \<le> limit
    then \<exists>buffer'. read_loop junk limit buffer bytes (map Chunk cs) = Inr (buffer', bytes + length (concat cs)) \<and>
      take (bytes + length (concat cs)) buffer' = take bytes buffer @ concat cs \<and>
      bytes + length (concat cs) \<le> length buffer' \<and> length buffer' \<le> limit
    else read_loop junk limit buffer bytes (map Chunk cs) = Inl (body_overflow limit)"
  using assms
proof (induction cs arbitrary: buffer bytes)
  case Nil
  then show ?case by auto
next
  case (Cons v cs)
  show ?case
  proof (cases "bytes + length v \<le> limit")
    case False
    then show ?thesis by auto
  next
    case True
    let ?n = "bytes + length v"
    let ?g = "grow junk limit ?n bytes buffer"
    let ?b = "take bytes ?g @ v @ drop ?n ?g"
    note g = grow_props [OF Cons.prems le_add1 True, of junk]
    have "?n \<le> length ?b" "length ?b \<le> limit" using g(1,2) by auto
    note ih = Cons.IH [OF this]
    have "take ?n ?b = take bytes buffer @ v"
      using g(1,3) Cons.prems(1) by simp
    moreover have "read_loop junk limit buffer bytes (map Chunk (v # cs)) =
        read_loop junk limit ?b ?n (map Chunk cs)"
      using True g(1) by (simp add: buffer_set_def Let_def)
    ultimately show ?thesis using ih by (auto simp: add.assoc split: if_splits)
  qed
qed

section \<open>Properties\<close>

text \<open>C31: reading a streamed body whose declared length is not over the limit yields the text of the bytes
  received, in order, for every division into chunks and whatever the allocator leaves in its buffers, when
  they fit the limit; otherwise it fails with the overflow error. Either way the lock is released, and the
  reader is cancelled exactly on failure.\<close>

theorem readResponseText_exact:
  "readResponseText decode junk \<lparr>rb_declared = declared, rb_stream = Some (map Chunk cs), rb_text = t\<rparr> limit =
     (if isFinite declared \<and> js_less (js_int (int limit)) declared then (Inl (body_overflow limit), None)
      else if length (concat cs) \<le> limit
      then (Inr (decode (concat cs)), Some \<lparr>re_cancelled = False, re_released = True\<rparr>)
      else (Inl (body_overflow limit), Some \<lparr>re_cancelled = True, re_released = True\<rparr>))"
  using read_loop_spec [of 0 "initial_buffer junk limit" limit cs junk]
  by (auto simp: readResponseText_def initial_buffer_def split: if_splits)

end
