(* ===== verification/Discovery.thy ===== *)
theory Discovery
  imports Json_Schemas Http Player
begin

text \<open>
  \<open>packages/tiktok-live/src/discovery.ts\<close>: the unsigned endpoints. A response is untrusted: every one is
  parsed, validated against its schema and only then read. The values returned to the caller are built as
  JSON objects with the source's keys in the source's order, so that they can be compared with the public
  schemas. The network and the runtime are the record \<open>web\<close>: what \<open>fetch\<close> yields for a URL and cookie,
  \<open>JSON.parse\<close>, the UTF-8 decoder, the \<open>URL\<close> parser and the depth of the call stack.

  Shown: a validated response never makes the extraction throw; what \<open>roomLookup\<close> and \<open>liveChannels\<close> return
  conforms to the published schema, and a room is reported live only with status 2 and a usable room id;
  \<open>liveChannels\<close> returns its rooms by falling viewer count; the gift table is keyed by decimal ids.
\<close>

definition WEBCAST_BASE :: string where "WEBCAST_BASE = ''https://webcast.tiktok.com/webcast''"
definition ROOM_STATUS_LIVE :: int where "ROOM_STATUS_LIVE = 2"
definition BODY_LIMIT :: nat where "BODY_LIMIT = 16 * 1024 * 1024"

section \<open>URLs\<close>

definition strip_at :: "string \<Rightarrow> string" where
  "strip_at uniqueId = drop_prefix ''@'' uniqueId"

definition roomLookupUrl :: "string \<Rightarrow> string" where
  "roomLookupUrl uniqueId =
     ''https://www.tiktok.com/api-live/user/room/?aid='' @ AID @ ''&sourceType=54&uniqueId='' @
     encodeURIComponent (strip_at uniqueId)"

definition webcastUrl :: "string \<Rightarrow> string \<Rightarrow> string" where
  "webcastUrl path roomId =
     WEBCAST_BASE @ ''/'' @ path @ ''/?aid='' @ AID @ ''&app_language=en&device_platform=web&room_id='' @
     encodeURIComponent roomId"

definition roomInfoUrl :: "string \<Rightarrow> string" where
  "roomInfoUrl roomId = webcastUrl ''room/info'' roomId"

definition giftListUrl :: "string \<Rightarrow> string" where
  "giftListUrl roomId = webcastUrl ''gift/list'' roomId"

definition search_pairs :: "string \<Rightarrow> int \<Rightarrow> (string \<times> string) list" where
  "search_pairs keyword offset =
     [(''aid'', AID), (''app_language'', ''en''), (''app_name'', ''tiktok_web''),
      (''browser_language'', ''en-US''), (''browser_name'', ''Mozilla''),
      (''browser_platform'', ''Linux x86_64''), (''browser_version'', ''5.0 (X11)''),
      (''cookie_enabled'', ''true''), (''count'', ''20''), (''device_platform'', ''web_pc''),
      (''focus_state'', ''true''), (''from_page'', ''search''), (''history_len'', ''4''),
      (''is_fullscreen'', ''false''), (''is_page_visible'', ''true''), (''keyword'', keyword),
      (''offset'', int_str offset), (''os'', ''linux''), (''priority_region'', ''US''), (''region'', ''US''),
      (''screen_height'', ''1080''), (''screen_width'', ''1920''), (''tz_name'', ''America/New_York''),
      (''webcast_language'', ''en'')]"

definition liveSearchUrl :: "string \<Rightarrow> int \<Rightarrow> string" where
  "liveSearchUrl keyword offset =
     ''https://www.tiktok.com/api/search/live/full/?'' @
     js_join ''&'' (map (\<lambda>(k, v). k @ ''='' @ encodeURIComponent v) (search_pairs keyword offset))"

section \<open>Reading validated values\<close>

text \<open>\<open>v ?? d\<close>, \<open>Boolean(v)\<close> and \<open>v === n\<close>.\<close>

definition nullish :: "json option \<Rightarrow> json \<Rightarrow> json" where
  "nullish v d = (case v of None \<Rightarrow> d | Some JNull \<Rightarrow> d | Some x \<Rightarrow> x)"

definition nullish_opt :: "json option \<Rightarrow> json option \<Rightarrow> json option" where
  "nullish_opt v w = (case v of None \<Rightarrow> w | Some JNull \<Rightarrow> w | Some x \<Rightarrow> Some x)"

fun j_truthy :: "json option \<Rightarrow> bool" where
  "j_truthy None = False"
| "j_truthy (Some JNull) = False"
| "j_truthy (Some (JBool b)) = b"
| "j_truthy (Some (JNum n)) = (\<not> (n = js_int 0 \<or> n = NegZero \<or> n = NaN))"
| "j_truthy (Some (JStr s)) = (s \<noteq> [])"
| "j_truthy (Some _) = True"

definition j_is_num :: "json option \<Rightarrow> int \<Rightarrow> bool" where
  "j_is_num v i = (case v of Some (JNum n) \<Rightarrow> js_strict_eq n (js_int i) | _ \<Rightarrow> False)"

definition j_elems :: "json option \<Rightarrow> json list" where
  "j_elems v = (case v of Some (JArr xs) \<Rightarrow> xs | _ \<Rightarrow> [])"

definition firstUrl :: "json option \<Rightarrow> json" where
  "firstUrl img = (case j_elems (j_opt img ''url_list'') of [] \<Rightarrow> JStr [] | u # _ \<Rightarrow> nullish (Some u) (JStr []))"

text \<open>The \<open>WebcastRefusal\<close> constructor: \<open>message || default\<close>.\<close>

definition WebcastRefusal :: "json option \<Rightarrow> json option \<Rightarrow> js_error" where
  "WebcastRefusal status message =
     (let code = (case status of Some (JNum n) \<Rightarrow> int_val n | _ \<Rightarrow> 0)
      in WebcastRefusalErr code (case message of
           Some (JStr m) \<Rightarrow> if m \<noteq> [] then m else ''TikTok refused the request (status_code='' @ int_str code @ '')''
         | _ \<Rightarrow> ''TikTok refused the request (status_code='' @ int_str code @ '')''))"

fun parseId :: "json option \<Rightarrow> (js_error, string) result" where
  "parseId (Some (JStr s)) = (if numeric_string s then Inr s else Inl (TypeErr ''invalid or precision-unsafe id''))"
| "parseId (Some (JNum n)) =
     (if isSafeInteger n \<and> js_le (js_int 0) n then Inr (int_str (int_val n))
      else Inl (TypeErr ''invalid or precision-unsafe id''))"
| "parseId _ = Inl (TypeErr ''invalid or precision-unsafe id'')"

section \<open>Requests\<close>

record http_response =
  hr_ok :: bool
  hr_status :: int
  hr_body :: response_body

record web =
  web_fetch :: "string \<Rightarrow> string option \<Rightarrow> string \<Rightarrow> (js_error, http_response) result"
  web_parse :: "string \<Rightarrow> (js_error, json) result"
  web_decode :: "bytes \<Rightarrow> string"
  web_junk :: "nat \<Rightarrow> byte"
  web_pathname :: "string \<Rightarrow> string"
  web_host :: host
  web_stack :: nat

record Discovery =
  dc_cookie :: string
  dc_userAgent :: string
  dc_timeoutMs :: int

definition new_Discovery :: "string option \<Rightarrow> string option \<Rightarrow> int option \<Rightarrow> Discovery" where
  "new_Discovery cookie userAgent timeoutMs =
     \<lparr>dc_cookie = (case cookie of Some c \<Rightarrow> c | None \<Rightarrow> []),
      dc_userAgent = (case userAgent of Some u \<Rightarrow> u | None \<Rightarrow> USER_AGENT),
      dc_timeoutMs = (case timeoutMs of Some t \<Rightarrow> t | None \<Rightarrow> 10000)\<rparr>"

definition setCookie :: "string \<Rightarrow> Discovery \<Rightarrow> Discovery" where
  "setCookie cookie d = d\<lparr>dc_cookie := cookie\<rparr>"

definition body_json :: "web \<Rightarrow> response_body \<Rightarrow> (js_error, json) result" where
  "body_json w body = (case rb_stream body of
       Some _ \<Rightarrow> res_bind (fst (readResponseText (web_decode w) (web_junk w) body BODY_LIMIT)) (web_parse w)
     | None \<Rightarrow> res_bind (rb_text body) (\<lambda>t. web_parse w (web_decode w t)))"

definition discovery_json ::
  "web \<Rightarrow> Discovery \<Rightarrow> string \<Rightarrow> string \<Rightarrow> json \<Rightarrow> (js_error, json) result" where
  "discovery_json w d url endpoint schema =
     res_bind (web_fetch w url (if dc_cookie d \<noteq> [] then Some (dc_cookie d) else None) (dc_userAgent d)) (\<lambda>response.
       if \<not> hr_ok response
       then Inl (Err (''HTTP '' @ int_str (hr_status response) @ '' from '' @ web_pathname w url))
       else case body_json w (hr_body response) of
           Inl _ \<Rightarrow> Inl (TypeErr (''Invalid '' @ endpoint @ '': $ expected valid JSON''))
         | Inr raw \<Rightarrow> validateJson (web_stack w) (web_host w) raw schema endpoint)"

text \<open>What each method does with its validated body.\<close>

definition lookup_of :: "string \<Rightarrow> json \<Rightarrow> (js_error, json) result" where
  "lookup_of uniqueId body =
     (let data = j_get body ''data''; user = j_opt data ''user''
      in if \<not> j_truthy user then Inl (Err (''no room data for @'' @ strip_at uniqueId))
         else let liveRoom = j_opt data ''liveRoom'';
                  status = nullish (nullish_opt (j_opt user ''status'') (j_opt liveRoom ''status'')) (jint 0)
              in res_bind (if j_truthy (j_opt user ''roomId'') then parseId (j_opt user ''roomId'') else Inr []) (\<lambda>roomId.
                   Inr (JObj [(''uniqueId'', nullish (j_opt user ''uniqueId'') (JStr (strip_at uniqueId))),
                     (''roomId'', JStr roomId), (''nickname'', nullish (j_opt user ''nickname'') (JStr [])),
                     (''status'', status), (''title'', nullish (j_opt liveRoom ''title'') (JStr [])),
                     (''isLive'', JBool (j_is_num (Some status) ROOM_STATUS_LIVE \<and> roomId \<noteq> [] \<and> roomId \<noteq> ''0''))])))"

definition roomLookup :: "web \<Rightarrow> Discovery \<Rightarrow> string \<Rightarrow> (js_error, json) result" where
  "roomLookup w d uniqueId =
     res_bind (discovery_json w d (roomLookupUrl uniqueId) ''TikTok room lookup response''
       TikTokRoomLookupResponseSchema) (lookup_of uniqueId)"

definition info_of :: "string \<Rightarrow> json \<Rightarrow> (js_error, json) result" where
  "info_of roomId body =
     (if \<not> j_is_num (j_get body ''status_code'') 0
      then Inl (WebcastRefusal (j_get body ''status_code'') (j_opt (j_get body ''data'') ''message''))
      else let data = nullish_opt (j_get body ''data'') (Some (JObj []));
               stats = nullish_opt (j_opt data ''stats'') (Some (JObj []));
               owner = nullish_opt (j_opt data ''owner'') (Some (JObj []))
           in Inr (JObj [(''roomId'', nullish (j_opt data ''id_str'') (JStr roomId)),
                (''title'', nullish (j_opt data ''title'') (JStr [])),
                (''status'', nullish (j_opt data ''status'') (jint 0)),
                (''viewers'', nullish (nullish_opt (j_opt stats ''total_user'') (j_opt data ''user_count'')) (jint 0)),
                (''likes'', nullish (j_opt stats ''like_count'') (jint 0)),
                (''comments'', nullish (j_opt stats ''comment_count'') (jint 0)),
                (''shares'', nullish (j_opt stats ''share_count'') (jint 0)),
                (''follows'', nullish (j_opt stats ''follow_count'') (jint 0)),
                (''coverUrl'', firstUrl (j_opt data ''cover'')),
                (''shareUrl'', nullish (j_opt data ''share_url'') (JStr [])),
                (''owner'', JObj [(''userId'', nullish (j_opt owner ''id_str'') (JStr [])),
                  (''uniqueId'', nullish (j_opt owner ''display_id'') (JStr [])),
                  (''nickname'', nullish (j_opt owner ''nickname'') (JStr [])),
                  (''secUid'', nullish (j_opt owner ''sec_uid'') (JStr [])),
                  (''avatarUrl'', firstUrl (j_opt owner ''avatar_thumb'')),
                  (''followerCount'', nullish (j_opt (j_opt owner ''follow_info'') ''follower_count'') (jint 0))])]))"

definition roomInfo :: "web \<Rightarrow> Discovery \<Rightarrow> string \<Rightarrow> (js_error, json) result" where
  "roomInfo w d roomId =
     res_bind (discovery_json w d (roomInfoUrl roomId) ''TikTok room info response''
       TikTokRoomInfoResponseSchema) (info_of roomId)"

definition gift_of :: "json \<Rightarrow> (js_error, string \<times> json) result" where
  "gift_of gift = res_bind (parseId (j_get gift ''id'')) (\<lambda>id.
     Inr (id, JObj [(''id'', JStr id), (''name'', nullish (j_get gift ''name'') (JStr [])),
       (''describe'', nullish (j_get gift ''describe'') (JStr [])),
       (''diamondCount'', nullish (j_get gift ''diamond_count'') (jint 0)),
       (''combo'', JBool (j_truthy (j_get gift ''combo''))),
       (''giftType'', nullish (j_get gift ''type'') (jint 0)),
       (''iconUrl'', firstUrl (j_get gift ''icon''))]))"

definition gifts_of :: "json \<Rightarrow> (js_error, (string \<times> json) list) result" where
  "gifts_of body =
     (if \<not> j_is_num (j_get body ''status_code'') 0
      then Inl (WebcastRefusal (j_get body ''status_code'') (j_opt (j_get body ''data'') ''message''))
      else res_bind (res_map gift_of (j_elems (j_opt (j_get body ''data'') ''gifts''))) (\<lambda>gs.
        Inr (fold (\<lambda>(k, g). obj_put k g) gs [])))"

definition giftList :: "web \<Rightarrow> Discovery \<Rightarrow> string \<Rightarrow> (js_error, (string \<times> json) list) result" where
  "giftList w d roomId =
     res_bind (discovery_json w d (giftListUrl roomId) ''TikTok gift list response''
       TikTokGiftListResponseSchema) gifts_of"

text \<open>One iteration of the search loop: \<open>Inr None\<close> is \<open>continue\<close>.\<close>

definition search_room :: "web \<Rightarrow> json \<Rightarrow> (js_error, json option) result" where
  "search_room w item = (case j_opt (j_get item ''live_info'') ''raw_data'' of
       Some (JStr rawData) \<Rightarrow>
         if rawData = [] then Inr None
         else (case web_parse w rawData of
             Inl _ \<Rightarrow> Inr None
           | Inr rawRoom \<Rightarrow>
               (case validateJson (web_stack w) (web_host w) rawRoom TikTokSearchRoomSchema ''TikTok live search room'' of
                  Inl _ \<Rightarrow> Inr None
                | Inr room \<Rightarrow>
                    if \<not> j_is_num (j_get room ''status'') ROOM_STATUS_LIVE \<or> \<not> j_truthy (j_get room ''id_str'')
                    then Inr None
                    else let owner = j_get room ''owner'';
                             uniqueId = nullish (j_opt owner ''display_id'') (JStr [])
                         in res_bind (parseId (j_get room ''id_str'')) (\<lambda>roomId.
                              if \<not> j_truthy (Some uniqueId) \<or> roomId = [] \<or> roomId = ''0'' then Inr None
                              else Inr (Some (JObj [(''uniqueId'', uniqueId), (''roomId'', JStr roomId),
                                (''nickname'', nullish (j_opt owner ''nickname'') (JStr [])),
                                (''title'', nullish (j_get room ''title'') (JStr [])),
                                (''viewers'', nullish (j_get room ''user_count'') (jint 0))])))))
     | _ \<Rightarrow> Inr None)"

definition viewers_of :: "json \<Rightarrow> int" where
  "viewers_of room = (case j_get room ''viewers'' of Some (JNum n) \<Rightarrow> int_val n | _ \<Rightarrow> 0)"

definition channels_of :: "web \<Rightarrow> json \<Rightarrow> (js_error, json list) result" where
  "channels_of w body =
     (if j_truthy (j_get body ''status_code'')
      then Inl (WebcastRefusal (j_get body ''status_code'') (j_get body ''status_msg''))
      else res_bind (res_map (search_room w) (j_elems (j_get body ''data''))) (\<lambda>rooms.
        Inr (sort_key (\<lambda>r. - viewers_of r) (concat (map (\<lambda>r. case r of Some x \<Rightarrow> [x] | None \<Rightarrow> []) rooms)))))"

definition liveChannels :: "web \<Rightarrow> Discovery \<Rightarrow> string \<Rightarrow> (js_error, json list) result" where
  "liveChannels w d keyword =
     res_bind (discovery_json w d (liveSearchUrl keyword 0) ''TikTok live search response''
       TikTokLiveSearchResponseSchema) (channels_of w)"

section \<open>Reading what a schema admits\<close>

lemma admits_field:
  assumes "admits h (JObj s) v" and "j_get v k = Some x" and "obj_get (schema_props (JObj s)) k = Some sub"
  shows "admits h sub x"
proof -
  from assms(2) obtain ps where v: "v = JObj ps" and x: "obj_get ps k = Some x" by (cases v) auto
  from assms(3) have "(k, sub) \<in> set (schema_props (JObj s))" by (rule obj_get_mem)
  with assms(1) x show ?thesis
    unfolding v by (subst (asm) admits.simps) (auto split: option.splits)
qed

lemma admits_items:
  assumes "admits h (JObj s) (JArr vs)" and "j_get (JObj s) ''items'' = Some it" and "truthy_schema it"
  shows "\<forall>x \<in> set vs. admits h it x"
  using assms by (subst (asm) admits.simps) auto

lemma admits_typed:
  assumes "admits h (JObj s) v"
  shows "schema_types (JObj s) = [''string''] \<Longrightarrow> \<exists>t. v = JStr t"
    and "schema_types (JObj s) = [''integer''] \<Longrightarrow> \<exists>n. v = JNum n \<and> isInteger n"
    and "schema_types (JObj s) = [''boolean''] \<Longrightarrow> \<exists>b. v = JBool b"
    and "schema_types (JObj s) = [''object''] \<Longrightarrow> \<exists>ps. v = JObj ps"
    and "schema_types (JObj s) = [''array''] \<Longrightarrow> \<exists>vs. v = JArr vs"
  using assms
  by (subst (asm) admits.simps; cases v; auto simp: type_ok_def matchesType_def)+

lemma admits_pattern:
  "admits h (JObj s) (JStr t) \<Longrightarrow> schema_str (JObj s) ''pattern'' = Some p \<Longrightarrow> p \<noteq> [] \<Longrightarrow> RegExp_test p t = Inr True"
  by (subst (asm) admits.simps) (auto simp: string_ok_def)

lemma admits_range:
  "admits h (JObj s) (JNum n) \<Longrightarrow> schema_num (JObj s) ''minimum'' = Some a \<Longrightarrow>
   schema_num (JObj s) ''maximum'' = Some b \<Longrightarrow> \<not> js_less n a \<and> \<not> js_less b n"
  by (subst (asm) admits.simps) (auto simp: number_ok_def below_minimum_def above_maximum_def)

lemmas schema_reads = schema_props_def schema_types_def schema_str_def schema_list_def schema_num_def
  schema_required_def known_keys_def

lemma schema_supported:
  assumes "s \<in> set (response_schemas @ public_schemas)"
  shows "supported s" and "size s < 1000"
  using schemas_supported assms unfolding list_all_iff by blast+

lemma discovery_json_admits:
  assumes "1000 \<le> web_stack w" and "schema \<in> set response_schemas"
    and "discovery_json w d url endpoint schema = Inr v"
  shows "admits (web_host w) schema v"
proof -
  from assms(3) obtain raw where "validateJson (web_stack w) (web_host w) raw schema endpoint = Inr v"
    by (auto simp: discovery_json_def res_bind_Inr_iff split: if_splits sum.splits)
  moreover have "supported schema" "size schema < web_stack w"
    using schema_supported [of schema] assms(1,2) by auto
  ultimately show ?thesis
    using check_decides [of schema "web_stack w" "web_host w" raw "''$''" schema]
    by (auto simp: validateJson_def decides_def split: option.splits)
qed

text \<open>A field that is absent or admitted, with a default of the same kind.\<close>

lemma nullish_string:
  assumes "\<And>x. v = Some x \<Longrightarrow> \<exists>t. x = JStr t"
  shows "\<exists>t. nullish v (JStr d) = JStr t"
  using assms by (cases v) (auto simp: nullish_def)

lemma nullish_integer:
  assumes "\<And>x. v = Some x \<Longrightarrow> \<exists>n. x = JNum n \<and> isInteger n"
  shows "\<exists>n. nullish v (jint i) = JNum n \<and> isInteger n"
  using assms by (cases v) (auto simp: nullish_def is_integral_def)

lemma j_opt_Some: "j_opt v k = Some x \<longleftrightarrow> (\<exists>u. v = Some u \<and> j_get u k = Some x)"
  by (cases v) auto

text \<open>The schema and the value at the end of a path of keys.\<close>

fun sub_at :: "json \<Rightarrow> string list \<Rightarrow> json option" where
  "sub_at s [] = Some s"
| "sub_at (JObj s) (k # ks) = (case obj_get (schema_props (JObj s)) k of None \<Rightarrow> None | Some t \<Rightarrow> sub_at t ks)"
| "sub_at _ (k # ks) = None"

definition val_at :: "json \<Rightarrow> string list \<Rightarrow> json option" where
  "val_at v ks = foldl j_opt (Some v) ks"

definition typed_at :: "json \<Rightarrow> string list \<Rightarrow> string \<Rightarrow> bool" where
  "typed_at s ks t \<longleftrightarrow> (case sub_at s ks of Some (JObj f) \<Rightarrow> schema_types (JObj f) = [t] | _ \<Rightarrow> False)"

definition pattern_at :: "json \<Rightarrow> string list \<Rightarrow> string \<Rightarrow> bool" where
  "pattern_at s ks p \<longleftrightarrow> (case sub_at s ks of
     Some (JObj f) \<Rightarrow> schema_types (JObj f) = [''string''] \<and> schema_str (JObj f) ''pattern'' = Some p \<and> p \<noteq> []
   | _ \<Rightarrow> False)"

definition counter_at :: "json \<Rightarrow> string list \<Rightarrow> bool" where
  "counter_at s ks \<longleftrightarrow> (case sub_at s ks of
     Some (JObj f) \<Rightarrow> schema_types (JObj f) = [''integer''] \<and> schema_num (JObj f) ''minimum'' = Some (js_int 0) \<and>
       schema_num (JObj f) ''maximum'' = Some (js_int 9007199254740991)
   | _ \<Rightarrow> False)"

definition counter :: "json \<Rightarrow> bool" where
  "counter v \<longleftrightarrow> (\<exists>n. v = JNum n \<and> isInteger n \<and> \<not> js_less n (js_int 0) \<and> \<not> js_less (js_int 9007199254740991) n)"

lemma foldl_j_opt_None [simp]: "foldl j_opt None ks = None"
  by (induction ks) auto

lemma admits_at:
  "admits h s v \<Longrightarrow> sub_at s ks = Some t \<Longrightarrow> val_at v ks = Some x \<Longrightarrow> admits h t x"
proof (induction s ks arbitrary: v rule: sub_at.induct)
  case (2 s k ks)
  from 2(3) obtain u where u: "obj_get (schema_props (JObj s)) k = Some u" "sub_at u ks = Some t"
    by (auto split: option.splits)
  from 2(4) obtain y where y: "j_get v k = Some y" "val_at y ks = Some x"
    by (cases "j_get v k") (auto simp: val_at_def)
  from 2(1) [OF u(1) admits_field [OF 2(2) y(1) u(1)] u(2) y(2)] show ?case .
qed (simp_all add: val_at_def)

lemma typed_at_value:
  assumes "admits h s v" and "val_at v ks = Some x"
  shows "typed_at s ks ''string'' \<Longrightarrow> \<exists>t. x = JStr t"
    and "typed_at s ks ''integer'' \<Longrightarrow> \<exists>n. x = JNum n \<and> isInteger n"
    and "typed_at s ks ''object'' \<Longrightarrow> \<exists>ps. x = JObj ps"
    and "typed_at s ks ''array'' \<Longrightarrow> \<exists>vs. x = JArr vs"
    and "pattern_at s ks p \<Longrightarrow> \<exists>t. x = JStr t \<and> RegExp_test p t = Inr True"
    and "counter_at s ks \<Longrightarrow> counter x"
  using admits_at [OF assms(1) _ assms(2)] admits_typed admits_pattern admits_range
  by (fastforce simp: typed_at_def pattern_at_def counter_at_def counter_def split: option.splits json.splits)+

section \<open>What the methods return\<close>

lemma lookup_schema_fields:
  "pattern_at TikTokRoomLookupResponseSchema [''data'', ''user'', ''roomId''] ''^[0-9]*$''"
  "typed_at TikTokRoomLookupResponseSchema [''data'', ''user'', ''uniqueId''] ''string''"
  "typed_at TikTokRoomLookupResponseSchema [''data'', ''user'', ''nickname''] ''string''"
  "typed_at TikTokRoomLookupResponseSchema [''data'', ''user'', ''status''] ''integer''"
  "typed_at TikTokRoomLookupResponseSchema [''data'', ''liveRoom'', ''status''] ''integer''"
  "typed_at TikTokRoomLookupResponseSchema [''data'', ''liveRoom'', ''title''] ''string''"
  by code_simp+

text \<open>The objects of the public schemas.\<close>

lemma RoomLookupSchema_admits:
  assumes "isInteger n" and "list_all is_digit r"
  shows "admits h RoomLookupSchema (JObj [(''uniqueId'', JStr u), (''roomId'', JStr r), (''nickname'', JStr nick),
     (''status'', JNum n), (''title'', JStr t), (''isLive'', JBool b)])"
  using assms
  by (simp add: admits.simps RoomLookupSchema_def const_ok_def type_ok_def string_ok_def number_ok_def
      below_minimum_def above_maximum_def schema_reads matchesType_def)

lemma lookup_of_conforms:
  assumes "admits h TikTokRoomLookupResponseSchema body"
  shows "(\<exists>u r nick n t b. lookup_of uniqueId body = Inr (JObj [(''uniqueId'', JStr u), (''roomId'', JStr r),
        (''nickname'', JStr nick), (''status'', JNum n), (''title'', JStr t), (''isLive'', JBool b)]) \<and>
        isInteger n \<and> list_all is_digit r \<and> b = (js_strict_eq n (js_int 2) \<and> r \<noteq> [] \<and> r \<noteq> ''0'')) \<or>
     lookup_of uniqueId body = Inl (Err (''no room data for @'' @ strip_at uniqueId))"
proof (cases "j_truthy (j_opt (j_get body ''data'') ''user'')")
  case False
  then show ?thesis by (simp add: lookup_of_def)
next
  case True
  let ?user = "j_opt (j_get body ''data'') ''user''" and ?room = "j_opt (j_get body ''data'') ''liveRoom''"
  note f = typed_at_value [OF assms, unfolded val_at_def]
  have "\<exists>r. (if j_truthy (j_opt ?user ''roomId'') then parseId (j_opt ?user ''roomId'') else Inr []) = Inr r \<and>
      list_all is_digit r"
  proof (cases "j_opt ?user ''roomId''")
    case (Some x)
    with f(5) [OF _ lookup_schema_fields(1), of x] obtain t where "x = JStr t" "list_all is_digit t" by auto
    with Some show ?thesis by (cases "t = []") (simp_all add: numeric_string_def all_digits_def)
  qed simp
  then obtain r where r: "(if j_truthy (j_opt ?user ''roomId'') then parseId (j_opt ?user ''roomId'') else Inr []) = Inr r"
    "list_all is_digit r" by blast
  obtain u where u: "nullish (j_opt ?user ''uniqueId'') (JStr (strip_at uniqueId)) = JStr u"
    using nullish_string [of "j_opt ?user ''uniqueId''"] f(1) [OF _ lookup_schema_fields(2)] by fastforce
  obtain nick where nick: "nullish (j_opt ?user ''nickname'') (JStr []) = JStr nick"
    using nullish_string [of "j_opt ?user ''nickname''"] f(1) [OF _ lookup_schema_fields(3)] by fastforce
  obtain t where t: "nullish (j_opt ?room ''title'') (JStr []) = JStr t"
    using nullish_string [of "j_opt ?room ''title''"] f(1) [OF _ lookup_schema_fields(6)] by fastforce
  have "\<exists>n. x = JNum n \<and> isInteger n"
    if "nullish_opt (j_opt ?user ''status'') (j_opt ?room ''status'') = Some x" for x
    using f(2) [OF _ lookup_schema_fields(4), of x] f(2) [OF _ lookup_schema_fields(5), of x] that
    by (auto simp: nullish_opt_def split: option.splits json.splits)
  then obtain n where n: "nullish (nullish_opt (j_opt ?user ''status'') (j_opt ?room ''status'')) (jint 0) = JNum n"
    "isInteger n"
    using nullish_integer [of "nullish_opt (j_opt ?user ''status'') (j_opt ?room ''status'')" 0] by blast
  show ?thesis
    using True r u nick t n
    by (simp add: lookup_of_def Let_def j_is_num_def ROOM_STATUS_LIVE_def)
qed

lemma search_schema_fields:
  "pattern_at TikTokSearchRoomSchema [''id_str''] ''^[0-9]+$''"
  "typed_at TikTokSearchRoomSchema [''title''] ''string''"
  "typed_at TikTokSearchRoomSchema [''owner'', ''display_id''] ''string''"
  "typed_at TikTokSearchRoomSchema [''owner'', ''nickname''] ''string''"
  "counter_at TikTokSearchRoomSchema [''user_count'']"
  by code_simp+

definition live_room :: "string \<Rightarrow> string \<Rightarrow> string \<Rightarrow> string \<Rightarrow> jsnumber \<Rightarrow> json" where
  "live_room u r nick t n = JObj [(''uniqueId'', JStr u), (''roomId'', JStr r), (''nickname'', JStr nick),
     (''title'', JStr t), (''viewers'', JNum n)]"

lemma LiveRoomSchema_admits:
  assumes "counter (JNum n)" and "numeric_string r"
  shows "admits h LiveRoomSchema (live_room u r nick t n)"
  using assms
  by (simp add: admits.simps LiveRoomSchema_def live_room_def const_ok_def type_ok_def string_ok_def number_ok_def
      below_minimum_def above_maximum_def schema_reads matchesType_def counter_def)

lemma nullish_counter:
  assumes "\<And>x. v = Some x \<Longrightarrow> counter x"
  shows "\<exists>n. nullish v (jint 0) = JNum n \<and> counter (JNum n)"
  using assms by (cases v) (fastforce simp: nullish_def counter_def)+

definition listed_room :: "json \<Rightarrow> bool" where
  "listed_room v \<longleftrightarrow> (\<exists>u i nick t n. v = live_room u i nick t n \<and> u \<noteq> [] \<and> numeric_string i \<and> i \<noteq> ''0'' \<and> counter (JNum n))"

lemma listed_room_conforms:
  "listed_room v \<Longrightarrow> admits h LiveRoomSchema v \<and> (\<exists>u. j_get v ''uniqueId'' = Some (JStr u) \<and> u \<noteq> [])"
  using LiveRoomSchema_admits by (auto simp: listed_room_def live_room_def)

lemma search_room_spec:
  assumes "1000 \<le> web_stack w"
  shows "\<exists>r. search_room w item = Inr r \<and> (case r of None \<Rightarrow> True | Some v \<Rightarrow> listed_room v)"
proof -
  have "\<exists>r. search_room w item = Inr r \<and> (case r of None \<Rightarrow> True | Some v \<Rightarrow> listed_room v)"
    if raw: "j_opt (j_get item ''live_info'') ''raw_data'' = Some (JStr raw)" "raw \<noteq> []" "web_parse w raw = Inr rawRoom"
      and room: "validateJson (web_stack w) (web_host w) rawRoom TikTokSearchRoomSchema ''TikTok live search room'' = Inr room"
      and live: "j_is_num (j_get room ''status'') ROOM_STATUS_LIVE" "j_truthy (j_get room ''id_str'')"
    for raw rawRoom room
  proof -
    have "supported TikTokSearchRoomSchema" "size TikTokSearchRoomSchema < web_stack w"
      using schema_supported [of TikTokSearchRoomSchema] assms by (auto simp: response_schemas_def)
    with room check_decides [of TikTokSearchRoomSchema "web_stack w" "web_host w" rawRoom "''$''" TikTokSearchRoomSchema]
    have ok: "admits (web_host w) TikTokSearchRoomSchema room"
      by (auto simp: validateJson_def decides_def split: option.splits)
    note f = typed_at_value [OF ok, unfolded val_at_def]
    obtain i where i: "j_get room ''id_str'' = Some (JStr i)" "numeric_string i"
      using live(2) f(5) [OF _ search_schema_fields(1)] by (cases "j_get room ''id_str''") auto
    obtain u where u: "nullish (j_opt (j_get room ''owner'') ''display_id'') (JStr []) = JStr u"
      using nullish_string [of "j_opt (j_get room ''owner'') ''display_id''"] f(1) [OF _ search_schema_fields(3)] by fastforce
    obtain nick where nick: "nullish (j_opt (j_get room ''owner'') ''nickname'') (JStr []) = JStr nick"
      using nullish_string [of "j_opt (j_get room ''owner'') ''nickname''"] f(1) [OF _ search_schema_fields(4)] by fastforce
    obtain t where t: "nullish (j_get room ''title'') (JStr []) = JStr t"
      using nullish_string [of "j_get room ''title''"] f(1) [OF _ search_schema_fields(2)] by fastforce
    obtain n where n: "nullish (j_get room ''user_count'') (jint 0) = JNum n" "counter (JNum n)"
      using nullish_counter [of "j_get room ''user_count''"] f(6) [OF _ search_schema_fields(5)] by fastforce
    show ?thesis
      using raw room live i u nick t n
      by (cases "u = [] \<or> i = ''0''") (auto simp: search_room_def Let_def live_room_def listed_room_def)
  qed
  then show ?thesis
    by (cases "j_opt (j_get item ''live_info'') ''raw_data''")
      (fastforce simp: search_room_def Let_def split: json.split sum.split)+
qed

text \<open>The schema of one gift.\<close>

definition gift_item_schema :: json where
  "gift_item_schema = (case sub_at TikTokGiftListResponseSchema [''data'', ''gifts''] of
     Some g \<Rightarrow> (case j_get g ''items'' of Some it \<Rightarrow> it | None \<Rightarrow> JNull) | None \<Rightarrow> JNull)"

definition gift_fields :: "(string \<times> json) list" where
  "gift_fields = (case gift_item_schema of JObj ps \<Rightarrow> ps | _ \<Rightarrow> [])"

lemma gift_schema_facts:
  "typed_at TikTokGiftListResponseSchema [''data'', ''gifts''] ''array''"
  "gift_item_schema = JObj gift_fields"
  "truthy_schema gift_item_schema"
  "''id'' \<in> set (schema_required gift_item_schema)"
  "schema_types gift_item_schema = [''object'']"
  by code_simp+

lemma gift_schema_items:
  "\<exists>g. sub_at TikTokGiftListResponseSchema [''data'', ''gifts''] = Some (JObj g) \<and>
     j_get (JObj g) ''items'' = Some gift_item_schema"
  by (simp add: TikTokGiftListResponseSchema_def gift_item_schema_def schema_props_def)

lemma gift_id_schema:
  "sub_at gift_item_schema [''id''] = Some (JObj [
     (''anyOf'', JArr [
        JObj [(''type'', JStr ''string''), (''pattern'', JStr ''^[0-9]+$''), (''x-expected'', JStr ''numeric string'')],
        JObj [(''type'', JStr ''integer''), (''minimum'', jint 0), (''maximum'', jint 9007199254740991)]]),
     (''x-expected'', JStr ''numeric string or safe integer'')])"
  by (simp add: gift_item_schema_def TikTokGiftListResponseSchema_def schema_props_def)

lemma gift_id_admitted:
  assumes "admits h (JObj [
     (''anyOf'', JArr [
        JObj [(''type'', JStr ''string''), (''pattern'', JStr ''^[0-9]+$''), (''x-expected'', JStr ''numeric string'')],
        JObj [(''type'', JStr ''integer''), (''minimum'', jint 0), (''maximum'', jint 9007199254740991)]]),
     (''x-expected'', JStr ''numeric string or safe integer'')]) x"
  shows "(\<exists>t. x = JStr t \<and> numeric_string t) \<or> counter x"
  using assms
  by (cases x) (simp_all add: admits.simps const_ok_def type_ok_def string_ok_def number_ok_def
      below_minimum_def above_maximum_def schema_reads matchesType_def counter_def)

lemma parseId_counter:
  assumes "counter x"
  shows "\<exists>i. parseId (Some x) = Inr i \<and> numeric_string i"
proof -
  from assms obtain n where n: "x = JNum n" "isInteger n" "\<not> js_less n (js_int 0)"
    "\<not> js_less (js_int 9007199254740991) n" by (auto simp: counter_def)
  show ?thesis
  proof (cases n)
    case (Fin q)
    with n(2) obtain i where i: "q = of_int i" by (auto elim: is_integralE)
    with n(3,4) Fin have "0 \<le> i" "i \<le> 9007199254740991"
      by (auto simp: not_less)
    then have "safe_int i" by (simp add: safe_int_def MAX_SAFE_INTEGER_def)
    with \<open>0 \<le> i\<close> show ?thesis
      using n(1) Fin i int_str_numeric_iff [of i] by (simp del: isSafeInteger.simps)
  next
    case NegZero
    have "int_val NegZero = 0" by (simp add: int_val_def)
    with NegZero n(1) int_str_numeric_iff [of 0] show ?thesis by simp
  qed (use n(2) in simp_all)
qed

lemma gift_of_spec:
  assumes "admits h gift_item_schema gift"
  shows "\<exists>k g. gift_of gift = Inr (k, g) \<and> numeric_string k \<and> j_get g ''id'' = Some (JStr k)"
proof -
  from assms gift_schema_facts(2,5) obtain ps where ps: "gift = JObj ps"
    using admits_typed(4) [of h gift_fields gift] by auto
  have "obj_get ps ''id'' \<noteq> None"
    using assms [unfolded gift_schema_facts(2) ps] gift_schema_facts(4) [unfolded gift_schema_facts(2)]
    by (subst (asm) admits.simps) auto
  then obtain x where x: "j_get gift ''id'' = Some x" using ps by auto
  then have "admits h (the (sub_at gift_item_schema [''id''])) x"
    using admits_at [OF assms, of "[''id'']" _ x] gift_id_schema by (simp add: val_at_def)
  then have "(\<exists>t. x = JStr t \<and> numeric_string t) \<or> counter x"
    using gift_id_admitted gift_id_schema by simp
  then obtain i where "parseId (j_get gift ''id'') = Inr i" "numeric_string i"
    using x parseId_counter by auto
  then show ?thesis by (simp add: gift_of_def)
qed

lemma res_map_total:
  assumes "\<And>x. x \<in> set xs \<Longrightarrow> \<exists>y. f x = Inr y \<and> P y"
  shows "\<exists>ys. res_map f xs = Inr ys \<and> list_all P ys"
  using assms
proof (induction xs)
  case (Cons x xs)
  then obtain ys where "res_map f xs = Inr ys" "list_all P ys" by auto
  moreover obtain y where "f x = Inr y" "P y" using Cons.prems by auto
  ultimately show ?case by simp
qed simp

lemma fold_put_keys:
  assumes "list_all P gs" and "list_all P acc" and "obj_wf acc"
  shows "obj_wf (fold (\<lambda>(k, g). obj_put k g) gs acc) \<and> list_all P (fold (\<lambda>(k, g). obj_put k g) gs acc)"
  using assms
proof (induction gs arbitrary: acc)
  case (Cons p gs)
  obtain k g where p: "p = (k, g)" by (cases p)
  have "set (obj_put k g acc) \<subseteq> insert (k, g) (set acc)"
    by (induction k g acc rule: obj_put.induct) auto
  with Cons.prems have "list_all P (obj_put k g acc)" "obj_wf (obj_put k g acc)"
    by (auto simp: p list_all_iff intro: obj_wf_put)
  with Cons show ?case by (simp add: p)
qed simp

lemma gift_items_admitted:
  assumes "admits h TikTokGiftListResponseSchema body" and "gift \<in> set (j_elems (j_opt (j_get body ''data'') ''gifts''))"
  shows "admits h gift_item_schema gift"
proof (cases "j_opt (j_get body ''data'') ''gifts''")
  case (Some x)
  then have v: "val_at body [''data'', ''gifts''] = Some x" by (simp add: val_at_def)
  obtain vs where vs: "x = JArr vs" using typed_at_value(4) [OF assms(1) v gift_schema_facts(1)] by auto
  obtain g where g: "sub_at TikTokGiftListResponseSchema [''data'', ''gifts''] = Some (JObj g)"
    "j_get (JObj g) ''items'' = Some gift_item_schema" using gift_schema_items by blast
  from admits_items [OF admits_at [OF assms(1) g(1) v, unfolded vs] g(2) gift_schema_facts(3)] Some vs assms(2)
  show ?thesis by (simp add: j_elems_def)
qed (use assms(2) in \<open>simp add: j_elems_def\<close>)

lemma gifts_of_spec:
  assumes "admits h TikTokGiftListResponseSchema body" and "j_is_num (j_get body ''status_code'') 0"
  shows "\<exists>m. gifts_of body = Inr m \<and> obj_wf m \<and>
     list_all (\<lambda>(k, g). numeric_string k \<and> j_get g ''id'' = Some (JStr k)) m"
proof -
  have "\<exists>gs. res_map gift_of (j_elems (j_opt (j_get body ''data'') ''gifts'')) = Inr gs \<and>
      list_all (\<lambda>(k, g). numeric_string k \<and> j_get g ''id'' = Some (JStr k)) gs"
    using gift_of_spec gift_items_admitted [OF assms(1)] by (intro res_map_total) fastforce
  with assms(2) show ?thesis
    using fold_put_keys [of "\<lambda>(k, g). numeric_string k \<and> j_get g ''id'' = Some (JStr k)" _ "[]"]
    by (auto simp: gifts_of_def obj_wf_def)
qed

text \<open>Of the gifts with one id, the table keeps the last.\<close>

lemma fold_put_get:
  "obj_get (fold (\<lambda>(k, g). obj_put k g) gs acc) k = (case map_of (rev gs) k of None \<Rightarrow> obj_get acc k | Some g \<Rightarrow> Some g)"
  by (induction gs arbitrary: acc) (auto simp: map_add_def split: option.splits)

lemma gifts_of_last:
  assumes "gifts_of body = Inr m" and "j_elems (j_opt (j_get body ''data'') ''gifts'') = before @ gift # later"
    and "gift_of gift = Inr (k, g)" and "\<forall>x \<in> set later. parseId (j_get x ''id'') \<noteq> Inr k"
  shows "obj_get m k = Some g"
proof -
  from assms(1) obtain gs where gs: "list_all2 (\<lambda>x y. gift_of x = Inr y) (before @ gift # later) gs"
    and m: "m = fold (\<lambda>(k, g). obj_put k g) gs []"
    by (auto simp: gifts_of_def assms(2) res_bind_Inr_iff res_map_Inr_iff split: if_splits)
  from gs obtain as bs where split_gs: "gs = as @ (k, g) # bs" and bs: "list_all2 (\<lambda>x y. gift_of x = Inr y) later bs"
    using assms(3) by (auto simp: list_all2_append1 list_all2_Cons1)
  from bs assms(4) have "k \<notin> fst ` set bs"
    by (induction rule: list_all2_induct) (auto simp: gift_of_def res_bind_Inr_iff)
  then have "map_of (rev bs) k = None" by (simp add: map_of_eq_None_iff)
  then have "map_of (rev gs) k = Some g" by (simp add: split_gs map_add_def)
  then show ?thesis by (simp add: m fold_put_get)
qed

lemma empty_icon_refused:
  assumes "host_URL h [] = None" and "j_get g ''iconUrl'' = Some (JStr [])"
  shows "\<not> admits h GiftSchema g"
proof
  assume a: "admits h GiftSchema g"
  obtain fs where s: "GiftSchema = JObj fs" by (simp add: GiftSchema_def)
  have "obj_get (schema_props GiftSchema) ''iconUrl'' = Some (JObj [(''type'', JStr ''string''), (''format'', JStr ''uri'')])"
    by (simp add: GiftSchema_def schema_props_def)
  from admits_field [OF a [unfolded s] assms(2) this [unfolded s]] assms(1) show False
    by (simp add: admits.simps string_ok_def isUri_def schema_reads)
qed

section \<open>Properties\<close>

text \<open>C29: what \<open>roomLookup\<close> returns conforms to the published \<open>RoomLookup\<close> schema whatever the server answered,
  and it reports a room live only with status 2 and a room id of decimal digits other than \<open>0\<close>.\<close>

theorem roomLookup_conforms:
  assumes "1000 \<le> web_stack w" and "roomLookup w d uniqueId = Inr v"
  shows "admits (web_host w) RoomLookupSchema v \<and>
    (\<exists>r n. j_get v ''roomId'' = Some (JStr r) \<and> j_get v ''status'' = Some (JNum n) \<and>
       j_get v ''isLive'' = Some (JBool (js_strict_eq n (js_int 2) \<and> numeric_string r \<and> r \<noteq> ''0'')))"
proof -
  from assms(2) obtain body where b: "discovery_json w d (roomLookupUrl uniqueId) ''TikTok room lookup response''
      TikTokRoomLookupResponseSchema = Inr body" and v: "lookup_of uniqueId body = Inr v"
    by (auto simp: roomLookup_def res_bind_Inr_iff)
  have "TikTokRoomLookupResponseSchema \<in> set response_schemas" by (simp add: response_schemas_def)
  from lookup_of_conforms [OF discovery_json_admits [OF assms(1) this b], of uniqueId] v
  show ?thesis
    using RoomLookupSchema_admits by (auto simp: numeric_string_def all_digits_def)
qed

definition example_web :: web where
  "example_web = \<lparr>web_fetch = (\<lambda>url cookie ua. Inr \<lparr>hr_ok = True, hr_status = 200,
      hr_body = \<lparr>rb_declared = js_int 0, rb_stream = None, rb_text = Inr []\<rparr>\<rparr>),
     web_parse = (\<lambda>_. Inr (JObj [(''data'', JObj [(''user'', JObj [(''roomId'', JStr ''7301''), (''status'', jint 2)])])])),
     web_decode = (\<lambda>_. []), web_junk = (\<lambda>_. 0), web_pathname = (\<lambda>u. u),
     web_host = \<lparr>host_URL = (\<lambda>_. None), host_number = (\<lambda>_. [])\<rparr>, web_stack = 1000\<rparr>"

theorem roomLookup_conforms_witness:
  "\<exists>v. roomLookup example_web (new_Discovery None None None) ''@someone'' = Inr v \<and>
     admits (web_host example_web) RoomLookupSchema v \<and> j_get v ''isLive'' = Some (JBool True)"
proof -
  let ?body = "JObj [(''data'', JObj [(''user'', JObj [(''roomId'', JStr ''7301''), (''status'', jint 2)])])]"
  let ?v = "JObj [(''uniqueId'', JStr ''someone''), (''roomId'', JStr ''7301''), (''nickname'', JStr []),
    (''status'', jint 2), (''title'', JStr []), (''isLive'', JBool True)]"
  have s: "supported TikTokRoomLookupResponseSchema" "size TikTokRoomLookupResponseSchema < 1000"
    using schema_supported [of TikTokRoomLookupResponseSchema] by (simp_all add: response_schemas_def)
  have "admits (web_host example_web) TikTokRoomLookupResponseSchema ?body"
    by (simp add: admits.simps TikTokRoomLookupResponseSchema_def const_ok_def type_ok_def string_ok_def
        number_ok_def below_minimum_def above_maximum_def schema_reads matchesType_def is_digit_def code_def)
  then have "validateJson 1000 (web_host example_web) ?body TikTokRoomLookupResponseSchema e = Inr ?body" for e
    using check_decides [OF s, of "web_host example_web" ?body "''$''" TikTokRoomLookupResponseSchema]
    by (auto simp: validateJson_def decides_def)
  then have "discovery_json example_web (new_Discovery None None None) (roomLookupUrl ''@someone'')
      ''TikTok room lookup response'' TikTokRoomLookupResponseSchema = Inr ?body"
    by (simp add: discovery_json_def body_json_def example_web_def)
  moreover have "lookup_of ''@someone'' ?body = Inr ?v" by code_simp
  ultimately have "roomLookup example_web (new_Discovery None None None) ''@someone'' = Inr ?v"
    by (simp add: roomLookup_def)
  moreover have "1000 \<le> web_stack example_web" by (simp add: example_web_def)
  ultimately show ?thesis using roomLookup_conforms [of example_web] by fastforce
qed

text \<open>Once the gift list has been validated, building the table cannot fail: with status code 0 the
  result is a table whose keys are distinct decimal ids, each gift filed under its own id; with any other
  status code the result is a \<open>WebcastRefusal\<close>.\<close>

lemma giftList_total:
  assumes "1000 \<le> web_stack w"
    and "discovery_json w d (giftListUrl roomId) ''TikTok gift list response'' TikTokGiftListResponseSchema = Inr body"
  shows "if j_is_num (j_get body ''status_code'') 0
    then \<exists>m. giftList w d roomId = Inr m \<and> obj_wf m \<and>
      list_all (\<lambda>(k, g). numeric_string k \<and> j_get g ''id'' = Some (JStr k)) m
    else \<exists>code message. giftList w d roomId = Inl (WebcastRefusalErr code message)"
proof -
  have "TikTokGiftListResponseSchema \<in> set response_schemas" by (simp add: response_schemas_def)
  from gifts_of_spec [OF discovery_json_admits [OF assms(1) this assms(2)]] show ?thesis
    using assms(2) by (auto simp: giftList_def gifts_of_def WebcastRefusal_def Let_def)
qed

definition gift_body :: json where
  "gift_body = JObj [(''status_code'', jint 0), (''data'', JObj [(''gifts'', JArr [JObj [(''id'', JStr ''5655'')]])])]"

lemma gift_body_read:
  "1000 \<le> web_stack (example_web\<lparr>web_parse := (\<lambda>_. Inr gift_body)\<rparr>)"
  "discovery_json (example_web\<lparr>web_parse := (\<lambda>_. Inr gift_body)\<rparr>) (new_Discovery None None None) (giftListUrl ''1'')
      ''TikTok gift list response'' TikTokGiftListResponseSchema = Inr gift_body"
  "j_is_num (j_get gift_body ''status_code'') 0"
proof -
  let ?w = "example_web\<lparr>web_parse := (\<lambda>_. Inr gift_body)\<rparr>"
  have s: "supported TikTokGiftListResponseSchema" "size TikTokGiftListResponseSchema < 1000"
    using schema_supported [of TikTokGiftListResponseSchema] by (simp_all add: response_schemas_def)
  have "admits (web_host ?w) TikTokGiftListResponseSchema gift_body"
    by (simp add: admits.simps TikTokGiftListResponseSchema_def gift_body_def const_ok_def type_ok_def string_ok_def
        number_ok_def below_minimum_def above_maximum_def schema_reads matchesType_def truthy_schema_def
        numeric_string_def all_digits_def is_digit_def code_def)
  then have "validateJson 1000 (web_host ?w) gift_body TikTokGiftListResponseSchema e = Inr gift_body" for e
    using check_decides [OF s, of "web_host ?w" gift_body "''$''" TikTokGiftListResponseSchema]
    by (auto simp: validateJson_def decides_def)
  then show "discovery_json ?w (new_Discovery None None None) (giftListUrl ''1'')
      ''TikTok gift list response'' TikTokGiftListResponseSchema = Inr gift_body"
    by (simp add: discovery_json_def body_json_def example_web_def)
  show "1000 \<le> web_stack ?w" "j_is_num (j_get gift_body ''status_code'') 0"
    by (simp_all add: example_web_def gift_body_def j_is_num_def js_strict_eq_def)
qed

lemma giftList_total_witness:
  "\<exists>m. giftList (example_web\<lparr>web_parse := (\<lambda>_. Inr gift_body)\<rparr>) (new_Discovery None None None) ''1'' = Inr m"
  using giftList_total [OF gift_body_read(1,2)] gift_body_read(3) by auto

text \<open>\<open>liveChannels\<close> returns rooms that each conform to the published \<open>LiveRoom\<close> schema and have a handle,
  the most watched first; a malformed room in the feed never makes it fail, so once the search response has
  been validated the only error left is TikTok's own refusal.\<close>

lemma liveChannels_sound:
  assumes "1000 \<le> web_stack w"
    and "discovery_json w d (liveSearchUrl keyword 0) ''TikTok live search response'' TikTokLiveSearchResponseSchema = Inr body"
  shows "case liveChannels w d keyword of
      Inl e \<Rightarrow> j_truthy (j_get body ''status_code'') \<and> (\<exists>code message. e = WebcastRefusalErr code message)
    | Inr rooms \<Rightarrow> sorted (map (\<lambda>r. - viewers_of r) rooms) \<and>
        list_all (\<lambda>r. admits (web_host w) LiveRoomSchema r \<and>
          (\<exists>u. j_get r ''uniqueId'' = Some (JStr u) \<and> u \<noteq> [])) rooms"
proof -
  obtain rs where rs: "res_map (search_room w) (j_elems (j_get body ''data'')) = Inr rs"
    "list_all (\<lambda>r. case r of None \<Rightarrow> True | Some v \<Rightarrow> listed_room v) rs"
    using res_map_total [of "j_elems (j_get body ''data'')" "search_room w", OF search_room_spec [OF assms(1)]]
    by blast
  then have "list_all listed_room (concat (map (\<lambda>r. case r of Some x \<Rightarrow> [x] | None \<Rightarrow> []) rs))"
    by (auto simp: list_all_iff split: option.splits)
  with rs(1) show ?thesis
    using assms(2) listed_room_conforms [of _ "web_host w"]
    by (auto simp: liveChannels_def channels_of_def WebcastRefusal_def Let_def list_all_iff)
qed

definition search_body :: json where
  "search_body = JObj [(''data'', JArr [JObj []])]"

lemma liveChannels_sound_witness:
  "case liveChannels (example_web\<lparr>web_parse := (\<lambda>_. Inr search_body)\<rparr>) (new_Discovery None None None) ''live'' of
      Inl e \<Rightarrow> False | Inr rooms \<Rightarrow> sorted (map (\<lambda>r. - viewers_of r) rooms)"
proof -
  let ?w = "example_web\<lparr>web_parse := (\<lambda>_. Inr search_body)\<rparr>"
  have s: "supported TikTokLiveSearchResponseSchema" "size TikTokLiveSearchResponseSchema < 1000"
    using schema_supported [of TikTokLiveSearchResponseSchema] by (simp_all add: response_schemas_def)
  have "admits (web_host ?w) TikTokLiveSearchResponseSchema search_body"
    by (simp add: admits.simps TikTokLiveSearchResponseSchema_def search_body_def const_ok_def type_ok_def string_ok_def
        number_ok_def below_minimum_def above_maximum_def schema_reads matchesType_def truthy_schema_def)
  then have "validateJson 1000 (web_host ?w) search_body TikTokLiveSearchResponseSchema e = Inr search_body" for e
    using check_decides [OF s, of "web_host ?w" search_body "''$''" TikTokLiveSearchResponseSchema]
    by (auto simp: validateJson_def decides_def)
  then have d: "discovery_json ?w (new_Discovery None None None) (liveSearchUrl ''live'' 0)
      ''TikTok live search response'' TikTokLiveSearchResponseSchema = Inr search_body"
    by (simp add: discovery_json_def body_json_def example_web_def)
  have "1000 \<le> web_stack ?w" "\<not> j_truthy (j_get search_body ''status_code'')"
    by (simp_all add: example_web_def search_body_def)
  with liveChannels_sound [OF _ d] show ?thesis
    by (auto split: sum.splits)
qed

text \<open>C35: \<open>giftList\<close> returns values its own published schema refuses. Whenever TikTok's answer is accepted and lists a gift that names no
  URL of an icon (no \<open>icon\<close>, no \<open>url_list\<close> in it or an empty one), and no later gift of the list has the same id, the table
  \<open>giftList\<close> returns holds for that id a gift with an empty \<open>iconUrl\<close>, which \<open>GiftSchema\<close>, asking for a URI, refuses under every
  \<open>URL\<close> parser that refuses the empty string.\<close>

theorem gift_without_icon_violates_schema:
  assumes "1000 \<le> web_stack w" and "host_URL (web_host w) [] = None"
    and body: "discovery_json w d (giftListUrl roomId) ''TikTok gift list response'' TikTokGiftListResponseSchema = Inr body"
      "j_is_num (j_get body ''status_code'') 0"
    and gift: "j_elems (j_opt (j_get body ''data'') ''gifts'') = before @ gift # later"
      "j_elems (j_opt (j_get gift ''icon'') ''url_list'') = []"
      "\<forall>x \<in> set later. parseId (j_get x ''id'') \<noteq> parseId (j_get gift ''id'')"
  shows "\<exists>m k g. giftList w d roomId = Inr m \<and> parseId (j_get gift ''id'') = Inr k \<and> obj_get m k = Some g \<and>
    j_get g ''iconUrl'' = Some (JStr []) \<and> \<not> admits (web_host w) GiftSchema g"
proof -
  have "TikTokGiftListResponseSchema \<in> set response_schemas" by (simp add: response_schemas_def)
  note admitted = discovery_json_admits [OF assms(1) this body(1)]
  obtain m where m: "gifts_of body = Inr m" using gifts_of_spec [OF admitted body(2)] by blast
  have "gift \<in> set (j_elems (j_opt (j_get body ''data'') ''gifts''))" using gift(1) by simp
  from gift_of_spec [OF gift_items_admitted [OF admitted this]] obtain k g where kg: "gift_of gift = Inr (k, g)" by blast
  then have k: "parseId (j_get gift ''id'') = Inr k" and icon: "j_get g ''iconUrl'' = Some (JStr [])"
    using gift(2) by (auto simp: gift_of_def res_bind_Inr_iff firstUrl_def)
  have "obj_get m k = Some g" using gifts_of_last [OF m gift(1) kg] gift(3) k by simp
  moreover have "giftList w d roomId = Inr m" using body(1) m by (simp add: giftList_def)
  ultimately show ?thesis using k icon empty_icon_refused [OF assms(2) icon] by blast
qed

theorem gift_without_icon_violates_schema_witness:
  "\<exists>m g. giftList (example_web\<lparr>web_parse := (\<lambda>_. Inr gift_body)\<rparr>) (new_Discovery None None None) ''1'' = Inr m \<and>
     obj_get m ''5655'' = Some g \<and> \<not> admits (web_host example_web) GiftSchema g"
proof -
  let ?gift = "JObj [(''id'', JStr ''5655'')]"
  have k: "parseId (j_get ?gift ''id'') = Inr ''5655''" by code_simp
  have "\<exists>m k g. giftList (example_web\<lparr>web_parse := (\<lambda>_. Inr gift_body)\<rparr>) (new_Discovery None None None) ''1'' = Inr m \<and>
      parseId (j_get ?gift ''id'') = Inr k \<and> obj_get m k = Some g \<and> j_get g ''iconUrl'' = Some (JStr []) \<and>
      \<not> admits (web_host (example_web\<lparr>web_parse := (\<lambda>_. Inr gift_body)\<rparr>)) GiftSchema g"
  proof (rule gift_without_icon_violates_schema [OF gift_body_read(1) _ gift_body_read(2,3)])
    show "j_elems (j_opt (j_get gift_body ''data'') ''gifts'') = [] @ ?gift # []" by (simp add: gift_body_def j_elems_def)
  qed (simp_all add: example_web_def j_elems_def)
  moreover have "web_host (example_web\<lparr>web_parse := (\<lambda>_. Inr gift_body)\<rparr>) = web_host example_web" by simp
  ultimately show ?thesis unfolding k by (metis Inr_inject)
qed

end
