(* ===== verification/Events.thy ===== *)
theory Events
  imports Discovery
begin

text \<open>
  \<open>packages/tiktok-live/src/events.ts\<close>: the adapter from generated protobuf messages to the package's
  stable event objects. A message is a record with the fields the adapter reads; an \<open>int64\<close> or
  \<open>int32\<close> field is an \<open>int\<close>. The seven decoders \<open>fromBinary(...Schema, payload)\<close> are the record \<open>decoders\<close>.
  An event is its JSON properties in the order they are assigned, and the raw payload for the \<open>unknown\<close>
  event, whose bytes are not JSON.

  Shown: the emotes of an event are at most 64, with bounded ids and bounded, credential-free \<open>http(s)\<close>
  artwork; \<open>utf8Length\<close> is the UTF-8 length of well-formed UTF-16. The theory \<open>Event_Conformance\<close> relates the
  events to the published schemas.
\<close>

section \<open>Messages\<close>

record ImageModel =
  im_urlList :: "string list"

record User =
  us_id :: int
  us_nickname :: string
  us_displayId :: string
  us_secUid :: string
  us_avatarThumb :: "ImageModel option"
  us_avatarMedium :: "ImageModel option"
  us_avatarLarge :: "ImageModel option"
  us_avatarJpg :: "ImageModel option"

record EmoteModel =
  em_emoteId :: string
  em_image :: "ImageModel option"
  em_emoteType :: int
  em_packageId :: string

record EmoteWithIndex =
  ei_index :: int
  ei_emote :: "EmoteModel option"

record Contributor =
  co_score :: int
  co_user :: "User option"
  co_rank :: int
  co_delta :: int

record ChatMessage =
  ch_user :: "User option"
  ch_content :: string
  ch_emotes :: "EmoteWithIndex list"

record EmoteChatMessage =
  ec_user :: "User option"
  ec_emoteList :: "EmoteModel list"

record GiftDetail =
  gd_name :: string
  gd_diamondCount :: int

record GiftMessage =
  gm_user :: "User option"
  gm_toUser :: "User option"
  gm_giftId :: int
  gm_gift :: "GiftDetail option"
  gm_repeatCount :: int
  gm_comboCount :: int
  gm_groupId :: int
  gm_repeatEnd :: int

record LikeMessage =
  lm_user :: "User option"
  lm_count :: int
  lm_total :: int

record MemberMessage =
  mm_user :: "User option"
  mm_memberCount :: int
  mm_action :: int

record SocialMessage =
  so_user :: "User option"
  so_action :: int
  so_followCount :: int
  so_shareCount :: int
  so_shareType :: int
  so_shareTarget :: string
  so_shareDisplayStyle :: int
  so_followType :: int
  so_scene :: string
  so_targetUserId :: int

record RoomUserSeqMessage =
  ru_total :: int
  ru_popularity :: int
  ru_totalUser :: int
  ru_anonymous :: int
  ru_ranks :: "Contributor list"

record decoders =
  dec_user :: "User decoder"
  dec_chat :: "ChatMessage decoder"
  dec_emoteChat :: "EmoteChatMessage decoder"
  dec_gift :: "GiftMessage decoder"
  dec_like :: "LikeMessage decoder"
  dec_member :: "MemberMessage decoder"
  dec_social :: "SocialMessage decoder"
  dec_roomUser :: "RoomUserSeqMessage decoder"

section \<open>Names and bounds\<close>

definition methodName :: "string \<Rightarrow> string" where
  "methodName typeName = rev (takeWhile (\<lambda>c. c \<noteq> CHR ''.'') (rev typeName))"

definition METHOD_chat :: string where "METHOD_chat = methodName ''webcast.model.message.WebcastChatMessage''"
definition METHOD_emoteChat :: string where "METHOD_emoteChat = methodName ''webcast.model.message.WebcastEmoteChatMessage''"
definition METHOD_gift :: string where "METHOD_gift = methodName ''webcast.model.message.WebcastGiftMessage''"
definition METHOD_like :: string where "METHOD_like = methodName ''webcast.model.message.WebcastLikeMessage''"
definition METHOD_member :: string where "METHOD_member = methodName ''webcast.model.message.WebcastMemberMessage''"
definition METHOD_social :: string where "METHOD_social = methodName ''webcast.model.message.WebcastSocialMessage''"
definition METHOD_roomUser :: string where "METHOD_roomUser = methodName ''webcast.model.message.WebcastRoomUserSeqMessage''"

lemma METHOD_names:
  "METHOD_chat = ''WebcastChatMessage''" "METHOD_emoteChat = ''WebcastEmoteChatMessage''"
  "METHOD_gift = ''WebcastGiftMessage''" "METHOD_like = ''WebcastLikeMessage''"
  "METHOD_member = ''WebcastMemberMessage''" "METHOD_social = ''WebcastSocialMessage''"
  "METHOD_roomUser = ''WebcastRoomUserSeqMessage''"
  by code_simp+

definition MAX_EMOTES_PER_EVENT :: nat where "MAX_EMOTES_PER_EVENT = 64"
definition MAX_EMOTE_ID_LENGTH :: nat where "MAX_EMOTE_ID_LENGTH = 128"
definition MAX_EMOTE_URL_LENGTH :: nat where "MAX_EMOTE_URL_LENGTH = 2048"

text \<open>On the UTF-16 code units of a string.\<close>

fun utf8Length :: "nat list \<Rightarrow> nat" where
  "utf8Length [] = 0"
| "utf8Length [c] = (if c < 0x80 then 1 else if c < 0x800 then 2 else 3)"
| "utf8Length (c # d # cs) =
     (if c < 0x80 then 1 + utf8Length (d # cs)
      else if c < 0x800 then 2 + utf8Length (d # cs)
      else if 0xd800 \<le> c \<and> c \<le> 0xdbff then 4 + utf8Length cs
      else 3 + utf8Length (d # cs))"

definition byteLength :: "string \<Rightarrow> nat" where
  "byteLength s = utf8Length (map code s)"

section \<open>Counts and identifiers\<close>

datatype count_value = BigCount int | NumCount jsnumber

definition clampCount :: "int \<Rightarrow> int" where
  "clampCount i = (if i \<le> 0 then 0 else if i > MAX_SAFE_INTEGER then MAX_SAFE_INTEGER else i)"

fun safeCount :: "count_value \<Rightarrow> (js_error, int) result" where
  "safeCount (BigCount i) = Inr (clampCount i)"
| "safeCount (NumCount n) =
     (if \<not> isInteger n then Inl (RangeErr ''protobuf counts must be integers'') else Inr (clampCount (int_val n)))"

text \<open>Every count of a decoded message is an integer, so \<open>safeCount\<close> of it is its clamped value.\<close>

definition jcount :: "int \<Rightarrow> json" where
  "jcount i = jint (clampCount i)"

lemma safeCount_integer: "safeCount (BigCount i) = Inr (clampCount i)" "safeCount (NumCount (js_int i)) = Inr (clampCount i)"
  by simp_all

definition asId :: "int \<Rightarrow> string" where
  "asId i = int_str i"

section \<open>Users\<close>

definition firstImageUrl :: "ImageModel option \<Rightarrow> string" where
  "firstImageUrl img = (case img of None \<Rightarrow> [] | Some m \<Rightarrow> (case im_urlList m of [] \<Rightarrow> [] | u # _ \<Rightarrow> u))"

definition js_or :: "string \<Rightarrow> string \<Rightarrow> string" where
  "js_or a b = (if a \<noteq> [] then a else b)"

definition avatar_url :: "User option \<Rightarrow> string" where
  "avatar_url user = (case user of None \<Rightarrow> [] | Some u \<Rightarrow>
     js_or (firstImageUrl (us_avatarThumb u)) (js_or (firstImageUrl (us_avatarMedium u))
       (js_or (firstImageUrl (us_avatarLarge u)) (firstImageUrl (us_avatarJpg u)))))"

definition normalizeUser :: "User option \<Rightarrow> json" where
  "normalizeUser user =
     JObj ([(''userId'', JStr (case user of Some u \<Rightarrow> asId (us_id u) | None \<Rightarrow> ''0'')),
            (''nickname'', JStr (case user of Some u \<Rightarrow> us_nickname u | None \<Rightarrow> [])),
            (''uniqueId'', JStr (case user of Some u \<Rightarrow> us_displayId u | None \<Rightarrow> [])),
            (''secUid'', JStr (case user of Some u \<Rightarrow> us_secUid u | None \<Rightarrow> []))] @
           (if avatar_url user \<noteq> [] then [(''avatarUrl'', JStr (avatar_url user))] else []))"

definition decodeUser :: "decoders \<Rightarrow> bytes option \<Rightarrow> (js_error, json) result" where
  "decodeUser decs payload =
     res_bind (dec_user decs (case payload of Some b \<Rightarrow> b | None \<Rightarrow> [])) (\<lambda>u. Inr (normalizeUser (Some u)))"

definition label :: "json \<Rightarrow> string" where
  "label user = (let f = (\<lambda>k. case j_get user k of Some (JStr s) \<Rightarrow> s | _ \<Rightarrow> [])
     in js_or (f ''uniqueId'') (js_or (f ''nickname'') ''unknown''))"

section \<open>Emotes\<close>

text \<open>\<open>url.slice(url.indexOf(sep) + sep.length)\<close>; \<open>None\<close> when the index is \<open>-1\<close>.\<close>

fun after_sub :: "string \<Rightarrow> string \<Rightarrow> string option" where
  "after_sub sep [] = (if sep = [] then Some [] else None)"
| "after_sub sep (c # cs) = (if starts_with sep (c # cs) then Some (drop (length sep) (c # cs)) else after_sub sep cs)"

definition url_control :: "char \<Rightarrow> bool" where
  "url_control c \<longleftrightarrow> code c < 0x20 \<or> (0x7f \<le> code c \<and> code c \<le> 0x9f)"

definition sanitizeImageUrl :: "host \<Rightarrow> string \<Rightarrow> string option" where
  "sanitizeImageUrl h url =
     (if byteLength url > MAX_EMOTE_URL_LENGTH then None
      else if list_ex (\<lambda>c. url_control c \<or> c = CHR '' '') url then None
      else case after_sub ''://'' url of
          None \<Rightarrow> None
        | Some authority \<Rightarrow>
            if authority = [] \<or> starts_with ''/'' authority then None
            else case host_URL h url of
                None \<Rightarrow> None
              | Some parsed \<Rightarrow>
                  if url_protocol parsed \<noteq> ''http:'' \<and> url_protocol parsed \<noteq> ''https:'' then None
                  else if url_username parsed \<noteq> [] \<or> url_password parsed \<noteq> [] then None
                  else if url_hostname parsed = [] then None
                  else Some url)"

fun first_image :: "host \<Rightarrow> string list \<Rightarrow> string option" where
  "first_image h [] = None"
| "first_image h (u # us) = (case sanitizeImageUrl h u of Some v \<Rightarrow> Some v | None \<Rightarrow> first_image h us)"

definition normalizeEmote :: "host \<Rightarrow> EmoteModel option \<Rightarrow> int option \<Rightarrow> json option" where
  "normalizeEmote h emote idx = (case emote of
       None \<Rightarrow> None
     | Some e \<Rightarrow>
         if byteLength (em_emoteId e) > MAX_EMOTE_ID_LENGTH then None
         else let imageUrl = (case em_image e of None \<Rightarrow> None | Some m \<Rightarrow> first_image h (im_urlList m))
              in if em_emoteId e = [] \<and> imageUrl = None then None
                 else Some (JObj ([(''id'', JStr (em_emoteId e))] @
                   (case imageUrl of Some u \<Rightarrow> [(''imageUrl'', JStr u)] | None \<Rightarrow> []) @
                   (case idx of Some i \<Rightarrow> [(''index'', jint i)] | None \<Rightarrow> []) @
                   (if em_emoteType e \<noteq> 0 then [(''emoteType'', jint (em_emoteType e))] else []) @
                   (if em_packageId e \<noteq> [] then [(''packageId'', JStr (em_packageId e))] else []))))"

fun collect_loop :: "('a \<Rightarrow> json option) \<Rightarrow> json list \<Rightarrow> 'a list \<Rightarrow> json list" where
  "collect_loop norm1 collected [] = collected"
| "collect_loop norm1 collected (item # items) =
     (if length collected \<ge> MAX_EMOTES_PER_EVENT then collected
      else case norm1 item of
          None \<Rightarrow> collect_loop norm1 collected items
        | Some e \<Rightarrow> collect_loop norm1 (collected @ [e]) items)"

definition collectEmotes :: "('a \<Rightarrow> json option) \<Rightarrow> 'a list \<Rightarrow> json list" where
  "collectEmotes norm1 items = collect_loop norm1 [] items"

definition normalizeInlineEmotes :: "host \<Rightarrow> EmoteWithIndex list \<Rightarrow> json list" where
  "normalizeInlineEmotes h emotes = collectEmotes (\<lambda>i. normalizeEmote h (ei_emote i) (Some (ei_index i))) emotes"

definition normalizeStandaloneEmotes :: "host \<Rightarrow> EmoteModel list \<Rightarrow> json list" where
  "normalizeStandaloneEmotes h emotes = collectEmotes (\<lambda>e. normalizeEmote h (Some e) None) emotes"

section \<open>Social actions\<close>

datatype SocialKind = KFollow | KShare | KOther | KUnknown
datatype SocialConfidence = Confirmed | Inferred | ConfidenceUnknown

record SocialClassification =
  sc_kind :: SocialKind
  sc_confidence :: SocialConfidence
  sc_rawAction :: int

definition classifySocialAction :: "int \<Rightarrow> SocialClassification" where
  "classifySocialAction action =
     (if action = 1 then \<lparr>sc_kind = KFollow, sc_confidence = Confirmed, sc_rawAction = action\<rparr>
      else if action = 3 then \<lparr>sc_kind = KShare, sc_confidence = Confirmed, sc_rawAction = action\<rparr>
      else if action = 0 then \<lparr>sc_kind = KUnknown, sc_confidence = ConfidenceUnknown, sc_rawAction = action\<rparr>
      else \<lparr>sc_kind = KOther, sc_confidence = ConfidenceUnknown, sc_rawAction = action\<rparr>)"

section \<open>The normalisers\<close>

definition normalizeContributor :: "Contributor \<Rightarrow> json" where
  "normalizeContributor c = JObj [(''rank'', jcount (co_rank c)), (''score'', jcount (co_score c)),
     (''delta'', jcount (co_delta c)), (''user'', normalizeUser (co_user c))]"

definition normalize_chat :: "host \<Rightarrow> ChatMessage \<Rightarrow> json jsobj" where
  "normalize_chat h m =
     (let emotes = normalizeInlineEmotes h (ch_emotes m)
      in [(''type'', JStr ''chat''), (''user'', normalizeUser (ch_user m)), (''comment'', JStr (ch_content m))] @
         (if emotes \<noteq> [] then [(''emotes'', JArr emotes)] else []))"

definition normalize_emoteChat :: "host \<Rightarrow> EmoteChatMessage \<Rightarrow> json jsobj" where
  "normalize_emoteChat h m = [(''type'', JStr ''emoteChat''), (''user'', normalizeUser (ec_user m)),
     (''emotes'', JArr (normalizeStandaloneEmotes h (ec_emoteList m)))]"

definition normalize_gift :: "GiftMessage \<Rightarrow> json jsobj" where
  "normalize_gift m = [(''type'', JStr ''gift''), (''user'', normalizeUser (gm_user m)),
     (''toUser'', normalizeUser (gm_toUser m)), (''giftId'', JStr (asId (gm_giftId m))),
     (''giftName'', JStr (case gm_gift m of Some g \<Rightarrow> gd_name g | None \<Rightarrow> [])),
     (''diamondCount'', jcount (case gm_gift m of Some g \<Rightarrow> gd_diamondCount g | None \<Rightarrow> 0)),
     (''repeatCount'', jcount (gm_repeatCount m)), (''comboCount'', jcount (gm_comboCount m)),
     (''groupId'', JStr (asId (gm_groupId m))), (''repeatEnd'', JBool (gm_repeatEnd m > 0))]"

definition normalize_like :: "LikeMessage \<Rightarrow> json jsobj" where
  "normalize_like m = [(''type'', JStr ''like''), (''user'', normalizeUser (lm_user m)),
     (''count'', jcount (lm_count m)), (''total'', jcount (lm_total m))]"

definition normalize_member :: "MemberMessage \<Rightarrow> json jsobj" where
  "normalize_member m = [(''type'', JStr ''member''), (''user'', normalizeUser (mm_user m)),
     (''memberCount'', jcount (mm_memberCount m)), (''action'', jcount (mm_action m))]"

definition normalize_social :: "SocialMessage \<Rightarrow> json jsobj" where
  "normalize_social m = [(''type'', JStr ''social''), (''user'', normalizeUser (so_user m)),
     (''action'', jcount (so_action m)), (''followCount'', jcount (so_followCount m)),
     (''shareCount'', jcount (so_shareCount m)), (''shareType'', jcount (so_shareType m)),
     (''shareTarget'', JStr (so_shareTarget m)), (''shareDisplayStyle'', jcount (so_shareDisplayStyle m)),
     (''followType'', jcount (so_followType m)), (''scene'', JStr (so_scene m)),
     (''targetUserId'', JStr (asId (so_targetUserId m)))]"

definition normalize_roomUser :: "RoomUserSeqMessage \<Rightarrow> json jsobj" where
  "normalize_roomUser m =
     (let ranks = map normalizeContributor (ru_ranks m)
      in [(''type'', JStr ''roomUser''), (''viewers'', jcount (ru_total m)),
          (''popularity'', jcount (ru_popularity m)), (''totalUser'', jcount (ru_totalUser m)),
          (''anonymous'', jcount (ru_anonymous m)), (''topViewers'', JArr ranks), (''rankedViewers'', JArr ranks)])"

definition NORMALIZE :: "host \<Rightarrow> decoders \<Rightarrow> string \<Rightarrow> (bytes \<Rightarrow> (js_error, json jsobj) result) option" where
  "NORMALIZE h decs method = map_of
     [(METHOD_chat, \<lambda>p. res_bind (dec_chat decs p) (\<lambda>m. Inr (normalize_chat h m))),
      (METHOD_emoteChat, \<lambda>p. res_bind (dec_emoteChat decs p) (\<lambda>m. Inr (normalize_emoteChat h m))),
      (METHOD_gift, \<lambda>p. res_bind (dec_gift decs p) (\<lambda>m. Inr (normalize_gift m))),
      (METHOD_like, \<lambda>p. res_bind (dec_like decs p) (\<lambda>m. Inr (normalize_like m))),
      (METHOD_member, \<lambda>p. res_bind (dec_member decs p) (\<lambda>m. Inr (normalize_member m))),
      (METHOD_social, \<lambda>p. res_bind (dec_social decs p) (\<lambda>m. Inr (normalize_social m))),
      (METHOD_roomUser, \<lambda>p. res_bind (dec_roomUser decs p) (\<lambda>m. Inr (normalize_roomUser m)))] method"

record LiveEvent =
  le_props :: "json jsobj"
  le_payload :: "bytes option"

definition unknown_event :: "string \<Rightarrow> bytes \<Rightarrow> LiveEvent" where
  "unknown_event method payload =
     \<lparr>le_props = [(''type'', JStr ''unknown''), (''method'', JStr method)], le_payload = Some payload\<rparr>"

definition decodeEvent :: "host \<Rightarrow> decoders \<Rightarrow> string \<Rightarrow> bytes \<Rightarrow> LiveEvent" where
  "decodeEvent h decs method payload = (case NORMALIZE h decs method of
       None \<Rightarrow> unknown_event method payload
     | Some norm1 \<Rightarrow> (case norm1 payload of
         Inr props \<Rightarrow> \<lparr>le_props = obj_put ''method'' (JStr method) props, le_payload = None\<rparr>
       | Inl _ \<Rightarrow> unknown_event method payload))"

section \<open>UTF-8 lengths\<close>

text \<open>Unicode scalar values, their UTF-16 code units and the number of bytes of their UTF-8 form.\<close>

definition scalar :: "nat \<Rightarrow> bool" where
  "scalar cp \<longleftrightarrow> cp < 0x110000 \<and> \<not> (0xd800 \<le> cp \<and> cp \<le> 0xdfff)"

definition utf16 :: "nat \<Rightarrow> nat list" where
  "utf16 cp = (if cp < 0x10000 then [cp]
     else [0xd800 + (cp - 0x10000) div 0x400, 0xdc00 + (cp - 0x10000) mod 0x400])"

definition utf8_size :: "nat \<Rightarrow> nat" where
  "utf8_size cp = (if cp < 0x80 then 1 else if cp < 0x800 then 2 else if cp < 0x10000 then 3 else 4)"

lemma utf8Length_unit:
  "\<not> (0xd800 \<le> c \<and> c \<le> 0xdbff) \<Longrightarrow>
   utf8Length (c # cs) = (if c < 0x80 then 1 else if c < 0x800 then 2 else 3) + utf8Length cs"
  by (cases cs) auto

lemma utf8Length_scalar: "scalar cp \<Longrightarrow> utf8Length (utf16 cp @ cs) = utf8_size cp + utf8Length cs"
proof (cases "cp < 0x10000")
  case True
  moreover assume "scalar cp"
  ultimately have "\<not> (0xd800 \<le> cp \<and> cp \<le> 0xdbff)" by (auto simp: scalar_def)
  with True show ?thesis
    by (simp add: utf16_def utf8_size_def utf8Length_unit del: utf8Length.simps)
next
  case False
  assume "scalar cp"
  with False have "(cp - 0x10000) div 0x400 \<le> 0x3ff" by (auto simp: scalar_def)
  with False show ?thesis by (simp add: utf16_def utf8_size_def)
qed

section \<open>Emotes\<close>

lemma collect_loop_take:
  "length acc \<le> MAX_EMOTES_PER_EVENT \<Longrightarrow>
   collect_loop f acc xs = acc @ take (MAX_EMOTES_PER_EVENT - length acc) (List.map_filter f xs)"
proof (induction f acc xs rule: collect_loop.induct)
  case (2 f acc x xs)
  then show ?case
    by (cases "f x") (auto simp: List.map_filter_simps take_Cons' Suc_le_eq not_le)
qed (simp add: List.map_filter_simps)

lemma collectEmotes_take: "collectEmotes f xs = take MAX_EMOTES_PER_EVENT (List.map_filter f xs)"
  by (simp add: collectEmotes_def collect_loop_take)

lemma collectEmotes_mem: "e \<in> set (collectEmotes f xs) \<Longrightarrow> \<exists>x \<in> set xs. f x = Some e"
  unfolding collectEmotes_take by (force simp: List.map_filter_def dest!: in_set_takeD)

definition safe_image :: "host \<Rightarrow> string \<Rightarrow> bool" where
  "safe_image h u \<longleftrightarrow> byteLength u \<le> 2048 \<and> list_all (\<lambda>c. \<not> url_control c \<and> c \<noteq> CHR '' '') u \<and>
     (\<exists>p. host_URL h u = Some p \<and> (url_protocol p = ''http:'' \<or> url_protocol p = ''https:'') \<and>
        url_username p = [] \<and> url_password p = [] \<and> url_hostname p \<noteq> [])"

lemma sanitizeImageUrl_safe: "sanitizeImageUrl h u = Some v \<Longrightarrow> v = u \<and> safe_image h u"
  by (auto simp: sanitizeImageUrl_def safe_image_def MAX_EMOTE_URL_LENGTH_def list_ex_iff list_all_iff
      split: if_splits option.splits)

lemma first_image_safe: "first_image h us = Some v \<Longrightarrow> safe_image h v"
  by (induction us) (auto dest: sanitizeImageUrl_safe split: option.splits)

definition safe_emote :: "host \<Rightarrow> json \<Rightarrow> bool" where
  "safe_emote h e \<longleftrightarrow> (\<exists>i. j_get e ''id'' = Some (JStr i) \<and> byteLength i \<le> 128 \<and>
     (case j_get e ''imageUrl'' of None \<Rightarrow> i \<noteq> [] | Some u \<Rightarrow> \<exists>s. u = JStr s \<and> safe_image h s))"

lemma normalizeEmote_safe: "normalizeEmote h emote idx = Some e \<Longrightarrow> safe_emote h e"
  by (cases idx)
    (auto simp: normalizeEmote_def safe_emote_def Let_def MAX_EMOTE_ID_LENGTH_def dest: first_image_safe
      split: option.splits if_splits)

section \<open>Properties\<close>

lemma collectEmotes_safe:
  assumes "\<And>x e. f x = Some e \<Longrightarrow> safe_emote h e"
  shows "length (collectEmotes f xs) \<le> 64 \<and> list_all (safe_emote h) (collectEmotes f xs)"
proof
  show "length (collectEmotes f xs) \<le> 64" by (simp add: collectEmotes_take MAX_EMOTES_PER_EVENT_def)
  show "list_all (safe_emote h) (collectEmotes f xs)"
    unfolding list_all_iff using assms collectEmotes_mem by metis
qed

text \<open>C36: an event carries at most 64 emotes, the first usable ones in wire order, each with an id of at most
  128 UTF-8 bytes and, when it has artwork, a URL of at most 2048 bytes without control characters, spaces or
  credentials that parses to an \<open>http\<close> or \<open>https\<close> URL with a host.\<close>

theorem emotes_bounded:
  "length (normalizeInlineEmotes h inline) \<le> 64 \<and> list_all (safe_emote h) (normalizeInlineEmotes h inline) \<and>
   length (normalizeStandaloneEmotes h alone) \<le> 64 \<and> list_all (safe_emote h) (normalizeStandaloneEmotes h alone) \<and>
   normalizeStandaloneEmotes h alone = take 64 (List.map_filter (\<lambda>e. normalizeEmote h (Some e) None) alone)"
proof -
  have "length (normalizeInlineEmotes h inline) \<le> 64 \<and> list_all (safe_emote h) (normalizeInlineEmotes h inline)"
    unfolding normalizeInlineEmotes_def by (rule collectEmotes_safe) (rule normalizeEmote_safe)
  moreover have "length (normalizeStandaloneEmotes h alone) \<le> 64 \<and>
      list_all (safe_emote h) (normalizeStandaloneEmotes h alone)"
    unfolding normalizeStandaloneEmotes_def by (rule collectEmotes_safe) (rule normalizeEmote_safe)
  ultimately show ?thesis
    by (simp add: normalizeStandaloneEmotes_def collectEmotes_take MAX_EMOTES_PER_EVENT_def)
qed

text \<open>On the UTF-16 form of any sequence of Unicode scalar values, \<open>utf8Length\<close> is the number of bytes of
  its UTF-8 form, surrogate pairs counting four.\<close>

lemma utf8Length_exact:
  assumes "list_all scalar cps"
  shows "utf8Length (concat (map utf16 cps)) = sum_list (map utf8_size cps)"
  using assms by (induction cps) (simp_all add: utf8Length_scalar)

lemma utf8Length_exact_witness:
  "utf8Length (concat (map utf16 [0x41, 0xe9, 0x20ac, 0x1f600])) = 10"
proof -
  have "list_all scalar [0x41, 0xe9, 0x20ac, 0x1f600]" by (simp add: scalar_def)
  from utf8Length_exact [OF this] show ?thesis by (simp add: utf8_size_def)
qed

end
