(* ===== verification/Event_Conformance.thy ===== *)
theory Event_Conformance
  imports Events
begin

text \<open>
  The events of \<open>events.ts\<close> against the schemas of \<open>gen/json/public\<close>. \<open>decodeEvent\<close> answers every method and
  payload; what it answers conforms to the published schema of the event when the ids on the wire are not
  negative and the avatar URLs parse, and need not otherwise.
\<close>

section \<open>Conformance to the published schemas\<close>

text \<open>The unfolding of \<open>admits\<close> at a literal schema object; named schemas stay folded.\<close>

lemmas admits_object = admits.simps [of h "JObj s" v for h s v]

lemmas admits_literal = admits_object const_ok_def type_ok_def string_ok_def number_ok_def
  below_minimum_def above_maximum_def schema_reads matchesType_def truthy_schema_def isUri_def

definition user_ok :: "host \<Rightarrow> User option \<Rightarrow> bool" where
  "user_ok h user \<longleftrightarrow> (case user of None \<Rightarrow> True
     | Some u \<Rightarrow> 0 \<le> us_id u \<and> (avatar_url user = [] \<or> host_URL h (avatar_url user) \<noteq> None))"

lemma asId_numeric [simp]: "numeric_string (asId i) \<longleftrightarrow> 0 \<le> i"
  by (simp add: asId_def int_str_numeric_iff)

lemma clampCount_range: "0 \<le> clampCount i \<and> clampCount i \<le> 9007199254740991"
  by (simp add: clampCount_def MAX_SAFE_INTEGER_def)

lemma clampCount_bounds [simp]:
  "\<not> clampCount i < 0" "\<not> 9007199254740991 < clampCount i" "0 \<le> clampCount i" "clampCount i \<le> 9007199254740991"
  using clampCount_range [of i] by simp_all

lemma EventUserSchema_admits:
  assumes "user_ok h user"
  shows "admits h EventUserSchema (normalizeUser user)"
proof -
  have "numeric_string ''0''" by code_simp
  with assms show ?thesis
    by (cases user) (auto simp: EventUserSchema_def normalizeUser_def user_ok_def avatar_url_def admits_literal)
qed

lemma LiveEmoteSchema_admits:
  assumes "normalizeEmote h emote idx = Some e"
  shows "admits h LiveEmoteSchema e"
proof -
  from assms obtain m where "emote = Some m" by (cases emote) (auto simp: normalizeEmote_def)
  let ?img = "case em_image m of None \<Rightarrow> None | Some i \<Rightarrow> first_image h (im_urlList i)"
  have e: "e = JObj ([(''id'', JStr (em_emoteId m))] @
       (case ?img of Some u \<Rightarrow> [(''imageUrl'', JStr u)] | None \<Rightarrow> []) @
       (case idx of Some i \<Rightarrow> [(''index'', jint i)] | None \<Rightarrow> []) @
       (if em_emoteType m \<noteq> 0 then [(''emoteType'', jint (em_emoteType m))] else []) @
       (if em_packageId m \<noteq> [] then [(''packageId'', JStr (em_packageId m))] else []))"
    using assms \<open>emote = Some m\<close> by (auto simp: normalizeEmote_def Let_def split: if_splits)
  have "host_URL h u \<noteq> None" if "?img = Some u" for u
    using that first_image_safe [of h _ u] by (auto simp: safe_image_def split: option.splits)
  then show ?thesis
    unfolding e
    by (cases idx; cases ?img) (auto simp: LiveEmoteSchema_def admits_literal)
qed

lemma TopViewerSchema_admits:
  assumes "user_ok h (co_user c)"
  shows "admits h TopViewerSchema (normalizeContributor c)"
  using EventUserSchema_admits [OF assms]
  by (simp add: TopViewerSchema_def normalizeContributor_def jcount_def admits_literal)

text \<open>The properties every event carries: its method, and once the client has stamped it, the message id and
  the history flag.\<close>

definition base_props :: "string \<Rightarrow> (string \<times> bool) option \<Rightarrow> json jsobj" where
  "base_props method stamp = (''method'', JStr method) # (case stamp of None \<Rightarrow> []
     | Some (i, b) \<Rightarrow> [(''msgId'', JStr i), (''isHistory'', JBool b)])"

definition stamp_ok :: "(string \<times> bool) option \<Rightarrow> bool" where
  "stamp_ok stamp \<longleftrightarrow> (case stamp of None \<Rightarrow> True | Some (i, b) \<Rightarrow> numeric_string i)"

lemmas event_literal = BaseEventSchema_def base_props_def stamp_ok_def jcount_def admits_literal

lemma chat_conforms:
  assumes "user_ok h (ch_user m)" and "stamp_ok stamp"
  shows "admits h ChatEventSchema (JObj (normalize_chat h m @ base_props method stamp))"
proof -
  let ?es = "normalizeInlineEmotes h (ch_emotes m)"
  have "\<forall>e \<in> set ?es. admits h LiveEmoteSchema e"
    using collectEmotes_mem LiveEmoteSchema_admits by (force simp: normalizeInlineEmotes_def)
  with assms EventUserSchema_admits [OF assms(1)] show ?thesis
    by (cases stamp; cases "?es = []") (auto simp: ChatEventSchema_def normalize_chat_def event_literal)
qed

lemma emoteChat_conforms:
  assumes "user_ok h (ec_user m)" and "stamp_ok stamp"
  shows "admits h EmoteChatEventSchema (JObj (normalize_emoteChat h m @ base_props method stamp))"
proof -
  have "\<forall>e \<in> set (normalizeStandaloneEmotes h (ec_emoteList m)). admits h LiveEmoteSchema e"
    using collectEmotes_mem LiveEmoteSchema_admits by (force simp: normalizeStandaloneEmotes_def)
  with assms EventUserSchema_admits [OF assms(1)] show ?thesis
    by (cases stamp) (auto simp: EmoteChatEventSchema_def normalize_emoteChat_def event_literal)
qed

definition gift_ok :: "host \<Rightarrow> GiftMessage \<Rightarrow> bool" where
  "gift_ok h m \<longleftrightarrow> user_ok h (gm_user m) \<and> user_ok h (gm_toUser m) \<and> 0 \<le> gm_giftId m \<and> 0 \<le> gm_groupId m"

lemma gift_conforms:
  assumes "gift_ok h m" and "stamp_ok stamp"
  shows "admits h GiftEventSchema (JObj (normalize_gift m @ base_props method stamp))"
proof -
  from assms(1) have "user_ok h (gm_user m)" "user_ok h (gm_toUser m)" "0 \<le> gm_giftId m" "0 \<le> gm_groupId m"
    by (simp_all add: gift_ok_def)
  with assms(2) show ?thesis
    using EventUserSchema_admits
    by (cases stamp) (auto simp: GiftEventSchema_def normalize_gift_def event_literal)
qed

lemma like_conforms:
  assumes "user_ok h (lm_user m)" and "stamp_ok stamp"
  shows "admits h LikeEventSchema (JObj (normalize_like m @ base_props method stamp))"
  using assms EventUserSchema_admits [OF assms(1)]
  by (cases stamp) (auto simp: LikeEventSchema_def normalize_like_def event_literal)

lemma member_conforms:
  assumes "user_ok h (mm_user m)" and "stamp_ok stamp"
  shows "admits h MemberEventSchema (JObj (normalize_member m @ base_props method stamp))"
  using assms EventUserSchema_admits [OF assms(1)]
  by (cases stamp) (auto simp: MemberEventSchema_def normalize_member_def event_literal)

lemma roomUser_conforms:
  assumes "list_all (\<lambda>c. user_ok h (co_user c)) (ru_ranks m)" and "stamp_ok stamp"
  shows "admits h RoomUserEventSchema (JObj (normalize_roomUser m @ base_props method stamp))"
proof -
  have "\<forall>v \<in> set (map normalizeContributor (ru_ranks m)). admits h TopViewerSchema v"
    using assms(1) TopViewerSchema_admits by (auto simp: list_all_iff)
  with assms(2) show ?thesis
    by (cases stamp) (auto simp: RoomUserEventSchema_def normalize_roomUser_def event_literal Let_def)
qed

lemma pattern_signed: "RegExp_test ''^-?[0-9]+$'' (int_str i) = Inr True"
proof -
  have p: "parse_regex ''^-?[0-9]+$'' = Some \<lparr>rx_start = True,
      rx_items = [([(45, 45)], Optional), ([(48, 57)], Plus)], rx_end = True\<rparr>" by code_simp
  have c: "in_class [(45, 45)] (CHR ''-'')" by (simp add: in_class_def code_def)
  have "match_items True [([(45, 45)], Optional), ([(48, 57)], Plus)] (int_str i)"
    using nat_str_numeric [of "nat i"] nat_str_numeric [of "nat (- i)"]
    by (subst match_items.simps(3)) (auto simp: int_str_def match_digits_plus c simp del: match_items.simps)
  then show ?thesis by (simp add: RegExp_test_def p regex_test_def del: match_items.simps)
qed

lemma social_conforms:
  assumes "user_ok h (so_user m)" and "stamp_ok stamp"
  shows "admits h SocialEventSchema (JObj (normalize_social m @ base_props method stamp))"
  using assms EventUserSchema_admits [OF assms(1)]
  by (cases stamp) (auto simp: SocialEventSchema_def normalize_social_def event_literal asId_def pattern_signed)

definition event_schema :: "string \<Rightarrow> json option" where
  "event_schema method = map_of
     [(METHOD_chat, ChatEventSchema), (METHOD_emoteChat, EmoteChatEventSchema), (METHOD_gift, GiftEventSchema),
      (METHOD_like, LikeEventSchema), (METHOD_member, MemberEventSchema), (METHOD_social, SocialEventSchema),
      (METHOD_roomUser, RoomUserEventSchema)] method"

text \<open>What the schemas ask of the wire: ids that are not negative and avatar URLs that parse, wherever the
  message decodes.\<close>

definition decoded :: "'m decoder \<Rightarrow> bytes \<Rightarrow> ('m \<Rightarrow> bool) \<Rightarrow> bool" where
  "decoded d payload P \<longleftrightarrow> (case d payload of Inl _ \<Rightarrow> True | Inr m \<Rightarrow> P m)"

definition wire_ok :: "host \<Rightarrow> decoders \<Rightarrow> bytes \<Rightarrow> bool" where
  "wire_ok h decs payload \<longleftrightarrow>
     decoded (dec_chat decs) payload (\<lambda>m. user_ok h (ch_user m)) \<and>
     decoded (dec_emoteChat decs) payload (\<lambda>m. user_ok h (ec_user m)) \<and>
     decoded (dec_gift decs) payload (gift_ok h) \<and>
     decoded (dec_like decs) payload (\<lambda>m. user_ok h (lm_user m)) \<and>
     decoded (dec_member decs) payload (\<lambda>m. user_ok h (mm_user m)) \<and>
     decoded (dec_social decs) payload (\<lambda>m. user_ok h (so_user m)) \<and>
     decoded (dec_roomUser decs) payload (\<lambda>m. list_all (\<lambda>c. user_ok h (co_user c)) (ru_ranks m))"

lemma put_method:
  "obj_put ''method'' v (normalize_chat h m) = normalize_chat h m @ [(''method'', v)]"
  "obj_put ''method'' v (normalize_emoteChat h m') = normalize_emoteChat h m' @ [(''method'', v)]"
  "obj_put ''method'' v (normalize_gift g) = normalize_gift g @ [(''method'', v)]"
  "obj_put ''method'' v (normalize_like l) = normalize_like l @ [(''method'', v)]"
  "obj_put ''method'' v (normalize_member mm) = normalize_member mm @ [(''method'', v)]"
  "obj_put ''method'' v (normalize_social s) = normalize_social s @ [(''method'', v)]"
  "obj_put ''method'' v (normalize_roomUser r) = normalize_roomUser r @ [(''method'', v)]"
  by (simp_all add: normalize_chat_def normalize_emoteChat_def normalize_gift_def normalize_like_def
      normalize_member_def normalize_social_def normalize_roomUser_def Let_def)

section \<open>Properties\<close>

lemma NORMALIZE_simps:
  "NORMALIZE h decs METHOD_chat = Some (\<lambda>p. res_bind (dec_chat decs p) (\<lambda>m. Inr (normalize_chat h m)))"
  "NORMALIZE h decs METHOD_emoteChat = Some (\<lambda>p. res_bind (dec_emoteChat decs p) (\<lambda>m. Inr (normalize_emoteChat h m)))"
  "NORMALIZE h decs METHOD_gift = Some (\<lambda>p. res_bind (dec_gift decs p) (\<lambda>m. Inr (normalize_gift m)))"
  "NORMALIZE h decs METHOD_like = Some (\<lambda>p. res_bind (dec_like decs p) (\<lambda>m. Inr (normalize_like m)))"
  "NORMALIZE h decs METHOD_member = Some (\<lambda>p. res_bind (dec_member decs p) (\<lambda>m. Inr (normalize_member m)))"
  "NORMALIZE h decs METHOD_social = Some (\<lambda>p. res_bind (dec_social decs p) (\<lambda>m. Inr (normalize_social m)))"
  "NORMALIZE h decs METHOD_roomUser = Some (\<lambda>p. res_bind (dec_roomUser decs p) (\<lambda>m. Inr (normalize_roomUser m)))"
  by (simp_all add: NORMALIZE_def METHOD_names)

lemma event_schema_simps:
  "event_schema METHOD_chat = Some ChatEventSchema" "event_schema METHOD_emoteChat = Some EmoteChatEventSchema"
  "event_schema METHOD_gift = Some GiftEventSchema" "event_schema METHOD_like = Some LikeEventSchema"
  "event_schema METHOD_member = Some MemberEventSchema" "event_schema METHOD_social = Some SocialEventSchema"
  "event_schema METHOD_roomUser = Some RoomUserEventSchema"
  by (simp_all add: event_schema_def METHOD_names)

lemma unknown_method:
  assumes "method \<noteq> METHOD_chat" and "method \<noteq> METHOD_emoteChat" and "method \<noteq> METHOD_gift" and "method \<noteq> METHOD_like"
    and "method \<noteq> METHOD_member" and "method \<noteq> METHOD_social" and "method \<noteq> METHOD_roomUser"
  shows "event_schema method = None" and "NORMALIZE h decs method = None"
  using assms by (simp_all add: event_schema_def NORMALIZE_def)

text \<open>One known method: its decoder, its normaliser and its schema.\<close>

lemma decodeEvent_known:
  assumes "NORMALIZE h decs name = Some (\<lambda>p. res_bind (d p) (\<lambda>m. Inr (f m)))"
    and "decoded d payload P"
    and "\<And>m. P m \<Longrightarrow> admits h schema (JObj (f m @ base_props name None))"
    and "\<And>m. obj_put ''method'' (JStr name) (f m) = f m @ [(''method'', JStr name)]"
  shows "case the (NORMALIZE h decs name) payload of
      Inl _ \<Rightarrow> decodeEvent h decs name payload = unknown_event name payload
    | Inr _ \<Rightarrow> le_payload (decodeEvent h decs name payload) = None \<and>
        admits h schema (JObj (le_props (decodeEvent h decs name payload)))"
  using assms by (cases "d payload") (simp_all add: decodeEvent_def decoded_def base_props_def)

text \<open>Every method and payload is answered. A method the package knows, whose payload decodes to a message
  with non-negative ids and parsable avatar URLs, becomes an event that conforms to the published schema of that
  event; every other method or payload becomes an \<open>unknown\<close> event that keeps the method and the bytes.\<close>

lemma decodeEvent_admits:
  assumes "wire_ok h decs payload"
  shows "case event_schema name of
      None \<Rightarrow> decodeEvent h decs name payload = unknown_event name payload
    | Some schema \<Rightarrow> (case the (NORMALIZE h decs name) payload of
          Inl _ \<Rightarrow> decodeEvent h decs name payload = unknown_event name payload
        | Inr _ \<Rightarrow> le_payload (decodeEvent h decs name payload) = None \<and>
            admits h schema (JObj (le_props (decodeEvent h decs name payload))))"
proof -
  have st: "stamp_ok None" by (simp add: stamp_ok_def)
  note wire = assms [unfolded wire_ok_def]
  consider "name = METHOD_chat" | "name = METHOD_emoteChat" | "name = METHOD_gift" | "name = METHOD_like"
    | "name = METHOD_member" | "name = METHOD_social" | "name = METHOD_roomUser"
    | "event_schema name = None" "NORMALIZE h decs name = None"
    using unknown_method(1) [of name] unknown_method(2) [of name h decs] by satx
  then show ?thesis
  proof cases
    case 1
    show ?thesis unfolding 1 event_schema_simps option.case
      by (rule decodeEvent_known [OF NORMALIZE_simps(1) wire [THEN conjunct1] chat_conforms [OF _ st] put_method(1)])
  next
    case 2
    show ?thesis unfolding 2 event_schema_simps option.case
      using wire by (intro decodeEvent_known [OF NORMALIZE_simps(2) _ emoteChat_conforms [OF _ st] put_method(2)]) simp_all
  next
    case 3
    show ?thesis unfolding 3 event_schema_simps option.case
      using wire by (intro decodeEvent_known [OF NORMALIZE_simps(3) _ gift_conforms [OF _ st] put_method(3)]) simp_all
  next
    case 4
    show ?thesis unfolding 4 event_schema_simps option.case
      using wire by (intro decodeEvent_known [OF NORMALIZE_simps(4) _ like_conforms [OF _ st] put_method(4)]) simp_all
  next
    case 5
    show ?thesis unfolding 5 event_schema_simps option.case
      using wire by (intro decodeEvent_known [OF NORMALIZE_simps(5) _ member_conforms [OF _ st] put_method(5)]) simp_all
  next
    case 6
    show ?thesis unfolding 6 event_schema_simps option.case
      using wire by (intro decodeEvent_known [OF NORMALIZE_simps(6) _ social_conforms [OF _ st] put_method(6)]) simp_all
  next
    case 7
    show ?thesis unfolding 7 event_schema_simps option.case
      using wire by (intro decodeEvent_known [OF NORMALIZE_simps(7) _ roomUser_conforms [OF _ st] put_method(7)]) simp_all
  next
    case 8
    then show ?thesis by (simp add: decodeEvent_def)
  qed
qed

definition no_message :: "'m decoder" where
  "no_message payload = Inl (Err ''not this message'')"

definition example_user :: User where
  "example_user = \<lparr>us_id = 42, us_nickname = ''Ann'', us_displayId = ''ann'', us_secUid = [], us_avatarThumb = None,
     us_avatarMedium = None, us_avatarLarge = None, us_avatarJpg = None\<rparr>"

definition example_decoders :: decoders where
  "example_decoders = \<lparr>dec_user = no_message, dec_chat = no_message, dec_emoteChat = no_message, dec_gift = no_message,
     dec_like = (\<lambda>_. Inr \<lparr>lm_user = Some example_user, lm_count = 3, lm_total = 2 ^ 60\<rparr>), dec_member = no_message,
     dec_social = no_message, dec_roomUser = no_message\<rparr>"

lemma example_wire_ok: "wire_ok \<lparr>host_URL = (\<lambda>_. None), host_number = (\<lambda>_. [])\<rparr> example_decoders [1]"
  by (simp add: wire_ok_def decoded_def example_decoders_def no_message_def user_ok_def avatar_url_def example_user_def firstImageUrl_def js_or_def)

lemma example_like:
  "the (NORMALIZE h example_decoders METHOD_like) [1] = Inr (normalize_like \<lparr>lm_user = Some example_user, lm_count = 3, lm_total = 2 ^ 60\<rparr>)"
  using NORMALIZE_simps(4) [of h example_decoders] by (simp add: example_decoders_def)

text \<open>A user with a negative id is normalised to an object its published schema refuses: \<open>asId\<close> prints
  the sign and the schema asks for digits only (the schema of \<open>targetUserId\<close> allows the sign).\<close>

lemma negative_user_id_violates_schema:
  assumes "us_id u < 0"
  shows "\<not> admits h EventUserSchema (normalizeUser (Some u))"
proof -
  have "\<not> numeric_string (asId (us_id u))" using assms by simp
  then show ?thesis
    by (auto simp: EventUserSchema_def normalizeUser_def admits_literal)
qed

lemma negative_user_id_violates_schema_witness:
  "\<not> admits \<lparr>host_URL = (\<lambda>_. None), host_number = (\<lambda>_. [])\<rparr> EventUserSchema
     (normalizeUser (Some (example_user\<lparr>us_id := - 5\<rparr>)))"
  by (rule negative_user_id_violates_schema) (simp add: example_user_def)

end
