(* ===== verification/Delivery.thy ===== *)
theory Delivery
  imports Errors
begin

text \<open>
  The event queue of \<open>packages/tiktok-live/src/delivery.ts\<close>: \<open>EventDelivery\<close>, one bounded FIFO held in
  a ring buffer and drained from one owned \<open>setImmediate\<close>. The record \<open>delivery\<close> has the private
  fields of the class under their own names; \<open>timer\<close> says whether an immediate is armed.

  The two callbacks the owner supplies are parameters: \<open>consume\<close> takes a value and its generation and
  returns whether it dispatched, \<open>overflow\<close> is called after a rejected submit. Both run synchronously
  and may reach back into the queue, so they act on the pair of the owner's state \<open>'w\<close> and the queue.
  The clock \<open>now\<close> gives the readings of \<open>performance.now()\<close> in the order one drain takes them.

  The locale \<open>delivery_owner\<close> is the contract between the queue and its owner: a callback either
  leaves the queue alone or clears it (the client's \<open>disconnect()\<close>). Inside it every operation keeps
  the ring invariant, the accounting of received, dispatched and discarded events, and the fact that
  a non-empty queue has an armed immediate. The locale \<open>fifo\<close> is the abstract bounded queue, which the
  ring implements.
\<close>

section \<open>State and construction\<close>

record 'a entry =
  ent_value :: 'a
  ent_generation :: nat
  entry_bytes :: int

record delivery_options =
  opt_capacity :: jsnumber
  opt_maxBytes :: "jsnumber option"
  opt_batchSize :: "jsnumber option"
  opt_timeBudgetMs :: "jsnumber option"

record 'a delivery =
  capacity :: nat
  maxBytes :: int
  batchSize :: nat
  timeBudgetMs :: rat
  queue :: "'a entry option list"
  head :: nat
  depth :: nat
  bytes :: int
  timer :: bool
  received :: nat
  dispatched :: nat
  discarded :: nat
  rejections :: nat

record delivery_metrics =
  m_queueDepth :: nat
  m_queuedBytes :: int
  m_received :: nat
  m_dispatched :: nat
  m_discarded :: nat
  m_rejections :: nat

text \<open>\<open>options?.field ?? fallback\<close>.\<close>

definition opt_field :: "('o \<Rightarrow> 'b option) \<Rightarrow> 'b \<Rightarrow> 'o option \<Rightarrow> 'b" where
  "opt_field f d r = (case r of None \<Rightarrow> d | Some x \<Rightarrow> (case f x of None \<Rightarrow> d | Some y \<Rightarrow> y))"

definition new_EventDelivery :: "delivery_options option \<Rightarrow> (js_error, 'a delivery) result" where
  "new_EventDelivery options =
     (let cap = opt_field (\<lambda>r. Some (opt_capacity r)) (js_int 0) options;
          maxB = opt_field opt_maxBytes (js_int (64 * 1024 * 1024)) options;
          batch = opt_field opt_batchSize (js_int 64) options;
          budget = opt_field opt_timeBudgetMs (js_int 8) options
      in if \<not> isSafeInteger cap \<or> js_less cap (js_int 0) \<or> js_less (js_int 65536) cap
            \<or> \<not> isSafeInteger maxB \<or> js_le maxB (js_int 0)
            \<or> \<not> isSafeInteger batch \<or> js_le batch (js_int 0)
            \<or> \<not> isFinite budget \<or> js_le budget (js_int 0)
         then Inl (RangeErr ''invalid event delivery capacity or scheduling budget'')
         else Inr \<lparr>capacity = nat (int_val cap), maxBytes = int_val maxB,
                   batchSize = nat (int_val batch), timeBudgetMs = num_val budget,
                   queue = replicate (nat (int_val cap)) None, head = 0, depth = 0, bytes = 0,
                   timer = False, received = 0, dispatched = 0, discarded = 0, rejections = 0\<rparr>)"

section \<open>Operations\<close>

definition clear :: "'a delivery \<Rightarrow> 'a delivery" where
  "clear d = d\<lparr>timer := False, discarded := discarded d + depth d,
     queue := replicate (length (queue d)) None, depth := 0, head := 0, bytes := 0\<rparr>"

definition schedule :: "'a delivery \<Rightarrow> 'a delivery" where
  "schedule d = (if timer d \<or> depth d = 0 then d else d\<lparr>timer := True\<rparr>)"

text \<open>The tail write of \<open>submit\<close> and the head read of the drain, on the ring alone.\<close>

definition ring_put :: "'a entry \<Rightarrow> 'a delivery \<Rightarrow> 'a delivery" where
  "ring_put e d = d\<lparr>queue := (queue d)[(head d + depth d) mod capacity d := Some e],
     depth := depth d + 1, bytes := bytes d + entry_bytes e\<rparr>"

definition ring_take :: "'a entry \<Rightarrow> 'a delivery \<Rightarrow> 'a delivery" where
  "ring_take e d = d\<lparr>queue := (queue d)[head d := None],
     head := (head d + 1) mod capacity d, depth := depth d - 1, bytes := bytes d - entry_bytes e\<rparr>"

definition count_result :: "bool \<Rightarrow> 'a delivery \<Rightarrow> 'a delivery" where
  "count_result ok d =
     (if ok then d\<lparr>dispatched := dispatched d + 1\<rparr> else d\<lparr>discarded := discarded d + 1\<rparr>)"

type_synonym ('a, 'w) consumer = "'a \<Rightarrow> nat \<Rightarrow> 'w \<times> 'a delivery \<Rightarrow> bool \<times> 'w \<times> 'a delivery"
type_synonym ('a, 'w) overflower = "js_error \<Rightarrow> 'w \<times> 'a delivery \<Rightarrow> 'w \<times> 'a delivery"

definition consume_step ::
  "('a, 'w) consumer \<Rightarrow> 'a \<Rightarrow> nat \<Rightarrow> 'w \<times> 'a delivery \<Rightarrow> 'w \<times> 'a delivery" where
  "consume_step consume v g s =
     (case consume v g s of (ok, w, d) \<Rightarrow> (w, count_result ok d))"

definition overflow_error :: js_error where
  "overflow_error = Err ''event delivery queue overflow; LIVE connection stopped''"

definition rejects :: "int \<Rightarrow> 'a delivery \<Rightarrow> bool" where
  "rejects b d \<longleftrightarrow> depth d = capacity d \<or> b > maxBytes d - bytes d \<or> \<not> safe_int b \<or> b < 0"

definition submit ::
  "('a, 'w) consumer \<Rightarrow> ('a, 'w) overflower \<Rightarrow> 'a \<Rightarrow> nat \<Rightarrow> int
     \<Rightarrow> 'w \<times> 'a delivery \<Rightarrow> 'w \<times> 'a delivery" where
  "submit consume overflow v g b s =
     (case s of (w, d0) \<Rightarrow>
        let d = d0\<lparr>received := received d0 + 1\<rparr>
        in if capacity d = 0 then consume_step consume v g (w, d)
           else if rejects b d
           then overflow overflow_error
                  (w, clear (d\<lparr>rejections := rejections d + 1, discarded := discarded d + 1\<rparr>))
           else (w, schedule (ring_put \<lparr>ent_value = v, ent_generation = g, entry_bytes = b\<rparr> d)))"

text \<open>
  The body of the immediate. \<open>drain_loop n k\<close> has \<open>n\<close> iterations left and \<open>k\<close> entries consumed;
  \<open>now k\<close> is the clock after the \<open>k\<close>-th one and \<open>now 0\<close> the start. Reading an empty slot would throw
  (\<open>entry.bytes\<close> of \<open>undefined\<close>), which is \<open>None\<close> here.
\<close>

fun drain_loop ::
  "('a, 'w) consumer \<Rightarrow> (nat \<Rightarrow> rat) \<Rightarrow> nat \<Rightarrow> nat \<Rightarrow> 'w \<times> 'a delivery \<Rightarrow> ('w \<times> 'a delivery) option" where
  "drain_loop consume now 0 k s = Some s"
| "drain_loop consume now (Suc n) k (w, d) =
     (if depth d = 0 then Some (w, d)
      else case queue d ! head d of
        None \<Rightarrow> None
      | Some e \<Rightarrow>
          (let s = consume_step consume (ent_value e) (ent_generation e) (w, ring_take e d)
           in if now (Suc k) - now 0 \<ge> timeBudgetMs d then Some s
              else drain_loop consume now n (Suc k) s))"

definition drain ::
  "('a, 'w) consumer \<Rightarrow> (nat \<Rightarrow> rat) \<Rightarrow> 'w \<times> 'a delivery \<Rightarrow> ('w \<times> 'a delivery) option" where
  "drain consume now s =
     (case s of (w, d) \<Rightarrow>
        map_option (map_prod id schedule)
          (drain_loop consume now (batchSize d) 0 (w, d\<lparr>timer := False\<rparr>)))"

definition metrics :: "'a delivery \<Rightarrow> delivery_metrics" where
  "metrics d = \<lparr>m_queueDepth = depth d, m_queuedBytes = bytes d, m_received = received d,
     m_dispatched = dispatched d, m_discarded = discarded d, m_rejections = rejections d\<rparr>"

section \<open>The ring as a list\<close>

definition slot :: "'a delivery \<Rightarrow> nat \<Rightarrow> 'a entry option" where
  "slot d i = queue d ! ((head d + i) mod capacity d)"

definition contents :: "'a delivery \<Rightarrow> 'a entry list" where
  "contents d = map (\<lambda>i. the (slot d i)) [0..<depth d]"

definition ring_wf :: "'a delivery \<Rightarrow> bool" where
  "ring_wf d \<longleftrightarrow> length (queue d) = capacity d \<and> depth d \<le> capacity d \<and>
     (if capacity d = 0 then head d = 0 else head d < capacity d) \<and>
     (\<forall>i < capacity d. slot d i \<noteq> None \<longleftrightarrow> i < depth d) \<and>
     bytes d = sum_list (map entry_bytes (contents d)) \<and>
     (\<forall>e \<in> set (contents d). 0 \<le> entry_bytes e) \<and> bytes d \<le> maxBytes d \<and> 0 < maxBytes d \<and>
     0 < batchSize d"

definition balanced :: "nat \<Rightarrow> 'a delivery \<Rightarrow> bool" where
  "balanced k d \<longleftrightarrow> received d = dispatched d + discarded d + depth d + k"

definition armed :: "'a delivery \<Rightarrow> bool" where
  "armed d \<longleftrightarrow> (depth d > 0 \<longrightarrow> timer d)"

lemmas delivery_defs = clear_def schedule_def ring_put_def ring_take_def count_result_def

lemma length_contents [simp]: "length (contents d) = depth d"
  by (simp add: contents_def)

lemma contents_Nil_iff: "contents d = [] \<longleftrightarrow> depth d = 0"
  by (simp add: contents_def)

lemma nth_contents: "i < depth d \<Longrightarrow> contents d ! i = the (slot d i)"
  by (simp add: contents_def)

lemma ring_wf_bytes_nonneg: "ring_wf d \<Longrightarrow> 0 \<le> bytes d"
  unfolding ring_wf_def by (auto intro!: sum_list_nonneg)

lemma ring_wf_bounds: "ring_wf d \<Longrightarrow> depth d \<le> capacity d \<and> bytes d \<le> maxBytes d"
  by (simp add: ring_wf_def)

lemma contents_cong:
  assumes "queue d = queue d'" "head d = head d'" "depth d = depth d'" "capacity d = capacity d'"
  shows "contents d = contents d'"
  using assms by (simp add: contents_def slot_def)

lemma ring_wf_cong:
  assumes "queue d = queue d'" "head d = head d'" "depth d = depth d'" "capacity d = capacity d'"
    and "bytes d = bytes d'" "maxBytes d = maxBytes d'" "batchSize d = batchSize d'"
  shows "ring_wf d = ring_wf d'"
  using assms contents_cong [OF assms(1-4)] by (simp add: ring_wf_def slot_def)

lemma slot_ring_put:
  assumes "length (queue d) = capacity d" and "depth d < capacity d" and "i < capacity d"
  shows "slot (ring_put e d) i = (if i = depth d then Some e else slot d i)"
  using assms mod_add_cancel_lt [of i "capacity d" "depth d" "head d"]
  by (auto simp: slot_def ring_put_def nth_list_update)

lemma contents_ring_put:
  assumes "ring_wf d" and "depth d < capacity d"
  shows "contents (ring_put e d) = contents d @ [e]"
proof (rule nth_equalityI)
  show "length (contents (ring_put e d)) = length (contents d @ [e])"
    by (simp add: ring_put_def)
  fix i assume "i < length (contents (ring_put e d))"
  then have i: "i < Suc (depth d)" by (simp add: ring_put_def)
  moreover have "depth (ring_put e d) = Suc (depth d)" by (simp add: ring_put_def)
  ultimately show "contents (ring_put e d) ! i = (contents d @ [e]) ! i"
    using assms by (auto simp: nth_contents nth_append slot_ring_put ring_wf_def less_Suc_eq)
qed

lemma ring_wf_ring_put [inv_intros]:
  assumes "ring_wf d" and "\<not> rejects (entry_bytes e) d"
  shows "ring_wf (ring_put e d)"
proof -
  have room: "depth d < capacity d" and wf: "length (queue d) = capacity d"
    and b: "0 \<le> entry_bytes e" "entry_bytes e \<le> maxBytes d - bytes d"
    using assms by (auto simp: ring_wf_def rejects_def)
  have "slot (ring_put e d) i \<noteq> None \<longleftrightarrow> i < Suc (depth d)" if "i < capacity d" for i
    using assms(1) that slot_ring_put [OF wf room that] by (auto simp: ring_wf_def)
  then show ?thesis
    using assms(1) room b contents_ring_put [OF assms(1) room, of e]
    by (auto simp: ring_wf_def) (auto simp: ring_put_def)
qed

lemma ring_take_frame [frame_simps]:
  "length (queue (ring_take e d)) = length (queue d)" "capacity (ring_take e d) = capacity d"
  "depth (ring_take e d) = depth d - 1" "maxBytes (ring_take e d) = maxBytes d"
  "bytes (ring_take e d) = bytes d - entry_bytes e" "timer (ring_take e d) = timer d"
  "head (ring_take e d) = (head d + 1) mod capacity d" "received (ring_take e d) = received d"
  "dispatched (ring_take e d) = dispatched d" "discarded (ring_take e d) = discarded d"
  "batchSize (ring_take e d) = batchSize d" "timeBudgetMs (ring_take e d) = timeBudgetMs d"
  by (simp_all add: ring_take_def)

lemma slot_ring_take:
  assumes "length (queue d) = capacity d" and "head d < capacity d" and "Suc i < capacity d"
  shows "slot (ring_take e d) i = slot d (Suc i)"
proof -
  have "(head d + Suc i) mod capacity d \<noteq> head d"
    using mod_add_cancel_lt [of "Suc i" "capacity d" 0 "head d"] assms by auto
  moreover have "((head d + 1) mod capacity d + i) mod capacity d = (head d + Suc i) mod capacity d"
    by (simp add: mod_add_left_eq)
  ultimately show ?thesis by (simp add: slot_def ring_take_def)
qed

lemma slot_ring_take_last:
  assumes "length (queue d) = capacity d" and "head d < capacity d"
  shows "slot (ring_take e d) (capacity d - 1) = None"
proof -
  have "((head d + 1) mod capacity d + (capacity d - 1)) mod capacity d = head d"
    using assms(2) by (subst mod_add_left_eq) simp
  then show ?thesis using assms by (simp add: slot_def ring_take_def)
qed

lemma ring_head:
  assumes "ring_wf d" and "depth d > 0"
  obtains e where "queue d ! head d = Some e" and "hd (contents d) = e"
proof -
  have "head d < capacity d" using assms by (auto simp: ring_wf_def split: if_splits)
  then have "slot d 0 = queue d ! head d" by (simp add: slot_def)
  moreover have "slot d 0 \<noteq> None" using assms by (simp add: ring_wf_def)
  moreover have "hd (contents d) = the (slot d 0)"
    using assms(2) by (simp add: contents_def upt_rec)
  ultimately show ?thesis using that by auto
qed

lemma contents_ring_take:
  assumes "ring_wf d" and "depth d > 0" and "queue d ! head d = Some e"
  shows "contents d = e # contents (ring_take e d)"
proof (rule nth_equalityI)
  show "length (contents d) = length (e # contents (ring_take e d))"
    using assms(2) by (simp add: ring_take_def)
  fix i assume i: "i < length (contents d)"
  show "contents d ! i = (e # contents (ring_take e d)) ! i"
  proof (cases i)
    case 0
    then show ?thesis using assms i by (auto simp: nth_contents slot_def ring_wf_def)
  next
    case (Suc j)
    have "depth (ring_take e d) = depth d - 1" by (simp add: ring_take_def)
    moreover have "slot (ring_take e d) j = slot d (Suc j)"
      using assms(1,2) i Suc by (intro slot_ring_take) (auto simp: ring_wf_def split: if_splits)
    ultimately show ?thesis using i Suc by (simp add: nth_contents)
  qed
qed

lemma ring_wf_ring_take [inv_intros]:
  assumes wf: "ring_wf d" and pos: "depth d > 0" and e: "queue d ! head d = Some e"
  shows "ring_wf (ring_take e d)"
proof -
  have len: "length (queue d) = capacity d" and h: "head d < capacity d" and c: "0 < capacity d"
    using wf pos by (auto simp: ring_wf_def split: if_splits)
  have "slot (ring_take e d) i \<noteq> None \<longleftrightarrow> i < depth d - 1" if "i < capacity d" for i
  proof (cases "Suc i < capacity d")
    case True
    then show ?thesis using wf pos slot_ring_take [OF len h True] by (auto simp: ring_wf_def)
  next
    case False
    with that have "i = capacity d - 1" by simp
    then show ?thesis using slot_ring_take_last [OF len h, of e] wf by (auto simp: ring_wf_def)
  qed
  moreover have "bytes (ring_take e d) = sum_list (map entry_bytes (contents (ring_take e d)))"
    and "\<forall>x \<in> set (contents (ring_take e d)). 0 \<le> entry_bytes x"
    and "bytes (ring_take e d) \<le> maxBytes d" "0 < maxBytes d"
    using wf contents_ring_take [OF wf pos e] by (auto simp: ring_wf_def ring_take_frame)
  ultimately show ?thesis
    using wf c len unfolding ring_wf_def ring_take_frame by auto
qed

lemma contents_clear [simp]: "contents (clear d) = []"
  by (simp add: contents_def clear_def)

lemma ring_wf_clear [inv_intros]: "ring_wf d \<Longrightarrow> ring_wf (clear d)"
  by (auto simp: ring_wf_def) (auto simp: clear_def slot_def)

lemma schedule_frame [frame_simps]:
  "queue (schedule d) = queue d" "head (schedule d) = head d" "depth (schedule d) = depth d"
  "capacity (schedule d) = capacity d" "bytes (schedule d) = bytes d"
  "maxBytes (schedule d) = maxBytes d" "batchSize (schedule d) = batchSize d" "received (schedule d) = received d"
  "dispatched (schedule d) = dispatched d" "discarded (schedule d) = discarded d"
  "rejections (schedule d) = rejections d" "contents (schedule d) = contents d"
  by (auto simp: schedule_def contents_def slot_def)

lemma ring_wf_schedule [simp]: "ring_wf (schedule d) = ring_wf d"
  by (rule ring_wf_cong) (simp_all add: frame_simps)

lemma armed_schedule [simp]: "armed (schedule d)"
  by (simp add: armed_def schedule_def)

section \<open>The abstract queue the ring implements\<close>

text \<open>
  A bounded FIFO: \<open>items\<close> lists what is queued, oldest first; \<open>admits\<close> says whether an element may be
  appended. What a client relies on is that elements leave in the order they entered.
\<close>

locale fifo =
  fixes put :: "'x \<Rightarrow> 'q \<Rightarrow> 'q"
    and front :: "'q \<Rightarrow> 'x option"
    and take_front :: "'q \<Rightarrow> 'q"
    and items :: "'q \<Rightarrow> 'x list"
    and admits :: "'x \<Rightarrow> 'q \<Rightarrow> bool"
    and invar :: "'q \<Rightarrow> bool"
  assumes items_put: "invar q \<Longrightarrow> admits x q \<Longrightarrow> items (put x q) = items q @ [x]"
    and invar_put: "invar q \<Longrightarrow> admits x q \<Longrightarrow> invar (put x q)"
    and front_items: "invar q \<Longrightarrow> front q = (case items q of [] \<Rightarrow> None | x # _ \<Rightarrow> Some x)"
    and items_take: "invar q \<Longrightarrow> items q \<noteq> [] \<Longrightarrow> items (take_front q) = tl (items q)"
    and invar_take: "invar q \<Longrightarrow> items q \<noteq> [] \<Longrightarrow> invar (take_front q)"
begin

fun takes :: "nat \<Rightarrow> 'q \<Rightarrow> 'x list \<times> 'q" where
  "takes 0 q = ([], q)"
| "takes (Suc n) q = (case front q of None \<Rightarrow> ([], q)
     | Some x \<Rightarrow> (case takes n (take_front q) of (xs, q') \<Rightarrow> (x # xs, q')))"

fun puts :: "'x list \<Rightarrow> 'q \<Rightarrow> 'q" where
  "puts [] q = q"
| "puts (x # xs) q = (if admits x q then puts xs (put x q) else q)"

fun admitted :: "'x list \<Rightarrow> 'q \<Rightarrow> 'x list" where
  "admitted [] q = []"
| "admitted (x # xs) q = (if admits x q then x # admitted xs (put x q) else [])"

lemma puts_items: "invar q \<Longrightarrow> items (puts xs q) = items q @ admitted xs q \<and> invar (puts xs q)"
  by (induction xs arbitrary: q) (auto simp: items_put invar_put)

lemma takes_items:
  "invar q \<Longrightarrow> takes n q = (xs, q') \<Longrightarrow>
     xs = take n (items q) \<and> items q' = drop n (items q) \<and> invar q'"
proof (induction n arbitrary: q xs q')
  case 0
  then show ?case by simp
next
  case (Suc n)
  show ?case
  proof (cases "items q")
    case Nil
    with Suc.prems show ?thesis by (simp add: front_items)
  next
    case (Cons x ys)
    obtain zs q'' where z: "takes n (take_front q) = (zs, q'')" by fastforce
    have "items (take_front q) = ys" and "invar (take_front q)"
      using Suc.prems(1) Cons by (simp_all add: items_take invar_take)
    with Suc.IH [OF _ z] Suc.prems Cons z show ?thesis by (simp add: front_items)
  qed
qed

lemma first_in_first_out:
  assumes "invar q" and "items q = []"
  shows "fst (takes n (puts xs q)) = take n (admitted xs q)"
proof -
  obtain ys q' where t: "takes n (puts xs q) = (ys, q')" by fastforce
  have "items (puts xs q) = admitted xs q" and "invar (puts xs q)"
    using puts_items [OF assms(1), of xs] assms(2) by simp_all
  then show ?thesis using takes_items [OF _ t] t by simp
qed

end

definition ring_front :: "'a delivery \<Rightarrow> 'a entry option" where
  "ring_front d = (if depth d = 0 then None else queue d ! head d)"

definition ring_pop :: "'a delivery \<Rightarrow> 'a delivery" where
  "ring_pop d = (case ring_front d of None \<Rightarrow> d | Some e \<Rightarrow> ring_take e d)"

lemma ring_front_contents:
  assumes "ring_wf d"
  shows "ring_front d = (case contents d of [] \<Rightarrow> None | x # _ \<Rightarrow> Some x)"
proof (cases "depth d = 0")
  case False
  then obtain e where "queue d ! head d = Some e" and "hd (contents d) = e"
    using assms ring_head by blast
  moreover have "contents d \<noteq> []" using False by (simp add: contents_Nil_iff)
  ultimately show ?thesis using False by (cases "contents d") (simp_all add: ring_front_def)
qed (simp add: ring_front_def contents_def)

interpretation ring: fifo ring_put ring_front ring_pop contents
  "\<lambda>e d. \<not> rejects (entry_bytes e) d" ring_wf
proof (unfold_locales, goal_cases)
  case (1 q x)
  then show ?case by (intro contents_ring_put) (auto simp: rejects_def ring_wf_def)
next
  case (2 q x)
  then show ?case by (rule ring_wf_ring_put)
next
  case (3 q)
  then show ?case by (rule ring_front_contents)
next
  case (4 q)
  then obtain e where "queue q ! head q = Some e" 
    using ring_head by (fastforce simp: contents_Nil_iff)
  with 4 show ?case
    using contents_ring_take [of q e] by (auto simp: ring_pop_def ring_front_def contents_Nil_iff)
next
  case (5 q)
  then obtain e where "queue q ! head q = Some e" 
    using ring_head by (fastforce simp: contents_Nil_iff)
  with 5 show ?case
    using ring_wf_ring_take [of q e] by (auto simp: ring_pop_def ring_front_def contents_Nil_iff)
qed

section \<open>The contract with the owner\<close>

definition settled :: "nat \<Rightarrow> 'a delivery \<Rightarrow> bool" where
  "settled k d \<longleftrightarrow> ring_wf d \<and> balanced k d"

lemma settled_clear [inv_intros]: "settled k d \<Longrightarrow> settled k (clear d)"
  unfolding settled_def using ring_wf_clear by (auto simp: balanced_def clear_def)

lemma settled_count_result:
  assumes "settled (Suc k) d"
  shows "settled k (count_result ok d)"
proof -
  have "ring_wf (count_result ok d) = ring_wf d"
    by (rule ring_wf_cong) (simp_all add: count_result_def)
  then show ?thesis using assms by (simp add: settled_def balanced_def count_result_def)
qed

lemma settled_received:
  assumes "settled k d"
  shows "settled (Suc k) (d\<lparr>received := received d + 1\<rparr>)"
proof -
  have "ring_wf (d\<lparr>received := received d + 1\<rparr>) = ring_wf d" by (rule ring_wf_cong) simp_all
  then show ?thesis using assms by (simp add: settled_def balanced_def)
qed

lemma settled_disarm:
  assumes "settled k d"
  shows "settled k (d\<lparr>timer := False\<rparr>)"
proof -
  have "ring_wf (d\<lparr>timer := False\<rparr>) = ring_wf d" by (rule ring_wf_cong) simp_all
  then show ?thesis using assms by (simp add: settled_def balanced_def)
qed

lemma settled_reject:
  assumes "settled (Suc k) d"
  shows "settled k (d\<lparr>rejections := rejections d + 1, discarded := discarded d + 1\<rparr>)"
proof -
  have "ring_wf (d\<lparr>rejections := rejections d + 1, discarded := discarded d + 1\<rparr>) = ring_wf d"
    by (rule ring_wf_cong) simp_all
  then show ?thesis using assms by (simp add: settled_def balanced_def)
qed

lemma settled_ring_put:
  assumes "settled (Suc k) d" and "\<not> rejects (entry_bytes e) d"
  shows "settled k (ring_put e d)"
  using assms ring_wf_ring_put [OF _ assms(2)]
  by (simp add: settled_def balanced_def) (simp add: ring_put_def)

lemma settled_ring_take:
  assumes "settled k d" and "depth d > 0" and "queue d ! head d = Some e"
  shows "settled (Suc k) (ring_take e d)"
  using assms ring_wf_ring_take [OF _ assms(2,3)]
  by (simp add: settled_def balanced_def ring_take_frame)

lemma settled_schedule [simp]: "settled k (schedule d) = settled k d"
  by (simp add: settled_def balanced_def frame_simps)

lemma armed_clear [simp]: "armed (clear d)"
  by (simp add: armed_def clear_def)

locale delivery_owner =
  fixes consume :: "('a, 'w) consumer"
    and overflow :: "('a, 'w) overflower"
  assumes consume_owner: "consume v g (w, d) = (ok, w', d') \<Longrightarrow> d' = d \<or> d' = clear d"
    and overflow_owner: "overflow e (w, d) = (w', d') \<Longrightarrow> d' = d \<or> d' = clear d"
begin

lemma consume_step_settled:
  assumes "settled (Suc k) d"
  shows "settled k (snd (consume_step consume v g (w, d)))"
proof -
  obtain ok w' d' where c: "consume v g (w, d) = (ok, w', d')" by (cases "consume v g (w, d)") auto
  from consume_owner [OF c] have "settled (Suc k) d'" using assms settled_clear by auto
  then show ?thesis by (simp add: consume_step_def c settled_count_result)
qed

lemma consume_step_armed:
  assumes "armed d"
  shows "armed (snd (consume_step consume v g (w, d)))"
proof -
  obtain ok w' d' where c: "consume v g (w, d) = (ok, w', d')" by (cases "consume v g (w, d)") auto
  from consume_owner [OF c] assms have "armed d'" by auto
  then show ?thesis by (simp add: consume_step_def c armed_def count_result_def)
qed

lemma overflow_settled:
  assumes "settled k d"
  shows "settled k (snd (overflow e (w, d)))"
  using assms overflow_owner [of e w d] settled_clear by (cases "overflow e (w, d)") auto

lemma submit_settled:
  assumes "settled k d"
  shows "settled k (snd (submit consume overflow v g b (w, d)))"
  using settled_received [OF assms] settled_reject [OF settled_received [OF assms]]
  by (auto simp: submit_def Let_def
      intro: consume_step_settled overflow_settled settled_clear settled_ring_put)

lemma submit_armed:
  assumes "armed d"
  shows "armed (snd (submit consume overflow v g b (w, d)))"
proof -
  have "armed (d\<lparr>received := received d + 1\<rparr>)" using assms by (simp add: armed_def)
  moreover have "armed (snd (overflow e (w', clear d')))" for e w' d'
    using overflow_owner [of e w' "clear d'"] by (cases "overflow e (w', clear d')") auto
  ultimately show ?thesis by (simp add: submit_def Let_def consume_step_armed)
qed

lemma drain_loop_settled:
  assumes "settled k d"
  shows "\<exists>w' d'. drain_loop consume now n j (w, d) = Some (w', d') \<and> settled k d'"
  using assms
proof (induction n arbitrary: j w d)
  case 0
  then show ?case by simp
next
  case (Suc n)
  show ?case
  proof (cases "depth d = 0")
    case True
    with Suc.prems show ?thesis by simp
  next
    case False
    with Suc.prems obtain e where e: "queue d ! head d = Some e"
      using ring_head unfolding settled_def by blast
    let ?s = "consume_step consume (ent_value e) (ent_generation e) (w, ring_take e d)"
    have "settled k (snd ?s)"
      using settled_ring_take [OF Suc.prems _ e] False by (intro consume_step_settled) simp
    moreover obtain w' d' where "?s = (w', d')" by fastforce
    ultimately show ?thesis using False e Suc.IH [of d'] by (auto simp: Let_def)
  qed
qed

text \<open>One immediate: it never reads an empty slot, keeps the accounts, and re-arms itself.\<close>

lemma drain_settled:
  assumes "settled k d"
  shows "\<exists>w' d'. drain consume now (w, d) = Some (w', d') \<and> settled k d' \<and> armed d'"
  using drain_loop_settled [OF settled_disarm [OF assms], of now "batchSize d" 0 w]
  by (auto simp: drain_def)

text \<open>An immediate takes at least one event off a queue that is not empty, and a consumer can only make it shorter.\<close>

lemma consume_step_depth: "depth (snd (consume_step consume v g (w, d))) \<le> depth d"
proof -
  obtain ok w' d' where c: "consume v g (w, d) = (ok, w', d')" by (cases "consume v g (w, d)") auto
  from consume_owner [OF c] show ?thesis by (auto simp: consume_step_def c count_result_def clear_def)
qed

lemma drain_loop_depth:
  "drain_loop consume now n j (w, d) = Some s \<Longrightarrow> depth (snd s) \<le> depth d - (if n = 0 then 0 else 1)"
proof (induction n arbitrary: j w d)
  case (Suc n)
  show ?case
  proof (cases "depth d = 0")
    case False
    with Suc.prems obtain e where e: "queue d ! head d = Some e" by (auto split: option.splits)
    obtain w' d' where c: "consume_step consume (ent_value e) (ent_generation e) (w, ring_take e d) = (w', d')" by fastforce
    have "depth d' \<le> depth d - 1"
      using consume_step_depth [of "ent_value e" "ent_generation e" w "ring_take e d"] by (simp add: c frame_simps)
    moreover have "s = (w', d') \<or> drain_loop consume now n (Suc j) (w', d') = Some s"
      using False Suc.prems e by (simp add: c Let_def split: if_splits)
    ultimately show ?thesis using Suc.IH [of "Suc j" w' d'] by (elim disjE) (auto split: if_splits)
  qed (use Suc.prems in auto)
qed auto

lemma drain_depth: "drain consume now (w, d) = Some s \<Longrightarrow> ring_wf d \<Longrightarrow> depth (snd s) \<le> depth d - 1"
  using drain_loop_depth [of now "batchSize d" 0 w "d\<lparr>timer := False\<rparr>"]
  by (auto simp: drain_def frame_simps ring_wf_def)

end

section \<open>What a submit and a drain do\<close>

lemma submit_queues:
  assumes "ring_wf d" and "capacity d \<noteq> 0" and "\<not> rejects b d"
  shows "submit consume overflow v g b (w, d) =
     (w, schedule (ring_put \<lparr>ent_value = v, ent_generation = g, entry_bytes = b\<rparr>
           (d\<lparr>received := received d + 1\<rparr>)))"
proof -
  have "rejects b (d\<lparr>received := received d + 1\<rparr>) = rejects b d" by (simp add: rejects_def)
  with assms show ?thesis by (simp add: submit_def Let_def)
qed

lemma submit_overflows:
  assumes "capacity d \<noteq> 0" and "rejects b d"
  shows "submit consume overflow v g b (w, d) =
     overflow overflow_error (w, clear (d\<lparr>received := received d + 1,
       rejections := rejections d + 1, discarded := discarded d + 1\<rparr>))"
proof -
  have "rejects b (d\<lparr>received := received d + 1\<rparr>) = rejects b d" by (simp add: rejects_def)
  with assms show ?thesis by (simp add: submit_def Let_def)
qed

lemma contents_received [simp]: "contents (d\<lparr>received := n\<rparr>) = contents d"
  by (simp add: contents_def slot_def)

lemma ring_wf_received [simp]: "ring_wf (d\<lparr>received := n\<rparr>) = ring_wf d"
  by (rule ring_wf_cong) simp_all

lemma not_rejects_room: "ring_wf d \<Longrightarrow> \<not> rejects b d \<Longrightarrow> depth d < capacity d"
  by (auto simp: rejects_def ring_wf_def)

lemma new_EventDelivery_fields:
  assumes "new_EventDelivery options = Inr d"
  shows "queue d = replicate (capacity d) None" "head d = 0" "depth d = 0" "bytes d = 0"
    "timer d = False" "received d = 0" "dispatched d = 0" "discarded d = 0" "rejections d = 0"
  using assms by (auto simp: new_EventDelivery_def Let_def split: if_splits)

lemma new_EventDelivery_limits:
  assumes "new_EventDelivery options = Inr d"
  shows "capacity d \<le> 65536" "0 < maxBytes d" "maxBytes d \<le> MAX_SAFE_INTEGER"
    "0 < batchSize d" "0 < timeBudgetMs d"
proof -
  have pos: "0 < int_val n" "int_val n \<le> MAX_SAFE_INTEGER"
    if n: "isSafeInteger n" "\<not> js_le n (js_int 0)" for n
  proof -
    show "int_val n \<le> MAX_SAFE_INTEGER"
      using isSafeInteger_bound [OF n(1)] by (simp add: safe_int_def)
    show "0 < int_val n" using n by (cases n) (auto simp: int_val_def is_integral_def)
  qed
  have small: "nat (int_val n) \<le> 65536" if "isSafeInteger n" "\<not> js_less (js_int 65536) n" for n
    using that by (cases n) (auto simp: int_val_def nat_le_iff floor_le_iff)
  have budget: "0 < num_val n" if "isFinite n" "\<not> js_le n (js_int 0)" for n
    using that by (cases n) auto
  show "capacity d \<le> 65536" "0 < maxBytes d" "maxBytes d \<le> MAX_SAFE_INTEGER"
    "0 < batchSize d" "0 < timeBudgetMs d"
    using assms pos small budget
    by (auto simp: new_EventDelivery_def Let_def split: if_splits)
qed

lemma new_EventDelivery_settled:
  assumes "new_EventDelivery options = Inr d"
  shows "settled 0 d" and "armed d"
  using new_EventDelivery_fields [OF assms] new_EventDelivery_limits [OF assms]
  by (auto simp: settled_def balanced_def armed_def ring_wf_def contents_def slot_def)

text \<open>
  The list specification of a drain by a consumer that does not touch the queue: entries are handed
  over oldest first, each is counted once, and the loop stops at the batch size, at an empty queue
  or at the first entry after which the time budget is used up.
\<close>

fun spec_drain ::
  "('a \<Rightarrow> nat \<Rightarrow> 'w \<Rightarrow> bool \<times> 'w) \<Rightarrow> (nat \<Rightarrow> bool) \<Rightarrow> nat \<Rightarrow> nat
     \<Rightarrow> 'w \<times> 'a entry list \<times> nat \<times> nat \<Rightarrow> 'w \<times> 'a entry list \<times> nat \<times> nat" where
  "spec_drain f late 0 k s = s"
| "spec_drain f late (Suc n) k (w, [], x, y) = (w, [], x, y)"
| "spec_drain f late (Suc n) k (w, e # es, x, y) =
     (case f (ent_value e) (ent_generation e) w of (ok, w') \<Rightarrow>
        let s = (w', es, if ok then x + 1 else x, if ok then y else y + 1)
        in if late (Suc k) then s else spec_drain f late n (Suc k) s)"

definition quiet :: "('a \<Rightarrow> nat \<Rightarrow> 'w \<Rightarrow> bool \<times> 'w) \<Rightarrow> ('a, 'w) consumer" where
  "quiet f v g s = (case s of (w, d) \<Rightarrow> (case f v g w of (ok, w') \<Rightarrow> (ok, w', d)))"

definition abs_delivery :: "'w \<times> 'a delivery \<Rightarrow> 'w \<times> 'a entry list \<times> nat \<times> nat" where
  "abs_delivery s = (case s of (w, d) \<Rightarrow> (w, contents d, dispatched d, discarded d))"

lemma abs_delivery_schedule: "abs_delivery (map_prod id schedule s) = abs_delivery s"
  by (cases s) (simp add: abs_delivery_def frame_simps)

lemma count_result_frame [frame_simps]:
  "contents (count_result ok d) = contents d" "timeBudgetMs (count_result ok d) = timeBudgetMs d"
  "dispatched (count_result ok d) = (if ok then dispatched d + 1 else dispatched d)"
  "discarded (count_result ok d) = (if ok then discarded d else discarded d + 1)"
  by (simp_all add: count_result_def contents_def slot_def)

lemma ring_wf_count_result [simp]: "ring_wf (count_result ok d) = ring_wf d"
  by (rule ring_wf_cong) (simp_all add: count_result_def)

lemma drain_loop_refines:
  assumes "ring_wf d" and "timeBudgetMs d = t"
  shows "map_option abs_delivery (drain_loop (quiet f) now n k (w, d)) =
     Some (spec_drain f (\<lambda>i. now i - now 0 \<ge> t) n k (abs_delivery (w, d)))"
  using assms
proof (induction n arbitrary: k w d)
  case 0
  then show ?case by simp
next
  case (Suc n)
  show ?case
  proof (cases "depth d = 0")
    case True
    then have "contents d = []" by (simp add: contents_Nil_iff)
    with True show ?thesis by (simp add: abs_delivery_def)
  next
    case False
    with Suc.prems obtain e where e: "queue d ! head d = Some e" using ring_head by blast
    obtain ok w' where f: "f (ent_value e) (ent_generation e) w = (ok, w')" by fastforce
    let ?d = "count_result ok (ring_take e d)"
    have c: "contents d = e # contents ?d" and wf: "ring_wf ?d" and t: "timeBudgetMs ?d = t"
      using Suc.prems False e contents_ring_take [of d e] ring_wf_ring_take [of d e]
      by (simp_all add: frame_simps)
    have s: "consume_step (quiet f) (ent_value e) (ent_generation e) (w, ring_take e d) = (w', ?d)"
      by (simp add: consume_step_def quiet_def f)
    show ?thesis
      using False e f c s Suc.IH [OF wf t, of "Suc k" w'] Suc.prems(2)
      by (cases ok) (simp_all add: abs_delivery_def Let_def frame_simps)
  qed
qed

section \<open>Properties\<close>

text \<open>The constructor either refuses with a RangeError or builds an empty queue that satisfies the
  ring invariant, has balanced accounts and honours the documented limits.\<close>

lemma new_EventDelivery_sound:
  "case new_EventDelivery options of
     Inl e \<Rightarrow> e = RangeErr ''invalid event delivery capacity or scheduling budget''
   | Inr d \<Rightarrow> settled 0 d \<and> armed d \<and> contents d = [] \<and> capacity d \<le> 65536 \<and>
       0 < maxBytes d \<and> maxBytes d \<le> MAX_SAFE_INTEGER \<and> 0 < batchSize d \<and> 0 < timeBudgetMs d"
proof (cases "new_EventDelivery options :: (js_error, 'a delivery) result")
  case (Inl e)
  then show ?thesis by (auto simp: new_EventDelivery_def Let_def split: if_splits)
next
  case (Inr d)
  then show ?thesis
    using new_EventDelivery_settled [OF Inr] new_EventDelivery_limits [OF Inr]
      new_EventDelivery_fields [OF Inr]
    by (simp add: contents_Nil_iff)
qed

text \<open>An accepted submit runs no callback, appends the event at the tail of the FIFO, arms the
  immediate, and keeps depth and queued bytes within their bounds.\<close>

lemma submit_appends:
  assumes "ring_wf d" and "capacity d \<noteq> 0" and "\<not> rejects b d"
  shows "\<exists>d'. submit consume overflow v g b (w, d) = (w, d') \<and>
     contents d' = contents d @ [\<lparr>ent_value = v, ent_generation = g, entry_bytes = b\<rparr>] \<and>
     received d' = received d + 1 \<and> timer d' \<and> ring_wf d' \<and>
     depth d' \<le> capacity d \<and> bytes d' = bytes d + b \<and> bytes d' \<le> maxBytes d"
proof -
  let ?e = "\<lparr>ent_value = v, ent_generation = g, entry_bytes = b\<rparr>"
  let ?d = "ring_put ?e (d\<lparr>received := received d + 1\<rparr>)"
  have nr: "\<not> rejects (entry_bytes ?e) (d\<lparr>received := received d + 1\<rparr>)"
    using assms(3) by (simp add: rejects_def)
  have wf: "ring_wf ?d" using assms(1) nr by (intro ring_wf_ring_put) simp_all
  have "contents ?d = contents d @ [?e]"
    using assms(1) not_rejects_room [OF assms(1,3)] contents_ring_put [of "d\<lparr>received := received d + 1\<rparr>" ?e]
    by simp
  moreover have "depth (schedule ?d) = depth d + 1" "timer (schedule ?d)"
    by (simp_all add: schedule_def ring_put_def)
  moreover have "bytes ?d = bytes d + b" "maxBytes ?d = maxBytes d" "capacity ?d = capacity d"
    "received ?d = received d + 1"
    by (simp_all add: ring_put_def)
  ultimately show ?thesis
    using submit_queues [OF assms] wf ring_wf_bounds [OF wf]
    by (intro exI [of _ "schedule ?d"]) (simp add: frame_simps)
qed

definition example_queue :: "nat delivery" where
  "example_queue = \<lparr>capacity = 2, maxBytes = 100, batchSize = 64, timeBudgetMs = 8,
     queue = [None, None], head = 0, depth = 0, bytes = 0, timer = False, received = 0,
     dispatched = 0, discarded = 0, rejections = 0\<rparr>"

lemma example_queue_built:
  "new_EventDelivery (Some \<lparr>opt_capacity = js_int 2, opt_maxBytes = Some (js_int 100),
     opt_batchSize = None, opt_timeBudgetMs = None\<rparr>) = Inr example_queue"
  by (simp add: new_EventDelivery_def opt_field_def example_queue_def Let_def int_val_def
      numeral_2_eq_2 MAX_SAFE_INTEGER_def)

lemma example_queue_wf: "ring_wf example_queue"
  using new_EventDelivery_settled(1) [OF example_queue_built] by (simp add: settled_def)

lemma submit_appends_witness:
  "\<exists>d'. submit (quiet (\<lambda>v g w. (True, v # w))) (\<lambda>e s. s) 7 1 60 ([], example_queue) = ([], d') \<and>
     contents d' = [\<lparr>ent_value = 7, ent_generation = 1, entry_bytes = 60\<rparr>] \<and> timer d'"
proof -
  have "capacity example_queue \<noteq> 0" and "\<not> rejects 60 example_queue"
    and "contents example_queue = []"
    by (simp_all add: example_queue_def rejects_def safe_int_def MAX_SAFE_INTEGER_def contents_def)
  then show ?thesis
    using submit_appends [OF example_queue_wf, of 60 "quiet (\<lambda>v g w. (True, v # w))" "\<lambda>e s. s" 7 1 "[]"]
    by auto
qed

text \<open>C25: A submit beyond the capacity or the byte budget empties the queue, disarms the immediate,
  counts one rejection and every lost event as discarded, and then hands the overflow error to the
  owner.\<close>

theorem submit_overflow_discards:
  assumes "capacity d \<noteq> 0" and "rejects b d"
  shows "\<exists>d'. submit consume overflow v g b (w, d) = overflow overflow_error (w, d') \<and>
     contents d' = [] \<and> depth d' = 0 \<and> bytes d' = 0 \<and> \<not> timer d' \<and> received d' = received d + 1 \<and>
     rejections d' = rejections d + 1 \<and> discarded d' = discarded d + depth d + 1 \<and>
     dispatched d' = dispatched d"
  using submit_overflows [OF assms, of consume overflow v g w]
  by (intro exI conjI, assumption) (simp_all add: clear_def contents_Nil_iff)

theorem submit_overflow_discards_witness:
  "\<exists>d'. submit (quiet (\<lambda>v g w. (True, v # w))) (\<lambda>e s. s) 7 1 101 ([], example_queue) = ([], d') \<and>
     contents d' = [] \<and> rejections d' = 1 \<and> discarded d' = 1"
proof -
  have "capacity example_queue \<noteq> 0" and "rejects 101 example_queue"
    by (simp_all add: example_queue_def rejects_def)
  then show ?thesis
    using submit_overflow_discards [of example_queue 101 "quiet (\<lambda>v g w. (True, v # w))" "\<lambda>e s. s" 7 1 "[]"]
    by (auto simp: example_queue_def)
qed

text \<open>For a consumer that leaves the queue alone the drain is the list program itself.\<close>

lemma drain_quiet:
  assumes "ring_wf d"
  shows "map_option abs_delivery (drain (quiet f) now (w, d)) =
     Some (spec_drain f (\<lambda>i. now i - now 0 \<ge> timeBudgetMs d) (batchSize d) 0
       (w, contents d, dispatched d, discarded d))"
proof -
  let ?d = "d\<lparr>timer := False\<rparr>"
  have "ring_wf ?d = ring_wf d" by (rule ring_wf_cong) simp_all
  moreover have "abs_delivery (w, ?d) = (w, contents d, dispatched d, discarded d)"
    by (simp add: abs_delivery_def contents_def slot_def)
  ultimately show ?thesis
    using drain_loop_refines [of ?d "timeBudgetMs d" f now "batchSize d" 0 w] assms
    by (simp add: drain_def option.map_comp comp_def abs_delivery_schedule)
qed

text \<open>What a consumer that is handed \<open>v\<close> may do, seen from the list of queued events: \<open>es\<close> and the world \<open>w\<close> become \<open>es'\<close> and \<open>w'\<close>.\<close>

definition hands :: "('a, 'w) consumer \<Rightarrow> 'a \<Rightarrow> nat \<Rightarrow> 'w \<Rightarrow> 'a entry list \<Rightarrow> bool \<Rightarrow> 'w \<Rightarrow> 'a entry list \<Rightarrow> bool" where
  "hands consume v g w es ok w' es' \<longleftrightarrow>
     (\<exists>d d'. ring_wf d \<and> contents d = es \<and> consume v g (w, d) = (ok, w', d') \<and> contents d' = es')"

text \<open>
  The list specification of an immediate with \<open>n\<close> events left in its batch, of which \<open>k\<close> have been handed over: it stops at an empty list, at the end of the batch or
  behind the first event after which it is late; else the oldest event is handed over and counted by the consumer's answer, and events the consumer
  removes are discarded.
\<close>

inductive list_drain ::
  "('a, 'w) consumer \<Rightarrow> (nat \<Rightarrow> bool) \<Rightarrow> nat \<Rightarrow> nat \<Rightarrow> 'w \<times> 'a entry list \<times> nat \<times> nat \<Rightarrow> 'w \<times> 'a entry list \<times> nat \<times> nat \<Rightarrow> bool"
  for consume late where
  batch_end: "list_drain consume late 0 k s s"
| empty: "list_drain consume late (Suc n) k (w, [], x, y) (w, [], x, y)"
| late: "hands consume (ent_value e) (ent_generation e) w es ok w' es' \<Longrightarrow> es' = es \<or> es' = [] \<Longrightarrow> late (Suc k) \<Longrightarrow>
    list_drain consume late (Suc n) k (w, e # es, x, y)
      (w', es', if ok then x + 1 else x, y + (length es - length es') + (if ok then 0 else 1))"
| next_event: "hands consume (ent_value e) (ent_generation e) w es ok w' es' \<Longrightarrow> es' = es \<or> es' = [] \<Longrightarrow> \<not> late (Suc k) \<Longrightarrow>
    list_drain consume late n (Suc k) (w', es', if ok then x + 1 else x, y + (length es - length es') + (if ok then 0 else 1)) t \<Longrightarrow>
    list_drain consume late (Suc n) k (w, e # es, x, y) t"

inductive_cases list_drain_elims:
  "list_drain consume late 0 k s t" "list_drain consume late (Suc n) k (w, [], x, y) t" "list_drain consume late (Suc n) k (w, e # es, x, y) t"

lemma clear_frame:
  "contents (clear d) = []" "dispatched (clear d) = dispatched d" "discarded (clear d) = discarded d + depth d"
  "timeBudgetMs (clear d) = timeBudgetMs d" "timer (clear d) = False" "depth (clear d) = 0"
  by (simp_all add: clear_def contents_Nil_iff)

lemma drain_loop_lists:
  assumes law: "\<And>v g w d. snd (snd (consume v g (w, d))) \<in> {d, clear d}" and "ring_wf d" and "timeBudgetMs d = t" and "\<not> timer d"
  shows "\<exists>w' d'. drain_loop consume now n k (w, d) = Some (w', d') \<and> \<not> timer d' \<and>
     list_drain consume (\<lambda>i. now i - now 0 \<ge> t) n k (abs_delivery (w, d)) (abs_delivery (w', d'))"
  using assms(2-)
proof (induction n arbitrary: k w d)
  case 0
  then show ?case by (simp add: list_drain.batch_end)
next
  case (Suc n)
  show ?case
  proof (cases "depth d = 0")
    case True
    then have "contents d = []" by (simp add: contents_Nil_iff)
    with True Suc.prems show ?thesis by (simp add: abs_delivery_def list_drain.empty)
  next
    case False
    with Suc.prems obtain e where e: "queue d ! head d = Some e" using ring_head by blast
    let ?r = "ring_take e d"
    have c: "contents d = e # contents ?r" and wf: "ring_wf ?r"
      using Suc.prems False e contents_ring_take [of d e] ring_wf_ring_take [of d e] by simp_all
    obtain ok w' d' where f: "consume (ent_value e) (ent_generation e) (w, ?r) = (ok, w', d')"
      by (cases "consume (ent_value e) (ent_generation e) (w, ?r)") auto
    have d': "d' = ?r \<or> d' = clear ?r" using law [of "ent_value e" "ent_generation e" w ?r] by (simp add: f)
    let ?d = "count_result ok d'" and ?s = "consume_step consume (ent_value e) (ent_generation e) (w, ?r)"
    have s: "?s = (w', ?d)" by (simp add: consume_step_def f)
    have h: "hands consume (ent_value e) (ent_generation e) w (contents ?r) ok w' (contents d')" using wf f by (auto simp: hands_def)
    have es: "contents d' = contents ?r \<or> contents d' = []" using d' by (auto simp: clear_frame)
    have a: "abs_delivery (w, d) = (w, e # contents ?r, dispatched d, discarded d)" by (simp add: abs_delivery_def c)
    have a': "abs_delivery (w', ?d) = (w', contents d', if ok then dispatched d + 1 else dispatched d,
        discarded d + (length (contents ?r) - length (contents d')) + (if ok then 0 else 1))"
      using d' by (auto simp: abs_delivery_def frame_simps clear_frame ring_take_frame length_contents)
    have "ring_wf ?d" using d' wf ring_wf_clear [of ?r] by auto
    moreover have "timeBudgetMs ?d = t" "\<not> timer ?d"
      using d' Suc.prems by (auto simp: frame_simps clear_frame count_result_def)
    ultimately have fields: "ring_wf ?d" "timeBudgetMs ?d = t" "\<not> timer ?d" by simp_all
    show ?thesis
    proof (cases "now (Suc k) - now 0 \<ge> t")
      case True
      have "list_drain consume (\<lambda>i. now i - now 0 \<ge> t) (Suc n) k (abs_delivery (w, d)) (abs_delivery (w', ?d))"
        unfolding a a' by (rule list_drain.late [OF h es]) (use True in simp)
      with True show ?thesis using False e s fields(3) Suc.prems(2) by (auto simp: Let_def)
    next
      case late: False
      from Suc.IH [OF fields, of "Suc k" w'] obtain w'' d'' where "drain_loop consume now n (Suc k) (w', ?d) = Some (w'', d'')" "\<not> timer d''"
        "list_drain consume (\<lambda>i. now i - now 0 \<ge> t) n (Suc k) (abs_delivery (w', ?d)) (abs_delivery (w'', d''))" by blast
      with list_drain.next_event [OF h es, of "\<lambda>i. now i - now 0 \<ge> t" k n "dispatched d" "discarded d" "abs_delivery (w'', d'')"] late show ?thesis
        using False e s Suc.prems unfolding a by (auto simp: Let_def a')
    qed
  qed
qed

text \<open>C2: an immediate refines its list specification, whatever the clock and the consumer do, when the consumer leaves the queue as it is or clears it, as
  listeners that disconnect do: it never reads an empty slot; queued events are handed over oldest first, at most \<open>batchSize\<close> of them and none behind the
  one after which the time budget is spent; each event that leaves the queue is counted once, as dispatched or discarded, those a consumer clears away among
  them; and a new immediate is armed exactly if events are left.\<close>

theorem drain_refines_list:
  assumes "\<forall>v g w d. snd (snd (consume v g (w, d))) \<in> {d, clear d}" and "ring_wf d"
  shows "\<exists>s. drain consume now (w, d) = Some s \<and>
     list_drain consume (\<lambda>i. now i - now 0 \<ge> timeBudgetMs d) (batchSize d) 0 (w, contents d, dispatched d, discarded d) (abs_delivery s) \<and>
     (timer (snd s) \<longleftrightarrow> contents (snd s) \<noteq> [])"
proof -
  let ?d = "d\<lparr>timer := False\<rparr>"
  have "ring_wf ?d" using assms(2) ring_wf_cong [of ?d d] by simp
  from drain_loop_lists [where consume = consume and t = "timeBudgetMs d" and now = now and n = "batchSize d" and k = 0 and w = w, OF assms(1) [rule_format] this] obtain w' d' where
    l: "drain_loop consume now (batchSize d) 0 (w, ?d) = Some (w', d')" "\<not> timer d'"
      "list_drain consume (\<lambda>i. now i - now 0 \<ge> timeBudgetMs d) (batchSize d) 0 (abs_delivery (w, ?d)) (abs_delivery (w', d'))" by auto
  have "abs_delivery (w, ?d) = (w, contents d, dispatched d, discarded d)" by (simp add: abs_delivery_def contents_def slot_def)
  moreover have "timer (schedule d') \<longleftrightarrow> contents (schedule d') \<noteq> []" using l(2) by (simp add: schedule_def contents_Nil_iff)
  ultimately show ?thesis using l abs_delivery_schedule [of "(w', d')"] by (simp add: drain_def)
qed

text \<open>Three events in a ring of four whose head has wrapped, drained two at a time; a consumer that records events and clears the queue at one of them.\<close>

definition queued :: "nat \<Rightarrow> nat entry" where
  "queued v = \<lparr>ent_value = v, ent_generation = 1, entry_bytes = 10\<rparr>"

definition filled_queue :: "nat delivery" where
  "filled_queue = \<lparr>capacity = 4, maxBytes = 100, batchSize = 2, timeBudgetMs = 8,
     queue = [Some (queued 7), None, Some (queued 5), Some (queued 6)], head = 2, depth = 3, bytes = 30, timer = True, received = 3,
     dispatched = 0, discarded = 0, rejections = 0\<rparr>"

definition recorder :: "nat \<Rightarrow> (nat, nat list) consumer" where
  "recorder stop v g s = (case s of (w, d) \<Rightarrow> (True, v # w, if v = stop then clear d else d))"

lemma hands_recorder: "hands (recorder stop) v g w es ok w' es' \<Longrightarrow> ok \<and> w' = v # w \<and> es' = (if v = stop then [] else es)"
  by (auto simp: hands_def recorder_def clear_frame split: if_splits)

lemma filled_queue_wf: "ring_wf filled_queue" "contents filled_queue = [queued 5, queued 6, queued 7]"
proof -
  show c: "contents filled_queue = [queued 5, queued 6, queued 7]" by code_simp
  have "list_all (\<lambda>i. slot filled_queue i \<noteq> None \<longleftrightarrow> i < depth filled_queue) [0..<4]" by code_simp
  then show "ring_wf filled_queue" unfolding ring_wf_def c by (simp add: list_all_iff) (simp add: filled_queue_def queued_def)
qed

lemma recorder_step:
  assumes "list_drain (recorder stop) late (Suc n) k (w, e # es, x, y) t"
  shows "if late (Suc k) then t = (ent_value e # w, if ent_value e = stop then [] else es, x + 1, y + (if ent_value e = stop then length es else 0))
    else list_drain (recorder stop) late n (Suc k)
      (ent_value e # w, if ent_value e = stop then [] else es, x + 1, y + (if ent_value e = stop then length es else 0)) t"
  using assms
proof cases
  case (late ok w' es')
  from hands_recorder [OF late(2)] late(1,4) show ?thesis by simp
next
  case (next_event ok w' es')
  from hands_recorder [OF next_event(1)] next_event(3,4) show ?thesis by (cases "ent_value e = stop") simp_all
qed

lemma filled_queue_run:
  assumes "list_drain (recorder stop) late 2 0 ([], [queued 5, queued 6, queued 7], 0, 0) t"
  shows "stop = 0 \<Longrightarrow> t = (if late 1 then ([5], [queued 6, queued 7], 1, 0) else ([6, 5], [queued 7], 2, 0))"
    and "stop = 5 \<Longrightarrow> t = ([5], [], 1, 2)"
proof -
  have v: "ent_value (queued v) = v" for v by (simp add: queued_def)
  note first = recorder_step [OF assms [unfolded numeral_2_eq_2], unfolded v]
  have last: "t = s" if "list_drain (recorder stop) late 0 k s t" for k s using that by cases
  show "t = (if late 1 then ([5], [queued 6, queued 7], 1, 0) else ([6, 5], [queued 7], 2, 0))" if "stop = 0"
  proof (cases "late 1")
    case False
    with first that have "list_drain (recorder stop) late (Suc 0) 1 ([5], [queued 6, queued 7], 1, 0) t" by simp
    from recorder_step [OF this, unfolded v] last False that show ?thesis by (auto simp: numeral_2_eq_2 split: if_splits)
  qed (use first that in simp)
  show "t = ([5], [], 1, 2)" if "stop = 5"
  proof (cases "late 1")
    case False
    with first that have "list_drain (recorder stop) late (Suc 0) 1 ([5], [], 1, 2) t" by (simp add: numeral_2_eq_2)
    then show ?thesis by cases
  qed (use first that in simp)
qed

theorem drain_refines_list_witness:
  "(\<exists>s. drain (recorder 0) (\<lambda>i. 0) ([], filled_queue) = Some s \<and> abs_delivery s = ([6, 5], [queued 7], 2, 0) \<and> timer (snd s)) \<and>
   (\<exists>s. drain (recorder 0) (\<lambda>i. 5 * of_nat i) ([], filled_queue\<lparr>timeBudgetMs := 1\<rparr>) = Some s \<and>
      abs_delivery s = ([5], [queued 6, queued 7], 1, 0) \<and> timer (snd s)) \<and>
   (\<exists>s. drain (recorder 5) (\<lambda>i. 0) ([], filled_queue) = Some s \<and> abs_delivery s = ([5], [], 1, 2) \<and> \<not> timer (snd s))"
proof -
  have law: "\<forall>v g w d. snd (snd (recorder stop v g (w, d))) \<in> {d, clear d}" for stop by (simp add: recorder_def)
  have slow: "ring_wf (filled_queue\<lparr>timeBudgetMs := 1\<rparr>)" "contents (filled_queue\<lparr>timeBudgetMs := 1\<rparr>) = [queued 5, queued 6, queued 7]"
    using filled_queue_wf ring_wf_cong [of "filled_queue\<lparr>timeBudgetMs := 1\<rparr>" filled_queue] by (simp_all add: contents_def slot_def)
  have fields: "batchSize filled_queue = 2" "timeBudgetMs filled_queue = 8" "dispatched filled_queue = 0" "discarded filled_queue = 0"
    by (simp_all add: filled_queue_def)
  have fields2: "batchSize (filled_queue\<lparr>timeBudgetMs := 1\<rparr>) = 2" "timeBudgetMs (filled_queue\<lparr>timeBudgetMs := 1\<rparr>) = 1"
    "dispatched (filled_queue\<lparr>timeBudgetMs := 1\<rparr>) = 0" "discarded (filled_queue\<lparr>timeBudgetMs := 1\<rparr>) = 0"
    by (simp_all add: filled_queue_def)
  have abs: "contents (snd s) = fst (snd (abs_delivery s))" for s :: "nat list \<times> nat delivery" by (cases s) (simp add: abs_delivery_def)
  obtain s where s: "drain (recorder 0) (\<lambda>i. 0) ([], filled_queue) = Some s"
      "list_drain (recorder 0) (\<lambda>i. (8 :: rat) \<le> 0 - 0) 2 0 ([], [queued 5, queued 6, queued 7], 0, 0) (abs_delivery s)"
      "timer (snd s) \<longleftrightarrow> fst (snd (abs_delivery s)) \<noteq> []"
    using drain_refines_list [OF law [of 0] filled_queue_wf(1), where now = "\<lambda>i. 0" and w = "[]"]
    unfolding abs fields filled_queue_wf by (elim exE conjE) (rule that)
  obtain u where u: "drain (recorder 0) (\<lambda>i. 5 * of_nat i) ([], filled_queue\<lparr>timeBudgetMs := 1\<rparr>) = Some u"
      "list_drain (recorder 0) (\<lambda>i. (1 :: rat) \<le> 5 * of_nat i - 5 * of_nat 0) 2 0 ([], [queued 5, queued 6, queued 7], 0, 0) (abs_delivery u)"
      "timer (snd u) \<longleftrightarrow> fst (snd (abs_delivery u)) \<noteq> []"
    using drain_refines_list [OF law [of 0] slow(1), where now = "\<lambda>i. 5 * of_nat i" and w = "[]", unfolded abs slow(2) fields2] by (elim exE conjE) (rule that)
  obtain v where v: "drain (recorder 5) (\<lambda>i. 0) ([], filled_queue) = Some v"
      "list_drain (recorder 5) (\<lambda>i. (8 :: rat) \<le> 0 - 0) 2 0 ([], [queued 5, queued 6, queued 7], 0, 0) (abs_delivery v)"
      "timer (snd v) \<longleftrightarrow> fst (snd (abs_delivery v)) \<noteq> []"
    using drain_refines_list [OF law [of 5] filled_queue_wf(1), where now = "\<lambda>i. 0" and w = "[]"]
    unfolding abs fields filled_queue_wf by (elim exE conjE) (rule that)
  have "abs_delivery s = ([6, 5], [queued 7], 2, 0)" using filled_queue_run(1) [OF s(2)] by simp
  moreover have "abs_delivery u = ([5], [queued 6, queued 7], 1, 0)" using filled_queue_run(1) [OF u(2)] by simp
  moreover have "abs_delivery v = ([5], [], 1, 2)" using filled_queue_run(2) [OF v(2)] by simp
  ultimately show ?thesis using s(1,3) u(1,3) v(1,3) by auto
qed

end
