(* ===== verification/Frames.thy ===== *)
theory Frames
  imports Player
begin

unbundle bit_operations_syntax

text \<open>
  \<open>packages/tiktok-live/src/frames.ts\<close>: the bounds on what is written to and read from the socket, the
  allocation-free scan of a batch before the protobuf runtime parses it, and the small helpers on a
  decoded frame. Bytes are 8-bit words. The scan keeps its accumulator in a double, so the model
  computes it with \<open>fl_add\<close> and \<open>fl_mul\<close>; a position is a natural number and reading past the end is the
  thrown error. \<open>fromBinary\<close> (the protobuf runtime) and \<open>gunzipSync\<close> (zlib) are arguments.

  Shown: the scan accepts exactly the byte strings that are a sequence of well-formed fields with at
  most 8192 length-delimited messages, although its varints are rounded to doubles; every decoder is
  bounded; and the acknowledgement of a frame carries that frame's log id.
\<close>

section \<open>Socket writes\<close>

definition writeBufferLimit :: "jsnumber option \<Rightarrow> (js_error, int) result" where
  "writeBufferLimit v =
     (let n = (case v of None \<Rightarrow> js_int (32 * 1024 * 1024) | Some x \<Rightarrow> x)
      in if \<not> isSafeInteger n \<or> js_le n (js_int 0)
         then Inl (RangeErr ''maxBufferedBytes must be a positive safe integer'') else Inr (int_val n))"

text \<open>\<open>sendBoundedFrame\<close> up to the call of \<open>socket.send\<close>: \<open>Inr data\<close> is what is handed to it.\<close>

definition sendBoundedFrame :: "jsnumber option \<Rightarrow> bytes \<Rightarrow> int \<Rightarrow> (js_error, bytes) result" where
  "sendBoundedFrame bufferedAmount data limit =
     (let queued = (case bufferedAmount of None \<Rightarrow> js_int 0 | Some q \<Rightarrow> q)
      in if \<not> isFinite queued \<or> js_less queued (js_int 0)
            \<or> of_nat (length data) > of_int limit - num_val queued
         then Inl (SocketWriteOverflowErr ''WebSocket write buffer exceeded its configured capacity'')
         else Inr data)"

section \<open>Bounds and the batch scan\<close>

definition MAX_FRAME_BYTES :: nat where "MAX_FRAME_BYTES = 16 * 1024 * 1024"
definition MAX_BATCH_BYTES :: nat where "MAX_BATCH_BYTES = 16 * 1024 * 1024"
definition MAX_BATCH_MESSAGES :: nat where "MAX_BATCH_MESSAGES = 8192"

definition bounded :: "bytes \<Rightarrow> nat \<Rightarrow> string \<Rightarrow> (js_error, bytes) result" where
  "bounded input limit kind =
     (if length input > limit then Inl (RangeErr (kind @ '' exceeds '' @ nat_str limit @ '' bytes''))
      else Inr input)"

text \<open>The closure \<open>varint\<close>: \<open>n\<close> iterations are left, so \<open>n = 0\<close> inside the body is \<open>i = 9\<close>. The result is
  the value and the new position.\<close>

fun varint_loop :: "bytes \<Rightarrow> nat \<Rightarrow> nat \<Rightarrow> nat \<Rightarrow> nat \<Rightarrow> (js_error, nat \<times> nat) result" where
  "varint_loop input 0 pos v factor = Inl (Err ''overflowing batch varint'')"
| "varint_loop input (Suc n) pos v factor =
     (if pos \<ge> length input then Inl (Err ''truncated batch varint'')
      else let b = input ! pos
           in if n = 0 \<and> unat b > 1 then Inl (Err ''overflowing batch varint'')
              else let v' = fl_add v (fl_mul (unat (b AND 127)) factor)
                   in if b AND 128 = 0 then Inr (v', Suc pos)
                      else varint_loop input n (Suc pos) v' (fl_mul factor 128))"

definition varint :: "bytes \<Rightarrow> nat \<Rightarrow> (js_error, nat \<times> nat) result" where
  "varint input pos = varint_loop input 10 pos 0 1"

text \<open>One iteration of the \<open>while\<close>: the tag, the message count, and the step over the field's body.\<close>

definition skip_field :: "bytes \<Rightarrow> nat \<Rightarrow> nat \<Rightarrow> (js_error, nat) result" where
  "skip_field input wire pos =
     (if wire = 0 then res_bind (varint input pos) (\<lambda>(_, p). Inr p)
      else if wire = 1 then Inr (pos + 8)
      else if wire = 2 then
        res_bind (varint input pos) (\<lambda>(len, p).
          if \<not> safe_int (int len) \<or> int len > int (length input) - int p
          then Inl (Err ''truncated batch field'') else Inr (p + len))
      else if wire = 5 then Inr (pos + 4)
      else Inl (Err ''unsupported batch wire type''))"

definition preflight_step :: "bytes \<Rightarrow> nat \<Rightarrow> nat \<Rightarrow> (js_error, nat \<times> nat) result" where
  "preflight_step input pos cnt =
     res_bind (varint input pos) (\<lambda>(tag, p).
       if tag < 8 \<or> tag > 0xffffffff then Inl (Err ''invalid batch field tag'')
       else let wire = tag mod 8; first = (tag div 8 = 1)
            in if first \<and> wire \<noteq> 2 then Inl (Err ''invalid message wire type'')
               else if first \<and> cnt + 1 > MAX_BATCH_MESSAGES
               then Inl (RangeErr ''batch exceeds 8192 messages'')
               else res_bind (skip_field input wire p) (\<lambda>q.
                 if q > length input then Inl (Err ''truncated batch field'')
                 else Inr (q, if first then cnt + 1 else cnt)))"

lemma varint_loop_advances:
  "varint_loop input n pos v factor = Inr (x, p) \<Longrightarrow> pos < p \<and> p \<le> length input"
  by (induction input n pos v factor rule: varint_loop.induct)
    (fastforce simp: Let_def split: if_splits)+

lemma varint_advances: "varint input pos = Inr (x, p) \<Longrightarrow> pos < p \<and> p \<le> length input"
  unfolding varint_def by (rule varint_loop_advances)

lemma skip_field_advances: "skip_field input wire pos = Inr p \<Longrightarrow> pos \<le> p"
  by (auto simp: skip_field_def res_bind_Inr_iff dest!: varint_advances split: if_splits)

lemma preflight_step_advances:
  "preflight_step input pos cnt = Inr (p, c) \<Longrightarrow> pos < p \<and> p \<le> length input"
  by (fastforce simp: preflight_step_def res_bind_Inr_iff Let_def dest!: varint_advances
      skip_field_advances split: if_splits)

function preflight_loop :: "bytes \<Rightarrow> nat \<Rightarrow> nat \<Rightarrow> (js_error, nat) result" where
  "preflight_loop input pos cnt =
     (if pos < length input then
        (case preflight_step input pos cnt of
           Inl e \<Rightarrow> Inl e
         | Inr (p, c) \<Rightarrow> preflight_loop input p c)
      else Inr cnt)"
  by pat_completeness auto
termination
  by (relation "measure (\<lambda>(input, pos, cnt). length input - pos)")
    (auto dest!: preflight_step_advances)

declare preflight_loop.simps [simp del]

definition preflightBatch :: "bytes \<Rightarrow> (js_error, unit) result" where
  "preflightBatch input = res_bind (preflight_loop input 0 0) (\<lambda>_. Inr ())"

section \<open>Decoding\<close>

definition decodePushFrame :: "WebcastPushFrame decoder \<Rightarrow> bytes \<Rightarrow> (js_error, WebcastPushFrame) result" where
  "decodePushFrame fromBinary input = res_bind (bounded input MAX_FRAME_BYTES ''frame'') fromBinary"

definition COMPRESS_TYPE_HEADER :: string where "COMPRESS_TYPE_HEADER = ''compress_type''"
definition MESSAGE_PAYLOAD_TYPE :: string where "MESSAGE_PAYLOAD_TYPE = ''msg''"

definition frameHeaders :: "WebcastPushFrame \<Rightarrow> (string \<times> string) list" where
  "frameHeaders frame = fold (\<lambda>h. obj_put (hdr_key h) (hdr_value h)) (pf_headers frame) []"

definition frameCompressType :: "WebcastPushFrame \<Rightarrow> string" where
  "frameCompressType frame =
     (case find (\<lambda>h. hdr_key h = COMPRESS_TYPE_HEADER) (pf_headers frame) of
        None \<Rightarrow> '''' | Some h \<Rightarrow> hdr_value h)"

definition carriesEvents :: "WebcastPushFrame \<Rightarrow> bool" where
  "carriesEvents frame \<longleftrightarrow> pf_payloadType frame = MESSAGE_PAYLOAD_TYPE"

definition isTransportFrame :: "WebcastPushFrame \<Rightarrow> bool" where
  "isTransportFrame frame \<longleftrightarrow> \<not> carriesEvents frame"

definition decompress ::
  "(bytes \<Rightarrow> nat \<Rightarrow> (js_error, bytes) result) \<Rightarrow> WebcastPushFrame \<Rightarrow> (js_error, bytes) result" where
  "decompress gunzipSync frame =
     res_bind (bounded (pf_payload frame) MAX_FRAME_BYTES ''compressed payload'') (\<lambda>_.
       if frameCompressType frame = ''gzip'' then gunzipSync (pf_payload frame) MAX_BATCH_BYTES
       else bounded (pf_payload frame) MAX_BATCH_BYTES ''batch'')"

definition decodeBatch ::
  "ProtoMessageFetchResult decoder \<Rightarrow> bytes \<Rightarrow> (js_error, ProtoMessageFetchResult) result" where
  "decodeBatch fromBinary payload =
     res_bind (bounded payload MAX_BATCH_BYTES ''batch'') (\<lambda>input.
     res_bind (preflightBatch input) (\<lambda>_. fromBinary input))"

definition ackFrame :: "WebcastPushFrame encoder \<Rightarrow> WebcastPushFrame \<Rightarrow> string \<Rightarrow> (js_error, bytes) result" where
  "ackFrame toBinary frame internalExt =
     pushFrame toBinary FRAME_TYPE_ack (PText (if internalExt = '''' then ''-'' else internalExt))
       (pf_logId frame)"

definition ackFrameForBatch ::
  "WebcastPushFrame encoder \<Rightarrow> WebcastPushFrame \<Rightarrow> string \<Rightarrow> (js_error, bytes) result" where
  "ackFrameForBatch toBinary frame internalExt =
     pushFrame toBinary FRAME_TYPE_ack (PText internalExt) (pf_logId frame)"

section \<open>The wire format, exactly\<close>

text \<open>The specification the scan is measured against, on the remaining bytes and with exact integers: a
  varint is at most ten groups of seven bits, the tenth at most one; a field is a tag and the body its
  wire type calls for.\<close>

fun take_varint :: "nat \<Rightarrow> bytes \<Rightarrow> (nat \<times> bytes) option" where
  "take_varint 0 bs = None"
| "take_varint (Suc n) [] = None"
| "take_varint (Suc n) (b # bs) =
     (if n = 0 \<and> unat b > 1 then None
      else if unat b < 128 then Some (unat b, bs)
      else map_option (\<lambda>(v, r). (unat b - 128 + 128 * v, r)) (take_varint n bs))"

definition take_body :: "nat \<Rightarrow> bytes \<Rightarrow> bytes option" where
  "take_body wire bs =
     (if wire = 0 then map_option snd (take_varint 10 bs)
      else if wire = 1 then (if 8 \<le> length bs then Some (drop 8 bs) else None)
      else if wire = 2 then
        (case take_varint 10 bs of None \<Rightarrow> None
         | Some (n, r) \<Rightarrow> if n \<le> length r then Some (drop n r) else None)
      else if wire = 5 then (if 4 \<le> length bs then Some (drop 4 bs) else None)
      else None)"

definition take_field :: "bytes \<Rightarrow> ((nat \<times> nat) \<times> bytes) option" where
  "take_field bs = (case take_varint 10 bs of None \<Rightarrow> None
     | Some (tag, r) \<Rightarrow> if tag < 8 \<or> tag > 0xffffffff then None
         else map_option (Pair (tag div 8, tag mod 8)) (take_body (tag mod 8) r))"

lemma take_varint_shorter: "take_varint n bs = Some (v, r) \<Longrightarrow> length r < length bs"
  by (induction n bs arbitrary: v r rule: take_varint.induct) (fastforce split: if_splits)+

lemma take_body_shorter: "take_body w bs = Some r \<Longrightarrow> length r \<le> length bs"
  by (fastforce simp: take_body_def dest!: take_varint_shorter split: if_splits option.splits)

lemma take_field_shorter: "take_field bs = Some (f, r) \<Longrightarrow> length r < length bs"
  by (fastforce simp: take_field_def dest!: take_varint_shorter take_body_shorter
      split: if_splits option.splits)

function wire_fields :: "bytes \<Rightarrow> (nat \<times> nat) list option" where
  "wire_fields bs =
     (if bs = [] then Some []
      else case take_field bs of None \<Rightarrow> None | Some (f, r) \<Rightarrow> map_option ((#) f) (wire_fields r))"
  by pat_completeness auto
termination
  by (relation "measure length") (auto dest!: take_field_shorter)

declare wire_fields.simps [simp del]

definition is_message :: "nat \<times> nat \<Rightarrow> bool" where
  "is_message f \<longleftrightarrow> fst f = 1"

definition acceptable :: "nat \<Rightarrow> (nat \<times> nat) list \<Rightarrow> bool" where
  "acceptable limit fs \<longleftrightarrow> (\<forall>f \<in> set fs. is_message f \<longrightarrow> snd f = 2) \<and> length (filter is_message fs) \<le> limit"

definition well_formed_batch :: "bytes \<Rightarrow> bool" where
  "well_formed_batch bs \<longleftrightarrow>
     (case wire_fields bs of None \<Rightarrow> False | Some fs \<Rightarrow> acceptable MAX_BATCH_MESSAGES fs)"

lemma acceptable_Nil [simp]: "acceptable limit []"
  by (simp add: acceptable_def)

lemma acceptable_Cons [simp]: "acceptable limit ((n, w) # fs) \<longleftrightarrow>
    (if n = 1 then w = 2 \<and> 0 < limit \<and> acceptable (limit - 1) fs else acceptable limit fs)"
  by (auto simp: acceptable_def is_message_def)

lemma low_bits: "unat (b AND 127) = unat b mod 128" for b :: byte
proof -
  have "b AND 127 = take_bit 7 b" by (simp add: take_bit_eq_mask mask_eq_exp_minus_1)
  then show ?thesis by (simp add: take_bit_eq_mod unat_mod)
qed

lemma high_bit: "b AND 128 = 0 \<longleftrightarrow> unat b < 128" for b :: byte
proof -
  have "b AND 128 = 0 \<longleftrightarrow> \<not> bit b 7"
    using and_exp_eq_0_iff_not_bit [of b 7] by simp
  moreover have "bit b 7 \<longleftrightarrow> bit (unat b) 7" by (simp add: bit_unsigned_iff)
  moreover have "bit (unat b) 7 \<longleftrightarrow> odd (unat b div 128)" by (simp add: bit_iff_odd)
  moreover have "unat b < 256" using unsigned_less [of b] by simp
  then have "unat b div 128 = (if unat b < 128 then 0 else 1)" by auto
  ultimately show ?thesis by simp
qed

lemma byte_bound: "unat b < 256" for b :: byte
  using unsigned_less [of b] by simp

lemma varint_loop_spec:
  assumes "approximates v V" and "approximates factor F" and "pos \<le> length input"
  shows "case take_varint n (drop pos input) of
      None \<Rightarrow> \<exists>e. varint_loop input n pos v factor = Inl e
    | Some (x, r) \<Rightarrow> \<exists>y p. varint_loop input n pos v factor = Inr (y, p) \<and>
        approximates y (V + F * x) \<and> r = drop p input \<and> p \<le> length input"
  using assms
proof (induction n arbitrary: pos v factor V F)
  case 0
  then show ?case by simp
next
  case (Suc n)
  show ?case
  proof (cases "pos < length input")
    case False
    then show ?thesis by simp
  next
    case True
    let ?b = "input ! pos" and ?rest = "drop (Suc pos) input"
    let ?m = "unat ?b mod 128"
    let ?v = "fl_add v (fl_mul ?m factor)" and ?f = "fl_mul factor 128"
    have d: "drop pos input = ?b # ?rest" using True by (simp add: Cons_nth_drop_Suc)
    have v: "approximates ?v (V + F * ?m)"
      using approximates_add [OF Suc.prems(1) approximates_mul [OF approximates_refl [of ?m] Suc.prems(2)]]
      by (simp add: mult.commute)
    have f: "approximates ?f (F * 128)"
      using Suc.prems(2) by (intro approximates_mul approximates_refl)
    have sm: "unat ?b - 128 = ?m" if "\<not> unat ?b < 128"
      using that byte_bound [of ?b] by (simp add: mod_if)
    have ar: "V + F * ?m + F * 128 * x = V + F * (?m + 128 * x)" for x by algebra
    show ?thesis
    proof (cases "n = 0 \<and> 1 < unat ?b \<or> unat ?b < 128")
      case True
      then show ?thesis using \<open>pos < length input\<close> v
        by (auto simp: d low_bits high_bit Let_def)
    next
      case False
      then show ?thesis
        using Suc.IH [OF v f, of "Suc pos"] True sm
        by (auto simp: d low_bits high_bit Let_def ar split: option.splits)
    qed
  qed
qed

lemma varint_spec:
  assumes "pos \<le> length input"
  shows "case take_varint 10 (drop pos input) of
      None \<Rightarrow> \<exists>e. varint input pos = Inl e
    | Some (x, r) \<Rightarrow> \<exists>y p. varint input pos = Inr (y, p) \<and> approximates y x \<and>
        r = drop p input \<and> p \<le> length input"
  using varint_loop_spec [OF approximates_refl [of 0] approximates_refl [of 1] assms, of 10]
  unfolding varint_def by (cases "take_varint 10 (drop pos input)") auto

text \<open>The decisions taken on a rounded varint are those of the exact one.\<close>

lemma approximates_tag:
  assumes "approximates y x"
  shows "(y < 8 \<or> y > 0xffffffff) = (x < 8 \<or> x > 0xffffffff)"
    and "\<not> (x < 8 \<or> x > 0xffffffff) \<Longrightarrow> y = x"
  using assms by (auto simp: approximates_def split: if_splits)

lemma skip_field_spec:
  assumes "pos \<le> length input" and "length input \<le> MAX_BATCH_BYTES"
  shows "case take_body w (drop pos input) of
      None \<Rightarrow> \<not> (\<exists>p. skip_field input w pos = Inr p \<and> p \<le> length input)
    | Some r \<Rightarrow> \<exists>p. skip_field input w pos = Inr p \<and> p \<le> length input \<and> r = drop p input"
  using varint_spec [OF assms(1)] assms(2)
  by (auto simp: take_body_def skip_field_def MAX_BATCH_BYTES_def safe_int_def MAX_SAFE_INTEGER_def
      add.commute approximates_def split: option.splits if_splits)

lemma preflight_step_spec:
  assumes "pos \<le> length input" and "length input \<le> MAX_BATCH_BYTES"
  shows "case take_field (drop pos input) of
      None \<Rightarrow> \<exists>e. preflight_step input pos cnt = Inl e
    | Some ((n, w), r) \<Rightarrow> if n = 1 \<and> (w \<noteq> 2 \<or> MAX_BATCH_MESSAGES < cnt + 1)
        then \<exists>e. preflight_step input pos cnt = Inl e
        else \<exists>p. preflight_step input pos cnt = Inr (p, if n = 1 then cnt + 1 else cnt) \<and>
          p \<le> length input \<and> r = drop p input"
proof (cases "take_varint 10 (drop pos input)")
  case None
  with varint_spec [OF assms(1)] show ?thesis
    by (auto simp: take_field_def preflight_step_def)
next
  case (Some tr)
  obtain tag r where tr: "tr = (tag, r)" by (cases tr)
  with Some varint_spec [OF assms(1)] obtain y p where
    v: "varint input pos = Inr (y, p)" "approximates y tag" "r = drop p input" "p \<le> length input"
    by auto
  show ?thesis
  proof (cases "tag < 8 \<or> tag > 0xffffffff")
    case True
    with approximates_tag(1) [OF v(2)] Some tr v(1) show ?thesis
      by (auto simp: take_field_def preflight_step_def)
  next
    case False
    with approximates_tag [OF v(2)] have y: "y = tag" "\<not> (y < 8 \<or> y > 0xffffffff)" by auto
    show ?thesis
    proof (cases "take_body (tag mod 8) r")
      case None
      with skip_field_spec [OF v(4) assms(2), of "tag mod 8"] v(3)
      have "\<not> (\<exists>q. skip_field input (tag mod 8) p = Inr q \<and> q \<le> length input)" by simp
      with None Some tr v(1) y False show ?thesis
        by (cases "skip_field input (tag mod 8) p") (auto simp: take_field_def preflight_step_def Let_def)
    next
      case (Some rest)
      with skip_field_spec [OF v(4) assms(2), of "tag mod 8"] v(3) obtain q where
        "skip_field input (tag mod 8) p = Inr q" "q \<le> length input" "rest = drop q input" by auto
      with Some \<open>take_varint 10 (drop pos input) = Some tr\<close> tr v(1) y False show ?thesis
        by (auto simp: take_field_def preflight_step_def Let_def)
    qed
  qed
qed

lemma preflight_loop_spec:
  assumes "pos \<le> length input" and "length input \<le> MAX_BATCH_BYTES" and "cnt \<le> MAX_BATCH_MESSAGES"
  shows "is_ok (preflight_loop input pos cnt) \<longleftrightarrow>
     (case wire_fields (drop pos input) of None \<Rightarrow> False
      | Some fs \<Rightarrow> acceptable (MAX_BATCH_MESSAGES - cnt) fs)"
  using assms
proof (induction input pos cnt rule: preflight_loop.induct)
  case (1 input pos cnt)
  note step = preflight_step_spec [OF 1(2,3), of cnt]
  show ?case
  proof (cases "pos < length input")
    case False
    then show ?thesis by (simp add: preflight_loop.simps wire_fields.simps)
  next
    case True
    then have w: "wire_fields (drop pos input) = (case take_field (drop pos input) of
        None \<Rightarrow> None | Some (f, r) \<Rightarrow> map_option ((#) f) (wire_fields r))"
      by (subst wire_fields.simps) simp
    show ?thesis
    proof (cases "preflight_step input pos cnt")
      case (Inl e)
      with True step 1(4) show ?thesis
        by (auto simp: w preflight_loop.simps [of input pos] split: option.splits if_splits)
    next
      case (Inr pc)
      then obtain p c where "preflight_step input pos cnt = Inr (p, c)" by (cases pc) auto
      with True step 1(1) [OF True Inr] 1(3,4) Inr show ?thesis
        by (auto simp: w preflight_loop.simps [of input pos] split: option.splits if_splits)
    qed
  qed
qed

section \<open>Properties\<close>

text \<open>C1: \<open>decodeBatch\<close> hands a payload to the protobuf parser, and returns what the parser returns, for
  exactly the byte strings of at most 16 MiB that split into well-formed protobuf fields with every
  field 1 length-delimited and at most 8192 of them; every other payload is refused before the parser
  sees it. The scan reads its varints into doubles, so values past \<open>2^53\<close> are rounded; the statement
  is about the exact integers.\<close>

theorem decodeBatch_exact:
  "if length payload \<le> MAX_BATCH_BYTES \<and> well_formed_batch payload
   then decodeBatch fromBinary payload = fromBinary payload
   else \<exists>e. \<forall>parser. decodeBatch parser payload = Inl e"
proof -
  have "is_ok (preflightBatch payload) \<longleftrightarrow> well_formed_batch payload" if "length payload \<le> MAX_BATCH_BYTES"
    using preflight_loop_spec [of 0 payload 0] that
    by (auto simp: preflightBatch_def well_formed_batch_def is_ok_iff res_bind_Inr_iff split: option.splits)
  then show ?thesis
    by (cases "preflightBatch payload") (auto simp: decodeBatch_def bounded_def)
qed

text \<open>whatever \<open>decompress\<close> returns fits \<open>decodeBatch\<close>'s bound, for a \<open>gunzipSync\<close> that honours its
  \<open>maxOutputLength\<close>, so a decompressed payload is never refused for its size.\<close>

lemma decompress_bounded:
  assumes "\<forall>input limit out. gunzipSync input limit = Inr out \<longrightarrow> length out \<le> limit"
    and "decompress gunzipSync frame = Inr out"
  shows "length out \<le> MAX_BATCH_BYTES \<and> bounded out MAX_BATCH_BYTES ''batch'' = Inr out"
  using assms
  by (fastforce simp: decompress_def res_bind_Inr_iff bounded_def not_less split: if_splits)

lemma decompress_bounded_witness:
  "let gz = (\<lambda>input limit. if length input \<le> limit then Inr input else Inl (RangeErr []));
       frame = blank_PushFrame\<lparr>pf_headers := [\<lparr>hdr_key = ''compress_type'', hdr_value = ''gzip''\<rparr>],
         pf_payload := [10, 0]\<rparr>
   in decompress gz frame = Inr [10, 0] \<and> bounded [10, 0] MAX_BATCH_BYTES ''batch'' = Inr [10, 0]"
proof -
  let ?gz = "\<lambda>input limit. if length input \<le> limit then Inr input else Inl (RangeErr [])"
  let ?f = "blank_PushFrame\<lparr>pf_headers := [\<lparr>hdr_key = ''compress_type'', hdr_value = ''gzip''\<rparr>],
    pf_payload := [10, 0]\<rparr>"
  have gz: "\<forall>input limit out. ?gz input limit = Inr out \<longrightarrow> length out \<le> limit" by simp
  have d: "decompress ?gz ?f = Inr [10, 0]"
    by (simp add: decompress_def bounded_def MAX_FRAME_BYTES_def MAX_BATCH_BYTES_def
        frameCompressType_def COMPRESS_TYPE_HEADER_def blank_PushFrame_def)
  from decompress_bounded [OF gz d] d show ?thesis by (simp add: Let_def)
qed

lemma decode_pushed:
  assumes "\<forall>f b. toBinary f = Inr b \<longrightarrow> fromBinary b = Inr f"
    and "toBinary f = Inr b" and "length b \<le> MAX_FRAME_BYTES"
  shows "decodePushFrame fromBinary b = Inr f"
  using assms by (simp add: decodePushFrame_def bounded_def)

lemmas push_frame_simps = push_frame_message_def isTransportFrame_def carriesEvents_def
  MESSAGE_PAYLOAD_TYPE_def blank_PushFrame_def

text \<open>the frames the client originates, read back by any codec whose decoder inverts its encoder. An
  acknowledgement decodes to a transport frame of type \<open>ack\<close> with the log id of the frame it answers and
  the server's cursor as its payload.\<close>

lemma ackFrameForBatch_decodes:
  assumes "\<forall>f b. toBinary f = Inr b \<longrightarrow> fromBinary b = Inr f"
    and "ackFrameForBatch toBinary frame internalExt = Inr b" and "length b \<le> MAX_FRAME_BYTES"
  shows "\<exists>f. decodePushFrame fromBinary b = Inr f \<and> isTransportFrame f \<and> pf_payloadType f = ''ack'' \<and>
     pf_logId f = pf_logId frame \<and> 0 \<le> pf_logId f \<and> pf_payload f = map of_nat (utf8_bytes internalExt)"
proof -
  from assms(2) have "0 \<le> pf_logId frame" and
    b: "toBinary (push_frame_message ''ack'' (map of_nat (utf8_bytes internalExt)) (pf_logId frame)) = Inr b"
    by (simp_all add: ackFrameForBatch_def pushFrame_def FRAME_TYPE_ack_def split: if_splits)
  with decode_pushed [OF assms(1) b assms(3)] show ?thesis
    by (simp add: push_frame_simps)
qed

lemma ackFrameForBatch_decodes_witness:
  "let f = push_frame_message ''ack'' [45] 7;
       tb = (\<lambda>g. if g = f then Inr [1, 2] else Inl (Err ''unencodable''));
       fb = (\<lambda>b. Inr f)
   in ackFrameForBatch tb (blank_PushFrame\<lparr>pf_logId := 7\<rparr>) ''-'' = Inr [1, 2] \<and>
      (\<exists>g. decodePushFrame fb [1, 2] = Inr g \<and> pf_logId g = 7)"
proof -
  let ?f = "push_frame_message ''ack'' [45] 7"
  let ?tb = "\<lambda>g. if g = ?f then Inr [1, 2] else Inl (Err ''unencodable'')" and ?fb = "\<lambda>b. Inr ?f"
  have a: "ackFrameForBatch ?tb (blank_PushFrame\<lparr>pf_logId := 7\<rparr>) ''-'' = Inr [1, 2]"
    by (simp add: ackFrameForBatch_def pushFrame_def FRAME_TYPE_ack_def utf8_bytes_def utf8_char_def
        code_def blank_PushFrame_def)
  have "\<forall>f b. ?tb f = Inr b \<longrightarrow> ?fb b = Inr f" by simp
  from ackFrameForBatch_decodes [OF this a] a show ?thesis
    by (auto simp: Let_def MAX_FRAME_BYTES_def blank_PushFrame_def)
qed

text \<open>The heartbeat and the enter-room frame name the room they were built for.\<close>

lemma heartbeatFrame_decodes:
  assumes "\<forall>f b. toBinary f = Inr b \<longrightarrow> fromBinary b = Inr f"
    and "\<forall>m b. toBinaryBeat m = Inr b \<longrightarrow> fromBinaryBeat b = Inr m"
    and "heartbeatFrame toBinaryBeat toBinary roomId = Inr b" and "length b \<le> MAX_FRAME_BYTES"
  shows "\<exists>f m. decodePushFrame fromBinary b = Inr f \<and> isTransportFrame f \<and> pf_payloadType f = ''hb'' \<and>
     fromBinaryBeat (pf_payload f) = Inr m \<and> BigInt roomId = Some (hb_roomId m) \<and> 0 \<le> hb_roomId m"
proof -
  from assms(3) obtain r p where r: "BigInt roomId = Some r" "0 \<le> r"
    and p: "toBinaryBeat (blank_HeartBeat\<lparr>hb_roomId := r\<rparr>) = Inr p"
    and b: "toBinary (push_frame_message ''hb'' p 0) = Inr b"
    by (auto simp: heartbeatFrame_def res_bind_Inr_iff nonNegativeInt64_def pushFrame_def
        FRAME_TYPE_heartbeat_def split: option.splits if_splits)
  from assms(2) p have "fromBinaryBeat p = Inr (blank_HeartBeat\<lparr>hb_roomId := r\<rparr>)" by blast
  with decode_pushed [OF assms(1) b assms(4)] r show ?thesis
    by (simp add: push_frame_simps)
qed

lemma heartbeatFrame_decodes_witness:
  "let m = blank_HeartBeat\<lparr>hb_roomId := 42\<rparr>; f = push_frame_message ''hb'' [8, 42] 0;
       tbm = (\<lambda>x. if x = m then Inr [8, 42] else Inl (Err ''unencodable''));
       tb = (\<lambda>g. if g = f then Inr [1, 2] else Inl (Err ''unencodable''))
   in heartbeatFrame tbm tb ''42'' = Inr [1, 2] \<and>
      (\<exists>g. decodePushFrame (\<lambda>b. Inr f) [1, 2] = Inr g \<and> pf_payloadType g = ''hb'')"
proof -
  let ?m = "blank_HeartBeat\<lparr>hb_roomId := 42\<rparr>" and ?f = "push_frame_message ''hb'' [8, 42] 0"
  let ?tbm = "\<lambda>x. if x = ?m then Inr [8, 42] else Inl (Err ''unencodable'')"
  let ?tb = "\<lambda>g. if g = ?f then Inr [1, 2] else Inl (Err ''unencodable'')"
  have "BigInt ''42'' = Some 42" by code_simp
  then have h: "heartbeatFrame ?tbm ?tb ''42'' = Inr [1, 2]"
    by (simp add: heartbeatFrame_def nonNegativeInt64_def pushFrame_def FRAME_TYPE_heartbeat_def)
  have c: "\<forall>f b. ?tb f = Inr b \<longrightarrow> Inr ?f = Inr f" "\<forall>x b. ?tbm x = Inr b \<longrightarrow> Inr ?m = Inr x"
    by simp_all
  from heartbeatFrame_decodes [of ?tb "\<lambda>b. Inr ?f" ?tbm "\<lambda>b. Inr ?m", OF c h] h show ?thesis
    by (auto simp: Let_def MAX_FRAME_BYTES_def)
qed

text \<open>The enter-room frame asks for the room and identity it was built for.\<close>

lemma enterRoomFrame_decodes:
  assumes "\<forall>f b. toBinary f = Inr b \<longrightarrow> fromBinary b = Inr f"
    and "\<forall>m b. toBinaryEnter m = Inr b \<longrightarrow> fromBinaryEnter b = Inr m"
    and "enterRoomFrame toBinaryEnter toBinary roomId identity LIVE_ID = Inr b"
    and "length b \<le> MAX_FRAME_BYTES"
  shows "\<exists>f m. decodePushFrame fromBinary b = Inr f \<and> isTransportFrame f \<and>
     pf_payloadType f = ''im_enter_room'' \<and> fromBinaryEnter (pf_payload f) = Inr m \<and>
     BigInt roomId = Some (er_roomId m) \<and> 0 \<le> er_roomId m \<and> er_liveId m = 12 \<and>
     er_identity m = identity_str identity"
proof -
  have l: "BigInt LIVE_ID = Some 12" unfolding LIVE_ID_def by code_simp
  with assms(3) obtain r p where r: "BigInt roomId = Some r" "0 \<le> r"
    and p: "toBinaryEnter (enter_room_message r 12 identity) = Inr p"
    and b: "toBinary (push_frame_message ''im_enter_room'' p 0) = Inr b"
    by (auto simp: enterRoomFrame_def res_bind_Inr_iff nonNegativeInt64_def pushFrame_def
        FRAME_TYPE_enterRoom_def split: option.splits if_splits)
  from assms(2) p have "fromBinaryEnter p = Inr (enter_room_message r 12 identity)" by blast
  with decode_pushed [OF assms(1) b assms(4)] r show ?thesis
    by (simp add: push_frame_simps enter_room_message_def)
qed

lemma enterRoomFrame_decodes_witness:
  "let m = enter_room_message 42 12 audience; f = push_frame_message ''im_enter_room'' [8, 42] 0;
       tbm = (\<lambda>x. if x = m then Inr [8, 42] else Inl (Err ''unencodable''));
       tb = (\<lambda>g. if g = f then Inr [1, 2] else Inl (Err ''unencodable''))
   in enterRoomFrame tbm tb ''42'' audience LIVE_ID = Inr [1, 2] \<and>
      (\<exists>g. decodePushFrame (\<lambda>b. Inr f) [1, 2] = Inr g \<and> pf_payloadType g = ''im_enter_room'')"
proof -
  let ?m = "enter_room_message 42 12 audience" and ?f = "push_frame_message ''im_enter_room'' [8, 42] 0"
  let ?tbm = "\<lambda>x. if x = ?m then Inr [8, 42] else Inl (Err ''unencodable'')"
  let ?tb = "\<lambda>g. if g = ?f then Inr [1, 2] else Inl (Err ''unencodable'')"
  have "BigInt ''42'' = Some 42" and "BigInt LIVE_ID = Some 12" unfolding LIVE_ID_def by code_simp+
  then have h: "enterRoomFrame ?tbm ?tb ''42'' audience LIVE_ID = Inr [1, 2]"
    by (simp add: enterRoomFrame_def nonNegativeInt64_def pushFrame_def FRAME_TYPE_enterRoom_def)
  have c: "\<forall>f b. ?tb f = Inr b \<longrightarrow> Inr ?f = Inr f" "\<forall>x b. ?tbm x = Inr b \<longrightarrow> Inr ?m = Inr x"
    by simp_all
  from enterRoomFrame_decodes [of ?tb "\<lambda>b. Inr ?f" ?tbm "\<lambda>b. Inr ?m", OF c h] h show ?thesis
    by (auto simp: Let_def MAX_FRAME_BYTES_def)
qed

end
