(* ===== verification/Client_Core.thy ===== *)
theory Client_Core
  imports Delivery Frames Events
begin

text \<open>
  What the two \<open>TikTokLive\<close> classes, \<open>packages/tiktok-live/src/client.ts\<close> and
  \<open>packages/live-sdk/src/client.ts\<close>, have in common: the fields both keep, the sockets they open, the
  emitter they extend, the bounded write, the gift table, and the hand-over of a batch to the delivery queue.

  A client is a pair of the record \<open>core\<close>, which each class extends with its own fields, and its delivery queue. Code that
  is not the client's (listeners, the signer, the socket) runs inside an operation; what it does is an argument, the record
  \<open>env\<close>, which may differ from step to step and may depend on the whole state. A listener may call back into the client: its
  \<open>connect()\<close> and \<open>disconnect()\<close> calls are a list, run in order, and it may then throw. Neither method emits
  anything itself, so these calls do not nest. \<open>trace\<close> records what the client did to the outside, in order.

  Two contracts say what a property of clients must survive: \<open>guarded_calls\<close>, for properties that only the client's own handlers
  may let listeners hear of a connection and that allow writing to the current socket only, and \<open>client_calls\<close>, which adds every emission and every write. Shown
  in both: whatever a listener does, a queue is left alone or cleared, so the two callbacks the client gives its queue
  meet the contract \<open>delivery_owner\<close>.
\<close>

section \<open>State\<close>

datatype emission =
    E_connected json
  | E_offline
  | E_disconnected int string
  | E_reconnecting nat rat
  | E_error js_error
  | E_event LiveEvent
  | E_typed string LiveEvent

datatype effect =
    O_new string "(string \<times> string) list"
  | O_send nat bytes
  | O_close nat
  | O_terminate nat
  | O_abort nat
  | O_emit emission

text \<open>One \<open>new Promise\<close> of \<open>#open\<close>: its closure variables and how it settled; a socket is named by its position.\<close>

record sock =
  sk_generation :: nat
  sk_roomId :: string
  sk_opened :: bool
  sk_settled :: bool
  sk_timer :: bool
  sk_outcome :: "(js_error, unit) result option"

record core =
  closing :: bool
  generation :: nat
  socket :: "nat option"
  connecting :: "nat option"
  connectAbort :: "nat option"
  reconnectTimer :: "(rat \<times> nat) option"
  cancelOpen :: "nat option"
  attempt :: nat
  listenerErrors :: nat
  writeBufferRejections :: nat
  maxBufferedBytes :: int
  gifts :: "(string \<times> json) list"
  sockets :: "sock list"
  trace :: "effect list"

type_synonym 'z sys = "'z core_scheme \<times> LiveEvent delivery"

definition on_core :: "('z core_scheme \<Rightarrow> 'z core_scheme) \<Rightarrow> 'z sys \<Rightarrow> 'z sys" where
  "on_core f s = (f (fst s), snd s)"

definition note_out :: "effect list \<Rightarrow> 'z core_scheme \<Rightarrow> 'z core_scheme" where
  "note_out os c = c\<lparr>trace := trace c @ os\<rparr>"

definition upd_sock :: "nat \<Rightarrow> (sock \<Rightarrow> sock) \<Rightarrow> 'z core_scheme \<Rightarrow> 'z core_scheme" where
  "upd_sock i f c = c\<lparr>sockets := (sockets c)[i := f (sockets c ! i)]\<rparr>"

text \<open>\<open>settled = true; reject(error)\<close> and \<open>settled = true; resolve()\<close>.\<close>

definition settle :: "(js_error, unit) result \<Rightarrow> sock \<Rightarrow> sock" where
  "settle r k = k\<lparr>sk_settled := True, sk_outcome := Some r\<rparr>"

section \<open>The surroundings of one step\<close>

datatype api_call = Call_connect | Call_disconnect

record 'z calls =
  call_connect :: "'z sys \<Rightarrow> 'z sys"
  call_disconnect :: "'z sys \<Rightarrow> 'z sys"

record codec =
  cd_host :: host
  cd_decoders :: decoders
  cd_pushFrame :: "WebcastPushFrame decoder"
  cd_batch :: "ProtoMessageFetchResult decoder"
  cd_gunzip :: "bytes \<Rightarrow> nat \<Rightarrow> (js_error, bytes) result"
  cd_encodeFrame :: "WebcastPushFrame encoder"
  cd_encodeEnter :: "WebcastImEnterRoomMessage encoder"
  cd_encodeBeat :: "HeartBeatMessage encoder"
  cd_backing :: "BaseProtoMessage \<Rightarrow> nat"

record 'z env =
  ev_codec :: codec
  ev_listen :: "'z sys \<Rightarrow> emission \<Rightarrow> api_call list \<times> js_error option"
  ev_errorListeners :: "'z sys \<Rightarrow> bool"
  ev_bufferedAmount :: "'z sys \<Rightarrow> nat \<Rightarrow> jsnumber option"
  ev_send :: "'z sys \<Rightarrow> nat \<Rightarrow> bytes \<Rightarrow> js_error option"
  ev_sign :: "'z sys \<Rightarrow> string \<Rightarrow> api_call list \<times> (js_error, string) result"
  ev_construct :: "'z sys \<Rightarrow> string \<Rightarrow> api_call list \<times> js_error option"
  ev_random :: rat

fun run_call :: "'z calls \<Rightarrow> api_call \<Rightarrow> 'z sys \<Rightarrow> 'z sys" where
  "run_call api Call_connect s = call_connect api s"
| "run_call api Call_disconnect s = call_disconnect api s"

definition run_calls :: "'z calls \<Rightarrow> api_call list \<Rightarrow> 'z sys \<Rightarrow> 'z sys" where
  "run_calls api cs s = fold (run_call api) cs s"

section \<open>Sockets\<close>

definition valid_sock :: "nat \<Rightarrow> 'z core_scheme \<Rightarrow> bool" where
  "valid_sock i c \<longleftrightarrow> i < length (sockets c)"

definition sock_of :: "nat \<Rightarrow> 'z core_scheme \<Rightarrow> sock" where
  "sock_of i c = sockets c ! i"

definition add_socket :: "nat \<Rightarrow> string \<Rightarrow> (string \<times> string) list \<Rightarrow> string \<Rightarrow> 'z core_scheme \<Rightarrow> 'z core_scheme" where
  "add_socket g url headers room c = note_out [O_new url headers] (c\<lparr>sockets := sockets c @
     [\<lparr>sk_generation = g, sk_roomId = room, sk_opened = False, sk_settled = False, sk_timer = True, sk_outcome = None\<rparr>]\<rparr>)"

text \<open>What \<open>disconnect()\<close> does to the outside. \<open>socket.terminate?.()\<close> is an effect of every socket: on one that has no such method
  (\<open>WebSocketLike\<close> leaves it optional) \<open>O_terminate\<close> marks the place where the call is skipped.\<close>

definition disconnect_effects :: "'z core_scheme \<Rightarrow> effect list" where
  "disconnect_effects c = (case connectAbort c of None \<Rightarrow> [] | Some g \<Rightarrow> [O_abort g]) @
     (case socket c of None \<Rightarrow> [] | Some i \<Rightarrow> [O_close i, O_terminate i])"

section \<open>Emitting\<close>

text \<open>\<open>this.emit\<close>: what the listeners throw, if they do, and the state they leave.\<close>

definition emit :: "'z calls \<Rightarrow> 'z env \<Rightarrow> emission \<Rightarrow> 'z sys \<Rightarrow> js_error option \<times> 'z sys" where
  "emit api env em s =
     (case ev_listen env s em of (cs, thrown) \<Rightarrow> (thrown, run_calls api cs (on_core (note_out [O_emit em]) s)))"

definition count_listener_error :: "'z core_scheme \<Rightarrow> 'z core_scheme" where
  "count_listener_error c = c\<lparr>listenerErrors := listenerErrors c + 1\<rparr>"

definition emitError :: "'z calls \<Rightarrow> 'z env \<Rightarrow> js_error \<Rightarrow> 'z sys \<Rightarrow> 'z sys" where
  "emitError api env error s =
     (if ev_errorListeners env s
      then (case emit api env (E_error error) s of
          (None, s') \<Rightarrow> s' | (Some _, s') \<Rightarrow> on_core count_listener_error s')
      else s)"

text \<open>An emission inside \<open>try \<dots> catch (error) { this.#listenerErrors++; this.#emitError(error); }\<close>.\<close>

definition notify :: "'z calls \<Rightarrow> 'z env \<Rightarrow> emission \<Rightarrow> 'z sys \<Rightarrow> 'z sys" where
  "notify api env em s =
     (case emit api env em s of
        (None, s') \<Rightarrow> s'
      | (Some error, s') \<Rightarrow> emitError api env error (on_core count_listener_error s'))"

definition current :: "nat \<Rightarrow> 'z sys \<Rightarrow> bool" where
  "current g s \<longleftrightarrow> \<not> closing (fst s) \<and> g = generation (fst s)"

definition cancelled :: js_error where
  "cancelled = Err ''connection cancelled''"

definition event_str :: "LiveEvent \<Rightarrow> string \<Rightarrow> string" where
  "event_str ev k = (case obj_get (le_props ev) k of Some (JStr s) \<Rightarrow> s | _ \<Rightarrow> [])"

definition EVENT :: "string list" where
  "EVENT = [''chat'', ''emoteChat'', ''gift'', ''like'', ''member'', ''social'', ''roomUser'', ''unknown'']"

definition emitTypedEvent :: "'z calls \<Rightarrow> 'z env \<Rightarrow> LiveEvent \<Rightarrow> 'z sys \<Rightarrow> 'z sys" where
  "emitTypedEvent api env ev s =
     (if event_str ev ''type'' \<in> set EVENT then notify api env (E_typed (event_str ev ''type'') ev) s else s)"

definition dispatch :: "'z calls \<Rightarrow> 'z env \<Rightarrow> LiveEvent \<Rightarrow> nat \<Rightarrow> 'z sys \<Rightarrow> bool \<times> 'z sys" where
  "dispatch api env ev g s =
     (if \<not> current g s then (False, s)
      else let s' = notify api env (E_event ev) s
           in (True, if current g s' then emitTypedEvent api env ev s' else s'))"

definition overflowed :: "'z calls \<Rightarrow> 'z env \<Rightarrow> js_error \<Rightarrow> 'z sys \<Rightarrow> 'z sys" where
  "overflowed api env error s = emitError api env error (call_disconnect api s)"

section \<open>Writing to a socket\<close>

fun is_write_overflow :: "js_error \<Rightarrow> bool" where
  "is_write_overflow (SocketWriteOverflowErr _) = True"
| "is_write_overflow _ = False"

definition send :: "'z calls \<Rightarrow> 'z env \<Rightarrow> nat \<Rightarrow> bytes \<Rightarrow> 'z sys \<Rightarrow> js_error option \<times> 'z sys" where
  "send api env i frame s =
     (let thrown = (case sendBoundedFrame (ev_bufferedAmount env s i) frame (maxBufferedBytes (fst s)) of
          Inl e \<Rightarrow> Some e | Inr data \<Rightarrow> ev_send env s i data)
      in case thrown of
          None \<Rightarrow> (None, on_core (note_out [O_send i frame]) s)
        | Some e \<Rightarrow>
            (Some e, if is_write_overflow e
               then call_disconnect api (on_core (\<lambda>c. c\<lparr>writeBufferRejections := writeBufferRejections c + 1,
                 cancelOpen := None\<rparr>) s)
               else s))"

text \<open>A frame that is built and then sent inside one \<open>try\<close>.\<close>

definition send_built ::
  "'z calls \<Rightarrow> 'z env \<Rightarrow> nat \<Rightarrow> (js_error, bytes) result \<Rightarrow> 'z sys \<Rightarrow> js_error option \<times> 'z sys" where
  "send_built api env i built s = (case built of Inl e \<Rightarrow> (Some e, s) | Inr frame \<Rightarrow> send api env i frame s)"

section \<open>From a batch to the queue\<close>

text \<open>\<open>event.giftIconUrl = gift.iconUrl || undefined\<close>: a property whose value is \<open>undefined\<close> is left out.\<close>

definition j_str :: "json \<Rightarrow> string \<Rightarrow> string" where
  "j_str v k = (case j_get v k of Some (JStr s) \<Rightarrow> s | _ \<Rightarrow> [])"

definition j_falsy :: "json option \<Rightarrow> bool" where
  "j_falsy v = (case v of None \<Rightarrow> True | Some JNull \<Rightarrow> True | Some (JBool b) \<Rightarrow> \<not> b | Some (JStr s) \<Rightarrow> s = []
     | Some (JNum n) \<Rightarrow> n = NaN \<or> num_val n = 0 \<and> isFinite n | _ \<Rightarrow> False)"

definition or_assign :: "string \<Rightarrow> json option \<Rightarrow> json jsobj \<Rightarrow> json jsobj" where
  "or_assign k v ps = (if j_falsy (obj_get ps k) then (case v of Some x \<Rightarrow> obj_put k x ps | None \<Rightarrow> ps) else ps)"

definition enrich :: "(string \<times> json) list \<Rightarrow> LiveEvent \<Rightarrow> LiveEvent" where
  "enrich table ev =
     (if event_str ev ''type'' \<noteq> ''gift'' then ev
      else case map_of table (event_str ev ''giftId'') of
          None \<Rightarrow> ev
        | Some gift \<Rightarrow>
            let ps = or_assign ''diamondCount'' (j_get gift ''diamondCount'')
                       (or_assign ''giftName'' (j_get gift ''name'') (le_props ev));
                ps' = (if j_str gift ''iconUrl'' \<noteq> [] then obj_put ''giftIconUrl'' (JStr (j_str gift ''iconUrl'')) ps
                       else filter (\<lambda>(k, v). k \<noteq> ''giftIconUrl'') ps)
            in ev\<lparr>le_props := (case j_get gift ''combo'' of Some b \<Rightarrow> obj_put ''streakable'' b ps' | None \<Rightarrow> ps')\<rparr>)"

definition stamped :: "BaseProtoMessage \<Rightarrow> LiveEvent \<Rightarrow> LiveEvent" where
  "stamped m ev = ev\<lparr>le_props := obj_put ''isHistory'' (JBool (bm_isHistory m))
     (obj_put ''msgId'' (JStr (int_str (bm_msgId m))) (le_props ev))\<rparr>"

definition message_event :: "codec \<Rightarrow> (string \<times> json) list \<Rightarrow> BaseProtoMessage \<Rightarrow> LiveEvent" where
  "message_event cd table m =
     stamped m (enrich table (decodeEvent (cd_host cd) (cd_decoders cd) (bm_method m) (bm_payload m)))"

definition event_bytes :: "codec \<Rightarrow> BaseProtoMessage \<Rightarrow> LiveEvent \<Rightarrow> int" where
  "event_bytes cd m ev =
     (let metadata = int (length (event_str ev ''method'')) * 2 + int (length (event_str ev ''msgId'')) * 2 + 256
      in if event_str ev ''type'' = ''unknown'' then int (cd_backing cd m) + metadata
         else int (length (bm_payload m)) * 64 + metadata)"

fun submit_messages ::
  "'z calls \<Rightarrow> 'z env \<Rightarrow> nat \<Rightarrow> BaseProtoMessage list \<Rightarrow> 'z sys \<Rightarrow> 'z sys" where
  "submit_messages api env g [] s = s"
| "submit_messages api env g (m # ms) s =
     (let ev = message_event (ev_codec env) (gifts (fst s)) m
      in if \<not> current g s then s
         else submit_messages api env g ms
           (submit (dispatch api env) (overflowed api env) ev g (event_bytes (ev_codec env) m ev) s))"

text \<open>The frame and batch of \<open>#receive\<close>: \<open>None\<close> for a frame of the transport itself.\<close>

definition decode_message ::
  "codec \<Rightarrow> bytes \<Rightarrow> (js_error, (WebcastPushFrame \<times> ProtoMessageFetchResult) option) result" where
  "decode_message cd data =
     res_bind (decodePushFrame (cd_pushFrame cd) data) (\<lambda>frame.
       if \<not> carriesEvents frame then Inr None
       else res_bind (decompress (cd_gunzip cd) frame) (\<lambda>payload.
         res_bind (decodeBatch (cd_batch cd) payload) (\<lambda>batch. Inr (Some (frame, batch)))))"

section \<open>The immediate of the queue\<close>

text \<open>An immediate that is not armed does not run; the drain of a well-formed queue always returns.\<close>

definition run_immediate :: "'z calls \<Rightarrow> 'z env \<Rightarrow> (nat \<Rightarrow> rat) \<Rightarrow> 'z sys \<Rightarrow> 'z sys" where
  "run_immediate api env now s =
     (if timer (snd s) then (case drain (dispatch api env) now s of Some s' \<Rightarrow> s' | None \<Rightarrow> s) else s)"

section \<open>What code outside the client can do to it\<close>

lemma on_core_simps [simp]: "fst (on_core f s) = f (fst s)" "snd (on_core f s) = snd s" "on_core f (c, d) = (f c, d)"
  by (simp_all add: on_core_def)

lemma note_out_frame [simp]:
  "closing (note_out os c) = closing c" "generation (note_out os c) = generation c" "socket (note_out os c) = socket c"
  "connecting (note_out os c) = connecting c" "reconnectTimer (note_out os c) = reconnectTimer c"
  "cancelOpen (note_out os c) = cancelOpen c" "attempt (note_out os c) = attempt c" "sockets (note_out os c) = sockets c"
  "gifts (note_out os c) = gifts c" "trace (note_out os c) = trace c @ os"
  "maxBufferedBytes (note_out os c) = maxBufferedBytes c" "core.more (note_out os c) = core.more c"
  "connectAbort (note_out os c) = connectAbort c" "listenerErrors (note_out os c) = listenerErrors c"
  "writeBufferRejections (note_out os c) = writeBufferRejections c"
  by (simp_all add: note_out_def)

lemma upd_sock_frame [simp]:
  "closing (upd_sock i f c) = closing c" "generation (upd_sock i f c) = generation c" "socket (upd_sock i f c) = socket c"
  "connecting (upd_sock i f c) = connecting c" "reconnectTimer (upd_sock i f c) = reconnectTimer c"
  "cancelOpen (upd_sock i f c) = cancelOpen c" "attempt (upd_sock i f c) = attempt c" "trace (upd_sock i f c) = trace c"
  "gifts (upd_sock i f c) = gifts c" "length (sockets (upd_sock i f c)) = length (sockets c)"
  "maxBufferedBytes (upd_sock i f c) = maxBufferedBytes c" "core.more (upd_sock i f c) = core.more c"
  "connectAbort (upd_sock i f c) = connectAbort c" "listenerErrors (upd_sock i f c) = listenerErrors c"
  "writeBufferRejections (upd_sock i f c) = writeBufferRejections c"
  by (simp_all add: upd_sock_def)

lemma count_listener_error_frame [simp]:
  "closing (count_listener_error c) = closing c" "generation (count_listener_error c) = generation c"
  "trace (count_listener_error c) = trace c" "socket (count_listener_error c) = socket c"
  "core.more (count_listener_error c) = core.more c"
  by (simp_all add: count_listener_error_def)

lemma clear_clear [simp]: "clear (clear d) = clear d"
  by (simp add: clear_def)

lemma depth_clear [simp]: "depth (clear d) = 0"
  by (simp add: clear_def)

lemma depth_count_result [simp]: "depth (count_result ok d) = depth d"
  by (simp add: count_result_def)

text \<open>Nothing is queued in a client that is closing.\<close>

definition idle :: "'z sys \<Rightarrow> bool" where
  "idle s \<longleftrightarrow> (closing (fst s) \<longrightarrow> depth (snd s) = 0)"

lemma idle_on_core [simp]: "(\<And>c. closing (f c) = closing c) \<Longrightarrow> idle (on_core f s) = idle s"
  by (simp add: idle_def)

text \<open>The emissions that tell of the connection itself.\<close>

fun lifecycle :: "emission \<Rightarrow> bool" where
  "lifecycle (E_connected _) = True"
| "lifecycle (E_disconnected _ _) = True"
| "lifecycle _ = False"

text \<open>
  The interface between a client and the code it calls out to: its two public methods, what they do to the queue, and a
  property \<open>P\<close> of the client's fields that they and the bookkeeping of an emission or of a write to the current socket keep. An
  emission that tells of the connection may rely on more than \<open>P\<close>, so here \<open>P\<close> has to be known once it is noted.
\<close>

locale guarded_calls =
  fixes api :: "'z calls"
    and P :: "'z core_scheme \<Rightarrow> bool"
  assumes connect_queue: "snd (call_connect api s) = snd s"
    and disconnect_queue: "snd (call_disconnect api s) = clear (snd s)"
    and connect_closing: "closing (fst (call_connect api s)) \<Longrightarrow> closing (fst s)"
    and P_connect: "P (fst s) \<Longrightarrow> P (fst (call_connect api s))"
    and P_disconnect: "P (fst s) \<Longrightarrow> P (fst (call_disconnect api s))"
    and P_emit: "P c \<Longrightarrow> \<not> lifecycle em \<Longrightarrow> P (note_out [O_emit em] c)"
    and P_send: "P c \<Longrightarrow> socket c = Some i \<Longrightarrow> P (note_out [O_send i data] c)"
    and P_count: "P c \<Longrightarrow> P (count_listener_error c)"
    and P_write: "P c \<Longrightarrow> P (c\<lparr>writeBufferRejections := n, cancelOpen := None\<rparr>)"
begin

definition good :: "'z sys \<Rightarrow> bool" where
  "good s \<longleftrightarrow> P (fst s) \<and> idle s"

lemma call_queue: "snd (run_call api x s) \<in> {snd s, clear (snd s)}"
  by (cases x) (simp_all add: connect_queue disconnect_queue)

lemma calls_queue: "snd (run_calls api cs s) \<in> {snd s, clear (snd s)}"
proof (induction cs arbitrary: s)
  case (Cons x cs)
  have "run_calls api (x # cs) s = run_calls api cs (run_call api x s)" by (simp add: run_calls_def)
  with Cons.IH [of "run_call api x s"] call_queue [of x s] show ?case by (elim insertE; simp)
qed (simp add: run_calls_def)

lemma connect_good: "good s \<Longrightarrow> good (call_connect api s)"
  using connect_closing [of s] by (auto simp: good_def idle_def connect_queue P_connect)

lemma disconnect_good: "P (fst s) \<Longrightarrow> good (call_disconnect api s)"
  by (simp add: good_def idle_def disconnect_queue P_disconnect)

lemma calls_good: "good s \<Longrightarrow> good (run_calls api cs s)"
proof (induction cs arbitrary: s)
  case (Cons x cs)
  then have "good (run_call api x s)"
    using connect_good [of s] disconnect_good [of s] by (cases x) (simp_all add: good_def)
  from Cons.IH [OF this] show ?case by (simp add: run_calls_def)
qed (simp add: run_calls_def)

lemma note_good: "good s \<Longrightarrow> \<not> lifecycle em \<Longrightarrow> good (on_core (note_out [O_emit em]) s)"
  by (simp add: good_def P_emit)

lemma count_good [simp]: "good s \<Longrightarrow> good (on_core count_listener_error s)"
  by (simp add: good_def P_count)

lemma emit_queue: "emit api env em s = (x, s') \<Longrightarrow> snd s' \<in> {snd s, clear (snd s)}"
  using calls_queue [of _ "on_core (note_out [O_emit em]) s"] by (auto simp: emit_def split: prod.splits)

lemma emit_noted_good: "emit api env em s = (x, s') \<Longrightarrow> good (on_core (note_out [O_emit em]) s) \<Longrightarrow> good s'"
  by (auto simp: emit_def calls_good split: prod.splits)

lemma emitError_queue: "snd (emitError api env e s) \<in> {snd s, clear (snd s)}"
  using emit_queue [of env "E_error e" s] by (auto simp: emitError_def split: prod.splits option.splits)

lemma emitError_good: "good s \<Longrightarrow> good (emitError api env e s)"
  using emit_noted_good [of env "E_error e" s] note_good [of s "E_error e"] count_good
  by (cases "emit api env (E_error e) s"; cases "fst (emit api env (E_error e) s)") (auto simp: emitError_def simp del: on_core_simps(3))

lemma notify_queue: "snd (notify api env em s) \<in> {snd s, clear (snd s)}"
proof -
  obtain x s' where em: "emit api env em s = (x, s')" by (cases "emit api env em s")
  then show ?thesis
    using emit_queue [OF em] emitError_queue [of env _ "on_core count_listener_error s'"]
    by (cases x) (simp_all add: notify_def, (elim disjE; simp)+)
qed

lemma notify_noted_good: "good (on_core (note_out [O_emit em]) s) \<Longrightarrow> good (notify api env em s)"
  using emit_noted_good [of env em s] emitError_good [OF count_good]
  by (cases "emit api env em s"; cases "fst (emit api env em s)") (auto simp: notify_def simp del: on_core_simps(3))

lemma typed_queue: "snd (emitTypedEvent api env ev s) \<in> {snd s, clear (snd s)}"
  using notify_queue by (auto simp: emitTypedEvent_def)

lemma dispatch_queue: "dispatch api env ev g s = (ok, s') \<Longrightarrow> snd s' \<in> {snd s, clear (snd s)}"
  using notify_queue [of env "E_event ev" s] typed_queue [of env ev "notify api env (E_event ev) s"]
  by (auto simp: dispatch_def Let_def split: if_splits)

lemma dispatch_good: "dispatch api env ev g s = (ok, s') \<Longrightarrow> good s \<Longrightarrow> good s'"
  by (auto simp: dispatch_def emitTypedEvent_def Let_def intro!: notify_noted_good note_good split: if_splits)

lemma overflowed_queue: "snd (overflowed api env e s) = clear (snd s)"
  using emitError_queue [of env e "call_disconnect api s"] by (auto simp: overflowed_def disconnect_queue)

lemma overflowed_good: "P (fst s) \<Longrightarrow> good (overflowed api env e s)"
  by (simp add: overflowed_def emitError_good disconnect_good)

lemma send_current_good: "send api env i frame s = (x, s') \<Longrightarrow> good s \<Longrightarrow> socket (fst s) = Some i \<Longrightarrow> good s'"
  by (auto simp: send_def Let_def good_def intro!: disconnect_good [unfolded good_def] P_write P_send
      split: sum.splits option.splits if_splits)

end

sublocale guarded_calls \<subseteq> owner: delivery_owner "dispatch api env" "overflowed api env" for env
proof
  show "d' = d \<or> d' = clear d" if "dispatch api env v g (w, d) = (ok, w', d')" for v g w d ok w' d'
    using dispatch_queue [OF that] by simp
  show "d' = d \<or> d' = clear d" if "overflowed api env e (w, d) = (w', d')" for e w d w' d'
    using overflowed_queue [of env e "(w, d)"] that by simp
qed

context guarded_calls
begin

lemma consume_good:
  assumes "good s"
  shows "good (consume_step (dispatch api env) v g s)"
proof -
  obtain ok w d where c: "dispatch api env v g s = (ok, w, d)" by (cases "dispatch api env v g s") auto
  from dispatch_good [OF c assms] show ?thesis by (simp add: consume_step_def c good_def idle_def)
qed

lemma submit_good:
  assumes "good s" and "\<not> closing (fst s)"
  shows "good (submit (dispatch api env) (overflowed api env) v g b s)"
proof (cases s)
  case (Pair w d)
  with assms have "P w" "good (w, d\<lparr>received := Delivery.received d + 1\<rparr>)" by (simp_all add: good_def idle_def)
  with Pair assms show ?thesis
    by (auto simp: submit_def Let_def intro!: consume_good overflowed_good) (simp add: good_def idle_def)
qed

lemma submit_messages_good: "good s \<Longrightarrow> good (submit_messages api env g ms s)"
proof (induction ms arbitrary: s)
  case (Cons m ms)
  show ?case
  proof (cases "current g s")
    case True
    then have "\<not> closing (fst s)" by (simp add: current_def)
    from Cons.IH [OF submit_good [OF Cons.prems this]] True show ?thesis by (simp add: Let_def)
  qed (use Cons.prems in \<open>simp add: Let_def\<close>)
qed simp

lemma submit_messages_settled:
  "settled 0 (snd s) \<Longrightarrow> armed (snd s) \<Longrightarrow>
   settled 0 (snd (submit_messages api env g ms s)) \<and> armed (snd (submit_messages api env g ms s))"
proof (induction ms arbitrary: s)
  case (Cons m ms)
  then show ?case
    using owner.submit_settled owner.submit_armed by (cases s) (auto simp: Let_def)
qed simp

lemma drain_loop_good: "drain_loop (dispatch api env) now n k s = Some s' \<Longrightarrow> good s \<Longrightarrow> good s'"
proof (induction n arbitrary: k s)
  case (Suc n)
  obtain w d where s: "s = (w, d)" by fastforce
  have ring: "good (w, ring_take e d)" if "depth d \<noteq> 0" for e
    using Suc.prems(2) that by (simp add: s good_def idle_def)
  show ?case
    using Suc.prems Suc.IH consume_good [OF ring]
    by (auto simp: s Let_def split: option.splits if_splits)
qed simp

lemma drain_good: "drain (dispatch api env) now s = Some s' \<Longrightarrow> good s \<Longrightarrow> good s'"
  by (auto simp: drain_def good_def idle_def frame_simps split: prod.splits
      dest!: drain_loop_good [unfolded good_def idle_def])

text \<open>Between two steps the accounts of the queue balance as well.\<close>

definition sound :: "'z sys \<Rightarrow> bool" where
  "sound s \<longleftrightarrow> good s \<and> settled 0 (snd s) \<and> armed (snd s)"

lemma sound_queue: "good s' \<Longrightarrow> snd s' \<in> {snd s, clear (snd s)} \<Longrightarrow> sound s \<Longrightarrow> sound s'"
  by (auto simp: sound_def settled_clear)

lemma sound_good: "sound s \<Longrightarrow> good s"
  by (simp add: sound_def)

lemma connect_sound: "sound s \<Longrightarrow> sound (call_connect api s)"
  by (rule sound_queue [OF connect_good [OF sound_good]]) (simp_all add: connect_queue)

lemma sound_P: "sound s \<Longrightarrow> P (fst s)"
  by (simp add: sound_def good_def)

lemma disconnect_sound: "sound s \<Longrightarrow> sound (call_disconnect api s)"
  by (rule sound_queue [OF disconnect_good [OF sound_P]]) (simp_all add: disconnect_queue)

lemma calls_sound: "sound s \<Longrightarrow> sound (run_calls api cs s)"
  by (rule sound_queue [OF calls_good [OF sound_good] calls_queue])

lemma emitError_sound: "sound s \<Longrightarrow> sound (emitError api env e s)"
  by (rule sound_queue [OF emitError_good [OF sound_good] emitError_queue])

lemma note_sound: "sound s \<Longrightarrow> \<not> lifecycle em \<Longrightarrow> sound (on_core (note_out [O_emit em]) s)"
  by (simp add: sound_def note_good)

lemma notify_noted_sound: "sound (on_core (note_out [O_emit em]) s) \<Longrightarrow> sound (notify api env em s)"
  using notify_queue [of env em s]
  by (intro sound_queue [of "notify api env em s" "on_core (note_out [O_emit em]) s"]) (simp_all add: notify_noted_good sound_good)

lemma send_queue: "send api env i frame s = (x, s') \<Longrightarrow> snd s' \<in> {snd s, clear (snd s)}"
  by (auto simp: send_def Let_def disconnect_queue split: sum.splits option.splits if_splits)

lemma send_built_queue: "send_built api env i built s = (x, s') \<Longrightarrow> snd s' \<in> {snd s, clear (snd s)}"
  using send_queue by (cases built) (auto simp: send_built_def)

lemma send_built_current_sound:
  "send_built api env i built s = (x, s') \<Longrightarrow> sound s \<Longrightarrow> socket (fst s) = Some i \<Longrightarrow> sound s'"
  by (rule sound_queue [OF _ send_built_queue])
    (auto simp: send_built_def sound_good split: sum.splits intro: send_current_good [OF _ sound_good])

lemma send_or_report_current_sound:
  assumes "sound s" and "socket (fst s) = Some j"
  shows "sound (case send_built api env j built s of (None, s') \<Rightarrow> s'
      | (Some e, s') \<Rightarrow> if reported e then emitError api env e s' else s')"
    and "sound (case send_built api env j built s of (None, s') \<Rightarrow> s' | (Some e, s') \<Rightarrow> emitError api env e s')"
  using send_built_current_sound [OF _ assms(1), of env j built] assms(2)
  by (cases "send_built api env j built s"; cases "fst (send_built api env j built s)"; auto intro: emitError_sound)+

lemma submit_messages_sound: "sound s \<Longrightarrow> sound (submit_messages api env g ms s)"
  using submit_messages_good submit_messages_settled by (simp add: sound_def)

lemma drain_sound:
  assumes "sound s"
  obtains s' where "drain (dispatch api env) now s = Some s'" and "sound s'"
proof -
  have "settled 0 (snd s)" using assms by (simp add: sound_def)
  from owner.drain_settled [OF this, of env now "fst s"] obtain s' where
    d: "drain (dispatch api env) now s = Some s'" and q: "settled 0 (snd s')" "armed (snd s')" by auto
  with drain_good [OF d] assms that show thesis by (simp add: sound_def)
qed

lemma sound_idle: "sound s \<Longrightarrow> idle s"
  by (simp add: sound_def good_def)

lemma sound_on_core: "sound s \<Longrightarrow> P (f (fst s)) \<Longrightarrow> closing (f (fst s)) = closing (fst s) \<Longrightarrow> sound (on_core f s)"
  by (simp add: sound_def good_def idle_def)

lemma immediate_sound:
  assumes "sound s"
  shows "sound (run_immediate api env now s)"
proof -
  obtain s' where "drain (dispatch api env) now s = Some s'" and "sound s'" by (rule drain_sound [OF assms])
  with assms show ?thesis by (simp add: run_immediate_def)
qed

lemma immediate_shortens:
  assumes "sound s"
  shows "depth (snd (run_immediate api env now s)) \<le> depth (snd s) - 1"
proof -
  have q: "settled 0 (snd s)" "armed (snd s)" using assms by (simp_all add: sound_def)
  obtain s' where d: "drain (dispatch api env) now s = Some s'" by (rule drain_sound [OF assms])
  have "depth (snd s') \<le> depth (snd s) - 1"
    using owner.drain_depth [of env now "fst s" "snd s" s'] d q(1) by (simp add: settled_def)
  with d q(2) show ?thesis by (auto simp: run_immediate_def armed_def)
qed

end

text \<open>A property that any emission and any write keeps.\<close>

locale client_calls = guarded_calls +
  assumes P_note: "P c \<Longrightarrow> P (note_out [O_emit em] c)"
    and P_out: "P c \<Longrightarrow> P (note_out [O_send i data] c)"
begin

lemma notify_good: "good s \<Longrightarrow> good (notify api env em s)"
  by (rule notify_noted_good) (simp add: good_def P_note)

lemma notify_sound: "sound s \<Longrightarrow> sound (notify api env em s)"
  by (rule sound_queue [OF notify_good [OF sound_good] notify_queue])

lemma send_good: "send api env i frame s = (x, s') \<Longrightarrow> good s \<Longrightarrow> good s'"
  by (auto simp: send_def Let_def good_def intro!: disconnect_good [unfolded good_def] P_write P_out
      split: sum.splits option.splits if_splits)

lemma send_built_good: "send_built api env i built s = (x, s') \<Longrightarrow> good s \<Longrightarrow> good s'"
  by (auto simp: send_built_def intro: send_good split: sum.splits)

lemma send_built_sound: "send_built api env i built s = (x, s') \<Longrightarrow> sound s \<Longrightarrow> sound s'"
  by (rule sound_queue [OF send_built_good [OF _ sound_good] send_built_queue])

text \<open>A write inside \<open>try\<close>, whose error is reported or not.\<close>

lemma send_or_report_sound:
  assumes "sound s"
  shows "sound (case send_built api env j built s of (None, s') \<Rightarrow> s'
      | (Some e, s') \<Rightarrow> if reported e then emitError api env e s' else s')"
    and "sound (case send_built api env j built s of (None, s') \<Rightarrow> s' | (Some e, s') \<Rightarrow> emitError api env e s')"
  using send_built_sound [OF _ assms, of env j built]
  by (cases "send_built api env j built s"; cases "fst (send_built api env j built s)"; auto intro: emitError_sound)+

end

text \<open>A write that did not throw is all that happened.\<close>

lemma send_built_sent:
  assumes "send_built api env i built s = (None, s')"
  shows "\<exists>frame. built = Inr frame \<and> s' = on_core (note_out [O_send i frame]) s"
  using assms by (auto simp: send_built_def send_def Let_def split: sum.splits option.splits)

section \<open>Silence\<close>

fun silent :: "effect \<Rightarrow> bool" where
  "silent (O_close i) = True"
| "silent (O_terminate i) = True"
| "silent (O_abort g) = True"
| "silent _ = False"

text \<open>A step of a closing client that leaves it closing and does nothing to the outside but close.\<close>

definition quiet_step :: "'z sys \<Rightarrow> 'z sys \<Rightarrow> bool" where
  "quiet_step s s' \<longleftrightarrow> closing (fst s') \<and> (\<exists>os. trace (fst s') = trace (fst s) @ os \<and> list_all silent os)"

lemma quiet_same: "closing (fst s') \<Longrightarrow> trace (fst s') = trace (fst s) \<Longrightarrow> quiet_step s s'"
  by (simp add: quiet_step_def)

lemma closing_not_current: "closing (fst s) \<Longrightarrow> \<not> current g s"
  by (simp add: current_def)

lemma quiet_immediate:
  assumes "closing (fst s)" and "idle s"
  shows "quiet_step s (run_immediate api env now s)"
proof -
  obtain c d where s: "s = (c, d)" by fastforce
  have "depth (d\<lparr>timer := False\<rparr>) = 0" using assms s by (simp add: idle_def)
  then have "drain_loop (dispatch api env) now n k (c, d\<lparr>timer := False\<rparr>) = Some (c, d\<lparr>timer := False\<rparr>)" for n k
    by (cases n) simp_all
  with assms s show ?thesis by (intro quiet_same; simp add: run_immediate_def drain_def)
qed

end
