(* ===== verification/Session.thy ===== *)
theory Session
  imports Errors Js_Objects
begin

text \<open>
  \<open>packages/tiktok-live/src/session.ts\<close>: the cookie jar and the anonymous bootstrap. A jar is a
  JavaScript \<open>Map\<close>: an association list in insertion order, updated in place by \<open>obj_put\<close>. The network,
  the file system, the environment, \<open>path.join\<close> and the abort signal are arguments: \<open>fetch n\<close> is what the
  \<open>n\<close>-th request yields, \<open>aborted n\<close> the reason \<open>throwIfAborted\<close> throws before it, \<open>wait n\<close> the reason the
  delay after it is rejected with. The delays asked for are part of the result.

  Shown: a jar survives being written to a header and read back; the bootstrap makes at most three
  requests and waits at most two seconds before each retry; it succeeds exactly when a response brings a
  usable \<open>ttwid\<close> before the attempts run out, and the header it returns then carries that identity.
\<close>

type_synonym jar = "(string \<times> string) list"

record SessionIdentity =
  si_cookie :: string
  si_authenticated :: bool
  si_deviceId :: "string option"

definition GUEST_BOOTSTRAP_URL :: string where
  "GUEST_BOOTSTRAP_URL = ''https://www.tiktok.com/live''"

definition DEFAULT_GUEST_RETRIES :: nat where "DEFAULT_GUEST_RETRIES = 2"
definition MAX_GUEST_RETRIES :: nat where "MAX_GUEST_RETRIES = 2"
definition DEFAULT_GUEST_RETRY_DELAY_MS :: nat where "DEFAULT_GUEST_RETRY_DELAY_MS = 250"
definition MAX_GUEST_RETRY_DELAY_MS :: nat where "MAX_GUEST_RETRY_DELAY_MS = 2000"

lemmas guest_limits = DEFAULT_GUEST_RETRIES_def MAX_GUEST_RETRIES_def
  DEFAULT_GUEST_RETRY_DELAY_MS_def MAX_GUEST_RETRY_DELAY_MS_def

section \<open>The stored session\<close>

text \<open>An unset or empty environment variable is falsy alike: \<open>''''\<close>.\<close>

record environment =
  env_TTL_SESSION_FILE :: string
  env_XDG_CONFIG_HOME :: string
  env_homedir :: string

definition sessionPath :: "(string list \<Rightarrow> string) \<Rightarrow> environment \<Rightarrow> string" where
  "sessionPath path_join env =
     (if env_TTL_SESSION_FILE env \<noteq> [] then env_TTL_SESSION_FILE env
      else let base = (if env_XDG_CONFIG_HOME env \<noteq> [] then env_XDG_CONFIG_HOME env
                       else path_join [env_homedir env, ''.config''])
           in path_join [base, ''ttl-signer'', ''session''])"

definition parse_cookie :: "string \<Rightarrow> jar \<Rightarrow> jar" where
  "parse_cookie part jar = (case cut_at (CHR ''='') part of
       Some (a, b) \<Rightarrow> if a \<noteq> [] then obj_put (js_trim a) (js_trim b) jar else jar
     | None \<Rightarrow> jar)"

definition parseCookies :: "string \<Rightarrow> jar" where
  "parseCookies raw = fold parse_cookie (split_on (CHR '';'') raw) []"

definition sessionJar ::
  "(string \<Rightarrow> (js_error, string) result) \<Rightarrow> (string list \<Rightarrow> string) \<Rightarrow> environment \<Rightarrow> jar" where
  "sessionJar readFileSync path_join env = (case readFileSync (sessionPath path_join env) of
       Inl _ \<Rightarrow> [] | Inr text \<Rightarrow> parseCookies (js_trim text))"

section \<open>Headers\<close>

definition cookie_pair :: "string \<times> string \<Rightarrow> string" where
  "cookie_pair p = fst p @ ''='' @ snd p"

definition cookieHeader :: "jar \<Rightarrow> string jsobj \<Rightarrow> string" where
  "cookieHeader jar extra = js_join ''; '' (map cookie_pair jar @ map cookie_pair (entries extra))"

definition absorb_line :: "string \<Rightarrow> jar \<times> string list \<Rightarrow> jar \<times> string list" where
  "absorb_line line s = (case s of (jar, names) \<Rightarrow>
     let pair = hd (split_on (CHR '';'') line)
     in case cut_at (CHR ''='') pair of
          Some (a, b) \<Rightarrow> if a \<noteq> [] then (obj_put (js_trim a) b jar, names @ [js_trim a]) else (jar, names)
        | None \<Rightarrow> (jar, names))"

definition absorbCookies :: "jar \<Rightarrow> string list \<Rightarrow> jar \<times> string list" where
  "absorbCookies jar lines = fold absorb_line lines (jar, [])"

section \<open>The anonymous bootstrap\<close>

fun js_floor :: "jsnumber \<Rightarrow> int" where
  "js_floor (Fin q) = \<lfloor>q\<rfloor>"
| "js_floor _ = 0"

definition boundedRetries :: "jsnumber \<Rightarrow> nat" where
  "boundedRetries v = (if \<not> isFinite v then DEFAULT_GUEST_RETRIES
     else min MAX_GUEST_RETRIES (nat (max 0 (js_floor v))))"

definition boundedRetryDelay :: "jsnumber \<Rightarrow> nat" where
  "boundedRetryDelay v = (if \<not> isFinite v then DEFAULT_GUEST_RETRY_DELAY_MS
     else min MAX_GUEST_RETRY_DELAY_MS (nat (max 0 (js_floor v))))"

record guest_response =
  gr_status :: int
  gr_ok :: bool
  gr_setCookie :: "string list"
  gr_drain :: "js_error option"

record guest_network =
  gn_fetch :: "nat \<Rightarrow> (js_error, guest_response) result"
  gn_aborted :: "nat \<Rightarrow> js_error option"
  gn_wait :: "nat \<Rightarrow> js_error option"

definition guest_identity :: "jar \<Rightarrow> SessionIdentity option" where
  "guest_identity jar = (case obj_get jar ''ttwid'' of
       None \<Rightarrow> None
     | Some v \<Rightarrow> if js_trim v = [] then None
         else let v2 = (case obj_get jar ''tt_webid_v2'' of Some d \<Rightarrow> d | None \<Rightarrow> []);
                  v1 = (case obj_get jar ''tt_webid'' of Some d \<Rightarrow> d | None \<Rightarrow> []);
                  deviceId = (if v2 \<noteq> [] then v2 else v1)
              in Some \<lparr>si_cookie = cookieHeader jar [], si_authenticated = False,
                   si_deviceId = (if deviceId \<noteq> [] then Some deviceId else None)\<rparr>)"

definition no_cookies :: "int option \<Rightarrow> js_error" where
  "no_cookies status = GuestSessionErr BOOTSTRAP_NO_COOKIES
     ''TikTok anonymous guest bootstrap returned no usable guest identity'' status None"

text \<open>One pass of the loop up to the retry: \<open>Inl\<close> ends it with a throw, \<open>Inr (Inl e)\<close> records a response
  without a usable identity, \<open>Inr (Inr s)\<close> returns.\<close>

definition guest_attempt ::
  "guest_network \<Rightarrow> nat \<Rightarrow> (js_error, js_error + SessionIdentity) result" where
  "guest_attempt net attempt = (case gn_aborted net attempt of
       Some reason \<Rightarrow> Inl reason
     | None \<Rightarrow> (case gn_fetch net attempt of
         Inl _ \<Rightarrow> Inl (GuestSessionErr UNKNOWN ''anonymous TikTok guest bootstrap did not complete'' None None)
       | Inr response \<Rightarrow>
           let jar = fst (absorbCookies [] (gr_setCookie response)); status = gr_status response
           in case gr_drain response of
                Some e \<Rightarrow> Inl e
              | None \<Rightarrow>
                  if status = 403 \<or> status = 429
                  then Inl (GuestSessionErr RATE_LIMIT_OR_VERIFICATION
                    (''TikTok refused anonymous guest bootstrap (HTTP '' @ int_str status @ '')'') (Some status) None)
                  else if \<not> gr_ok response
                  then Inl (GuestSessionErr UNKNOWN
                    (''TikTok anonymous guest bootstrap returned HTTP '' @ int_str status) (Some status) None)
                  else case guest_identity jar of
                      Some s \<Rightarrow> Inr (Inr s)
                    | None \<Rightarrow> Inr (Inl (no_cookies (Some status)))))"

definition guest_delay :: "nat \<Rightarrow> nat \<Rightarrow> nat" where
  "guest_delay retryDelayMs attempt = min MAX_GUEST_RETRY_DELAY_MS (retryDelayMs * 2 ^ attempt)"

text \<open>What the bootstrap does to the outside: a request for attempt \<open>n\<close>, and a delay. \<open>prior\<close> is \<open>lastNoCookies\<close>.\<close>

datatype guest_action = is_request: Guest_request nat | Guest_delay nat

function guest_loop ::
  "guest_network \<Rightarrow> nat \<Rightarrow> nat \<Rightarrow> nat \<Rightarrow> js_error option \<Rightarrow> (js_error, SessionIdentity) result \<times> guest_action list" where
  "guest_loop net retries retryDelayMs attempt prior =
     (if \<not> attempt \<le> retries then (Inl (case prior of Some e \<Rightarrow> e | None \<Rightarrow> no_cookies None), [])
      else let asked = (if gn_aborted net attempt = None then [Guest_request attempt] else [])
      in case guest_attempt net attempt of
          Inl e \<Rightarrow> (Inl e, asked)
        | Inr (Inr s) \<Rightarrow> (Inr s, asked)
        | Inr (Inl e) \<Rightarrow>
            if attempt < retries
            then (case gn_wait net attempt of
                Some reason \<Rightarrow> (Inl reason, asked @ [Guest_delay (guest_delay retryDelayMs attempt)])
              | None \<Rightarrow> (case guest_loop net retries retryDelayMs (attempt + 1) (Some e) of
                  (r, as) \<Rightarrow> (r, asked @ Guest_delay (guest_delay retryDelayMs attempt) # as)))
            else (case guest_loop net retries retryDelayMs (attempt + 1) (Some e) of (r, as) \<Rightarrow> (r, asked @ as)))"
  by pat_completeness auto
termination
  by (relation "measure (\<lambda>(net, retries, d, attempt, prior). Suc retries - attempt)") auto

declare guest_loop.simps [simp del]

definition bootstrapGuestSession ::
  "guest_network \<Rightarrow> jsnumber \<Rightarrow> jsnumber \<Rightarrow> (js_error, SessionIdentity) result \<times> guest_action list" where
  "bootstrapGuestSession net requestedRetries requestedRetryDelayMs =
     guest_loop net (boundedRetries requestedRetries) (boundedRetryDelay requestedRetryDelayMs) 0 None"

section \<open>Jars and headers\<close>

text \<open>What every jar built from cookie text satisfies.\<close>

definition jar_wf :: "jar \<Rightarrow> bool" where
  "jar_wf jar \<longleftrightarrow> obj_wf jar \<and> list_all (\<lambda>(n, v). trimmed n \<and> CHR ''='' \<notin> set n \<and>
     CHR '';'' \<notin> set n \<and> CHR '';'' \<notin> set v) jar"

lemma jar_wf_Nil [simp]: "jar_wf []"
  by (simp add: jar_wf_def obj_wf_def)

lemma set_obj_put: "set (obj_put k v ob) \<subseteq> insert (k, v) (set ob)"
  by (induction k v ob rule: obj_put.induct) auto

lemma jar_wf_put [inv_intros]:
  assumes "jar_wf jar" and "trimmed n" and "CHR ''='' \<notin> set n" and "CHR '';'' \<notin> set n" and "CHR '';'' \<notin> set v"
  shows "jar_wf (obj_put n v jar)"
  using assms set_obj_put [of n v jar] obj_wf_put [of jar n v]
  by (auto simp: jar_wf_def list_all_iff)

lemma set_js_trim: "c \<in> set (js_trim s) \<Longrightarrow> c \<in> set s"
  unfolding js_trim_def trim_start_def by (metis set_dropWhileD set_rev)

lemma cut_at_sets: "cut_at c s = Some (a, b) \<Longrightarrow> c \<notin> set a \<and> set a \<subseteq> set s \<and> set b \<subseteq> set s"
  by (auto simp: cut_at_Some)

lemma parse_cookie_wf:
  assumes "jar_wf jar" and "CHR '';'' \<notin> set part"
  shows "jar_wf (parse_cookie part jar)"
  using assms
  by (auto simp: parse_cookie_def dest!: cut_at_sets set_js_trim intro!: jar_wf_put split: option.splits)

lemma parseCookies_wf: "jar_wf (parseCookies raw)"
proof -
  have "jar_wf (fold parse_cookie ps jar)" if "\<forall>p \<in> set ps. CHR '';'' \<notin> set p" "jar_wf jar" for ps jar
    using that by (induction ps arbitrary: jar) (auto intro: parse_cookie_wf)
  then show ?thesis unfolding parseCookies_def using split_on_parts by (metis jar_wf_Nil)
qed

lemma absorb_line_wf: "jar_wf (fst s) \<Longrightarrow> jar_wf (fst (absorb_line line s))"
  using split_on_parts [of "hd (split_on (CHR '';'') line)" "CHR '';''" line]
  by (auto simp: absorb_line_def Let_def dest!: cut_at_sets set_js_trim intro!: jar_wf_put
      split: option.splits prod.splits)

lemma absorbCookies_wf: "jar_wf jar \<Longrightarrow> jar_wf (fst (absorbCookies jar lines))"
proof -
  have "jar_wf (fst (fold absorb_line lines s))" if "jar_wf (fst s)" for s
    using that
  proof (induction lines arbitrary: s)
    case (Cons l ls)
    from Cons.IH [OF absorb_line_wf [OF Cons.prems]] show ?case by simp
  qed simp
  then show "jar_wf jar \<Longrightarrow> jar_wf (fst (absorbCookies jar lines))"
    by (simp add: absorbCookies_def)
qed

lemma split_cookie_join:
  assumes "ps \<noteq> []" and "\<forall>p \<in> set ps. CHR '';'' \<notin> set p"
  shows "split_on (CHR '';'') (js_join ''; '' ps) = hd ps # map ((#) (CHR '' '')) (tl ps)"
  using assms
proof (induction "''; ''" ps rule: js_join.induct)
  case (3 p q ps)
  then show ?case by (simp add: split_on_append)
qed (simp_all add: split_on_no_sep)

lemma parse_cookie_pair:
  assumes "trimmed n" and "CHR ''='' \<notin> set n"
  shows "parse_cookie (CHR '' '' # cookie_pair (n, v)) jar = obj_put n (js_trim v) jar"
    and "parse_cookie (cookie_pair (n, v)) jar = (if n = [] then jar else obj_put n (js_trim v) jar)"
proof -
  have "cut_at (CHR ''='') (CHR '' '' # cookie_pair (n, v)) = Some (CHR '' '' # n, v)"
    using cut_at_append [of "CHR ''=''" "CHR '' '' # n" v] assms(2) by (simp add: cookie_pair_def)
  moreover have "is_space (CHR '' '')" by (simp add: is_space_def code_def)
  ultimately show "parse_cookie (CHR '' '' # cookie_pair (n, v)) jar = obj_put n (js_trim v) jar"
    using assms(1) by (simp add: parse_cookie_def js_trim_space js_trim_id)
  show "parse_cookie (cookie_pair (n, v)) jar = (if n = [] then jar else obj_put n (js_trim v) jar)"
    using assms cut_at_append [of "CHR ''=''" n v]
    by (simp add: parse_cookie_def cookie_pair_def js_trim_id)
qed

definition reparsed :: "jar \<Rightarrow> jar" where
  "reparsed jar = map (\<lambda>(n, v). (n, js_trim v)) (if jar \<noteq> [] \<and> fst (hd jar) = [] then tl jar else jar)"

lemma fold_put_new:
  "distinct (map fst acc @ map fst ps) \<Longrightarrow>
   fold (\<lambda>(n, v). obj_put n (f v)) ps acc = acc @ map (\<lambda>(n, v). (n, f v)) ps"
  by (induction ps arbitrary: acc) (auto simp: obj_put_new)

lemma fold_parse_pairs:
  assumes "jar_wf ps"
  shows "fold parse_cookie (map ((#) (CHR '' '')) (map cookie_pair ps)) acc =
     fold (\<lambda>(n, v). obj_put n (js_trim v)) ps acc"
  using assms
proof (induction ps arbitrary: acc)
  case (Cons p ps)
  obtain n v where p: "p = (n, v)" by (cases p)
  from Cons.prems have "jar_wf ps" "trimmed n" "CHR ''='' \<notin> set n"
    by (auto simp: jar_wf_def obj_wf_def p)
  with Cons.IH show ?case by (simp add: p parse_cookie_pair)
qed simp

lemma parse_cookieHeader:
  assumes "jar_wf jar"
  shows "parseCookies (cookieHeader jar []) = reparsed jar"
proof (cases jar)
  case Nil
  then show ?thesis
    by (simp add: cookieHeader_def entries_def parseCookies_def parse_cookie_def reparsed_def)
next
  case (Cons p ps)
  obtain n v where p: "p = (n, v)" by (cases p)
  have "\<forall>q \<in> set (map cookie_pair jar). CHR '';'' \<notin> set q"
    using assms by (auto simp: jar_wf_def list_all_iff cookie_pair_def)
  from split_cookie_join [OF _ this] Cons
  have s: "split_on (CHR '';'') (cookieHeader jar []) =
      cookie_pair p # map ((#) (CHR '' '')) (map cookie_pair ps)"
    by (simp add: cookieHeader_def entries_def)
  from assms Cons have wf: "jar_wf ps" and n: "trimmed n" "CHR ''='' \<notin> set n" "n \<notin> set (map fst ps)"
    by (auto simp: jar_wf_def obj_wf_def p)
  have d: "distinct (map fst ps)" using wf by (simp add: jar_wf_def obj_wf_def)
  show ?thesis
    unfolding parseCookies_def s p
    using n d Cons p
    by (simp add: parse_cookie_pair fold_parse_pairs [OF wf, simplified] fold_put_new reparsed_def)
qed

lemma obj_get_reparsed:
  assumes "jar_wf jar" and "k \<noteq> []"
  shows "obj_get (reparsed jar) k = map_option js_trim (obj_get jar k)"
proof (cases jar)
  case (Cons p ps)
  have "obj_get (map (\<lambda>(n, v). (n, js_trim v)) xs) k = map_option js_trim (obj_get xs k)" for xs :: jar
    by (induction xs) auto
  with Cons assms(2) show ?thesis by (cases p) (auto simp: reparsed_def)
qed (simp add: reparsed_def)

section \<open>The bootstrap loop\<close>

lemma boundedRetries_le: "boundedRetries v \<le> 2"
  by (simp add: boundedRetries_def guest_limits)

lemma boundedRetryDelay_le: "boundedRetryDelay v \<le> 2000"
  by (simp add: boundedRetryDelay_def guest_limits)

lemma guest_identity_cookie:
  assumes "jar_wf jar" and "guest_identity jar = Some s"
  shows "\<not> si_authenticated s \<and> (\<exists>w. obj_get (parseCookies (si_cookie s)) ''ttwid'' = Some w \<and> w \<noteq> [])"
  using assms
  by (auto simp: guest_identity_def Let_def parse_cookieHeader obj_get_reparsed split: option.splits if_splits)

lemma guest_attempt_identity:
  assumes "guest_attempt net n = Inr (Inr s)"
  shows "\<not> si_authenticated s \<and> (\<exists>w. obj_get (parseCookies (si_cookie s)) ''ttwid'' = Some w \<and> w \<noteq> [])"
  using assms guest_identity_cookie [OF absorbCookies_wf [OF jar_wf_Nil]]
  by (auto simp: guest_attempt_def Let_def split: option.splits sum.splits if_splits)

text \<open>All that the bootstrap may do from an attempt on, in order.\<close>

definition guest_schedule :: "nat \<Rightarrow> nat \<Rightarrow> nat \<Rightarrow> guest_action list" where
  "guest_schedule retries retryDelayMs attempt =
     concat (map (\<lambda>i. [Guest_request i, Guest_delay (guest_delay retryDelayMs i)]) [attempt..<retries]) @ [Guest_request retries]"

lemma guest_schedule_simps:
  "attempt < retries \<Longrightarrow> guest_schedule retries d attempt =
     Guest_request attempt # Guest_delay (guest_delay d attempt) # guest_schedule retries d (attempt + 1)"
  "guest_schedule retries d retries = [Guest_request retries]"
  by (simp_all add: guest_schedule_def upt_conv_Cons)

lemma guest_schedule_counts:
  "length (filter is_request (guest_schedule retries d 0)) = Suc retries"
  "length (filter (Not \<circ> is_request) (guest_schedule retries d 0)) = retries"
  "Guest_delay ms \<in> set (guest_schedule retries d 0) \<Longrightarrow> ms \<le> MAX_GUEST_RETRY_DELAY_MS"
proof -
  have "length (filter is_request (concat (map (\<lambda>i. [Guest_request i, Guest_delay (g i)]) xs))) = length xs"
    "length (filter (Not \<circ> is_request) (concat (map (\<lambda>i. [Guest_request i, Guest_delay (g i)]) xs))) = length xs" for g xs
    by (induction xs) simp_all
  then show "length (filter is_request (guest_schedule retries d 0)) = Suc retries"
    "length (filter (Not \<circ> is_request) (guest_schedule retries d 0)) = retries"
    by (simp_all add: guest_schedule_def)
  show "Guest_delay ms \<in> set (guest_schedule retries d 0) \<Longrightarrow> ms \<le> MAX_GUEST_RETRY_DELAY_MS"
    by (auto simp: guest_schedule_def guest_delay_def)
qed

lemma guest_attempt_asks: "guest_attempt net n = Inr r \<Longrightarrow> gn_aborted net n = None"
  by (simp add: guest_attempt_def split: option.splits)

lemma guest_loop_end: "guest_loop net retries d (Suc retries) (Some e) = (Inl e, [])"
  by (subst guest_loop.simps) simp

lemma guest_loop_schedule:
  "attempt \<le> retries \<Longrightarrow> \<exists>rest. guest_schedule retries d attempt = snd (guest_loop net retries d attempt prior) @ rest"
proof (induction "retries - attempt" arbitrary: attempt prior)
  case 0
  then have "attempt = retries" by simp
  then show ?case
    by (subst guest_loop.simps) (auto simp: guest_schedule_simps guest_loop_end Let_def split: sum.split)
next
  case (Suc m)
  then have lt: "attempt < retries" and "m = retries - (attempt + 1)" "attempt + 1 \<le> retries" by simp_all
  with Suc.hyps(1) have "\<exists>rest. guest_schedule retries d (attempt + 1) = snd (guest_loop net retries d (attempt + 1) prior2) @ rest" for prior2
    by blast
  then have "\<exists>rest. guest_schedule retries d (Suc attempt) = as @ rest" if "guest_loop net retries d (Suc attempt) prior2 = (r, as)" for prior2 r as
    using that by (metis Suc_eq_plus1 snd_conv)
  with lt show ?case
    by (subst guest_loop.simps) (auto simp: guest_schedule_simps Let_def dest: guest_attempt_asks split: sum.split option.split prod.split)
qed

lemma guest_loop_identity:
  "fst (guest_loop net retries d n prior) = Inr s \<Longrightarrow> \<exists>k. guest_attempt net k = Inr (Inr s)"
proof (induction net retries d n prior rule: guest_loop.induct)
  case (1 net retries d n prior)
  from "1.prems" show ?case
    by (subst (asm) guest_loop.simps) (auto simp: Let_def intro: "1.IH" split: if_splits sum.splits option.splits prod.splits)
qed

lemma guest_loop_reaches:
  assumes "\<forall>i < k. (\<exists>e. guest_attempt net (n + i) = Inr (Inl e)) \<and> gn_wait net (n + i) = None"
    and "guest_attempt net (n + k) = Inr (Inr s)" and "n + k \<le> retries"
  shows "guest_loop net retries d n prior = (Inr s, guest_schedule (n + k) d n)"
  using assms
proof (induction k arbitrary: n prior)
  case 0
  then show ?case by (subst guest_loop.simps) (auto simp: guest_schedule_simps dest: guest_attempt_asks)
next
  case (Suc k)
  have "\<forall>i < k. (\<exists>e. guest_attempt net (n + 1 + i) = Inr (Inl e)) \<and> gn_wait net (n + 1 + i) = None"
    using Suc.prems(1) by (metis Suc_eq_plus1 Suc_less_eq add.assoc add_Suc_shift)
  from Suc.IH [OF this] Suc.prems(2,3)
  have rest: "guest_loop net retries d (n + 1) prior2 = (Inr s, guest_schedule (n + Suc k) d (n + 1))" for prior2 by simp
  obtain e where e: "guest_attempt net n = Inr (Inl e)" "gn_wait net n = None"
    using Suc.prems(1) by (metis add.right_neutral zero_less_Suc)
  show ?case
    using Suc.prems(3) e guest_attempt_asks [OF e(1)] rest by (subst guest_loop.simps) (simp add: guest_schedule_simps)
qed

section \<open>Properties\<close>

text \<open>C32: the jar read from any cookie text is written to a header that reads back as the same jar, except
  that a first cookie with an empty name (which \<open>parseCookies\<close> accepts after blanks) is lost.\<close>

theorem cookie_jar_roundtrip:
  "parseCookies (cookieHeader (parseCookies raw) []) =
     (if parseCookies raw \<noteq> [] \<and> fst (hd (parseCookies raw)) = [] then tl (parseCookies raw)
      else parseCookies raw)"
proof -
  have "list_all (\<lambda>(n, v). trimmed v) (fold parse_cookie ps jar)"
    if "list_all (\<lambda>(n, v). trimmed v) jar" for ps jar
    using that
  proof (induction ps arbitrary: jar)
    case (Cons p ps)
    have "list_all (\<lambda>(n, v). trimmed v) (parse_cookie p jar)"
      using Cons.prems set_obj_put
      by (fastforce simp: parse_cookie_def list_all_iff split: option.splits)
    with Cons.IH show ?case by simp
  qed simp
  then have "list_all (\<lambda>(n, v). trimmed v) (parseCookies raw)"
    by (simp add: parseCookies_def)
  then have "map (\<lambda>(n, v). (n, js_trim v)) (parseCookies raw) = parseCookies raw"
    by (induction "parseCookies raw") (auto simp: js_trim_id list_all_iff map_idI split: prod.splits)
  then show ?thesis
    by (simp add: parse_cookieHeader [OF parseCookies_wf] reparsed_def) (metis map_tl)
qed

definition example_network :: guest_network where
  "example_network = \<lparr>gn_fetch = (\<lambda>n. Inr \<lparr>gr_status = 200, gr_ok = True,
      gr_setCookie = (if n = 0 then [''ttwid=; path=/''] else [''ttwid=1%7Cab; path=/'', ''tt_webid=77'']),
      gr_drain = None\<rparr>), gn_aborted = (\<lambda>_. None), gn_wait = (\<lambda>_. None)\<rparr>"

text \<open>C27: whatever the network does, the bootstrap does no more than a prefix of one schedule: a request, a delay, a request, and so on, up to the
  request of the last retry. So it makes at most three requests, in order, waits only between two of them and never over two seconds;
  and a session it returns is anonymous and carries a non-empty \<open>ttwid\<close> in the cookie header it hands to discovery, the signer and
  the socket.\<close>

theorem bootstrapGuestSession_bounded:
  "case bootstrapGuestSession net retries retryDelay of (r, actions) \<Rightarrow>
     (\<exists>rest. guest_schedule (boundedRetries retries) (boundedRetryDelay retryDelay) 0 = actions @ rest) \<and>
     length (filter is_request actions) \<le> 3 \<and> length (filter (Not \<circ> is_request) actions) \<le> 2 \<and>
     (\<forall>ms. Guest_delay ms \<in> set actions \<longrightarrow> ms \<le> 2000) \<and>
     (\<forall>s. r = Inr s \<longrightarrow> \<not> si_authenticated s \<and>
        (\<exists>w. obj_get (parseCookies (si_cookie s)) ''ttwid'' = Some w \<and> w \<noteq> []))"
proof -
  let ?n = "boundedRetries retries" and ?d = "boundedRetryDelay retryDelay"
  obtain r actions where l: "guest_loop net ?n ?d 0 None = (r, actions)" by fastforce
  obtain rest where rest: "guest_schedule ?n ?d 0 = actions @ rest"
    using guest_loop_schedule [of 0 ?n ?d net None] l by auto
  have "length (filter is_request actions) \<le> 3" "length (filter (Not \<circ> is_request) actions) \<le> 2"
    using guest_schedule_counts(1,2) [of ?n ?d] boundedRetries_le [of retries] by (simp_all add: rest)
  moreover have "ms \<le> 2000" if "Guest_delay ms \<in> set actions" for ms
    using guest_schedule_counts(3) [of ms ?n ?d] that by (auto simp: rest guest_limits)
  moreover have "\<not> si_authenticated s \<and> (\<exists>w. obj_get (parseCookies (si_cookie s)) ''ttwid'' = Some w \<and> w \<noteq> [])" if "r = Inr s" for s
    using guest_loop_identity [of net ?n ?d 0 None s] guest_attempt_identity l that by auto
  ultimately show ?thesis unfolding bootstrapGuestSession_def l using rest by auto
qed

theorem bootstrapGuestSession_bounded_witness:
  "\<exists>rest. guest_schedule 2 1500 0 = snd (bootstrapGuestSession example_network (js_int 5) (js_int 1500)) @ rest"
  using bootstrapGuestSession_bounded [where net = example_network and retries = "js_int 5" and retryDelay = "js_int 1500"]
  by (auto simp: boundedRetries_def boundedRetryDelay_def guest_limits split: prod.splits)

text \<open>A run of responses without a usable identity is retried: when attempt \<open>k\<close> is within the bounded
  retries and is the first to bring an identity, and nothing aborts before it, the bootstrap returns that
  identity after \<open>k\<close> delays that double from the configured one up to two seconds.\<close>

lemma bootstrapGuestSession_retries:
  assumes "\<forall>i < k. (\<exists>e. guest_attempt net i = Inr (Inl e)) \<and> gn_wait net i = None"
    and "guest_attempt net k = Inr (Inr s)" and "k \<le> boundedRetries retries"
  shows "bootstrapGuestSession net retries retryDelay = (Inr s, guest_schedule k (boundedRetryDelay retryDelay) 0)"
  using guest_loop_reaches [of k net 0 s "boundedRetries retries"] assms
  by (simp add: bootstrapGuestSession_def)

lemma bootstrapGuestSession_retries_witness:
  "bootstrapGuestSession example_network (js_int 5) (js_int 1500) =
     (Inr \<lparr>si_cookie = ''ttwid=1%7Cab; tt_webid=77'', si_authenticated = False, si_deviceId = Some ''77''\<rparr>,
      [Guest_request 0, Guest_delay 1500, Guest_request 1])"
proof -
  have "\<exists>e. guest_attempt example_network 0 = Inr (Inl e)"
    by (rule exI [of _ "no_cookies (Some 200)"]) code_simp
  moreover have "gn_wait example_network i = None" for i by (simp add: example_network_def)
  moreover have "guest_attempt example_network 1 = Inr (Inr
     \<lparr>si_cookie = ''ttwid=1%7Cab; tt_webid=77'', si_authenticated = False, si_deviceId = Some ''77''\<rparr>)"
    by code_simp
  ultimately show ?thesis
    using bootstrapGuestSession_retries [of 1 example_network _ "js_int 5" "js_int 1500"]
    by (simp add: boundedRetries_def boundedRetryDelay_def guest_limits guest_schedule_def guest_delay_def)
qed

end
