(* ===== verification/Signer.thy ===== *)
theory Signer
  imports Discovery
begin

text \<open>
  \<open>packages/tiktok-live/src/signer.ts\<close>: loading the signing bundle and driving the signing context. The
  bundle itself is downloaded at run time and is not part of the repository, so what \<open>vm.runInContext\<close>
  returns is an argument, as are SHA-256, the file system, the clock, the network and \<open>JSON.parse\<close>. The module
  state is the map of downloads in flight; a promise is named by the number of its creation.

  Shown: a bundle is handed out, and written to the cache, only when its digest is the expected one (the pinned
  one for the default URL); at most 16 downloads are in flight, one per distinct request; a signature is never
  empty, and the names handed to the bundle are removed from the context on every path.
\<close>

definition BUNDLE_URL :: string where
  "BUNDLE_URL = ''https://sf16-website-login.neutral.ttwstatic.com/obj/tiktok_web_login_static/webmssdk/1.0.0.388/webmssdk.js''"

definition BUNDLE_SHA256 :: string where
  "BUNDLE_SHA256 = ''dee22566273d398e074df6db40f39cfd827f6b8efd6fc382de03c44c501299ac''"

datatype Product = P_fetch | P_frontier | P_ws

fun product_str :: "Product \<Rightarrow> string" where
  "product_str P_fetch = ''fetch''"
| "product_str P_frontier = ''frontier''"
| "product_str P_ws = ''ws''"

record LoadBundleOptions =
  lb_timeoutMs :: "int option"
  lb_url :: "string option"
  lb_cachePath :: "string option"
  lb_maxAgeMs :: "int option"
  lb_expectedSha256 :: "string option"

section \<open>Digests and the cache\<close>

definition matchesDigest :: "(string \<Rightarrow> string) \<Rightarrow> string \<Rightarrow> string option \<Rightarrow> bool" where
  "matchesDigest sha256 source expect = (case expect of
       None \<Rightarrow> True
     | Some e \<Rightarrow> if e = [] then True else sha256 source = map to_lower e)"

text \<open>What one call of \<open>readBundle\<close> meets: the cache file's modification time, size and contents, the clock, the
  response, and whether writing the temporary file and renaming it succeed.\<close>

record bundle_world =
  bw_stat :: "(js_error, rat \<times> nat) result"
  bw_read :: "(js_error, string) result"
  bw_now :: rat
  bw_response :: "(js_error, http_response) result"
  bw_write :: "js_error option"
  bw_rename :: "js_error option"

record bundle_env =
  be_sha256 :: "string \<Rightarrow> string"
  be_tmpCache :: string
  be_decode :: "bytes \<Rightarrow> string"
  be_junk :: "nat \<Rightarrow> byte"

definition expected_digest :: "LoadBundleOptions \<Rightarrow> string option" where
  "expected_digest o1 = (case lb_expectedSha256 o1 of
       Some e \<Rightarrow> Some e
     | None \<Rightarrow> if opt_or (lb_url o1) BUNDLE_URL = BUNDLE_URL then Some BUNDLE_SHA256 else None)"

definition cached_bundle :: "bundle_env \<Rightarrow> bundle_world \<Rightarrow> LoadBundleOptions \<Rightarrow> string option" where
  "cached_bundle env w o1 = (case bw_stat w of
       Inl _ \<Rightarrow> None
     | Inr (mtime, sz) \<Rightarrow>
         if bw_now w - mtime < of_int (opt_or (lb_maxAgeMs o1) (24 * 60 * 60 * 1000)) \<and> sz > 0
         then (case bw_read w of
             Inl _ \<Rightarrow> None
           | Inr cached \<Rightarrow> if matchesDigest (be_sha256 env) cached (expected_digest o1) then Some cached else None)
         else None)"

text \<open>The result, and what is renamed onto the cache path, if anything is.\<close>

definition readBundle ::
  "bundle_env \<Rightarrow> bundle_world \<Rightarrow> LoadBundleOptions \<Rightarrow> (js_error, string) result \<times> string option" where
  "readBundle env w o1 =
     (let url = opt_or (lb_url o1) BUNDLE_URL
      in case cached_bundle env w o1 of
          Some cached \<Rightarrow> (Inr cached, None)
        | None \<Rightarrow> (case bw_response w of
            Inl e \<Rightarrow> (Inl e, None)
          | Inr response \<Rightarrow>
              if \<not> hr_ok response
              then (Inl (Err (''could not download the signing bundle: HTTP '' @ int_str (hr_status response) @ '' from '' @ url)), None)
              else (case fst (readResponseText (be_decode env) (be_junk env) (hr_body response) (8 * 1024 * 1024)) of
                  Inl e \<Rightarrow> (Inl e, None)
                | Inr source \<Rightarrow>
                    if \<not> matchesDigest (be_sha256 env) source (expected_digest o1)
                    then (Inl (Err (''the signing bundle from '' @ url @ '' did not match its expected SHA-256'')), None)
                    else (Inr source, if bw_write w = None \<and> bw_rename w = None then Some source else None))))"

section \<open>Downloads in flight\<close>

record flights =
  fg_map :: "(string \<times> nat) list"
  fg_next :: nat

definition flight_key :: "host \<Rightarrow> bundle_env \<Rightarrow> LoadBundleOptions \<Rightarrow> string" where
  "flight_key h env o1 = JSON_stringify h (JArr
     [JStr (opt_or (lb_url o1) BUNDLE_URL),
      JStr (opt_or (lb_cachePath o1) (be_tmpCache env)),
      jint (opt_or (lb_maxAgeMs o1) (24 * 60 * 60 * 1000)),
      jint (opt_or (lb_timeoutMs o1) 30000),
      (case lb_expectedSha256 o1 of
         Some e \<Rightarrow> JStr e
       | None \<Rightarrow> if lb_url o1 = None \<or> lb_url o1 = Some BUNDLE_URL then JStr BUNDLE_SHA256 else JNull)])"

text \<open>\<open>loadBundle\<close> returns an existing flight, a rejected promise, or a new flight whose \<open>readBundle\<close> has
  begun.\<close>

datatype load_result = Shared nat | Rejected_load js_error | Started nat

definition loadBundle :: "string \<Rightarrow> flights \<Rightarrow> load_result \<times> flights" where
  "loadBundle key fg = (case map_of (fg_map fg) key of
       Some i \<Rightarrow> (Shared i, fg)
     | None \<Rightarrow>
         if length (fg_map fg) \<ge> 16
         then (Rejected_load (Err ''signing bundle download capacity exhausted''), fg)
         else (Started (fg_next fg), \<lparr>fg_map = fg_map fg @ [(key, fg_next fg)], fg_next = Suc (fg_next fg)\<rparr>))"

text \<open>The \<open>finally\<close> of a flight.\<close>

definition flight_settled :: "string \<Rightarrow> flights \<Rightarrow> flights" where
  "flight_settled key fg = fg\<lparr>fg_map := filter (\<lambda>(k, i). k \<noteq> key) (fg_map fg)\<rparr>"

inductive flight_step :: "flights \<Rightarrow> flights \<Rightarrow> bool" where
  fs_load: "flight_step fg (snd (loadBundle key fg))"
| fs_settle: "key \<in> fst ` set (fg_map fg) \<Longrightarrow> flight_step fg (flight_settled key fg)"

inductive flight_reachable :: "flights \<Rightarrow> bool" where
  fr_init: "flight_reachable \<lparr>fg_map = [], fg_next = 0\<rparr>"
| fr_step: "flight_reachable fg \<Longrightarrow> flight_step fg fg' \<Longrightarrow> flight_reachable fg'"

section \<open>The signing context\<close>

text \<open>The names the class puts on the context's global object; \<open>sx_vm\<close> is the rest of it.\<close>

record 'v sign_context =
  sx_bundleSource :: "string option"
  sx_encodedOptions :: "string option"
  sx_unsignedUrl :: "string option"
  sx_product :: "string option"
  sx_vm :: 'v

record SignerAnswer =
  sa_error :: "string option"
  sa_signed :: "string option"

definition answer_str :: "json \<Rightarrow> string \<Rightarrow> string option" where
  "answer_str v k = (case j_get v k of Some (JStr s) \<Rightarrow> Some s | _ \<Rightarrow> None)"

definition parseAnswer :: "(string \<Rightarrow> (js_error, json) result) \<Rightarrow> string \<Rightarrow> (js_error, SignerAnswer) result" where
  "parseAnswer parse encoded = res_bind (parse encoded) (\<lambda>v.
     if \<not> isRecord v then Inl (Err ''the signer returned a malformed response'')
     else Inr \<lparr>sa_error = answer_str v ''error'', sa_signed = answer_str v ''signed''\<rparr>)"

text \<open>\<open>run\<close> is \<open>vm.runInContext\<close> of the expression, which may change the context.\<close>

type_synonym 'v runner = "'v sign_context \<Rightarrow> (js_error, string) result \<times> 'v sign_context"

record SignerOptions =
  so_bundleSource :: "string option"
  so_bundlePath :: "string option"
  so_bundleUrl :: "string option"
  so_userAgent :: "string option"
  so_cookie :: "string option"
  so_storedToken :: "string option"
  so_pinned :: "bool option"

definition prepare_options :: "host \<Rightarrow> SignerOptions \<Rightarrow> string" where
  "prepare_options h o1 = JSON_stringify h (JObj ([(''pinned'', JBool (opt_or (so_pinned o1) False)),
     (''userAgent'', JStr (opt_or (so_userAgent o1) USER_AGENT)), (''cookie'', JStr (opt_or (so_cookie o1) []))] @
     (case so_storedToken o1 of Some t \<Rightarrow> if t \<noteq> [] then [(''xmst'', JStr t)] else [] | None \<Rightarrow> [])))"

text \<open>The three places a source can come from: \<open>load\<close> is \<open>loadBundle\<close> once its promise has settled.\<close>

definition signer_source ::
  "(string \<Rightarrow> (js_error, string) result) \<Rightarrow> (LoadBundleOptions \<Rightarrow> (js_error, string) result) \<Rightarrow> SignerOptions
     \<Rightarrow> (js_error, string) result" where
  "signer_source readFile load o1 = (case so_bundleSource o1 of
       Some source \<Rightarrow> Inr source
     | None \<Rightarrow>
         if so_bundlePath o1 \<noteq> None \<and> so_bundlePath o1 \<noteq> Some [] then readFile (the (so_bundlePath o1))
         else load \<lparr>lb_timeoutMs = None, lb_url = Some (opt_or (so_bundleUrl o1) BUNDLE_URL), lb_cachePath = None,
                    lb_maxAgeMs = None, lb_expectedSha256 = None\<rparr>)"

text \<open>\<open>Signer.create\<close>: \<open>boot\<close> is the fresh context after the bootstrap script, or what running it throws.\<close>

definition create_signer ::
  "host \<Rightarrow> (string \<Rightarrow> (js_error, json) result) \<Rightarrow> (string \<Rightarrow> (js_error, string) result)
     \<Rightarrow> (LoadBundleOptions \<Rightarrow> (js_error, string) result) \<Rightarrow> 'v runner \<Rightarrow> (js_error, 'v) result \<Rightarrow> SignerOptions
     \<Rightarrow> (js_error, 'v sign_context) result" where
  "create_signer h parse readFile load prepare boot o1 = res_bind (signer_source readFile load o1) (\<lambda>source. res_bind boot (\<lambda>v.
     let ctx = \<lparr>sx_bundleSource = Some source, sx_encodedOptions = Some (prepare_options h o1),
                sx_unsignedUrl = None, sx_product = None, sx_vm = v\<rparr>;
         (r, ctx') = prepare ctx;
         clean = ctx'\<lparr>sx_bundleSource := None, sx_encodedOptions := None\<rparr>
     in res_bind r (\<lambda>encoded. res_bind (parseAnswer parse encoded) (\<lambda>prepared.
          case sa_error prepared of
            Some e \<Rightarrow> if e \<noteq> [] then Inl (Err (''the signing bundle failed to load: '' @ e)) else Inr clean
          | None \<Rightarrow> Inr clean))))"

definition answer_url :: "SignerAnswer \<Rightarrow> (js_error, string) result" where
  "answer_url a =
     (if sa_error a \<noteq> None \<and> sa_error a \<noteq> Some [] then Inl (Err (''signing failed: '' @ the (sa_error a)))
      else case sa_signed a of
          Some s \<Rightarrow> if s \<noteq> [] then Inr s else Inl (Err ''the signer produced no URL'')
        | None \<Rightarrow> Inl (Err ''the signer produced no URL''))"

definition sign ::
  "(string \<Rightarrow> (js_error, json) result) \<Rightarrow> 'v runner \<Rightarrow> string \<Rightarrow> Product \<Rightarrow> 'v sign_context
     \<Rightarrow> (js_error, string) result \<times> 'v sign_context" where
  "sign parse signUrl url product ctx =
     (let (r, ctx') = signUrl (ctx\<lparr>sx_unsignedUrl := Some url, sx_product := Some (product_str product)\<rparr>);
          clean = ctx'\<lparr>sx_unsignedUrl := None, sx_product := None\<rparr>
      in (res_bind r (\<lambda>encoded. res_bind (parseAnswer parse encoded) answer_url), clean))"

section \<open>Flights\<close>

definition flights_ok :: "flights \<Rightarrow> bool" where
  "flights_ok fg \<longleftrightarrow> length (fg_map fg) \<le> 16 \<and> distinct (map fst (fg_map fg)) \<and> distinct (map snd (fg_map fg)) \<and>
     (\<forall>i \<in> snd ` set (fg_map fg). i < fg_next fg)"

lemma flights_ok_load: "flights_ok fg \<Longrightarrow> flights_ok (snd (loadBundle key fg))"
  by (auto simp: flights_ok_def loadBundle_def map_of_eq_None_iff less_Suc_eq split: option.splits)

lemma flights_ok_settle: "flights_ok fg \<Longrightarrow> flights_ok (flight_settled key fg)"
  by (auto simp: flights_ok_def flight_settled_def distinct_map intro: inj_on_subset le_trans [OF length_filter_le])

lemma flight_reachable_ok: "flight_reachable fg \<Longrightarrow> flights_ok fg"
proof (induction rule: flight_reachable.induct)
  case fr_init
  then show ?case by (simp add: flights_ok_def)
next
  case (fr_step fg fg')
  from fr_step(2,3) show ?case
    by (cases rule: flight_step.cases) (auto intro: flights_ok_load flights_ok_settle)
qed

section \<open>Properties\<close>

text \<open>C38: a bundle is returned, from the cache or from the network, and written to the cache only if its SHA-256
  is the expected digest; for the default URL without an explicit digest that is the pinned one.\<close>

theorem readBundle_verified:
  assumes "expected_digest o1 = Some d" and "d \<noteq> []"
  shows "case readBundle env w o1 of (r, cache) \<Rightarrow>
     (case r of Inr source \<Rightarrow> be_sha256 env source = map to_lower d | Inl _ \<Rightarrow> True) \<and>
     (case cache of Some c \<Rightarrow> r = Inr c | None \<Rightarrow> True)"
  using assms
  by (auto simp: readBundle_def cached_bundle_def matchesDigest_def Let_def split: option.splits sum.splits if_splits)

theorem readBundle_verified_witness:
  "let o1 = \<lparr>lb_timeoutMs = None, lb_url = None, lb_cachePath = None, lb_maxAgeMs = None, lb_expectedSha256 = None\<rparr>;
       env = \<lparr>be_sha256 = (\<lambda>s. if s = ''good'' then BUNDLE_SHA256 else []), be_tmpCache = ''/tmp/x'',
              be_decode = (\<lambda>_. ''bad''), be_junk = (\<lambda>_. 0)\<rparr>;
       w = \<lparr>bw_stat = Inr (0, 4), bw_read = Inr ''good'', bw_now = 5, bw_response = Inl (Err ''offline''),
            bw_write = None, bw_rename = None\<rparr>
   in expected_digest o1 = Some BUNDLE_SHA256 \<and> fst (readBundle env w o1) = Inr ''good'' \<and>
      be_sha256 env ''good'' = map to_lower BUNDLE_SHA256"
proof -
  let ?o = "\<lparr>lb_timeoutMs = None, lb_url = None, lb_cachePath = None, lb_maxAgeMs = None, lb_expectedSha256 = None\<rparr>"
  let ?env = "\<lparr>be_sha256 = (\<lambda>s. if s = ''good'' then BUNDLE_SHA256 else []), be_tmpCache = ''/tmp/x'',
    be_decode = (\<lambda>_. ''bad''), be_junk = (\<lambda>_. 0)\<rparr>"
  let ?w = "\<lparr>bw_stat = Inr (0, 4), bw_read = Inr ''good'', bw_now = 5, bw_response = Inl (Err ''offline''),
    bw_write = None, bw_rename = None\<rparr>"
  have d: "expected_digest ?o = Some BUNDLE_SHA256" "BUNDLE_SHA256 \<noteq> []"
    by (simp_all add: expected_digest_def opt_or_def BUNDLE_SHA256_def)
  have "map to_lower BUNDLE_SHA256 = BUNDLE_SHA256" by code_simp
  then have "readBundle ?env ?w ?o = (Inr ''good'', None)"
    using d by (simp add: readBundle_def cached_bundle_def matchesDigest_def opt_or_def)
  with readBundle_verified [OF d, of ?env ?w] d show ?thesis by (simp add: Let_def)
qed

text \<open>In every state the module can reach, at most 16 downloads are in flight, no two for the same request; a
  request whose key is in flight joins that download, and one beyond the capacity is refused.\<close>

lemma loadBundle_single_flight:
  assumes "flight_reachable fg"
  shows "length (fg_map fg) \<le> 16 \<and> distinct (map fst (fg_map fg)) \<and>
    (case loadBundle key fg of
       (Shared i, fg') \<Rightarrow> (key, i) \<in> set (fg_map fg) \<and> fg' = fg
     | (Rejected_load e, fg') \<Rightarrow> length (fg_map fg) = 16 \<and> fg' = fg
     | (Started i, fg') \<Rightarrow> key \<notin> fst ` set (fg_map fg) \<and> i \<notin> snd ` set (fg_map fg) \<and> fst (loadBundle key fg') = Shared i)"
proof (cases "map_of (fg_map fg) key")
  case None
  then have "map_of (fg_map fg @ [(key, fg_next fg)]) key = Some (fg_next fg)" "key \<notin> fst ` set (fg_map fg)"
    by (simp_all add: map_add_Some_iff map_of_eq_None_iff)
  then show ?thesis
    using flight_reachable_ok [OF assms] None by (auto simp: flights_ok_def loadBundle_def)
next
  case (Some i)
  then show ?thesis
    using flight_reachable_ok [OF assms] by (auto simp: flights_ok_def loadBundle_def dest: map_of_SomeD)
qed

lemma loadBundle_single_flight_witness:
  "fst (loadBundle ''k'' (snd (loadBundle ''k'' \<lparr>fg_map = [], fg_next = 0\<rparr>))) = Shared 0 \<and>
   length (fg_map (snd (loadBundle ''k'' \<lparr>fg_map = [], fg_next = 0\<rparr>))) \<le> 16"
proof -
  have "flight_reachable (snd (loadBundle ''k'' \<lparr>fg_map = [], fg_next = 0\<rparr>))"
    by (rule fr_step [OF fr_init fs_load])
  from loadBundle_single_flight [OF this] show ?thesis by (simp add: loadBundle_def)
qed

text \<open>signing leaves neither the unsigned URL nor the product on the context's global object, whether the bundle
  answers, answers with an error, or throws; and a URL it returns is the non-empty \<open>signed\<close> string of an answer that
  carries no error.\<close>

lemma sign_clean:
  "case sign parse signUrl url product ctx of (r, ctx') \<Rightarrow>
     sx_unsignedUrl ctx' = None \<and> sx_product ctx' = None \<and>
     (case r of Inl _ \<Rightarrow> True
      | Inr s \<Rightarrow> s \<noteq> [] \<and> (\<exists>encoded ps. fst (signUrl (ctx\<lparr>sx_unsignedUrl := Some url,
            sx_product := Some (product_str product)\<rparr>)) = Inr encoded \<and> parse encoded = Inr (JObj ps) \<and>
          obj_get ps ''signed'' = Some (JStr s)))"
proof -
  obtain r c where rc: "signUrl (ctx\<lparr>sx_unsignedUrl := Some url, sx_product := Some (product_str product)\<rparr>) = (r, c)"
    by fastforce
  have "s \<noteq> [] \<and> (\<exists>ps. parse encoded = Inr (JObj ps) \<and> obj_get ps ''signed'' = Some (JStr s))"
    if "r = Inr encoded" "res_bind (parseAnswer parse encoded) answer_url = Inr s" for encoded s
  proof -
    from that(2) obtain v where v: "parse encoded = Inr v" "isRecord v" "answer_str v ''signed'' = Some s" "s \<noteq> []"
      by (auto simp: parseAnswer_def res_bind_Inr_iff answer_url_def split: if_splits option.splits)
    from v(2) obtain ps where "v = JObj ps" by (cases v) simp_all
    with v show ?thesis by (auto simp: answer_str_def split: option.splits json.splits)
  qed
  then show ?thesis
    by (auto simp: sign_def rc res_bind_Inr_iff split: sum.split)
qed

end
