(* ===== verification/Client.thy ===== *)
theory Client
  imports Client_Core Session Signer
begin

text \<open>
  \<open>packages/tiktok-live/src/client.ts\<close>: the class \<open>TikTokLive\<close>, which resolves a room, signs the socket, opens it,
  decodes what it pushes and reconnects. The record \<open>client\<close> extends \<open>core\<close> with the fields of the class. An
  \<open>async\<close> method is cut at its \<open>await\<close>s: a call of \<open>#connect\<close> is a task with a program counter, a call of
  \<open>#reconnect\<close> likewise, and the promise of an anonymous session is an entry of a list. Everything that can
  happen to a client (a public call, a settled promise, a socket event, a timer, the immediate of the queue) is an \<open>input\<close>,
  and \<open>step\<close> is what the client does with it. Requests are answered by the input that resumes the task; the answer is any
  result that \<open>Discovery\<close>, \<open>Session\<close> or \<open>Signer\<close> can give.

  Each \<open>await\<close> is a point where anything else may happen first, also where the promise is already settled.
  Socket methods are taken not to call back synchronously (\<open>close()\<close> queues its event), and the numbers of a
  reconnection policy are integers, as its schema says; its arithmetic is on exact rationals.
\<close>

section \<open>Options and construction\<close>

record ReconnectPolicy =
  rp_attempts :: int
  rp_initialMs :: int
  rp_maxMs :: int

definition DEFAULT_RECONNECT :: ReconnectPolicy where
  "DEFAULT_RECONNECT = \<lparr>rp_attempts = 5, rp_initialMs = 2000, rp_maxMs = 60000\<rparr>"

definition FALLBACK_DEVICE_ID :: string where "FALLBACK_DEVICE_ID = ''7300000000000000001''"
definition OPEN_TIMEOUT_MS :: int where "OPEN_TIMEOUT_MS = 15000"
definition MAX_HEARTBEAT_MS :: int where "MAX_HEARTBEAT_MS = 2147483647"

record PartialPolicy =
  pp_attempts :: "int option"
  pp_initialMs :: "int option"
  pp_maxMs :: "int option"

record TikTokLiveOptions =
  to_eventDelivery :: "delivery_options option"
  to_maxBufferedBytes :: "jsnumber option"
  to_sessionCookie :: "string option"
  to_userAgent :: "string option"
  to_roomId :: "string option"
  to_deviceId :: "string option"
  to_fetchGifts :: "bool option"
  to_fetchRoomInfo :: "bool option"
  to_identity :: "Identity option"
  to_socketHost :: "string option"
  to_reconnect :: "PartialPolicy option"
  to_reconnectJitter :: "jsnumber option"
  to_signer :: bool
  to_bundleSource :: "string option"
  to_bundlePath :: "string option"
  to_bundleUrl :: "string option"
  to_discovery :: "Discovery option"

record ResolvedOptions =
  ro_cookie :: string
  ro_userAgent :: string
  ro_deviceId :: string
  ro_fetchGifts :: bool
  ro_fetchRoomInfo :: bool
  ro_identity :: Identity
  ro_socketHost :: string
  ro_reconnect :: ReconnectPolicy
  ro_reconnectJitter :: rat
  ro_signer :: bool
  ro_bundleSource :: "string option"
  ro_bundlePath :: "string option"
  ro_bundleUrl :: "string option"

datatype signer_ref = SuppliedSigner | CreatedSigner nat

text \<open>The promise of \<open>bootstrapGuestSession(\<dots>).then(\<dots>).catch(\<dots>)\<close>.\<close>

record guest =
  gs_generation :: nat
  gs_outcome :: "(js_error, unit) result option"

text \<open>Where a call of \<open>#connect\<close> waits: \<open>C_session (Some p)\<close> for the guest session \<open>p\<close>; \<open>C_signer True\<close> for
  \<open>Signer.create\<close>; \<open>C_done r b\<close> has settled with \<open>r\<close>, and \<open>b\<close> says whether its \<open>finally\<close> has run.\<close>

datatype conn_pc =
    C_session "nat option"
  | C_lookup
  | C_roomInfo
  | C_gifts
  | C_signer bool
  | C_open nat
  | C_done "(js_error, json) result" bool

record conn_task =
  ct_generation :: nat
  ct_pc :: conn_pc

datatype promise = Resolved | Task nat

text \<open>Where a call of \<open>#reconnect\<close> waits: for its \<open>connect()\<close>, for the two halves of \<open>#refreshGuestSession\<close>, or for the
  second \<open>connect()\<close>.\<close>

datatype recon_pc = R_connect promise | R_session "nat option" | R_signer bool | R_again promise | R_done

record recon_task =
  rt_generation :: nat
  rt_pc :: recon_pc

record client = core +
  tl_uniqueId :: string
  tl_roomId :: string
  tl_nickname :: string
  tl_roomInfo :: "json option"
  tl_connected :: bool
  tl_discovery :: Discovery
  tl_options :: ResolvedOptions
  tl_heartbeat :: "int option"
  tl_signer :: "signer_ref option"
  tl_guestSession :: "nat option"
  tl_guestMode :: bool
  tl_guestRefreshAttempted :: bool
  tl_guests :: "guest list"
  tl_tasks :: "conn_task list"
  tl_reconnects :: "recon_task list"

type_synonym tl_sys = "client \<times> LiveEvent delivery"
type_synonym tl_env = "unit client_ext env"

definition resolve_policy :: "PartialPolicy option \<Rightarrow> ReconnectPolicy" where
  "resolve_policy p = (case p of None \<Rightarrow> DEFAULT_RECONNECT
     | Some q \<Rightarrow> \<lparr>rp_attempts = opt_or (pp_attempts q) (rp_attempts DEFAULT_RECONNECT),
         rp_initialMs = opt_or (pp_initialMs q) (rp_initialMs DEFAULT_RECONNECT),
         rp_maxMs = opt_or (pp_maxMs q) (rp_maxMs DEFAULT_RECONNECT)\<rparr>)"

definition resolve_options :: "jar \<Rightarrow> TikTokLiveOptions \<Rightarrow> ResolvedOptions" where
  "resolve_options stored o1 =
     \<lparr>ro_cookie = opt_or (to_sessionCookie o1) (cookieHeader stored []),
      ro_userAgent = opt_or (to_userAgent o1) USER_AGENT, ro_deviceId = opt_or (to_deviceId o1) [],
      ro_fetchGifts = opt_or (to_fetchGifts o1) True, ro_fetchRoomInfo = opt_or (to_fetchRoomInfo o1) True,
      ro_identity = opt_or (to_identity o1) audience, ro_socketHost = opt_or (to_socketHost o1) SOCKET_HOST_global,
      ro_reconnect = resolve_policy (to_reconnect o1),
      ro_reconnectJitter = num_val (opt_or (to_reconnectJitter o1) (js_int 0)), ro_signer = to_signer o1,
      ro_bundleSource = to_bundleSource o1, ro_bundlePath = to_bundlePath o1, ro_bundleUrl = to_bundleUrl o1\<rparr>"

definition new_TikTokLive :: "jar \<Rightarrow> string \<Rightarrow> TikTokLiveOptions \<Rightarrow> (js_error, tl_sys) result" where
  "new_TikTokLive stored uniqueId o1 =
     res_bind (writeBufferLimit (to_maxBufferedBytes o1)) (\<lambda>limit.
     res_bind (new_EventDelivery (to_eventDelivery o1)) (\<lambda>d.
       let jitter = opt_or (to_reconnectJitter o1) (js_int 0); ro = resolve_options stored o1
       in if \<not> isFinite jitter \<or> js_less jitter (js_int 0) \<or> js_less (js_int 1) jitter
          then Inl (RangeErr ''reconnectJitter must be between 0 and 1'')
          else Inr (\<lparr>closing = False, generation = 0, socket = None, connecting = None, connectAbort = None,
              reconnectTimer = None, cancelOpen = None, attempt = 0, listenerErrors = 0, writeBufferRejections = 0,
              maxBufferedBytes = limit, gifts = [], sockets = [], trace = [],
              tl_uniqueId = strip_at uniqueId, tl_roomId = opt_or (to_roomId o1) [], tl_nickname = [], tl_roomInfo = None,
              tl_connected = False,
              tl_discovery = opt_or (to_discovery o1) (new_Discovery (Some (ro_cookie ro)) (Some (ro_userAgent ro)) None),
              tl_options = ro, tl_heartbeat = None, tl_signer = None, tl_guestSession = None, tl_guestMode = False,
              tl_guestRefreshAttempted = False, tl_guests = [], tl_tasks = [], tl_reconnects = []\<rparr>, d)))"

definition tl_state :: "client \<Rightarrow> json" where
  "tl_state c = JObj [(''uniqueId'', JStr (tl_uniqueId c)), (''roomId'', JStr (tl_roomId c)),
     (''connected'', JBool (tl_connected c)), (''roomInfo'', (case tl_roomInfo c of Some v \<Rightarrow> v | None \<Rightarrow> JNull)),
     (''giftCount'', jint (int (length (gifts c))))]"

section \<open>Session and signer\<close>

definition checkGeneration :: "nat \<Rightarrow> client \<Rightarrow> bool" where
  "checkGeneration g c \<longleftrightarrow> \<not> closing c \<and> g = generation c"

text \<open>\<open>#ensureSession\<close> up to its \<open>await\<close>, with what it then waits for.\<close>

definition ensureSession :: "nat \<Rightarrow> client \<Rightarrow> nat option \<times> client" where
  "ensureSession g c =
     (if ro_cookie (tl_options c) \<noteq> []
      then (None, c\<lparr>tl_discovery := setCookie (ro_cookie (tl_options c)) (tl_discovery c)\<rparr>)
      else case tl_guestSession c of
          Some p \<Rightarrow> (Some p, c)
        | None \<Rightarrow> (Some (length (tl_guests c)),
            c\<lparr>tl_guestMode := True, tl_guests := tl_guests c @ [\<lparr>gs_generation = g, gs_outcome = None\<rparr>],
              tl_guestSession := Some (length (tl_guests c))\<rparr>))"

definition session_outcome :: "nat option \<Rightarrow> client \<Rightarrow> (js_error, unit) result option" where
  "session_outcome w c = (case w of None \<Rightarrow> Some (Inr ())
     | Some p \<Rightarrow> if p < length (tl_guests c) then gs_outcome (tl_guests c ! p) else None)"

text \<open>The \<open>then\<close> and \<open>catch\<close> of a guest session.\<close>

definition guest_settled :: "nat \<Rightarrow> (js_error, SessionIdentity) result \<Rightarrow> client \<Rightarrow> client" where
  "guest_settled p r c =
     (if p < length (tl_guests c) \<and> gs_outcome (tl_guests c ! p) = None
      then let ended = (\<lambda>out c. c\<lparr>tl_guests := (tl_guests c)[p := (tl_guests c ! p)\<lparr>gs_outcome := Some out\<rparr>]\<rparr>);
               failed = (\<lambda>e. ended (Inl e) (if tl_guestSession c = Some p then c\<lparr>tl_guestSession := None\<rparr> else c))
           in case r of
               Inl e \<Rightarrow> failed e
             | Inr identity \<Rightarrow>
                 if checkGeneration (gs_generation (tl_guests c ! p)) c
                 then ended (Inr ()) (c\<lparr>tl_options := (tl_options c)\<lparr>ro_cookie := si_cookie identity\<rparr>,
                   tl_discovery := setCookie (si_cookie identity) (tl_discovery c)\<rparr>)
                 else failed cancelled
      else c)"

text \<open>\<open>#ensureSigner\<close> up to its \<open>await\<close>: an error, or whether \<open>Signer.create\<close> is pending.\<close>

definition ensureSigner :: "nat \<Rightarrow> client \<Rightarrow> (js_error, bool) result \<times> client" where
  "ensureSigner g c =
     (if tl_signer c \<noteq> None then (Inr False, c)
      else if ro_signer (tl_options c)
      then (if checkGeneration g c then (Inr False, c\<lparr>tl_signer := Some SuppliedSigner\<rparr>) else (Inl cancelled, c))
      else (Inr True, c))"

definition signer_created :: "nat \<Rightarrow> (js_error, signer_ref) result \<Rightarrow> client \<Rightarrow> (js_error, unit) result \<times> client" where
  "signer_created g r c = (case r of
       Inl e \<Rightarrow> (Inl e, c)
     | Inr sg \<Rightarrow> if checkGeneration g c then (Inr (), c\<lparr>tl_signer := Some sg\<rparr>) else (Inl cancelled, c))"

definition refreshGuestSession :: "nat \<Rightarrow> client \<Rightarrow> nat option \<times> client" where
  "refreshGuestSession g c = ensureSession g
     (c\<lparr>tl_guestSession := None, tl_options := (tl_options c)\<lparr>ro_cookie := []\<rparr>, tl_signer := None\<rparr>)"

section \<open>The public calls\<close>

definition connect :: "client \<Rightarrow> promise \<times> client" where
  "connect c =
     (if tl_connected c then (Resolved, c)
      else case connecting c of
          Some t \<Rightarrow> (Task t, c)
        | None \<Rightarrow>
            let g = generation c + 1; t = length (tl_tasks c);
                c1 = c\<lparr>closing := False, reconnectTimer := None, connectAbort := Some g, generation := g\<rparr>;
                (w, c2) = ensureSession g c1
            in (Task t, c2\<lparr>tl_tasks := tl_tasks c2 @ [\<lparr>ct_generation = g, ct_pc = C_session w\<rparr>], connecting := Some t\<rparr>))"

definition stopHeartbeat :: "client \<Rightarrow> client" where
  "stopHeartbeat c = c\<lparr>tl_heartbeat := None\<rparr>"

text \<open>The closure in \<open>#cancelOpen\<close>.\<close>

definition run_cancelOpen :: "'z core_scheme \<Rightarrow> 'z core_scheme" where
  "run_cancelOpen c = (case cancelOpen c of None \<Rightarrow> c
     | Some i \<Rightarrow> upd_sock i (\<lambda>k. (if sk_settled k then k else settle (Inl cancelled) k)\<lparr>sk_timer := False\<rparr>) c)"

definition disconnect :: "client \<Rightarrow> client" where
  "disconnect c =
     (stopHeartbeat ((run_cancelOpen (note_out (disconnect_effects c)
        (c\<lparr>closing := True, connectAbort := None, tl_guestSession := None, generation := generation c + 1,
           connecting := None\<rparr>)))
        \<lparr>cancelOpen := None, reconnectTimer := None\<rparr>))\<lparr>socket := None, tl_connected := False\<rparr>"

definition tl_calls :: "unit client_ext calls" where
  "tl_calls = \<lparr>call_connect = on_core (\<lambda>c. snd (connect c)), call_disconnect = (\<lambda>s. (disconnect (fst s), clear (snd s)))\<rparr>"

section \<open>The socket\<close>

definition set_pc :: "nat \<Rightarrow> conn_pc \<Rightarrow> client \<Rightarrow> client" where
  "set_pc t pc c = c\<lparr>tl_tasks := (tl_tasks c)[t := (tl_tasks c ! t)\<lparr>ct_pc := pc\<rparr>]\<rparr>"

definition finish :: "nat \<Rightarrow> (js_error, json) result \<Rightarrow> client \<Rightarrow> client" where
  "finish t r c = set_pc t (C_done r False) c"

definition device_id :: "client \<Rightarrow> string" where
  "device_id c =
     (let jar = parseCookies (ro_cookie (tl_options c)); get = (\<lambda>k. case obj_get jar k of Some v \<Rightarrow> v | None \<Rightarrow> [])
      in js_or (ro_deviceId (tl_options c)) (js_or (get ''tt_webid_v2'') (js_or (get ''tt_webid'') FALLBACK_DEVICE_ID)))"

definition socket_config :: "client \<Rightarrow> qvalue jsobj" where
  "socket_config c = socketConfig (tl_roomId c) (device_id c) (ro_identity (tl_options c)) gzip (ro_socketHost (tl_options c)) ''en''"

definition unsigned_url :: "client \<Rightarrow> string" where
  "unsigned_url c = q_str (q_get (socket_config c) ''socketHost'') @ PATH_wsReuseSupplement @ ''?'' @
     socketQuery (socket_config c) (browserBlock default_block_options)"

definition handshake_headers :: "client \<Rightarrow> (string \<times> string) list" where
  "handshake_headers c = [(''cookie'', ro_cookie (tl_options c)), (''user-agent'', ro_userAgent (tl_options c)),
     (''origin'', ''https://www.tiktok.com'')]"

text \<open>\<open>#open\<close> from its start to the handlers. An error ends the task; otherwise it waits for the socket.\<close>

definition open_socket :: "tl_env \<Rightarrow> nat \<Rightarrow> nat \<Rightarrow> tl_sys \<Rightarrow> tl_sys" where
  "open_socket env t g s =
     (let fail = (\<lambda>e. on_core (finish t (Inl e)))
      in if \<not> current g s then fail cancelled s
         else if tl_signer (fst s) = None then fail (Err ''signer was not initialized'') s
         else case ev_sign env s (unsigned_url (fst s)) of (cs, answer) \<Rightarrow>
           let s1 = run_calls tl_calls cs s
           in case answer of
               Inl e \<Rightarrow> fail e s1
             | Inr url \<Rightarrow>
                 if \<not> current g s1 then fail cancelled s1
                 else case ev_construct env s1 url of (cs', thrown) \<Rightarrow>
                   let s2 = run_calls tl_calls cs' s1; i = length (sockets (fst s2))
                   in case thrown of
                       Some e \<Rightarrow> fail e s2
                     | None \<Rightarrow>
                         let s3 = on_core (add_socket g url (handshake_headers (fst s1)) (tl_roomId (fst s))) s2
                         in if \<not> current g s2
                            then fail cancelled (on_core (\<lambda>c. note_out [O_close i] (upd_sock i (\<lambda>k. (settle (Inl cancelled) k)\<lparr>sk_timer := False\<rparr>) c)) s3)
                            else on_core (\<lambda>c. set_pc t (C_open i) (c\<lparr>socket := Some i, cancelOpen := Some i\<rparr>)) s3)"

definition startHeartbeat :: "int \<Rightarrow> client \<Rightarrow> client" where
  "startHeartbeat everyMs c = (stopHeartbeat c)\<lparr>tl_heartbeat := Some (if everyMs \<noteq> 0 then everyMs else 10000)\<rparr>"

text \<open>The callback of the heartbeat interval.\<close>

definition heartbeat_tick :: "tl_env \<Rightarrow> tl_sys \<Rightarrow> tl_sys" where
  "heartbeat_tick env s =
     (case tl_heartbeat (fst s) of None \<Rightarrow> s
      | Some _ \<Rightarrow> (case socket (fst s) of None \<Rightarrow> s
        | Some i \<Rightarrow>
            (case send_built tl_calls env i (heartbeatFrame (cd_encodeBeat (ev_codec env)) (cd_encodeFrame (ev_codec env))
                    (tl_roomId (fst s))) s of
               (None, s') \<Rightarrow> s'
             | (Some e, s') \<Rightarrow> if is_write_overflow e then emitError tl_calls env e s' else s')))"

text \<open>The handlers of a socket. \<open>on_open_timeout\<close> is the callback of the open timer.\<close>

definition on_open_timeout :: "nat \<Rightarrow> client \<Rightarrow> client" where
  "on_open_timeout i c =
     (if valid_sock i c \<and> sk_timer (sock_of i c)
      then if sk_settled (sock_of i c) then upd_sock i (\<lambda>k. k\<lparr>sk_timer := False\<rparr>) c
           else note_out [O_close i] (upd_sock i (\<lambda>k. (settle (Inl (Err (''the socket did not open within '' @
                  int_str OPEN_TIMEOUT_MS @ '' ms''))) k)\<lparr>sk_timer := False\<rparr>) c)
      else c)"

definition opened_client :: "nat \<Rightarrow> client \<Rightarrow> client" where
  "opened_client i c = (upd_sock i (\<lambda>k. (if sk_settled k then k else settle (Inr ()) k)\<lparr>sk_timer := False\<rparr>)
     ((startHeartbeat (int (str_nat HEARTBEAT_MS)) c)\<lparr>tl_connected := True, attempt := 0, tl_guestRefreshAttempted := False\<rparr>))
     \<lparr>cancelOpen := None\<rparr>"

definition on_open :: "tl_env \<Rightarrow> nat \<Rightarrow> tl_sys \<Rightarrow> tl_sys" where
  "on_open env i s =
     (if \<not> valid_sock i (fst s) \<or> sk_settled (sock_of i (fst s)) then s
      else if \<not> current (sk_generation (sock_of i (fst s))) s \<or> socket (fst s) \<noteq> Some i
      then on_core (\<lambda>c. note_out [O_close i] (upd_sock i (\<lambda>k. (settle (Inl cancelled) k)\<lparr>sk_timer := False\<rparr>) c)) s
      else let s1 = on_core (upd_sock i (\<lambda>k. k\<lparr>sk_opened := True\<rparr>)) s
           in case send_built tl_calls env i (enterRoomFrame (cd_encodeEnter (ev_codec env)) (cd_encodeFrame (ev_codec env))
                  (tl_roomId (fst s)) (ro_identity (tl_options (fst s))) LIVE_ID) s1 of
                (Some e, s2) \<Rightarrow> call_disconnect tl_calls (on_core (\<lambda>c. (upd_sock i (\<lambda>k. (settle (Inl e) k)\<lparr>sk_timer := False\<rparr>) c)
                    \<lparr>cancelOpen := None\<rparr>) s2)
              | (None, s2) \<Rightarrow> let s3 = on_core (opened_client i) s2
                  in notify tl_calls env (E_connected (tl_state (fst s3))) s3)"

definition heartbeat_hint :: "ProtoMessageFetchResult \<Rightarrow> client \<Rightarrow> client" where
  "heartbeat_hint batch c =
     (if fr_heartbeatDuration batch > 0 then startHeartbeat (min (fr_heartbeatDuration batch) MAX_HEARTBEAT_MS) c else c)"

definition acknowledge :: "tl_env \<Rightarrow> WebcastPushFrame \<Rightarrow> ProtoMessageFetchResult \<Rightarrow> tl_sys \<Rightarrow> tl_sys" where
  "acknowledge env frame batch s =
     (if fr_needAck batch
      then (case socket (fst s) of None \<Rightarrow> s
        | Some i \<Rightarrow>
            (case send_built tl_calls env i
                 (ackFrameForBatch (cd_encodeFrame (ev_codec env)) frame (fr_internalExt batch)) s of
               (None, s') \<Rightarrow> s' | (Some e, s') \<Rightarrow> emitError tl_calls env e s'))
      else s)"

definition receive :: "tl_env \<Rightarrow> bytes \<Rightarrow> tl_sys \<Rightarrow> tl_sys" where
  "receive env data s =
     (case decode_message (ev_codec env) data of
        Inl e \<Rightarrow> emitError tl_calls env e s
      | Inr None \<Rightarrow> s
      | Inr (Some (frame, batch)) \<Rightarrow>
          submit_messages tl_calls env (generation (fst s)) (fr_messages batch)
            (acknowledge env frame batch (on_core (heartbeat_hint batch) s)))"

definition on_message :: "tl_env \<Rightarrow> nat \<Rightarrow> bytes \<Rightarrow> tl_sys \<Rightarrow> tl_sys" where
  "on_message env i data s =
     (if valid_sock i (fst s) \<and> \<not> closing (fst s) \<and> socket (fst s) = Some i \<and> sk_generation (sock_of i (fst s)) = generation (fst s)
      then receive env data s else s)"

definition on_error :: "tl_env \<Rightarrow> nat \<Rightarrow> string option \<Rightarrow> tl_sys \<Rightarrow> tl_sys" where
  "on_error env i message s =
     (if \<not> valid_sock i (fst s) \<or> socket (fst s) \<noteq> Some i \<or> sk_generation (sock_of i (fst s)) \<noteq> generation (fst s) then s
      else if sk_settled (sock_of i (fst s)) then emitError tl_calls env (Err (opt_or message ''socket error'')) s
      else s)"

definition reconnect_delay :: "ReconnectPolicy \<Rightarrow> rat \<Rightarrow> rat \<Rightarrow> nat \<Rightarrow> rat" where
  "reconnect_delay p jitter random att =
     (let baseMs = min (of_int (rp_initialMs p) * 2 ^ min (att - 1) 30) (of_int (rp_maxMs p))
      in min (of_int MAX_HEARTBEAT_MS) (min (of_int (rp_maxMs p)) (baseMs * (1 + jitter * random))))"

definition scheduleReconnect :: "tl_env \<Rightarrow> tl_sys \<Rightarrow> tl_sys" where
  "scheduleReconnect env s =
     (if closing (fst s) \<or> reconnectTimer (fst s) \<noteq> None then s
      else let p = ro_reconnect (tl_options (fst s))
           in if int (attempt (fst s)) \<ge> rp_attempts p
              then emitError tl_calls env (Err (''gave up after '' @ int_str (rp_attempts p) @ '' reconnection attempts'')) s
              else let s1 = on_core (\<lambda>c. c\<lparr>attempt := attempt c + 1\<rparr>) s;
                       delayMs = reconnect_delay p (ro_reconnectJitter (tl_options (fst s))) (ev_random env) (attempt (fst s1));
                       g = generation (fst s);
                       s2 = notify tl_calls env (E_reconnecting (attempt (fst s1)) delayMs) s1
                   in if \<not> current g s2 then s2
                      else on_core (\<lambda>c. c\<lparr>reconnectTimer := Some (delayMs, g)\<rparr>) s2)"

definition handshake_refused :: "string \<Rightarrow> int \<Rightarrow> js_error" where
  "handshake_refused cookie closeCode =
     (if obj_get (parseCookies cookie) ''sessionid'' \<noteq> None
      then HandshakeRejectedErr (''the handshake was refused (code '' @ int_str closeCode @
        ''). The socket rejected the provided authenticated session before any frame was exchanged.'') closeCode
      else GuestSessionErr WS_HANDSHAKE_REJECTED (''anonymous guest WebSocket handshake was rejected (code '' @ int_str closeCode @
        ''). Provide a TikTok session cookie if authenticated transport is required.'') None (Some closeCode))"

definition closed_client :: "nat \<Rightarrow> client \<Rightarrow> client" where
  "closed_client i c = stopHeartbeat (c\<lparr>cancelOpen := None, socket := None, tl_connected := False\<rparr>)"

definition on_close :: "tl_env \<Rightarrow> nat \<Rightarrow> int \<Rightarrow> string option \<Rightarrow> tl_sys \<Rightarrow> tl_sys" where
  "on_close env i closeCode reason s =
     (if \<not> valid_sock i (fst s) then s
      else let s0 = on_core (upd_sock i (\<lambda>k. k\<lparr>sk_timer := False\<rparr>)) s
           in if socket (fst s) \<noteq> Some i then s0
              else let s1 = on_core (closed_client i) s0
                   in if \<not> sk_opened (sock_of i (fst s))
                      then if sk_settled (sock_of i (fst s)) then s1
                           else on_core (upd_sock i (settle (Inl (handshake_refused (ro_cookie (tl_options (fst s))) closeCode)))) s1
                      else let s2 = notify tl_calls env (E_disconnected closeCode (opt_or reason [])) s1
                           in if \<not> closing (fst s2) then scheduleReconnect env s2 else s2)"

section \<open>Resuming the asynchronous methods\<close>

datatype settled_value =
    V_none
  | V_lookup "(js_error, json) result"
  | V_roomInfo "(js_error, json) result"
  | V_gifts "(js_error, (string \<times> json) list) result"
  | V_signer "(js_error, signer_ref) result"

text \<open>The stretches of \<open>#connect\<close> between two \<open>await\<close>s, last first.\<close>

definition after_gifts :: "nat \<Rightarrow> nat \<Rightarrow> client \<Rightarrow> client" where
  "after_gifts t g c = (case ensureSigner g c of
       (Inl e, c') \<Rightarrow> finish t (Inl e) c' | (Inr pending, c') \<Rightarrow> set_pc t (C_signer pending) c')"

definition after_info :: "nat \<Rightarrow> nat \<Rightarrow> client \<Rightarrow> client" where
  "after_info t g c = (if ro_fetchGifts (tl_options c) then set_pc t C_gifts c else after_gifts t g c)"

definition after_room :: "nat \<Rightarrow> nat \<Rightarrow> client \<Rightarrow> client" where
  "after_room t g c = (if ro_fetchRoomInfo (tl_options c) then set_pc t C_roomInfo c else after_info t g c)"

definition after_session :: "nat \<Rightarrow> nat \<Rightarrow> client \<Rightarrow> client" where
  "after_session t g c = (if tl_roomId c = [] then set_pc t C_lookup c else after_room t g c)"

definition json_num_str :: "host \<Rightarrow> json option \<Rightarrow> string" where
  "json_num_str h v = (case v of Some (JNum n) \<Rightarrow> number_str h n | _ \<Rightarrow> [])"

definition after_lookup :: "host \<Rightarrow> nat \<Rightarrow> nat \<Rightarrow> json \<Rightarrow> client \<Rightarrow> client" where
  "after_lookup h t g lookup c =
     (if j_get lookup ''isLive'' \<noteq> Some (JBool True)
      then finish t (Inl (NotLiveErr (''@'' @ tl_uniqueId c @ '' is not live (status '' @ json_num_str h (j_get lookup ''status'') @ '')''))) c
      else after_room t g (c\<lparr>tl_roomId := j_str lookup ''roomId'', tl_nickname := j_str lookup ''nickname''\<rparr>))"

definition resume_connect :: "tl_env \<Rightarrow> nat \<Rightarrow> settled_value \<Rightarrow> tl_sys \<Rightarrow> tl_sys" where
  "resume_connect env t v s =
     (let c = fst s; g = ct_generation (tl_tasks c ! t); fail = (\<lambda>e. on_core (finish t (Inl e)) s);
          guarded = (\<lambda>f. if checkGeneration g c then on_core f s else fail cancelled)
      in if t \<ge> length (tl_tasks c) then s
         else case ct_pc (tl_tasks c ! t) of
            C_session w \<Rightarrow> (case session_outcome w c of
                None \<Rightarrow> s | Some (Inl e) \<Rightarrow> fail e | Some (Inr _) \<Rightarrow> guarded (after_session t g))
          | C_lookup \<Rightarrow> (case v of
                V_lookup (Inl e) \<Rightarrow> fail e
              | V_lookup (Inr lookup) \<Rightarrow> guarded (after_lookup (cd_host (ev_codec env)) t g lookup)
              | _ \<Rightarrow> s)
          | C_roomInfo \<Rightarrow> (case v of
                V_roomInfo r \<Rightarrow> guarded (\<lambda>c. after_info t g (c\<lparr>tl_roomInfo := (case r of Inl _ \<Rightarrow> None | Inr info \<Rightarrow> Some info)\<rparr>))
              | _ \<Rightarrow> s)
          | C_gifts \<Rightarrow> (case v of
                V_gifts r \<Rightarrow> guarded (\<lambda>c. after_gifts t g (c\<lparr>gifts := (case r of Inl _ \<Rightarrow> [] | Inr table \<Rightarrow> table)\<rparr>))
              | _ \<Rightarrow> s)
          | C_signer True \<Rightarrow> (case v of
                V_signer r \<Rightarrow> (case signer_created g r c of
                    (Inl e, c') \<Rightarrow> on_core (\<lambda>_. finish t (Inl e) c') s
                  | (Inr _, c') \<Rightarrow> on_core (\<lambda>_. set_pc t (C_signer False) c') s)
              | _ \<Rightarrow> s)
          | C_signer False \<Rightarrow> if checkGeneration g c then open_socket env t g s else fail cancelled
          | C_open i \<Rightarrow> (case (if valid_sock i c then sk_outcome (sock_of i c) else None) of
                None \<Rightarrow> s
              | Some (Inl e) \<Rightarrow> fail e
              | Some (Inr _) \<Rightarrow> on_core (\<lambda>c. finish t (Inr (tl_state c)) c) s)
          | C_done _ _ \<Rightarrow> s)"

text \<open>The \<open>finally\<close> of \<open>connect()\<close>.\<close>

definition connect_finally :: "nat \<Rightarrow> client \<Rightarrow> client" where
  "connect_finally t c =
     (if t < length (tl_tasks c)
      then case ct_pc (tl_tasks c ! t) of
          C_done r False \<Rightarrow> set_pc t (C_done r True) (if connecting c = Some t then c\<lparr>connecting := None\<rparr> else c)
        | _ \<Rightarrow> c
      else c)"

definition promise_outcome :: "promise \<Rightarrow> client \<Rightarrow> (js_error, unit) result option" where
  "promise_outcome p c = (case p of
       Resolved \<Rightarrow> Some (Inr ())
     | Task t \<Rightarrow> if t < length (tl_tasks c)
         then (case ct_pc (tl_tasks c ! t) of
             C_done (Inl e) True \<Rightarrow> Some (Inl e) | C_done (Inr _) True \<Rightarrow> Some (Inr ()) | _ \<Rightarrow> None)
         else None)"

definition set_rpc :: "nat \<Rightarrow> recon_pc \<Rightarrow> client \<Rightarrow> client" where
  "set_rpc r pc c = c\<lparr>tl_reconnects := (tl_reconnects c)[r := (tl_reconnects c ! r)\<lparr>rt_pc := pc\<rparr>]\<rparr>"

text \<open>The callback of the reconnection timer, which starts \<open>#reconnect\<close>.\<close>

definition start_reconnect :: "client \<Rightarrow> client" where
  "start_reconnect c = (case connect c of (p, c') \<Rightarrow>
     c'\<lparr>tl_reconnects := tl_reconnects c' @ [\<lparr>rt_generation = generation c', rt_pc = R_connect p\<rparr>]\<rparr>)"

definition reconnect_timer :: "client \<Rightarrow> client" where
  "reconnect_timer c = (case reconnectTimer c of
       None \<Rightarrow> c
     | Some (delayMs, g) \<Rightarrow>
         let c1 = c\<lparr>reconnectTimer := None\<rparr> in if \<not> checkGeneration g c then c1 else start_reconnect c1)"

text \<open>The \<open>catch\<close> of \<open>#reconnect\<close>.\<close>

definition reconnect_failed :: "tl_env \<Rightarrow> nat \<Rightarrow> nat \<Rightarrow> js_error \<Rightarrow> tl_sys \<Rightarrow> tl_sys" where
  "reconnect_failed env r g e s =
     (let s0 = on_core (set_rpc r R_done) s
      in if \<not> current g s then s0
         else if \<not> isHandshakeRejected e
         then (let s1 = emitError tl_calls env e s0 in if \<not> closing (fst s1) then scheduleReconnect env s1 else s1)
         else if tl_guestMode (fst s) \<and> \<not> tl_guestRefreshAttempted (fst s)
         then on_core (\<lambda>c. case refreshGuestSession g (c\<lparr>tl_guestRefreshAttempted := True\<rparr>) of
             (w, c') \<Rightarrow> set_rpc r (R_session w) c') s
         else emitError tl_calls env e s0)"

definition refresh_failed :: "tl_env \<Rightarrow> nat \<Rightarrow> js_error \<Rightarrow> tl_sys \<Rightarrow> tl_sys" where
  "refresh_failed env r e s =
     (let s0 = on_core (set_rpc r R_done) s in if \<not> closing (fst s) then emitError tl_calls env e s0 else s0)"

definition resume_reconnect :: "tl_env \<Rightarrow> nat \<Rightarrow> settled_value \<Rightarrow> tl_sys \<Rightarrow> tl_sys" where
  "resume_reconnect env r v s =
     (let c = fst s; g = rt_generation (tl_reconnects c ! r); continue = (\<lambda>pc. on_core (set_rpc r pc) s)
      in if r \<ge> length (tl_reconnects c) then s
         else case rt_pc (tl_reconnects c ! r) of
            R_connect p \<Rightarrow> (case promise_outcome p c of
                None \<Rightarrow> s | Some (Inr _) \<Rightarrow> continue R_done | Some (Inl e) \<Rightarrow> reconnect_failed env r g e s)
          | R_session w \<Rightarrow> (case session_outcome w c of
                None \<Rightarrow> s
              | Some (Inl e) \<Rightarrow> refresh_failed env r e s
              | Some (Inr _) \<Rightarrow> (case ensureSigner g c of
                    (Inl e, c') \<Rightarrow> refresh_failed env r e s
                  | (Inr pending, c') \<Rightarrow> on_core (\<lambda>_. set_rpc r (R_signer pending) c') s))
          | R_signer True \<Rightarrow> (case v of
                V_signer x \<Rightarrow> (case signer_created g x c of
                    (Inl e, c') \<Rightarrow> refresh_failed env r e s
                  | (Inr _, c') \<Rightarrow> on_core (\<lambda>_. set_rpc r (R_signer False) c') s)
              | _ \<Rightarrow> s)
          | R_signer False \<Rightarrow>
              if checkGeneration g c then on_core (\<lambda>c. case connect c of (p, c') \<Rightarrow> set_rpc r (R_again p) c') s
              else continue R_done
          | R_again p \<Rightarrow> (case promise_outcome p c of
                None \<Rightarrow> s | Some (Inr _) \<Rightarrow> continue R_done | Some (Inl e) \<Rightarrow> refresh_failed env r e s)
          | R_done \<Rightarrow> s)"

section \<open>Steps\<close>

datatype input =
    I_connect
  | I_disconnect
  | I_resume nat settled_value
  | I_finally nat
  | I_guest nat "(js_error, SessionIdentity) result"
  | I_reconnectTimer
  | I_resumeReconnect nat settled_value
  | I_open nat
  | I_message nat bytes
  | I_error nat "string option"
  | I_close nat int "string option"
  | I_openTimeout nat
  | I_heartbeat
  | I_immediate "nat \<Rightarrow> rat"

fun step :: "tl_env \<Rightarrow> input \<Rightarrow> tl_sys \<Rightarrow> tl_sys" where
  "step env I_connect s = call_connect tl_calls s"
| "step env I_disconnect s = call_disconnect tl_calls s"
| "step env (I_resume t v) s = resume_connect env t v s"
| "step env (I_finally t) s = on_core (connect_finally t) s"
| "step env (I_guest p r) s = on_core (guest_settled p r) s"
| "step env I_reconnectTimer s = on_core reconnect_timer s"
| "step env (I_resumeReconnect r v) s = resume_reconnect env r v s"
| "step env (I_open i) s = on_open env i s"
| "step env (I_message i data) s = on_message env i data s"
| "step env (I_error i m) s = on_error env i m s"
| "step env (I_close i closeCode reason) s = on_close env i closeCode reason s"
| "step env (I_openTimeout i) s = on_core (on_open_timeout i) s"
| "step env I_heartbeat s = heartbeat_tick env s"
| "step env (I_immediate now) s = run_immediate tl_calls env now s"

inductive reachable :: "tl_sys \<Rightarrow> bool" where
  initial: "new_TikTokLive stored uniqueId o1 = Inr s \<Longrightarrow> reachable s"
| stepped: "reachable s \<Longrightarrow> reachable (step env x s)"

definition deliveryMetrics :: "tl_sys \<Rightarrow> delivery_metrics \<times> nat \<times> nat" where
  "deliveryMetrics s = (metrics (snd s), listenerErrors (fst s), writeBufferRejections (fst s))"

definition cookieFromFile :: "(string \<Rightarrow> (js_error, string) result) \<Rightarrow> string \<Rightarrow> (js_error, string) result" where
  "cookieFromFile readFileSync path = res_bind (readFileSync path) (\<lambda>t. Inr (js_trim t))"

end
