(* ===== verification/Client_Invariants.thy ===== *)
theory Client_Invariants
  imports Client
begin

text \<open>
  Invariants of \<open>client.ts\<close>. \<open>client_ok\<close> says what the fields of a \<open>TikTokLive\<close> object promise each other between two
  steps. It is kept by the public calls, so the locale \<open>client_calls\<close> gives that no listener, signer or socket constructor
  can break it from within a step, and by every input.
\<close>

section \<open>The invariant\<close>

definition stopped :: "client \<Rightarrow> bool" where
  "stopped c \<longleftrightarrow> \<not> tl_connected c \<and> socket c = None \<and> tl_heartbeat c = None \<and> reconnectTimer c = None \<and>
     connecting c = None \<and> cancelOpen c = None"

definition live_socket :: "client \<Rightarrow> nat \<Rightarrow> bool" where
  "live_socket c i \<longleftrightarrow> i < length (sockets c) \<and>
     (tl_connected c \<longrightarrow> sk_generation (sockets c ! i) = generation c \<and> sk_opened (sockets c ! i) \<and> sk_settled (sockets c ! i))"

text \<open>A task that has not reached \<open>#open\<close> has no socket; every task and every socket belongs to a generation of its own.\<close>

fun past_open :: "conn_pc \<Rightarrow> bool" where
  "past_open (C_open i) = True"
| "past_open (C_done r b) = True"
| "past_open _ = False"

definition tasks_ok :: "client \<Rightarrow> bool" where
  "tasks_ok c \<longleftrightarrow> (\<forall>i < length (sockets c). sk_generation (sockets c ! i) \<le> generation c) \<and>
     (\<forall>t < length (tl_tasks c). ct_generation (tl_tasks c ! t) \<le> generation c) \<and>
     (\<forall>t < length (tl_tasks c). \<forall>t' < t. ct_generation (tl_tasks c ! t') < ct_generation (tl_tasks c ! t)) \<and>
     (\<forall>t < length (tl_tasks c). \<forall>i < length (sockets c).
        sk_generation (sockets c ! i) = ct_generation (tl_tasks c ! t) \<longrightarrow> past_open (ct_pc (tl_tasks c ! t)))"

definition client_ok :: "client \<Rightarrow> bool" where
  "client_ok c \<longleftrightarrow> (closing c \<longrightarrow> stopped c) \<and>
     (socket c = None \<longrightarrow> \<not> tl_connected c \<and> tl_heartbeat c = None) \<and>
     (\<forall>i. socket c = Some i \<longrightarrow> live_socket c i) \<and>
     (\<forall>t. connecting c = Some t \<longrightarrow> t < length (tl_tasks c) \<and> ct_generation (tl_tasks c ! t) = generation c) \<and>
     int (attempt c) \<le> max 0 (rp_attempts (ro_reconnect (tl_options c))) \<and> tasks_ok c"

lemmas ok_defs = client_ok_def stopped_def live_socket_def tasks_ok_def

lemma ok_note [simp]: "client_ok (note_out os c) = client_ok c"
  by (simp add: ok_defs note_out_def)

lemma ok_count [simp]: "client_ok (count_listener_error c) = client_ok c"
  by (simp add: ok_defs count_listener_error_def)

lemma ok_write [simp]: "client_ok c \<Longrightarrow> client_ok (c\<lparr>writeBufferRejections := n, cancelOpen := None\<rparr>)"
  by (simp add: ok_defs)

lemma ok_set_pc:
  assumes "client_ok c" and "past_open (ct_pc (tl_tasks c ! t)) \<Longrightarrow> past_open pc"
  shows "client_ok (set_pc t pc c)"
  using assms by (auto simp: ok_defs set_pc_def nth_update_if)

lemma ok_finish [simp]: "client_ok c \<Longrightarrow> client_ok (finish t r c)"
  by (simp add: finish_def ok_set_pc)

lemma ok_set_rpc [simp]: "client_ok (set_rpc r pc c) = client_ok c"
  by (simp add: ok_defs set_rpc_def)

lemma ok_upd_sock:
  assumes "client_ok c" and "\<And>k. sk_generation (f k) = sk_generation k"
    and "\<And>k. sk_opened k \<Longrightarrow> sk_opened (f k)" and "\<And>k. sk_settled k \<Longrightarrow> sk_settled (f k)"
  shows "client_ok (upd_sock i f c)"
  using assms by (auto simp: ok_defs upd_sock_def nth_update_if)

lemma ensureSession_frame:
  assumes "ensureSession g c = (w, c')"
  shows "closing c' = closing c \<and> generation c' = generation c \<and> socket c' = socket c \<and> connecting c' = connecting c \<and>
    reconnectTimer c' = reconnectTimer c \<and> cancelOpen c' = cancelOpen c \<and> attempt c' = attempt c \<and> sockets c' = sockets c \<and>
    tl_connected c' = tl_connected c \<and> tl_heartbeat c' = tl_heartbeat c \<and> tl_options c' = tl_options c \<and>
    tl_tasks c' = tl_tasks c \<and> trace c' = trace c \<and> tl_reconnects c' = tl_reconnects c"
  using assms by (auto simp: ensureSession_def split: if_splits option.splits)

lemma ok_ensureSession: "ensureSession g c = (w, c') \<Longrightarrow> client_ok c' = client_ok c"
  by (drule ensureSession_frame) (simp add: ok_defs)

lemma connect_new:
  assumes "\<not> tl_connected c" and "connecting c = None"
  obtains w c2 where "ensureSession (generation c + 1)
      (c\<lparr>closing := False, reconnectTimer := None, connectAbort := Some (generation c + 1), generation := generation c + 1\<rparr>) = (w, c2)"
    and "connect c = (Task (length (tl_tasks c)),
      c2\<lparr>tl_tasks := tl_tasks c @ [\<lparr>ct_generation = generation c + 1, ct_pc = C_session w\<rparr>], connecting := Some (length (tl_tasks c))\<rparr>)"
proof -
  obtain w c2 where e: "ensureSession (generation c + 1)
      (c\<lparr>closing := False, reconnectTimer := None, connectAbort := Some (generation c + 1), generation := generation c + 1\<rparr>) = (w, c2)"
    by fastforce
  with ensureSession_frame [OF e] assms that [OF e] show ?thesis by (simp add: connect_def Let_def)
qed

lemma connect_same: "tl_connected c \<or> connecting c \<noteq> None \<Longrightarrow> snd (connect c) = c"
  by (auto simp: connect_def)

lemma ok_connect: "client_ok c \<Longrightarrow> client_ok (snd (connect c))"
proof (cases "tl_connected c \<or> connecting c \<noteq> None")
  case False
  then obtain w c2 where e: "ensureSession (generation c + 1)
      (c\<lparr>closing := False, reconnectTimer := None, connectAbort := Some (generation c + 1), generation := generation c + 1\<rparr>) = (w, c2)"
    and c: "connect c = (Task (length (tl_tasks c)),
      c2\<lparr>tl_tasks := tl_tasks c @ [\<lparr>ct_generation = generation c + 1, ct_pc = C_session w\<rparr>], connecting := Some (length (tl_tasks c))\<rparr>)"
    using connect_new by blast
  assume "client_ok c"
  with False ensureSession_frame [OF e] show ?thesis
    by (auto simp: c ok_defs nth_append less_Suc_eq less_Suc_eq_le split: if_splits)
qed (simp add: connect_same)

lemma run_cancelOpen_frame [simp]:
  "closing (run_cancelOpen c) = closing c" "generation (run_cancelOpen c) = generation c" "socket (run_cancelOpen c) = socket c"
  "connecting (run_cancelOpen c) = connecting c" "attempt (run_cancelOpen c) = attempt c" "trace (run_cancelOpen c) = trace c"
  "core.more (run_cancelOpen c) = core.more c"
  by (simp_all add: run_cancelOpen_def split: option.split)

lemma ok_run_cancelOpen: "client_ok c \<Longrightarrow> client_ok (run_cancelOpen c)"
  by (auto simp: run_cancelOpen_def settle_def split: option.split intro!: ok_upd_sock)

text \<open>\<open>disconnect\<close> as one update after the pending promise is rejected.\<close>

lemma disconnect_alt:
  "disconnect c = note_out (disconnect_effects c) ((run_cancelOpen c)\<lparr>closing := True, connectAbort := None, tl_guestSession := None,
     generation := generation c + 1, connecting := None, cancelOpen := None, reconnectTimer := None, tl_heartbeat := None,
     socket := None, tl_connected := False\<rparr>)"
  by (simp add: disconnect_def stopHeartbeat_def run_cancelOpen_def note_out_def upd_sock_def split: option.split)

lemma ok_disconnect:
  assumes "client_ok c"
  shows "client_ok (disconnect c)"
  using ok_run_cancelOpen [OF assms] unfolding disconnect_alt ok_note by (auto simp: ok_defs)

interpretation calls: client_calls tl_calls client_ok
proof
  show "closing (fst s)" if "closing (fst (call_connect tl_calls s))" for s
    using that by (auto simp: tl_calls_def connect_def Let_def split: if_splits option.splits prod.splits dest!: ensureSession_frame)
qed (simp_all add: tl_calls_def ok_connect ok_disconnect)

text \<open>What the public calls never undo: a task stays where it is, no socket opens, generations and the trace only grow.\<close>

definition extends :: "client \<Rightarrow> client \<Rightarrow> bool" where
  "extends c0 c \<longleftrightarrow> (\<exists>ts. tl_tasks c = tl_tasks c0 @ ts) \<and> (tl_connected c \<longrightarrow> tl_connected c0) \<and>
     generation c0 \<le> generation c \<and> (\<exists>os. trace c = trace c0 @ os) \<and> (\<exists>ks. tl_reconnects c = tl_reconnects c0 @ ks) \<and>
     ro_reconnect (tl_options c) = ro_reconnect (tl_options c0)"

lemma extends_refl [simp]: "extends c c"
  by (simp add: extends_def)

lemma run_cancelOpen_more [simp]:
  "tl_tasks (run_cancelOpen c) = tl_tasks c" "tl_options (run_cancelOpen c) = tl_options c"
  "tl_reconnects (run_cancelOpen c) = tl_reconnects c"
  by (simp_all add: run_cancelOpen_def upd_sock_def split: option.split)

lemma note_out_more [simp]:
  "tl_tasks (note_out os c) = tl_tasks c" "tl_options (note_out os c) = tl_options c" "tl_connected (note_out os c) = tl_connected c"
  "tl_reconnects (note_out os c) = tl_reconnects c" "tl_heartbeat (note_out os c) = tl_heartbeat c"
  "tl_guestMode (note_out os c) = tl_guestMode c" "tl_guestRefreshAttempted (note_out os c) = tl_guestRefreshAttempted c"
  by (simp_all add: note_out_def)

lemma extends_connect: "extends c0 c \<Longrightarrow> extends c0 (snd (connect c))"
proof (cases "tl_connected c \<or> connecting c \<noteq> None")
  case False
  then obtain w c2 where e: "ensureSession (generation c + 1)
      (c\<lparr>closing := False, reconnectTimer := None, connectAbort := Some (generation c + 1), generation := generation c + 1\<rparr>) = (w, c2)"
    and c: "connect c = (Task (length (tl_tasks c)),
      c2\<lparr>tl_tasks := tl_tasks c @ [\<lparr>ct_generation = generation c + 1, ct_pc = C_session w\<rparr>], connecting := Some (length (tl_tasks c))\<rparr>)"
    using connect_new by blast
  assume "extends c0 c"
  with False ensureSession_frame [OF e] show ?thesis by (auto simp: c extends_def)
qed (simp add: connect_same)

lemma extends_disconnect: "extends c0 c \<Longrightarrow> extends c0 (disconnect c)"
  by (auto simp: disconnect_alt extends_def)

lemma extends_note: "extends c0 c \<Longrightarrow> extends c0 (note_out os c)"
  by (auto simp: extends_def)

lemma extends_fields:
  "extends c0 (count_listener_error c) = extends c0 c" "extends c0 (c\<lparr>writeBufferRejections := n, cancelOpen := None\<rparr>) = extends c0 c"
  by (simp_all add: extends_def count_listener_error_def)

interpretation ext: client_calls tl_calls "extends c0" for c0
proof
  show "closing (fst s)" if "closing (fst (call_connect tl_calls s))" for s by (rule calls.connect_closing [OF that])
qed (simp_all add: tl_calls_def extends_connect extends_disconnect extends_note extends_fields)

lemma extends_calls: "idle s \<Longrightarrow> extends (fst s) (fst (run_calls tl_calls cs s))"
  using ext.calls_good [of "fst s" s cs] by (simp add: ext.good_def)

section \<open>Every input keeps it\<close>

lemmas good_on_core = calls.sound_on_core
lemmas good_ok = calls.sound_P
lemmas good_idle = calls.sound_idle
lemmas good_emitError = calls.emitError_sound

lemma pc_frame [simp]:
  "closing (set_pc t pc c) = closing c" "closing (finish t r c) = closing c" "closing (set_rpc t rpc c) = closing c"
  "generation (set_pc t pc c) = generation c" "generation (finish t r c) = generation c" "generation (set_rpc t rpc c) = generation c"
  "trace (set_pc t pc c) = trace c" "trace (finish t r c) = trace c" "trace (set_rpc t rpc c) = trace c"
  "socket (set_pc t pc c) = socket c" "socket (finish t r c) = socket c" "socket (set_rpc t rpc c) = socket c"
  by (simp_all add: set_pc_def finish_def set_rpc_def)

lemma good_finish: "calls.sound s \<Longrightarrow> calls.sound (on_core (finish t r) s)"
  by (rule good_on_core) (simp_all add: good_ok)

lemma good_set_rpc: "calls.sound s \<Longrightarrow> calls.sound (on_core (set_rpc r pc) s)"
  by (rule good_on_core) (simp_all add: good_ok)

lemma good_upd_sock:
  assumes "calls.sound s" and "\<And>k. sk_generation (f k) = sk_generation k"
    and "\<And>k. sk_opened k \<Longrightarrow> sk_opened (f k)" and "\<And>k. sk_settled k \<Longrightarrow> sk_settled (f k)"
  shows "calls.sound (on_core (upd_sock i f) s)"
  using assms by (intro good_on_core) (simp_all add: ok_upd_sock good_ok)

lemma current_check: "current g s \<longleftrightarrow> checkGeneration g (fst s)"
  by (simp add: current_def checkGeneration_def)

lemma ensureSigner_frame:
  assumes "ensureSigner g c = (r, c')"
  shows "client_ok c' = client_ok c \<and> closing c' = closing c \<and> generation c' = generation c \<and> trace c' = trace c \<and>
    tl_tasks c' = tl_tasks c"
  using assms by (auto simp: ensureSigner_def ok_defs split: if_splits)

lemma signer_created_frame:
  assumes "signer_created g x c = (r, c')"
  shows "client_ok c' = client_ok c \<and> closing c' = closing c \<and> generation c' = generation c \<and> trace c' = trace c \<and>
    tl_tasks c' = tl_tasks c"
  using assms by (auto simp: signer_created_def ok_defs split: if_splits sum.splits)

lemma after_frame [simp]:
  "closing (after_gifts t g c) = closing c" "trace (after_gifts t g c) = trace c"
  "closing (after_info t g c) = closing c" "trace (after_info t g c) = trace c"
  "closing (after_room t g c) = closing c" "trace (after_room t g c) = trace c"
  "closing (after_session t g c) = closing c" "trace (after_session t g c) = trace c"
  "closing (after_lookup h t g v c) = closing c" "trace (after_lookup h t g v c) = trace c"
  by (auto simp: after_gifts_def after_info_def after_room_def after_session_def after_lookup_def
      split: prod.splits sum.splits dest!: ensureSigner_frame)

lemma after_ok:
  assumes "client_ok c" and "\<not> past_open (ct_pc (tl_tasks c ! t))"
  shows "client_ok (after_gifts t g c)" "client_ok (after_info t g c)" "client_ok (after_room t g c)"
    "client_ok (after_session t g c)"
  using assms
  by (auto simp: after_gifts_def after_info_def after_room_def after_session_def
      split: prod.splits sum.splits dest: ensureSigner_frame intro!: ok_set_pc)

lemma ok_fields:
  "client_ok (c\<lparr>tl_roomId := r, tl_nickname := n\<rparr>) = client_ok c" "client_ok (c\<lparr>tl_roomInfo := i\<rparr>) = client_ok c"
  "client_ok (c\<lparr>gifts := table\<rparr>) = client_ok c" "client_ok (c\<lparr>tl_guestRefreshAttempted := b\<rparr>) = client_ok c"
  by (simp_all add: ok_defs)

lemma after_lookup_ok:
  "client_ok c \<Longrightarrow> \<not> past_open (ct_pc (tl_tasks c ! t)) \<Longrightarrow> client_ok (after_lookup h t g v c)"
  by (auto simp: after_lookup_def ok_fields intro!: after_ok)

lemma startHeartbeat_ok: "client_ok c \<Longrightarrow> socket c = Some i \<Longrightarrow> client_ok (startHeartbeat ms c)"
  by (auto simp: startHeartbeat_def stopHeartbeat_def ok_defs)

text \<open>Opening a socket for a task that has none: the client cannot be connected in that generation.\<close>

lemma unique_generation:
  assumes "client_ok c" and "t < length (tl_tasks c)" and "t' < length (tl_tasks c)"
    and "ct_generation (tl_tasks c ! t') = ct_generation (tl_tasks c ! t)"
  shows "t' = t"
  using assms unfolding client_ok_def tasks_ok_def by (metis less_irrefl nat_neq_iff)

lemma ok_add_socket:
  assumes ok: "client_ok c" and t: "t < length (tl_tasks c)" and "past_open pc"
  shows "client_ok (set_pc t pc (add_socket (ct_generation (tl_tasks c ! t)) url hs room c))"
proof -
  have "tasks_ok (set_pc t pc (add_socket (ct_generation (tl_tasks c ! t)) url hs room c))"
    using ok t assms(3) unique_generation [OF ok t]
    by (simp add: client_ok_def tasks_ok_def set_pc_def add_socket_def note_out_def nth_append nth_update_if less_Suc_eq) metis
  with ok show ?thesis
    by (auto simp: client_ok_def stopped_def live_socket_def set_pc_def add_socket_def note_out_def nth_append nth_update_if)
qed

lemma ok_assign:
  "client_ok c \<Longrightarrow> \<not> closing c \<Longrightarrow> \<not> tl_connected c \<Longrightarrow> i < length (sockets c) \<Longrightarrow> client_ok (c\<lparr>socket := Some i, cancelOpen := Some i\<rparr>)"
  by (auto simp: ok_defs)

lemma set_pc_commute:
  fixes c :: client
  shows "set_pc t pc (c\<lparr>socket := a, cancelOpen := b\<rparr>) = (set_pc t pc c)\<lparr>socket := a, cancelOpen := b\<rparr>"
    and "set_pc t pc (note_out os (upd_sock i f c)) = note_out os (upd_sock i f (set_pc t pc c))"
  by (cases c, simp add: set_pc_def note_out_def upd_sock_def)+

lemma no_early_socket:
  assumes ok: "client_ok c" and t: "t < length (tl_tasks c)" "ct_generation (tl_tasks c ! t) = generation c"
    and fresh: "\<not> past_open (ct_pc (tl_tasks c ! t))"
  shows "\<not> tl_connected c"
proof -
  have "sk_generation (sockets c ! i) \<noteq> generation c" if "i < length (sockets c)" for i
    using ok t fresh that unfolding client_ok_def tasks_ok_def by metis
  then show ?thesis
    using ok by (cases "socket c") (auto simp: client_ok_def live_socket_def)
qed

lemma good_open_socket:
  assumes s: "calls.sound s" and t: "t < length (tl_tasks (fst s))" and fresh: "\<not> past_open (ct_pc (tl_tasks (fst s) ! t))"
  shows "calls.sound (open_socket env t (ct_generation (tl_tasks (fst s) ! t)) s)"
proof -
  let ?g = "ct_generation (tl_tasks (fst s) ! t)"
  obtain cs answer where a: "ev_sign env s (unsigned_url (fst s)) = (cs, answer)" by fastforce
  define s1 where "s1 = run_calls tl_calls cs s"
  have s1: "calls.sound s1" unfolding s1_def using s by (rule calls.calls_sound)
  show ?thesis
  proof (cases "\<exists>url. answer = Inr url \<and> current ?g s \<and> tl_signer (fst s) \<noteq> None \<and> current ?g s1")
    case False
    then show ?thesis
      using a s good_finish [OF s1, of t] good_finish [OF s, of t]
      by (cases answer) (auto simp: open_socket_def Let_def s1_def)
  next
    case True
    then obtain url where url: "answer = Inr url" by blast
    obtain cs' thrown where b: "ev_construct env s1 url = (cs', thrown)" by fastforce
    define s2 where "s2 = run_calls tl_calls cs' s1"
    have s2: "calls.sound s2" unfolding s2_def using s1 by (rule calls.calls_sound)
    have x: "extends (fst s) (fst s1)" "extends (fst s1) (fst s2)"
      unfolding s1_def s2_def using s s1 by (auto intro: extends_calls good_idle simp: s1_def)
    then have t2: "t < length (tl_tasks (fst s2))" "tl_tasks (fst s2) ! t = tl_tasks (fst s) ! t"
      using t by (auto simp: extends_def nth_append)
    note new = ok_add_socket [OF good_ok [OF s2] t2(1), unfolded t2(2)]
    let ?i = "length (sockets (fst s2))"
    have opened: "calls.sound (on_core (\<lambda>c. set_pc t (C_open ?i) ((add_socket ?g url hs room c)\<lparr>socket := Some ?i, cancelOpen := Some ?i\<rparr>)) s2)"
      if "current ?g s2" for hs room
    proof (rule good_on_core [OF s2])
      have "\<not> tl_connected (fst s2)" 
        using that fresh t2 by (intro no_early_socket [OF good_ok [OF s2] t2(1)]) (simp_all add: current_def)
      with that have "client_ok ((set_pc t (C_open ?i) (add_socket ?g url hs room (fst s2)))\<lparr>socket := Some ?i, cancelOpen := Some ?i\<rparr>)"
        by (intro ok_assign new) (simp_all add: current_def set_pc_def add_socket_def note_out_def)
      then show "client_ok (set_pc t (C_open ?i) ((add_socket ?g url hs room (fst s2))\<lparr>socket := Some ?i, cancelOpen := Some ?i\<rparr>))"
        by (simp only: set_pc_commute)
    qed (simp add: add_socket_def)
    have refused: "calls.sound (on_core (\<lambda>c. finish t r (note_out os (upd_sock ?i (\<lambda>k. (settle (Inl cancelled) k)\<lparr>sk_timer := False\<rparr>) (add_socket ?g url hs room c)))) s2)"
      for hs room r os
    proof (rule good_on_core [OF s2])
      have "client_ok (note_out os (upd_sock ?i (\<lambda>k. (settle (Inl cancelled) k)\<lparr>sk_timer := False\<rparr>) (finish t r (add_socket ?g url hs room (fst s2)))))"
        unfolding ok_note finish_def by (rule ok_upd_sock [OF new]) (simp_all add: settle_def)
      then show "client_ok (finish t r (note_out os (upd_sock ?i (\<lambda>k. (settle (Inl cancelled) k)\<lparr>sk_timer := False\<rparr>) (add_socket ?g url hs room (fst s2)))))"
        by (simp only: finish_def set_pc_commute)
    qed (simp add: add_socket_def)
    show ?thesis
      using True a b url opened refused good_finish [OF s2]
      by (cases thrown) (auto simp: open_socket_def Let_def on_core_def simp flip: s1_def s2_def)
  qed
qed

lemma good_guarded:
  "calls.sound s \<Longrightarrow> client_ok (f (fst s)) \<Longrightarrow> closing (f (fst s)) = closing (fst s) \<Longrightarrow>
   calls.sound (if checkGeneration g c then on_core f s else on_core (finish t r) s)"
  by (simp add: good_on_core good_finish)

lemma good_resume_connect:
  assumes s: "calls.sound s"
  shows "calls.sound (resume_connect env t v s)"
proof (cases "t < length (tl_tasks (fst s))")
  case True
  note ok = good_ok [OF s]
  note fin = good_finish [OF s]
  show ?thesis
  proof (cases "ct_pc (tl_tasks (fst s) ! t)")
    case (C_session w)
    with True s ok fin show ?thesis
      by (auto simp: resume_connect_def Let_def after_ok split: option.split sum.split intro!: good_on_core)
  next
    case C_lookup
    with True s ok fin show ?thesis
      by (auto simp: resume_connect_def Let_def after_lookup_ok split: settled_value.split sum.split intro!: good_on_core)
  next
    case C_roomInfo
    with True s ok fin show ?thesis
      by (auto simp: resume_connect_def Let_def ok_fields split: settled_value.split intro!: good_on_core after_ok)
  next
    case C_gifts
    with True s ok fin show ?thesis
      by (auto simp: resume_connect_def Let_def ok_fields split: settled_value.split intro!: good_on_core after_ok)
  next
    case (C_signer b)
    with True s ok fin show ?thesis
      by (cases b) (auto simp: resume_connect_def Let_def split: settled_value.split sum.split prod.split
          dest!: signer_created_frame intro!: good_on_core good_open_socket ok_set_pc)
  next
    case (C_open i)
    with True s ok fin show ?thesis
      by (auto simp: resume_connect_def Let_def split: option.split sum.split intro!: good_on_core)
  next
    case (C_done r b)
    with True s show ?thesis by (simp add: resume_connect_def)
  qed
qed (use s in \<open>simp add: resume_connect_def\<close>)

lemma good_finally: "calls.sound s \<Longrightarrow> calls.sound (on_core (connect_finally t) s)"
proof -
  have "client_ok (c\<lparr>connecting := None\<rparr>)" if "client_ok c" for c using that by (simp add: ok_defs)
  then show "calls.sound s \<Longrightarrow> calls.sound (on_core (connect_finally t) s)"
    by (intro good_on_core) (auto simp: connect_finally_def good_ok split: conn_pc.split bool.split intro!: ok_set_pc)
qed

lemma good_guest: "calls.sound s \<Longrightarrow> calls.sound (on_core (guest_settled p r) s)"
  by (intro good_on_core, assumption)
    (auto simp: guest_settled_def Let_def dest!: good_ok split: sum.split, simp_all add: ok_defs)

lemma connect_effect: "on_core (\<lambda>c. snd (connect c)) s = call_connect tl_calls s"
  by (simp add: tl_calls_def)

lemma sound_reconnects: "calls.sound (c\<lparr>tl_reconnects := rs\<rparr>, d) = calls.sound (c, d)"
  by (simp add: calls.sound_def calls.good_def idle_def ok_defs)

lemma good_reconnect_timer: "calls.sound s \<Longrightarrow> calls.sound (on_core reconnect_timer s)"
proof (cases "reconnectTimer (fst s)")
  case (Some a)
  let ?s = "on_core (\<lambda>c. c\<lparr>reconnectTimer := None\<rparr>) s"
  assume "calls.sound s"
  then have "calls.sound ?s" by (intro good_on_core) (auto simp: ok_defs dest: good_ok)
  with calls.connect_sound [OF this] Some show ?thesis
    by (cases a) (auto simp: on_core_def reconnect_timer_def Let_def start_reconnect_def tl_calls_def sound_reconnects split: prod.splits)
qed (simp add: on_core_def reconnect_timer_def)

lemma good_scheduleReconnect:
  assumes "calls.sound s"
  shows "calls.sound (scheduleReconnect env s)"
proof -
  let ?s1 = "on_core (\<lambda>c. c\<lparr>attempt := attempt c + 1\<rparr>) s"
  have s1: "calls.sound ?s1" if "\<not> int (attempt (fst s)) \<ge> rp_attempts (ro_reconnect (tl_options (fst s)))"
    using assms that by (intro good_on_core) (auto simp: ok_defs dest!: good_ok)
  have s2: "calls.sound (on_core (\<lambda>c. c\<lparr>reconnectTimer := Some x\<rparr>) s')" if "calls.sound s'" "current g s'" for x g s'
    using that by (intro good_on_core) (auto simp: ok_defs current_def dest!: good_ok)
  show ?thesis
    using assms calls.emitError_sound [OF assms] calls.notify_sound [OF s1]
    by (auto simp: scheduleReconnect_def Let_def intro!: s2)
qed

lemma ok_refreshed: "client_ok (c\<lparr>tl_guestRefreshAttempted := True, tl_guestSession := None,
    tl_options := (tl_options c)\<lparr>ro_cookie := []\<rparr>, tl_signer := None\<rparr>) = client_ok c"
  by (simp add: ok_defs)

lemma good_refresh:
  assumes "calls.sound s"
  shows "calls.sound (on_core (\<lambda>c. case refreshGuestSession g (c\<lparr>tl_guestRefreshAttempted := True\<rparr>) of
     (w, c') \<Rightarrow> set_rpc r (R_session w) c') s)"
  using good_ok [OF assms]
  by (intro good_on_core [OF assms])
    (auto simp: refreshGuestSession_def ok_ensureSession ok_refreshed ok_fields split: prod.split dest: ensureSession_frame)

lemma good_reconnect_failed:
  assumes "calls.sound s"
  shows "calls.sound (reconnect_failed env r g e s)"
  using good_refresh [OF assms] good_emitError [OF good_set_rpc [OF assms]] good_set_rpc [OF assms]
  by (auto simp: reconnect_failed_def Let_def good_scheduleReconnect)

lemma good_refresh_failed: "calls.sound s \<Longrightarrow> calls.sound (refresh_failed env r e s)"
  by (simp add: refresh_failed_def Let_def good_emitError good_set_rpc)

lemma good_connect_again:
  assumes "calls.sound s"
  shows "calls.sound (on_core (\<lambda>c. case connect c of (p, c') \<Rightarrow> set_rpc r (R_again p) c') s)"
  using calls.connect_sound [OF assms] good_set_rpc [of "(snd (connect (fst s)), snd s)"]
  by (auto simp: on_core_def tl_calls_def split: prod.split)

lemma good_resume_reconnect:
  assumes s: "calls.sound s"
  shows "calls.sound (resume_reconnect env r v s)"
proof (cases "r < length (tl_reconnects (fst s))")
  case True
  note ok = good_ok [OF s]
  note facts = good_set_rpc [OF s] good_reconnect_failed [OF s] good_refresh_failed [OF s] good_connect_again [OF s]
  show ?thesis
  proof (cases "rt_pc (tl_reconnects (fst s) ! r)")
    case (R_session w)
    with True s ok facts show ?thesis
      by (auto simp: resume_reconnect_def Let_def split: option.split sum.split prod.split
          dest!: ensureSigner_frame intro!: good_on_core)
  next
    case (R_signer b)
    with True s ok facts show ?thesis
      by (cases b) (auto simp: resume_reconnect_def Let_def split: settled_value.split sum.split prod.split
          dest!: signer_created_frame intro!: good_on_core)
  qed (use True s facts in \<open>auto simp: resume_reconnect_def Let_def split: option.split sum.split\<close>)
qed (use s in \<open>simp add: resume_reconnect_def\<close>)

lemma good_open_timeout: "calls.sound s \<Longrightarrow> calls.sound (on_core (on_open_timeout i) s)"
  by (intro good_on_core) (auto simp: on_open_timeout_def settle_def good_ok intro!: ok_upd_sock)

lemma ok_opened:
  assumes "client_ok c" and "socket c = Some i" and "sk_generation (sockets c ! i) = generation c" and "sk_opened (sockets c ! i)"
    and "\<not> closing c"
  shows "client_ok (opened_client i c)"
  using assms
  by (auto simp: opened_client_def startHeartbeat_def stopHeartbeat_def ok_defs upd_sock_def nth_update_if settle_def)

lemma good_on_open:
  assumes s: "calls.sound s"
  shows "calls.sound (on_open env i s)"
proof (cases "valid_sock i (fst s) \<and> \<not> sk_settled (sock_of i (fst s)) \<and> current (sk_generation (sock_of i (fst s))) s \<and> socket (fst s) = Some i")
  case False
  have "calls.sound (on_core (\<lambda>c. note_out [O_close i] (upd_sock i (\<lambda>k. (settle (Inl cancelled) k)\<lparr>sk_timer := False\<rparr>) c)) s)"
    using good_ok [OF s] by (intro good_on_core [OF s]) (auto simp: settle_def intro!: ok_upd_sock)
  with False s show ?thesis by (auto simp: on_open_def)
next
  case True
  define s1 where "s1 = on_core (upd_sock i (\<lambda>k. k\<lparr>sk_opened := True\<rparr>)) s"
  define built where "built = enterRoomFrame (cd_encodeEnter (ev_codec env)) (cd_encodeFrame (ev_codec env))
    (tl_roomId (fst s)) (ro_identity (tl_options (fst s))) LIVE_ID"
  have s1: "calls.sound s1" unfolding s1_def by (intro good_upd_sock [OF s]) simp_all
  obtain x s2 where b: "send_built tl_calls env i built s1 = (x, s2)" by (cases "send_built tl_calls env i built s1")
  have s2: "calls.sound s2" by (rule calls.send_built_sound [OF b s1])
  show ?thesis
  proof (cases x)
    case (Some e)
    have "calls.sound (on_core (\<lambda>c. (upd_sock i (\<lambda>k. (settle (Inl e) k)\<lparr>sk_timer := False\<rparr>) c)\<lparr>cancelOpen := None\<rparr>) s2)"
    proof (intro good_on_core [OF s2])
      have "client_ok (upd_sock i (\<lambda>k. (settle (Inl e) k)\<lparr>sk_timer := False\<rparr>) (fst s2))"
        by (rule ok_upd_sock [OF good_ok [OF s2]]) (simp_all add: settle_def)
      then show "client_ok ((upd_sock i (\<lambda>k. (settle (Inl e) k)\<lparr>sk_timer := False\<rparr>) (fst s2))\<lparr>cancelOpen := None\<rparr>)"
        by (simp add: ok_defs)
    qed simp
    from calls.disconnect_sound [OF this] True b Some show ?thesis
      by (simp add: on_open_def Let_def s1_def [symmetric] built_def [symmetric])
  next
    case None
    obtain frame where e: "s2 = on_core (note_out [O_send i frame]) s1" using send_built_sent b None by blast
    have "calls.sound (on_core (opened_client i) s2)"
    proof (rule good_on_core [OF s2])
      show "client_ok (opened_client i (fst s2))"
        using True good_ok [OF s2]
        by (intro ok_opened) (auto simp: e s1_def current_def sock_of_def valid_sock_def upd_sock_def)
    qed (simp add: opened_client_def startHeartbeat_def stopHeartbeat_def)
    from calls.notify_sound [OF this] True b None show ?thesis
      by (simp add: on_open_def Let_def s1_def [symmetric] built_def [symmetric])
  qed
qed

lemma good_acknowledge: "calls.sound s \<Longrightarrow> calls.sound (acknowledge env frame batch s)"
  by (simp add: acknowledge_def calls.send_or_report_sound split: option.split)

lemma good_heartbeat_hint: "calls.sound s \<Longrightarrow> socket (fst s) = Some i \<Longrightarrow> calls.sound (on_core (heartbeat_hint batch) s)"
  by (rule good_on_core)
    (auto simp: heartbeat_hint_def good_ok intro!: startHeartbeat_ok, simp_all add: startHeartbeat_def stopHeartbeat_def)

lemma good_receive: "calls.sound s \<Longrightarrow> socket (fst s) = Some i \<Longrightarrow> calls.sound (receive env data s)"
  by (auto simp: receive_def good_emitError calls.submit_messages_sound good_acknowledge good_heartbeat_hint
      split: sum.split option.split)

lemma good_on_message: "calls.sound s \<Longrightarrow> calls.sound (on_message env i data s)"
  using good_receive by (auto simp: on_message_def)

lemma good_on_error: "calls.sound s \<Longrightarrow> calls.sound (on_error env i m s)"
  by (simp add: on_error_def good_emitError)

lemma ok_closed: "client_ok c \<Longrightarrow> client_ok (closed_client i c)"
  by (auto simp: closed_client_def stopHeartbeat_def ok_defs)

lemma good_on_close:
  assumes s: "calls.sound s"
  shows "calls.sound (on_close env i closeCode reason s)"
proof -
  define s0 where "s0 = on_core (upd_sock i (\<lambda>k. k\<lparr>sk_timer := False\<rparr>)) s"
  define s1 where "s1 = on_core (closed_client i) s0"
  have s0: "calls.sound s0" unfolding s0_def by (intro good_upd_sock [OF s]) simp_all
  have s1: "calls.sound s1" unfolding s1_def
    by (intro good_on_core [OF s0] ok_closed good_ok [OF s0]) (simp add: closed_client_def stopHeartbeat_def)
  have "calls.sound (on_core (upd_sock i (settle r)) s1)" for r by (intro good_upd_sock [OF s1]) (simp_all add: settle_def)
  with s s0 s1 calls.notify_sound [OF s1] show ?thesis
    by (auto simp: on_close_def Let_def good_scheduleReconnect s0_def [symmetric] s1_def [symmetric])
qed

lemma good_heartbeat_tick: "calls.sound s \<Longrightarrow> calls.sound (heartbeat_tick env s)"
  by (simp add: heartbeat_tick_def calls.send_or_report_sound split: option.split)

lemma step_sound: "calls.sound s \<Longrightarrow> calls.sound (step env x s)"
  by (cases x) (simp_all add: calls.connect_sound calls.disconnect_sound good_resume_connect good_finally good_guest
      good_reconnect_timer good_resume_reconnect good_on_open good_on_message good_on_error good_on_close good_open_timeout
      good_heartbeat_tick calls.immediate_sound)

lemma new_sound: "new_TikTokLive stored uniqueId o1 = Inr s \<Longrightarrow> calls.sound s"
  by (auto simp: new_TikTokLive_def res_bind_Inr_iff Let_def calls.sound_def calls.good_def idle_def ok_defs
      new_EventDelivery_settled new_EventDelivery_fields split: if_splits)

lemma reachable_sound: "reachable s \<Longrightarrow> calls.sound s"
  by (induction rule: reachable.induct) (auto intro: new_sound step_sound)

end
