(* ===== verification/Client_Runs.thy ===== *)
theory Client_Runs
  imports Client_Invariants
begin

text \<open>
  Runs of \<open>client.ts\<close>: the sequence of inputs that takes a client from \<open>connect()\<close> to an open socket when its surroundings
  answer and its listeners are passive, stage by stage, and what a closing client does with any input.
\<close>

section \<open>Runs\<close>

definition run :: "tl_env \<Rightarrow> input list \<Rightarrow> tl_sys \<Rightarrow> tl_sys" where
  "run env xs s = fold (step env) xs s"

lemma run_simps [simp]: "run env [] s = s" "run env (x # xs) s = run env xs (step env x s)"
  by (simp_all add: run_def)

lemma run_append: "run env (xs @ ys) s = run env ys (run env xs s)"
  by (simp add: run_def)

lemma reachable_run: "reachable s \<Longrightarrow> reachable (run env xs s)"
  by (induction xs arbitrary: s) (simp_all add: reachable.stepped)

text \<open>Surroundings that answer every call and listeners that do nothing; \<open>sg\<close> is what the signer returns.\<close>

definition placid :: "(string \<Rightarrow> string) \<Rightarrow> tl_env \<Rightarrow> bool" where
  "placid sg env \<longleftrightarrow> ev_listen env = (\<lambda>s em. ([], None)) \<and> ev_sign env = (\<lambda>s u. ([], Inr (sg u))) \<and>
     ev_construct env = (\<lambda>s u. ([], None)) \<and> ev_bufferedAmount env = (\<lambda>s i. None) \<and> ev_send env = (\<lambda>s i b. None)"

lemma placid_emit: "placid sg env \<Longrightarrow> emit tl_calls env em s = (None, on_core (note_out [O_emit em]) s)"
  by (simp add: emit_def placid_def run_calls_def)

lemma placid_notify: "placid sg env \<Longrightarrow> notify tl_calls env em s = on_core (note_out [O_emit em]) s"
  by (simp add: notify_def placid_emit)

section \<open>From \<open>connect()\<close> to an open socket\<close>

definition stage :: "client \<Rightarrow> nat \<Rightarrow> conn_pc \<Rightarrow> client \<Rightarrow> bool" where
  "stage c0 t pc c \<longleftrightarrow> t < length (tl_tasks c) \<and> tl_tasks c ! t = \<lparr>ct_generation = generation c, ct_pc = pc\<rparr> \<and>
     \<not> closing c \<and> tl_options c = tl_options c0 \<and> sockets c = sockets c0 \<and>
     trace c = trace c0 \<and> maxBufferedBytes c = maxBufferedBytes c0 \<and> reconnectTimer c = None \<and> connecting c = Some t"

lemma stage_set_pc: "stage c0 t pc c \<Longrightarrow> stage c0 t pc' (set_pc t pc' c)"
  by (simp add: stage_def set_pc_def)

lemma stage_fields:
  "stage c0 t pc (c\<lparr>tl_roomId := r, tl_nickname := n\<rparr>) = stage c0 t pc c" "stage c0 t pc (c\<lparr>tl_roomInfo := ri\<rparr>) = stage c0 t pc c"
  "stage c0 t pc (c\<lparr>gifts := table\<rparr>) = stage c0 t pc c" "stage c0 t pc (c\<lparr>tl_signer := sg\<rparr>) = stage c0 t pc c"
  by (simp_all add: stage_def)

lemma stage_connect:
  assumes "\<not> tl_connected c" "connecting c = None" "ro_cookie (tl_options c) \<noteq> []"
  obtains c1 where "step env I_connect (c, d) = (c1, d)" and "stage c (length (tl_tasks c)) (C_session None) c1"
    and "tl_roomId c1 = tl_roomId c" "tl_signer c1 = tl_signer c"
  using assms by (simp add: tl_calls_def connect_def ensureSession_def Let_def stage_def)

lemma stage_session:
  "stage c0 t (C_session None) c \<Longrightarrow> tl_roomId c = [] \<Longrightarrow> step env (I_resume t v) (c, d) = (set_pc t C_lookup c, d)"
  by (simp add: stage_def resume_connect_def session_outcome_def checkGeneration_def after_session_def Let_def)

lemma stage_lookup:
  "stage c0 t C_lookup c \<Longrightarrow> ro_fetchRoomInfo (tl_options c0) \<Longrightarrow> j_get lookup ''isLive'' = Some (JBool True) \<Longrightarrow>
   step env (I_resume t (V_lookup (Inr lookup))) (c, d) =
     (set_pc t C_roomInfo (c\<lparr>tl_roomId := j_str lookup ''roomId'', tl_nickname := j_str lookup ''nickname''\<rparr>), d)"
  by (simp add: stage_def resume_connect_def checkGeneration_def after_lookup_def after_room_def Let_def)

lemma stage_roomInfo:
  "stage c0 t C_roomInfo c \<Longrightarrow> ro_fetchGifts (tl_options c0) \<Longrightarrow>
   step env (I_resume t (V_roomInfo r)) (c, d) =
     (set_pc t C_gifts (c\<lparr>tl_roomInfo := (case r of Inl _ \<Rightarrow> None | Inr info \<Rightarrow> Some info)\<rparr>), d)"
  by (simp add: stage_def resume_connect_def checkGeneration_def after_info_def Let_def)

lemma stage_gifts:
  "stage c0 t C_gifts c \<Longrightarrow> tl_signer c = None \<Longrightarrow> \<not> ro_signer (tl_options c0) \<Longrightarrow>
   step env (I_resume t (V_gifts r)) (c, d) =
     (set_pc t (C_signer True) (c\<lparr>gifts := (case r of Inl _ \<Rightarrow> [] | Inr table \<Rightarrow> table)\<rparr>), d)"
  by (simp add: stage_def resume_connect_def checkGeneration_def after_gifts_def ensureSigner_def Let_def)

lemma stage_signer:
  "stage c0 t (C_signer True) c \<Longrightarrow>
   step env (I_resume t (V_signer (Inr sr))) (c, d) = (set_pc t (C_signer False) (c\<lparr>tl_signer := Some sr\<rparr>), d)"
  by (simp add: stage_def resume_connect_def checkGeneration_def signer_created_def Let_def)

lemma stage_open:
  assumes "stage c0 t (C_signer False) c" and "placid sg env" and "tl_signer c = Some sr"
  shows "step env (I_resume t v) (c, d) =
     (set_pc t (C_open (length (sockets c0))) ((add_socket (generation c) (sg (unsigned_url c)) (handshake_headers c) (tl_roomId c) c)
        \<lparr>socket := Some (length (sockets c0)), cancelOpen := Some (length (sockets c0))\<rparr>), d)"
  using assms by (simp add: stage_def resume_connect_def checkGeneration_def open_socket_def current_def placid_def run_calls_def Let_def)

lemma stage_opened:
  fixes c :: client
  assumes "i < length (sockets c)" and "sockets c ! i = \<lparr>sk_generation = generation c, sk_roomId = r, sk_opened = False, sk_settled = False,
      sk_timer = True, sk_outcome = None\<rparr>"
    and "\<not> closing c" and "socket c = Some i" and p: "placid sg env"
    and frame: "enterRoomFrame (cd_encodeEnter (ev_codec env)) (cd_encodeFrame (ev_codec env)) (tl_roomId c) (ro_identity (tl_options c)) LIVE_ID = Inr frame"
      "int (length frame) \<le> maxBufferedBytes c"
  shows "\<exists>c'. step env (I_open i) (c, d) = (c', d) \<and> tl_connected c' \<and> socket c' = Some i \<and> tl_roomId c' = tl_roomId c \<and>
     gifts c' = gifts c \<and> tl_options c' = tl_options c \<and> tl_heartbeat c' = Some 10000 \<and> attempt c' = 0 \<and>
     sk_outcome (sockets c' ! i) = Some (Inr ()) \<and> reconnectTimer c' = reconnectTimer c \<and> connecting c' = connecting c \<and>
     tl_tasks c' = tl_tasks c \<and> length (sockets c') = length (sockets c) \<and> maxBufferedBytes c' = maxBufferedBytes c \<and>
     trace c' = trace c @ [O_send i frame, O_emit (E_connected (tl_state c'))]"
proof -
  have [simp]: "int (str_nat HEARTBEAT_MS) = 10000" by code_simp
  have "of_nat (length frame) \<le> (of_int (maxBufferedBytes c) :: rat)" using frame(2) by (metis of_int_le_iff of_int_of_nat_eq)
  then have sent: "send_built tl_calls env i (Inr frame) s = (None, on_core (note_out [O_send i frame]) s)"
    if "maxBufferedBytes (fst s) = maxBufferedBytes c" for s
    using p that by (simp add: send_built_def send_def sendBoundedFrame_def placid_def)
  show ?thesis
    using assms
    by (simp add: on_open_def valid_sock_def sock_of_def current_def sent notify_def emit_def placid_def run_calls_def Let_def
        opened_client_def startHeartbeat_def stopHeartbeat_def settle_def tl_state_def)
       (simp add: upd_sock_def note_out_def settle_def)
qed

text \<open>The answers that take a new task from \<open>connect()\<close> to its socket.\<close>

definition answers :: "nat \<Rightarrow> json \<Rightarrow> (js_error, json) result \<Rightarrow> (string \<times> json) list \<Rightarrow> signer_ref \<Rightarrow> input list" where
  "answers t lookup info table sr = [I_resume t V_none, I_resume t (V_lookup (Inr lookup)), I_resume t (V_roomInfo info),
     I_resume t (V_gifts (Inr table)), I_resume t (V_signer (Inr sr)), I_resume t V_none]"

lemma stages_to_open:
  assumes s1: "stage c0 t (C_session None) c" and f1: "tl_roomId c = []" "tl_signer c = None" and p: "placid sg env"
    and opts: "ro_fetchRoomInfo (tl_options c0)" "ro_fetchGifts (tl_options c0)" "\<not> ro_signer (tl_options c0)"
    and live: "j_get lookup ''isLive'' = Some (JBool True)"
  obtains c6 where "stage c0 t (C_signer False) c6" and "tl_roomId c6 = j_str lookup ''roomId''" and "gifts c6 = table"
    and "run env (answers t lookup info table sr) (c, d) =
      (set_pc t (C_open (length (sockets c0))) ((add_socket (generation c6) (sg (unsigned_url c6)) (handshake_headers c6) (tl_roomId c6) c6)
        \<lparr>socket := Some (length (sockets c0)), cancelOpen := Some (length (sockets c0))\<rparr>), d)"
proof -
  define c2 where "c2 = set_pc t C_lookup c"
  define c3 where "c3 = set_pc t C_roomInfo (c2\<lparr>tl_roomId := j_str lookup ''roomId'', tl_nickname := j_str lookup ''nickname''\<rparr>)"
  define c4 where "c4 = set_pc t C_gifts (c3\<lparr>tl_roomInfo := (case info of Inl _ \<Rightarrow> None | Inr info \<Rightarrow> Some info)\<rparr>)"
  define c5 where "c5 = set_pc t (C_signer True) (c4\<lparr>gifts := table\<rparr>)"
  define c6 where "c6 = set_pc t (C_signer False) (c5\<lparr>tl_signer := Some sr\<rparr>)"
  note cs = c2_def c3_def c4_def c5_def c6_def
  have s2: "stage c0 t C_lookup c2" unfolding c2_def by (rule stage_set_pc [OF s1])
  then have s3: "stage c0 t C_roomInfo c3" unfolding c3_def by (intro stage_set_pc [of _ _ C_lookup]) (simp add: stage_fields)
  then have s4: "stage c0 t C_gifts c4" unfolding c4_def by (intro stage_set_pc [of _ _ C_roomInfo]) (simp add: stage_fields)
  then have s5: "stage c0 t (C_signer True) c5" unfolding c5_def by (intro stage_set_pc [of _ _ C_gifts]) (simp add: stage_fields)
  then have s6: "stage c0 t (C_signer False) c6" unfolding c6_def by (intro stage_set_pc [of _ _ "C_signer True"]) (simp add: stage_fields)
  have f: "tl_signer c4 = None" "tl_signer c6 = Some sr" "tl_roomId c6 = j_str lookup ''roomId''" "gifts c6 = table"
    using f1 by (simp_all add: cs set_pc_def)
  have "run env (answers t lookup info table sr) (c, d) = step env (I_resume t V_none) (c6, d)"
    unfolding answers_def run_simps stage_session [OF s1 f1(1)] c2_def [symmetric]
      stage_lookup [OF s2 opts(1) live] c3_def [symmetric] stage_roomInfo [OF s3 opts(2)] c4_def [symmetric]
      stage_gifts [OF s4 f(1) opts(3)] sum.case c5_def [symmetric] stage_signer [OF s5] c6_def [symmetric] ..
  with stage_open [OF s6 p f(2)] that [OF s6 f(3,4)] show thesis by simp
qed

lemma connect_run:
  fixes c :: client
  assumes p: "placid sg env" and "\<not> tl_connected c" and "connecting c = None" and "ro_cookie (tl_options c) \<noteq> []"
    and "tl_roomId c = []" and "tl_signer c = None"
    and opts: "ro_fetchRoomInfo (tl_options c)" "ro_fetchGifts (tl_options c)" "\<not> ro_signer (tl_options c)"
    and live: "j_get lookup ''isLive'' = Some (JBool True)"
    and frame: "enterRoomFrame (cd_encodeEnter (ev_codec env)) (cd_encodeFrame (ev_codec env)) (j_str lookup ''roomId'')
        (ro_identity (tl_options c)) LIVE_ID = Inr frame" "int (length frame) \<le> maxBufferedBytes c"
  obtains c' where "run env (I_connect # answers (length (tl_tasks c)) lookup info table sr @ [I_open (length (sockets c))]) (c, d) = (c', d)"
    and "tl_connected c'" "socket c' = Some (length (sockets c))" "tl_roomId c' = j_str lookup ''roomId''" "gifts c' = table"
      "tl_heartbeat c' = Some 10000" "attempt c' = 0" "tl_options c' = tl_options c" "reconnectTimer c' = None" "connecting c' = Some (length (tl_tasks c))"
      "maxBufferedBytes c' = maxBufferedBytes c"
      "length (tl_tasks c) < length (tl_tasks c')" "ct_pc (tl_tasks c' ! length (tl_tasks c)) = C_open (length (sockets c))"
      "length (sockets c) < length (sockets c')" "sk_outcome (sockets c' ! length (sockets c)) = Some (Inr ())"
      "trace c' = trace c @ [O_new (sg (unsigned_url c')) (handshake_headers c'), O_send (length (sockets c)) frame, O_emit (E_connected (tl_state c'))]"
proof -
  let ?t = "length (tl_tasks c)" and ?i = "length (sockets c)"
  obtain c1 where 1: "step env I_connect (c, d) = (c1, d)" and s1: "stage c ?t (C_session None) c1"
    and f1: "tl_roomId c1 = []" "tl_signer c1 = None"
    using stage_connect [of c] assms by metis
  obtain c6 where s6: "stage c ?t (C_signer False) c6" and f: "tl_roomId c6 = j_str lookup ''roomId''" "gifts c6 = table"
    and r: "run env (answers ?t lookup info table sr) (c1, d) =
      (set_pc ?t (C_open ?i) ((add_socket (generation c6) (sg (unsigned_url c6)) (handshake_headers c6) (tl_roomId c6) c6)
        \<lparr>socket := Some ?i, cancelOpen := Some ?i\<rparr>), d)" (is "_ = (?c7, d)")
    using stages_to_open [OF s1 f1 p opts live] by metis
  define c7 where "c7 = ?c7"
  have f7: "generation c7 = generation c6" "tl_roomId c7 = tl_roomId c6" "tl_options c7 = tl_options c" "gifts c7 = table" "socket c7 = Some ?i"
    "\<not> closing c7" "maxBufferedBytes c7 = maxBufferedBytes c" "trace c7 = trace c @ [O_new (sg (unsigned_url c6)) (handshake_headers c6)]"
    "length (sockets c7) = Suc ?i" "sockets c7 ! ?i = \<lparr>sk_generation = generation c7, sk_roomId = tl_roomId c6, sk_opened = False,
      sk_settled = False, sk_timer = True, sk_outcome = None\<rparr>"
    "reconnectTimer c7 = None" "connecting c7 = Some ?t" "?t < length (tl_tasks c7)" "ct_pc (tl_tasks c7 ! ?t) = C_open ?i"
    using s6 f by (simp_all add: c7_def stage_def set_pc_def add_socket_def note_out_def nth_append)
  obtain c' where c': "step env (I_open ?i) (c7, d) = (c', d)" "tl_connected c'" "socket c' = Some ?i" "tl_roomId c' = tl_roomId c7"
     "gifts c' = gifts c7" "tl_options c' = tl_options c7" "tl_heartbeat c' = Some 10000" "attempt c' = 0" "reconnectTimer c' = reconnectTimer c7"
     "maxBufferedBytes c' = maxBufferedBytes c7" "connecting c' = connecting c7" "tl_tasks c' = tl_tasks c7" "length (sockets c') = length (sockets c7)" "sk_outcome (sockets c' ! ?i) = Some (Inr ())"
     "trace c' = trace c7 @ [O_send ?i frame, O_emit (E_connected (tl_state c'))]"
    using stage_opened [of ?i c7 "tl_roomId c6" sg env frame d] f7 f p frame by auto
  have "unsigned_url c' = unsigned_url c6" "handshake_headers c' = handshake_headers c6"
    using c' f7 s6 by (simp_all add: unsigned_url_def socket_config_def device_id_def handshake_headers_def stage_def)
  moreover have "run env (I_connect # answers ?t lookup info table sr @ [I_open ?i]) (c, d) = (c', d)"
    using r 1 c' by (simp add: c7_def run_append)
  ultimately show thesis using c' f7 f by (intro that [of c']) simp_all
qed

section \<open>A closing client is silent\<close>

lemma not_current: "closing (fst s) \<Longrightarrow> \<not> current g s" "closing c \<Longrightarrow> \<not> checkGeneration g c"
  by (simp_all add: current_def checkGeneration_def)

lemma quiet_disconnect: "quiet_step s (call_disconnect tl_calls s)"
  by (auto simp: quiet_step_def tl_calls_def disconnect_alt disconnect_effects_def split: option.split)

lemma quiet_resume_connect:
  assumes "closing (fst s)"
  shows "quiet_step s (resume_connect env t v s)"
  using assms
  by (intro quiet_same; auto simp: resume_connect_def Let_def not_current signer_created_def
      split: conn_pc.split option.split sum.split settled_value.split bool.split)

lemma quiet_guest: "closing (fst s) \<Longrightarrow> quiet_step s (on_core (guest_settled p r) s)"
  by (intro quiet_same; auto simp: guest_settled_def Let_def split: sum.split)

lemma quiet_refresh_failed: "closing (fst s) \<Longrightarrow> quiet_step s (refresh_failed env r e s)"
  by (intro quiet_same; simp add: refresh_failed_def)

lemma quiet_resume_reconnect:
  assumes "closing (fst s)"
  shows "quiet_step s (resume_reconnect env r v s)"
proof (cases "r < length (tl_reconnects (fst s))")
  case True
  have failed: "quiet_step s (reconnect_failed env r g e s)" for g e
    using assms by (intro quiet_same; simp add: reconnect_failed_def not_current)
  show ?thesis
    using True assms failed quiet_refresh_failed [OF assms]
    by (auto simp: resume_reconnect_def Let_def not_current signer_created_def
        split: recon_pc.split option.split sum.split settled_value.split bool.split prod.split
        dest!: ensureSigner_frame intro!: quiet_same)
qed (use assms in \<open>simp add: resume_reconnect_def quiet_same\<close>)

lemma quiet_steps:
  assumes "calls.sound s" and c: "closing (fst s)" and "x \<noteq> I_connect"
  shows "quiet_step s (step env x s)"
proof -
  have st: "stopped (fst s)" and id: "idle s"
    using good_ok [OF assms(1)] good_idle [OF assms(1)] c by (simp_all add: client_ok_def)
  show ?thesis
  proof (cases x)
    case (I_open i)
    then show ?thesis using c by (auto simp: on_open_def not_current quiet_step_def)
  next
    case (I_openTimeout i)
    then show ?thesis using c by (auto simp: on_open_timeout_def quiet_step_def)
  next
    case (I_close i closeCode reason)
    then show ?thesis using c st by (intro quiet_same; simp add: on_close_def stopped_def)
  qed (use assms st id in \<open>simp_all add: quiet_disconnect quiet_resume_connect quiet_guest quiet_resume_reconnect quiet_immediate
      on_message_def on_error_def heartbeat_tick_def reconnect_timer_def stopped_def connect_finally_def quiet_same
      split: conn_pc.split bool.split\<close>)
qed

end
