(* ===== verification/Client_Properties.thy ===== *)
theory Client_Properties
  imports Client_Runs
begin

text \<open>
  What \<open>client.ts\<close> promises its users, over every state the class can reach and whatever its listeners do: which fields go
  together, that the accounts of the queue balance, that a closed client is silent until \<open>connect()\<close>, that a batch is
  acknowledged before any of its events reaches a listener, that a guest identity is replaced at most once between
  two successful connections, and that, with surroundings that answer, \<open>connect()\<close> opens the room and a lost connection is
  taken up again.
\<close>

section \<open>Example surroundings\<close>

definition example_options :: TikTokLiveOptions where
  "example_options = \<lparr>to_eventDelivery = None, to_maxBufferedBytes = None, to_sessionCookie = Some ''sessionid=1'',
     to_userAgent = None, to_roomId = None, to_deviceId = None, to_fetchGifts = None, to_fetchRoomInfo = None,
     to_identity = None, to_socketHost = None, to_reconnect = None, to_reconnectJitter = None, to_signer = False,
     to_bundleSource = None, to_bundlePath = None, to_bundleUrl = None, to_discovery = None\<rparr>"

definition mute :: "'m decoder" where
  "mute b = Inl (Err ''malformed'')"

definition example_codec :: codec where
  "example_codec = \<lparr>cd_host = \<lparr>host_URL = (\<lambda>_. None), host_number = (\<lambda>_. [])\<rparr>,
     cd_decoders = \<lparr>dec_user = mute, dec_chat = mute, dec_emoteChat = mute, dec_gift = mute, dec_like = mute, dec_member = mute,
       dec_social = mute, dec_roomUser = mute\<rparr>,
     cd_pushFrame = (\<lambda>b. Inr (blank_PushFrame\<lparr>pf_logId := 5, pf_payloadType := ''msg'', pf_payload := b\<rparr>)),
     cd_batch = (\<lambda>b. Inr \<lparr>fr_messages = [], fr_cursor = [], fr_fetchInterval = 0, fr_now = 0, fr_internalExt = [], fr_fetchType = 0,
       fr_routeParams = [], fr_heartbeatDuration = 0, fr_needAck = True, fr_pushServer = [], fr_isFirst = False,
       fr_historyCommentCursor = [], fr_historyNoMore = False\<rparr>),
     cd_gunzip = (\<lambda>b n. Inr b), cd_encodeFrame = (\<lambda>f. Inr [1]), cd_encodeEnter = (\<lambda>m. Inr [2]), cd_encodeBeat = (\<lambda>m. Inr [3]),
     cd_backing = (\<lambda>m. 0)\<rparr>"

definition example_env :: tl_env where
  "example_env = \<lparr>ev_codec = example_codec, ev_listen = (\<lambda>s em. ([], None)), ev_errorListeners = (\<lambda>s. True),
     ev_bufferedAmount = (\<lambda>s i. None), ev_send = (\<lambda>s i b. None), ev_sign = (\<lambda>s u. ([], Inr (u @ ''&X-Gnarly=1''))),
     ev_construct = (\<lambda>s u. ([], None)), ev_random = 0\<rparr>"

lemma example_placid: "placid (\<lambda>u. u @ ''&X-Gnarly=1'') example_env"
  by (simp add: placid_def example_env_def)

text \<open>A client of a given reconnection policy and delivery queue; \<open>None\<close> are the defaults.\<close>

definition options_with :: "PartialPolicy option \<Rightarrow> delivery_options option \<Rightarrow> TikTokLiveOptions" where
  "options_with policy delivery = example_options\<lparr>to_reconnect := policy, to_eventDelivery := delivery\<rparr>"

definition client_with :: "PartialPolicy option \<Rightarrow> delivery_options option \<Rightarrow> tl_sys" where
  "client_with policy delivery = (case new_TikTokLive [] ''@alice'' (options_with policy delivery) of Inr s \<Rightarrow> s)"

definition example_client :: tl_sys where
  "example_client = client_with None None"

lemma client_with_built:
  assumes "new_EventDelivery delivery = Inr d"
  shows "new_TikTokLive [] ''@alice'' (options_with policy delivery) = Inr (client_with policy delivery)"
    and "\<not> tl_connected (fst (client_with policy delivery))" "connecting (fst (client_with policy delivery)) = None"
      "tl_roomId (fst (client_with policy delivery)) = []" "tl_signer (fst (client_with policy delivery)) = None"
      "tl_tasks (fst (client_with policy delivery)) = []" "sockets (fst (client_with policy delivery)) = []"
      "trace (fst (client_with policy delivery)) = []" "maxBufferedBytes (fst (client_with policy delivery)) = 33554432"
      "\<not> closing (fst (client_with policy delivery))" "generation (fst (client_with policy delivery)) = 0"
      "tl_options (fst (client_with policy delivery)) = resolve_options [] (options_with policy delivery)"
      "snd (client_with policy delivery) = d"
proof -
  have w: "writeBufferLimit None = Inr 33554432"
    by (simp add: writeBufferLimit_def Let_def safe_int_def MAX_SAFE_INTEGER_def int_val_def)
  have "new_EventDelivery (to_eventDelivery (options_with policy delivery)) = Inr d" using assms by (simp add: options_with_def)
  then show "new_TikTokLive [] ''@alice'' (options_with policy delivery) = Inr (client_with policy delivery)"
    "\<not> tl_connected (fst (client_with policy delivery))" "connecting (fst (client_with policy delivery)) = None"
    "tl_roomId (fst (client_with policy delivery)) = []" "tl_signer (fst (client_with policy delivery)) = None"
    "tl_tasks (fst (client_with policy delivery)) = []" "sockets (fst (client_with policy delivery)) = []"
    "trace (fst (client_with policy delivery)) = []" "maxBufferedBytes (fst (client_with policy delivery)) = 33554432"
    "\<not> closing (fst (client_with policy delivery))" "generation (fst (client_with policy delivery)) = 0"
    "tl_options (fst (client_with policy delivery)) = resolve_options [] (options_with policy delivery)"
    "snd (client_with policy delivery) = d"
    by (simp_all add: client_with_def new_TikTokLive_def w Let_def options_with_def example_options_def opt_or_def)
qed

text \<open>Queues of the default size, which is none, and of four events.\<close>

definition small_queue :: delivery_options where
  "small_queue = \<lparr>opt_capacity = js_int 4, opt_maxBytes = None, opt_batchSize = None, opt_timeBudgetMs = None\<rparr>"

lemma default_queue: "\<exists>d. new_EventDelivery None = Inr (d :: LiveEvent delivery) \<and> capacity d = 0"
  by (simp add: new_EventDelivery_def opt_field_def safe_int_def MAX_SAFE_INTEGER_def int_val_def Let_def)

lemma small_queue: "\<exists>d. new_EventDelivery (Some small_queue) = Inr (d :: LiveEvent delivery) \<and> capacity d = 4 \<and> depth d = 0 \<and>
    maxBytes d = 67108864 \<and> bytes d = 0 \<and> head d = 0 \<and> queue d = replicate 4 None"
  by (simp add: new_EventDelivery_def opt_field_def safe_int_def MAX_SAFE_INTEGER_def int_val_def Let_def small_queue_def)

lemma example_fields:
  "new_TikTokLive [] ''@alice'' (options_with None None) = Inr example_client"
  "\<not> tl_connected (fst example_client)" "connecting (fst example_client) = None" "tl_roomId (fst example_client) = []"
  "tl_signer (fst example_client) = None" "tl_tasks (fst example_client) = []" "sockets (fst example_client) = []"
  "trace (fst example_client) = []" "maxBufferedBytes (fst example_client) = 33554432"
  "tl_options (fst example_client) = resolve_options [] (options_with None None)" "\<not> closing (fst example_client)"
  using default_queue client_with_built [of None _ None] unfolding example_client_def by blast+

definition example_lookup :: json where
  "example_lookup = JObj [(''isLive'', JBool True), (''roomId'', JStr ''7301'')]"

lemma example_enter:
  "enterRoomFrame (cd_encodeEnter (ev_codec example_env)) (cd_encodeFrame (ev_codec example_env)) (j_str example_lookup ''roomId'')
     identity LIVE_ID = Inr [1]"
proof -
  have "nonNegativeInt64 ''7301'' = Inr 7301" "nonNegativeInt64 LIVE_ID = Inr 12" by code_simp+
  then show ?thesis by (simp add: enterRoomFrame_def example_env_def example_codec_def example_lookup_def j_str_def pushFrame_def)
qed

lemma example_resolved:
  "ro_cookie (resolve_options [] (options_with policy delivery)) \<noteq> []" "ro_fetchRoomInfo (resolve_options [] (options_with policy delivery))"
  "ro_fetchGifts (resolve_options [] (options_with policy delivery))" "\<not> ro_signer (resolve_options [] (options_with policy delivery))"
  "ro_reconnect (resolve_options [] (options_with policy delivery)) = resolve_policy policy"
  by (simp_all add: resolve_options_def options_with_def example_options_def opt_or_def)

text \<open>A connected client, whose \<open>connect()\<close> has been answered.\<close>

definition joined :: "PartialPolicy option \<Rightarrow> delivery_options option \<Rightarrow> tl_sys" where
  "joined policy delivery = run example_env (I_connect # answers 0 example_lookup (Inl (Err [])) [] (CreatedSigner 0) @
     [I_open 0, I_resume 0 V_none, I_finally 0]) (client_with policy delivery)"

definition connected_client :: tl_sys where
  "connected_client = joined None None"

lemma joined_fields:
  assumes "new_EventDelivery delivery = Inr d"
  shows "reachable (joined policy delivery)" "tl_connected (fst (joined policy delivery))" "socket (fst (joined policy delivery)) = Some 0"
    "connecting (fst (joined policy delivery)) = None" "reconnectTimer (fst (joined policy delivery)) = None"
    "attempt (fst (joined policy delivery)) = 0" "ro_reconnect (tl_options (fst (joined policy delivery))) = resolve_policy policy"
    "maxBufferedBytes (fst (joined policy delivery)) = 33554432"
    "\<exists>url hs em. trace (fst (joined policy delivery)) = [O_new url hs, O_send 0 [1], O_emit em]" "snd (joined policy delivery) = d"
proof -
  note built = client_with_built [OF assms, of policy]
  show "reachable (joined policy delivery)"
    unfolding joined_def by (intro reachable_run reachable.initial [OF built(1)])
  obtain c where e: "client_with policy delivery = (c, d)" using built(13) by (cases "client_with policy delivery") simp
  note f = built(2-12) [unfolded e fst_conv]
  note o = example_resolved [of policy delivery, folded f(11)]
  have live: "j_get example_lookup ''isLive'' = Some (JBool True)" by (simp add: example_lookup_def)
  have "int (length [1 :: byte]) \<le> maxBufferedBytes c" using f(8) by simp
  from connect_run [OF example_placid f(1,2) o(1) f(3,4) o(2,3,4) live example_enter this, of "Inl (Err [])" "[]" "CreatedSigner 0" d,
      unfolded f(5,6) list.size(3)] obtain c' where
    r: "run example_env (I_connect # answers 0 example_lookup (Inl (Err [])) [] (CreatedSigner 0) @ [I_open 0]) (c, d) = (c', d)"
    and c': "tl_connected c'" "socket c' = Some 0" "attempt c' = 0" "tl_options c' = tl_options c" "reconnectTimer c' = None"
      "connecting c' = Some 0" "maxBufferedBytes c' = maxBufferedBytes c" "0 < length (tl_tasks c')" "ct_pc (tl_tasks c' ! 0) = C_open 0" "0 < length (sockets c')"
      "sk_outcome (sockets c' ! 0) = Some (Inr ())" "trace c' = trace c @ [O_new (unsigned_url c' @ ''&X-Gnarly=1'') (handshake_headers c'), O_send 0 [1], O_emit (E_connected (tl_state c'))]"
    by blast
  have "joined policy delivery = run example_env [I_resume 0 V_none, I_finally 0] (c', d)"
    using r by (simp add: joined_def run_append e)
  then have end_state: "joined policy delivery = (set_pc 0 (C_done (Inr (tl_state c')) True)
      ((set_pc 0 (C_done (Inr (tl_state c')) False) c')\<lparr>connecting := None\<rparr>), d)"
    using c' by (simp add: resume_connect_def Let_def valid_sock_def sock_of_def finish_def connect_finally_def set_pc_def)
  show "tl_connected (fst (joined policy delivery))" "socket (fst (joined policy delivery)) = Some 0"
    "connecting (fst (joined policy delivery)) = None" "reconnectTimer (fst (joined policy delivery)) = None"
    "attempt (fst (joined policy delivery)) = 0" "ro_reconnect (tl_options (fst (joined policy delivery))) = resolve_policy policy"
    "maxBufferedBytes (fst (joined policy delivery)) = 33554432"
    "\<exists>url hs em. trace (fst (joined policy delivery)) = [O_new url hs, O_send 0 [1], O_emit em]" "snd (joined policy delivery) = d"
    unfolding end_state using c' o(5) f(7,8) by (simp_all add: set_pc_def)
qed

lemma connected_client_fields:
  "reachable connected_client" "tl_connected (fst connected_client)" "socket (fst connected_client) = Some 0"
  "connecting (fst connected_client) = None" "reconnectTimer (fst connected_client) = None" "attempt (fst connected_client) = 0"
  "ro_reconnect (tl_options (fst connected_client)) = DEFAULT_RECONNECT" "maxBufferedBytes (fst connected_client) = 33554432"
  "\<exists>url hs em. trace (fst connected_client) = [O_new url hs, O_send 0 [1], O_emit em]"
  using default_queue joined_fields [of None _ None] unfolding connected_client_def resolve_policy_def option.case by blast+

section \<open>Connecting\<close>

text \<open>C7: when the session, the lookup of a live room, the gift table and the signer answer and the socket opens, \<open>connect()\<close>
  leaves the client connected to the room that was looked up: one socket was opened, on exactly the URL the signer returned
  for the unsigned one and with the client's cookie, the enter-room frame was the first thing sent on it, the heartbeat runs
  every ten seconds, and listeners were told last.\<close>

theorem connect_reaches_room:
  fixes c :: client
  assumes p: "placid sg env" and "\<not> tl_connected c" and "connecting c = None" and "ro_cookie (tl_options c) \<noteq> []"
    and "tl_roomId c = []" and "tl_signer c = None"
    and opts: "ro_fetchRoomInfo (tl_options c)" "ro_fetchGifts (tl_options c)" "\<not> ro_signer (tl_options c)"
    and live: "j_get lookup ''isLive'' = Some (JBool True)"
    and frame: "enterRoomFrame (cd_encodeEnter (ev_codec env)) (cd_encodeFrame (ev_codec env)) (j_str lookup ''roomId'')
        (ro_identity (tl_options c)) LIVE_ID = Inr frame" "int (length frame) \<le> maxBufferedBytes c"
  shows "let i = length (sockets c);
      c' = fst (run env (I_connect # answers (length (tl_tasks c)) lookup info table sr @ [I_open i]) (c, d))
    in tl_connected c' \<and> socket c' = Some i \<and> tl_roomId c' = j_str lookup ''roomId'' \<and> gifts c' = table \<and> tl_heartbeat c' = Some 10000 \<and>
       trace c' = trace c @ [O_new (sg (unsigned_url c')) (handshake_headers c'), O_send i frame, O_emit (E_connected (tl_state c'))]"
proof -
  from connect_run [OF assms, of info table sr d] obtain c' where
    "run env (I_connect # answers (length (tl_tasks c)) lookup info table sr @ [I_open (length (sockets c))]) (c, d) = (c', d)"
    "tl_connected c'" "socket c' = Some (length (sockets c))" "tl_roomId c' = j_str lookup ''roomId''" "gifts c' = table" "tl_heartbeat c' = Some 10000"
    "trace c' = trace c @ [O_new (sg (unsigned_url c')) (handshake_headers c'), O_send (length (sockets c)) frame, O_emit (E_connected (tl_state c'))]"
    by blast
  then show ?thesis by (simp add: Let_def)
qed

theorem connect_reaches_room_witness:
  "tl_connected (fst (run example_env (I_connect # answers 0 example_lookup (Inl (Err [])) [] (CreatedSigner 0) @ [I_open 0]) example_client))"
proof -
  obtain c d where s: "example_client = (c, d)" by fastforce
  note f = example_fields [unfolded s fst_conv]
  note o = example_resolved [of None None, folded f(10)]
  have live: "j_get example_lookup ''isLive'' = Some (JBool True)" by (simp add: example_lookup_def)
  have "int (length [1 :: byte]) \<le> maxBufferedBytes c" using f(9) by simp
  from connect_reaches_room [OF example_placid f(2,3) o(1) f(4,5) o(2,3,4) live example_enter this, of "Inl (Err [])" "[]" "CreatedSigner 0" d]
  show ?thesis using f(6,7) by (simp add: s Let_def)
qed

text \<open>C11: when the socket of a connected client closes and its listeners are passive, listeners hear of it, and then the policy
  decides. With attempts left they hear of the coming attempt, whose delay is at most the policy's maximum and what Node's timers can
  represent, and when that timer fires a new attempt is under way in a new generation. With no attempts left (a policy of none at
  all included) the client reports that it gave up, if there is a listener for errors, and stays disconnected: no timer is armed,
  no \<open>connect()\<close> is under way and no socket is held.\<close>

theorem lost_connection_reconnects:
  assumes "reachable s" and p: "placid sg env" and "tl_connected (fst s)" and i: "socket (fst s) = Some i"
    and "reconnectTimer (fst s) = None" and "connecting (fst s) = None"
  shows "let c = fst s; policy = ro_reconnect (tl_options c); c' = fst (run env [I_close i closeCode reason, I_reconnectTimer] s);
      lost = O_emit (E_disconnected closeCode (opt_or reason []))
    in if int (attempt c) < rp_attempts policy
       then \<exists>delay. trace c' = trace c @ [lost, O_emit (E_reconnecting (attempt c + 1) delay)] \<and>
         delay \<le> of_int (rp_maxMs policy) \<and> delay \<le> 2147483647 \<and>
         connecting c' = Some (length (tl_tasks c)) \<and> generation c' = generation c + 1 \<and> \<not> closing c' \<and> \<not> tl_connected c'
       else \<exists>s1. trace (fst s1) = trace c @ [lost] \<and>
         trace c' = trace (fst s1) @ (if ev_errorListeners env s1
           then [O_emit (E_error (Err (''gave up after '' @ int_str (rp_attempts policy) @ '' reconnection attempts'')))] else []) \<and>
         reconnectTimer c' = None \<and> connecting c' = None \<and> socket c' = None \<and> generation c' = generation c \<and> \<not> tl_connected c'"
proof -
  have ok: "client_ok (fst s)" by (rule good_ok [OF reachable_sound [OF assms(1)]])
  then have sk: "valid_sock i (fst s)" "sk_opened (sock_of i (fst s))" "\<not> closing (fst s)"
    using assms(3) i by (auto simp: ok_defs valid_sock_def sock_of_def)
  let ?policy = "ro_reconnect (tl_options (fst s))"
  let ?lost = "O_emit (E_disconnected closeCode (opt_or reason []))"
  define c0 where "c0 = note_out [?lost] (closed_client i (upd_sock i (\<lambda>k. k\<lparr>sk_timer := False\<rparr>) (fst s)))"
  have close: "step env (I_close i closeCode reason) s = scheduleReconnect env (c0, snd s)"
    using sk i assms(5)
    by (simp add: on_close_def Let_def placid_notify [OF p] closed_client_def stopHeartbeat_def c0_def on_core_def note_out_def
        upd_sock_def prod_eq_iff)
  have f0: "\<not> tl_connected c0" "connecting c0 = None" "generation c0 = generation (fst s)" "\<not> closing c0" "tl_tasks c0 = tl_tasks (fst s)"
    "reconnectTimer c0 = None" "socket c0 = None" "tl_options c0 = tl_options (fst s)" "attempt c0 = attempt (fst s)"
    "trace c0 = trace (fst s) @ [?lost]"
    using sk assms(5,6) by (simp_all add: c0_def closed_client_def stopHeartbeat_def upd_sock_def note_out_def)
  show ?thesis
  proof (cases "int (attempt (fst s)) < rp_attempts ?policy")
    case True
    let ?delay = "reconnect_delay ?policy (ro_reconnectJitter (tl_options (fst s))) (ev_random env) (attempt (fst s) + 1)"
    define c1 where "c1 = note_out [O_emit (E_reconnecting (attempt (fst s) + 1) ?delay)]
      (c0\<lparr>attempt := attempt (fst s) + 1, reconnectTimer := Some (?delay, generation (fst s))\<rparr>)"
    have step1: "step env (I_close i closeCode reason) s = (c1, snd s)"
      unfolding close using True f0
      by (simp add: scheduleReconnect_def Let_def placid_notify [OF p] current_def on_core_def note_out_def c1_def)
    have f: "\<not> tl_connected c1" "connecting c1 = None" "generation c1 = generation (fst s)" "\<not> closing c1" "tl_tasks c1 = tl_tasks (fst s)"
      "reconnectTimer c1 = Some (?delay, generation (fst s))"
      "trace c1 = trace (fst s) @ [?lost, O_emit (E_reconnecting (attempt (fst s) + 1) ?delay)]"
      using f0 by (simp_all add: c1_def note_out_def)
    then obtain w c2 where e: "ensureSession (generation c1 + 1) ((c1\<lparr>reconnectTimer := None\<rparr>)
        \<lparr>closing := False, reconnectTimer := None, connectAbort := Some (generation c1 + 1), generation := generation c1 + 1\<rparr>) = (w, c2)"
      and c2: "connect (c1\<lparr>reconnectTimer := None\<rparr>) = (Task (length (tl_tasks c1)),
        c2\<lparr>tl_tasks := tl_tasks c1 @ [\<lparr>ct_generation = generation c1 + 1, ct_pc = C_session w\<rparr>], connecting := Some (length (tl_tasks c1))\<rparr>)"
      using connect_new [of "c1\<lparr>reconnectTimer := None\<rparr>"] by auto
    have "?delay \<le> of_int (rp_maxMs ?policy)" "?delay \<le> 2147483647"
      by (simp_all add: reconnect_delay_def Let_def MAX_HEARTBEAT_MS_def min_le_iff_disj)
    then show ?thesis
      using True step1 f e c2 ensureSession_frame [OF e]
      by (simp add: Let_def reconnect_timer_def checkGeneration_def start_reconnect_def)
  next
    case False
    let ?gave = "Err (''gave up after '' @ int_str (rp_attempts ?policy) @ '' reconnection attempts'')"
    have step1: "step env (I_close i closeCode reason) s =
        (if ev_errorListeners env (c0, snd s) then on_core (note_out [O_emit (E_error ?gave)]) (c0, snd s) else (c0, snd s))"
      unfolding close using False f0 by (simp add: scheduleReconnect_def Let_def emitError_def placid_emit [OF p])
    let ?c' = "fst (run env [I_close i closeCode reason, I_reconnectTimer] s)"
    have "trace ?c' = trace c0 @ (if ev_errorListeners env (c0, snd s) then [O_emit (E_error ?gave)] else [])"
      "reconnectTimer ?c' = None" "connecting ?c' = None" "socket ?c' = None" "generation ?c' = generation (fst s)" "\<not> tl_connected ?c'"
      using f0 unfolding run_simps step1 by (simp_all add: reconnect_timer_def)
    note after = this
    have not: "\<not> int (attempt (fst s)) < rp_attempts ?policy" by (rule False)
    show ?thesis unfolding Let_def if_not_P [OF not]
      by (rule exI [of _ "(c0, snd s)"]) (use after f0(10) in \<open>simp only: fst_conv simp_thms\<close>)
  qed
qed

text \<open>A connected client whose policy allows no attempt.\<close>

definition resigned_client :: tl_sys where
  "resigned_client = joined (Some \<lparr>pp_attempts = Some 0, pp_initialMs = None, pp_maxMs = None\<rparr>) None"

lemma resigned_client_fields:
  "reachable resigned_client" "tl_connected (fst resigned_client)" "socket (fst resigned_client) = Some 0"
  "connecting (fst resigned_client) = None" "reconnectTimer (fst resigned_client) = None"
  "rp_attempts (ro_reconnect (tl_options (fst resigned_client))) = 0"
proof -
  let ?p = "Some \<lparr>pp_attempts = Some 0, pp_initialMs = None, pp_maxMs = None\<rparr>"
  obtain d where "new_EventDelivery None = Inr (d :: LiveEvent delivery)" using default_queue by blast
  note f = joined_fields [OF this, of ?p, folded resigned_client_def]
  have "rp_attempts (resolve_policy ?p) = 0" by (simp add: resolve_policy_def opt_or_def)
  with f show "reachable resigned_client" "tl_connected (fst resigned_client)" "socket (fst resigned_client) = Some 0"
    "connecting (fst resigned_client) = None" "reconnectTimer (fst resigned_client) = None"
    "rp_attempts (ro_reconnect (tl_options (fst resigned_client))) = 0" by auto
qed

theorem lost_connection_reconnects_witness:
  "connecting (fst (run example_env [I_close 0 1006 (Some ''gone''), I_reconnectTimer] connected_client)) =
     Some (length (tl_tasks (fst connected_client))) \<and>
   trace (fst (run example_env [I_close 0 1006 (Some ''gone''), I_reconnectTimer] resigned_client)) =
     trace (fst resigned_client) @ [O_emit (E_disconnected 1006 ''gone''), O_emit (E_error (Err ''gave up after 0 reconnection attempts''))]"
proof -
  note lost = lost_connection_reconnects [OF _ example_placid, where i = 0 and closeCode = 1006 and reason = "Some ''gone''"]
  have "int_str 0 = ''0''" by code_simp
  then show ?thesis
    using lost [OF connected_client_fields(1-3,5,4)] connected_client_fields(6,7) lost [OF resigned_client_fields(1-3,5,4)] resigned_client_fields(6)
    by (auto simp: Let_def DEFAULT_RECONNECT_def opt_or_def example_env_def)
qed

section \<open>Invariants\<close>

text \<open>C8: in every state a client can reach, whatever its listeners, signer and sockets did: it says it is connected only while it
  holds a socket of the current generation whose handshake completed and it is not closing; a heartbeat runs only with a socket;
  a closing client holds no socket, no timer, no pending \<open>connect()\<close> and no queued event; and the reconnection attempts never
  exceed the policy.\<close>

theorem client_invariant:
  assumes "reachable s"
  shows "(tl_connected (fst s) \<longrightarrow> \<not> closing (fst s) \<and> (\<exists>i. socket (fst s) = Some i \<and> i < length (sockets (fst s)) \<and>
      sk_generation (sockets (fst s) ! i) = generation (fst s) \<and> sk_opened (sockets (fst s) ! i) \<and> sk_settled (sockets (fst s) ! i))) \<and>
    (tl_heartbeat (fst s) \<noteq> None \<longrightarrow> socket (fst s) \<noteq> None) \<and>
    (closing (fst s) \<longrightarrow> socket (fst s) = None \<and> tl_heartbeat (fst s) = None \<and> reconnectTimer (fst s) = None \<and>
      connecting (fst s) = None \<and> depth (snd s) = 0) \<and>
    int (attempt (fst s)) \<le> max 0 (rp_attempts (ro_reconnect (tl_options (fst s))))"
proof -
  have ok: "client_ok (fst s)" and id: "idle s"
    using reachable_sound [OF assms] by (auto intro: good_ok good_idle)
  then show ?thesis by (cases "socket (fst s)") (auto simp: client_ok_def stopped_def live_socket_def idle_def)
qed

theorem client_invariant_witness:
  "tl_connected (fst connected_client) \<and> \<not> closing (fst connected_client) \<and> sk_opened (sockets (fst connected_client) ! 0)"
  using client_invariant [OF connected_client_fields(1)] connected_client_fields(2,3) by auto

text \<open>C14: the queue of a client always drains: whatever the listeners do and however slow they are, as many immediates as events are
  queued leave it empty, and then every event the client has handed over was dispatched or discarded.\<close>

theorem queue_drains:
  assumes "reachable s" and "depth (snd s) \<le> length nows"
  shows "case deliveryMetrics (run env (map I_immediate nows) s) of (m, _, _) \<Rightarrow>
    m_queueDepth m = 0 \<and> m_received m = m_dispatched m + m_discarded m"
proof -
  have "reachable s' \<Longrightarrow> depth (snd s') \<le> length ns \<Longrightarrow> depth (snd (run env (map I_immediate ns) s')) = 0" for ns s'
  proof (induction ns arbitrary: s')
    case (Cons now ns)
    then show ?case using calls.immediate_shortens [OF reachable_sound [OF Cons.prems(1)], of env now]
        reachable.stepped [OF Cons.prems(1), of env "I_immediate now"] by simp
  qed simp
  note empty = this [OF assms]
  have "settled 0 (snd (run env (map I_immediate nows) s))"
    using reachable_sound [OF reachable_run [OF assms(1)]] by (simp add: calls.sound_def)
  with empty show ?thesis by (simp add: deliveryMetrics_def metrics_def settled_def balanced_def)
qed

text \<open>A connected client with a queue for four events that has received a batch of two.\<close>

definition chatty_message :: "int \<Rightarrow> BaseProtoMessage" where
  "chatty_message i = \<lparr>bm_method = ''M'', bm_payload = [], bm_msgId = i, bm_msgType = 0, bm_offset = 0, bm_isHistory = False, bm_sampleFlag = 0\<rparr>"

definition chatty_env :: tl_env where
  "chatty_env = example_env\<lparr>ev_codec := example_codec\<lparr>cd_batch := (\<lambda>b. Inr \<lparr>fr_messages = [chatty_message 1, chatty_message 2],
       fr_cursor = [], fr_fetchInterval = 0, fr_now = 0, fr_internalExt = [], fr_fetchType = 0,
       fr_routeParams = [], fr_heartbeatDuration = 0, fr_needAck = False, fr_pushServer = [], fr_isFirst = False,
       fr_historyCommentCursor = [], fr_historyNoMore = False\<rparr>)\<rparr>\<rparr>"

definition busy_client :: tl_sys where
  "busy_client = step chatty_env (I_message 0 []) (joined None (Some small_queue))"

lemma chatty_event:
  "event_bytes (ev_codec chatty_env) (chatty_message 1) (message_event (ev_codec chatty_env) table (chatty_message 1)) = 260"
  "event_bytes (ev_codec chatty_env) (chatty_message 2) (message_event (ev_codec chatty_env) table (chatty_message 2)) = 260"
proof -
  have "decodeEvent h decs ''M'' [] = unknown_event ''M'' []" for h decs
  proof -
    have "NORMALIZE h decs ''M'' = None" by code_simp
    then show ?thesis by (simp add: decodeEvent_def)
  qed
  moreover have "enrich table (unknown_event ''M'' []) = unknown_event ''M'' []" by (simp add: enrich_def unknown_event_def event_str_def)
  ultimately have m: "message_event cd table (chatty_message i) = stamped (chatty_message i) (unknown_event ''M'' [])" for cd i
    by (simp add: message_event_def chatty_message_def)
  have "event_bytes (ev_codec chatty_env) (chatty_message 1) (stamped (chatty_message 1) (unknown_event ''M'' [])) = 260"
    "event_bytes (ev_codec chatty_env) (chatty_message 2) (stamped (chatty_message 2) (unknown_event ''M'' [])) = 260"
    by code_simp+
  then show "event_bytes (ev_codec chatty_env) (chatty_message 1) (message_event (ev_codec chatty_env) table (chatty_message 1)) = 260"
    "event_bytes (ev_codec chatty_env) (chatty_message 2) (message_event (ev_codec chatty_env) table (chatty_message 2)) = 260"
    by (simp_all only: m)
qed

lemma busy_client_fields: "reachable busy_client" "depth (snd busy_client) = 2"
proof -
  obtain d where d: "new_EventDelivery (Some small_queue) = Inr (d :: LiveEvent delivery)" "capacity d = 4" "depth d = 0"
    "maxBytes d = 67108864" "bytes d = 0" using small_queue by blast
  note f = joined_fields [OF d(1), of None]
  show "reachable busy_client" unfolding busy_client_def using f(1) by (rule reachable.stepped)
  obtain c where c: "joined None (Some small_queue) = (c, d)" using f(10) by (cases "joined None (Some small_queue)") simp
  have "client_ok c" using good_ok [OF reachable_sound [OF f(1)]] by (simp add: c)
  then have live: "valid_sock 0 c" "\<not> closing c" "sk_generation (sock_of 0 c) = generation c" "socket c = Some 0"
    using f(2,3) by (auto simp: c ok_defs valid_sock_def sock_of_def)
  obtain b where b: "cd_batch (ev_codec chatty_env) [] = Inr b" "fr_messages b = [chatty_message 1, chatty_message 2]" "\<not> fr_needAck b"
    "fr_heartbeatDuration b = 0" by (simp add: chatty_env_def)
  have "decode_message (ev_codec chatty_env) [] = Inr (Some (blank_PushFrame\<lparr>pf_logId := 5, pf_payloadType := ''msg'', pf_payload := []\<rparr>, b))"
    using b(1) by (simp add: decode_message_def chatty_env_def example_env_def example_codec_def decodePushFrame_def bounded_def
        carriesEvents_def MESSAGE_PAYLOAD_TYPE_def decompress_def frameCompressType_def decodeBatch_def preflightBatch_def
        blank_PushFrame_def preflight_loop.simps [of "[]" 0 0])
  with b(2-4) show "depth (snd busy_client) = 2"
    using live d(2-5) by (simp add: busy_client_def c on_message_def receive_def acknowledge_def heartbeat_hint_def current_def submit_def
        chatty_event rejects_def safe_int_def MAX_SAFE_INTEGER_def schedule_def ring_put_def Let_def)
qed

theorem queue_drains_witness:
  "m_queueDepth (fst (deliveryMetrics busy_client)) = 2 \<and>
   m_queueDepth (fst (deliveryMetrics (run chatty_env [I_immediate (\<lambda>_. 0), I_immediate (\<lambda>_. 0)] busy_client))) = 0"
proof -
  have "depth (snd busy_client) \<le> length [\<lambda>_. 0, \<lambda>_ :: nat. 0 :: rat]" using busy_client_fields(2) by simp
  from queue_drains [OF busy_client_fields(1) this, of chatty_env] busy_client_fields(2) show ?thesis
    by (auto simp: deliveryMetrics_def metrics_def split: prod.splits)
qed

text \<open>in every reachable state the metrics of the delivery queue balance: each event handed to it was dispatched, discarded or
  is still queued, and depth and bytes are within the configured bounds.\<close>

lemma delivery_accounts:
  assumes "reachable s"
  shows "case deliveryMetrics s of (m, _, _) \<Rightarrow> m_received m = m_dispatched m + m_discarded m + m_queueDepth m \<and>
    m_queueDepth m \<le> capacity (snd s) \<and> 0 \<le> m_queuedBytes m \<and> m_queuedBytes m \<le> maxBytes (snd s)"
proof -
  have "settled 0 (snd s)" using reachable_sound [OF assms] by (simp add: calls.sound_def)
  then show ?thesis
    using ring_wf_bounds [of "snd s"] ring_wf_bytes_nonneg [of "snd s"]
    by (simp add: deliveryMetrics_def metrics_def settled_def balanced_def)
qed

lemma delivery_accounts_witness:
  "m_received (fst (deliveryMetrics connected_client)) = m_dispatched (fst (deliveryMetrics connected_client)) +
     m_discarded (fst (deliveryMetrics connected_client)) + m_queueDepth (fst (deliveryMetrics connected_client))"
  using delivery_accounts [OF connected_client_fields(1)] by (auto split: prod.splits)

text \<open>C9: after \<open>disconnect()\<close>, and until \<open>connect()\<close> is called again, nothing that can still happen (late answers, socket
  events, timers, the immediate of the queue) makes the client emit an event, write to a socket or open one: all it does is
  close sockets.\<close>

theorem disconnected_silent:
  assumes "reachable s" and "closing (fst s)" and "x \<noteq> I_connect"
  shows "closing (fst (step env x s)) \<and> (\<exists>os. trace (fst (step env x s)) = trace (fst s) @ os \<and> list_all silent os)"
  using quiet_steps [OF reachable_sound [OF assms(1)] assms(2,3)] by (simp add: quiet_step_def)

theorem disconnected_silent_witness:
  "\<exists>os. trace (fst (step example_env (I_message 0 [1]) (step example_env I_disconnect connected_client))) =
     trace (fst (step example_env I_disconnect connected_client)) @ os \<and> list_all silent os"
proof -
  have "closing (fst (step example_env I_disconnect connected_client))" by (simp add: tl_calls_def disconnect_alt)
  from disconnected_silent [OF reachable.stepped [OF connected_client_fields(1)] this, of "I_message 0 [1]" example_env]
  show ?thesis by simp
qed

text \<open>C10: a batch that asks for an acknowledgement is acknowledged on the socket it came from before anything else happens: whatever
  the listeners of its events do, the acknowledgement is the first effect of receiving it.\<close>

theorem ack_precedes_events:
  assumes "reachable s" and "\<not> closing (fst s)" and i: "socket (fst s) = Some i" "sk_generation (sock_of i (fst s)) = generation (fst s)"
    and m: "decode_message (ev_codec env) data = Inr (Some (frame, batch))" "fr_needAck batch"
    and a: "ackFrameForBatch (cd_encodeFrame (ev_codec env)) frame (fr_internalExt batch) = Inr ack"
    and w: "\<And>s. ev_bufferedAmount env s i = q" "sendBoundedFrame q ack (maxBufferedBytes (fst s)) = Inr ack" "\<And>s. ev_send env s i ack = None"
  shows "\<exists>os. trace (fst (step env (I_message i data) s)) = trace (fst s) @ O_send i ack # os"
proof -
  have snd: "calls.sound s" by (rule reachable_sound [OF assms(1)])
  have v: "valid_sock i (fst s)" using good_ok [OF snd] i by (auto simp: ok_defs valid_sock_def)
  define s1 where "s1 = on_core (heartbeat_hint batch) s"
  have s1: "socket (fst s1) = Some i" "trace (fst s1) = trace (fst s)" "maxBufferedBytes (fst s1) = maxBufferedBytes (fst s)" "idle s1"
    using i good_idle [OF snd] by (simp_all add: s1_def heartbeat_hint_def startHeartbeat_def stopHeartbeat_def idle_def)
  define s2 where "s2 = on_core (note_out [O_send i ack]) s1"
  have ack: "acknowledge env frame batch s1 = s2"
    using m(2) a w s1 by (simp add: acknowledge_def send_built_def send_def s2_def)
  have "ext.good (fst s2) s2" using s1 by (simp add: ext.good_def s2_def)
  from ext.submit_messages_good [OF this] have "extends (fst s2) (fst (submit_messages tl_calls env g ms s2))" for g ms
    by (simp add: ext.good_def)
  then have "\<exists>os. trace (fst (submit_messages tl_calls env g ms s2)) = trace (fst s) @ O_send i ack # os" for g ms
    using s1 by (fastforce simp: extends_def s2_def)
  then show ?thesis
    using v i m ack assms(2) by (simp add: on_message_def receive_def s1_def [symmetric])
qed

theorem ack_precedes_events_witness:
  "\<exists>os. trace (fst (step example_env (I_message 0 []) connected_client)) = trace (fst connected_client) @ O_send 0 [1] # os"
proof -
  have snd: "\<not> closing (fst connected_client)" "sk_generation (sock_of 0 (fst connected_client)) = generation (fst connected_client)"
    using good_ok [OF reachable_sound [OF connected_client_fields(1)]] connected_client_fields(2,3) by (auto simp: ok_defs sock_of_def)
  let ?batch = "\<lparr>fr_messages = [], fr_cursor = [], fr_fetchInterval = 0, fr_now = 0, fr_internalExt = [], fr_fetchType = 0,
       fr_routeParams = [], fr_heartbeatDuration = 0, fr_needAck = True, fr_pushServer = [], fr_isFirst = False,
       fr_historyCommentCursor = [], fr_historyNoMore = False\<rparr>"
  let ?frame = "blank_PushFrame\<lparr>pf_logId := 5, pf_payloadType := ''msg'', pf_payload := []\<rparr>"
  have m: "decode_message (ev_codec example_env) [] = Inr (Some (?frame, ?batch))"
    by (simp add: decode_message_def example_env_def example_codec_def decodePushFrame_def bounded_def carriesEvents_def
        MESSAGE_PAYLOAD_TYPE_def decompress_def frameCompressType_def decodeBatch_def preflightBatch_def blank_PushFrame_def
        preflight_loop.simps [of "[]" 0 0])
  have a: "ackFrameForBatch (cd_encodeFrame (ev_codec example_env)) ?frame (fr_internalExt ?batch) = Inr [1]"
    by (simp add: ackFrameForBatch_def pushFrame_def example_env_def example_codec_def)
  have "sendBoundedFrame None [1] (maxBufferedBytes (fst connected_client)) = Inr [1]"
    by (simp add: sendBoundedFrame_def connected_client_fields(8))
  from ack_precedes_events [OF connected_client_fields(1) snd(1) connected_client_fields(3) snd(2) m _ a _ this]
  show ?thesis by (simp add: example_env_def)
qed

end
