(* ===== verification/Client_Guest.thy ===== *)
theory Client_Guest
  imports Client_Properties
begin

text \<open>
  The guest identity of \<open>client.ts\<close> across reconnections. \<open>#reconnect\<close> replaces an identity whose handshake was refused once,
  and a second refusal is final until a connection succeeds. \<open>same_refresh\<close> says that a step touches neither the flag that
  remembers this nor the calls of \<open>#reconnect\<close> under way; only two inputs can.
\<close>

section \<open>What leaves a refresh alone\<close>

definition same_refresh :: "client \<Rightarrow> client \<Rightarrow> bool" where
  "same_refresh c0 c \<longleftrightarrow> tl_guestRefreshAttempted c = tl_guestRefreshAttempted c0 \<and>
     (\<exists>ks. tl_reconnects c = tl_reconnects c0 @ ks)"

lemma same_refresh_refl [simp]: "same_refresh c c"
  by (simp add: same_refresh_def)

lemma same_refresh_eq:
  "tl_guestRefreshAttempted c' = tl_guestRefreshAttempted c \<Longrightarrow> tl_reconnects c' = tl_reconnects c \<Longrightarrow>
   same_refresh c0 c' = same_refresh c0 c"
  by (simp add: same_refresh_def)

lemma ensureSession_attempted: "ensureSession g c = (w, c') \<Longrightarrow> tl_guestRefreshAttempted c' = tl_guestRefreshAttempted c"
  by (auto simp: ensureSession_def split: if_splits option.splits)

lemma connect_refresh:
  "tl_guestRefreshAttempted (snd (connect c)) = tl_guestRefreshAttempted c \<and> tl_reconnects (snd (connect c)) = tl_reconnects c"
  by (auto simp: connect_def Let_def split: option.split prod.split dest: ensureSession_attempted ensureSession_frame)

lemma disconnect_refresh:
  "tl_guestRefreshAttempted (disconnect c) = tl_guestRefreshAttempted c \<and> tl_reconnects (disconnect c) = tl_reconnects c"
  by (simp add: disconnect_alt) (simp add: run_cancelOpen_def upd_sock_def split: option.split)

interpretation ref: client_calls tl_calls "same_refresh c0" for c0
proof
  show "closing (fst s)" if "closing (fst (call_connect tl_calls s))" for s by (rule calls.connect_closing [OF that])
  show "same_refresh c0 (fst s) \<Longrightarrow> same_refresh c0 (fst (call_connect tl_calls s))"
    "same_refresh c0 (fst s) \<Longrightarrow> same_refresh c0 (fst (call_disconnect tl_calls s))" for s
    using connect_refresh [of "fst s"] disconnect_refresh [of "fst s"] by (auto simp: tl_calls_def same_refresh_def)
  show "same_refresh c0 c \<Longrightarrow> same_refresh c0 (note_out os c)" "same_refresh c0 c \<Longrightarrow> same_refresh c0 (count_listener_error c)" for c os
    by (simp_all add: same_refresh_def count_listener_error_def)
qed (simp_all add: tl_calls_def same_refresh_def)

definition keeps :: "tl_sys \<Rightarrow> tl_sys \<Rightarrow> bool" where
  "keeps s s' \<longleftrightarrow> ref.good (fst s) s'"

lemma keeps_refl: "idle s \<Longrightarrow> keeps s s"
  by (simp add: keeps_def ref.good_def)

lemma keeps_on_core:
  "keeps s s' \<Longrightarrow> closing (f (fst s')) = closing (fst s') \<Longrightarrow> tl_guestRefreshAttempted (f (fst s')) = tl_guestRefreshAttempted (fst s') \<Longrightarrow>
   tl_reconnects (f (fst s')) = tl_reconnects (fst s') \<Longrightarrow> keeps s (on_core f s')"
  by (simp add: keeps_def ref.good_def idle_def same_refresh_def)

lemma keeps_calls: "keeps s s' \<Longrightarrow> keeps s (run_calls tl_calls cs s')"
  by (simp add: keeps_def ref.calls_good)

lemma keeps_emitError: "keeps s s' \<Longrightarrow> keeps s (emitError tl_calls env e s')"
  by (simp add: keeps_def ref.emitError_good)

lemma keeps_notify: "keeps s s' \<Longrightarrow> keeps s (notify tl_calls env em s')"
  by (simp add: keeps_def ref.notify_good)

lemma keeps_send: "keeps s s' \<Longrightarrow> send_built tl_calls env i b s' = (x, s'') \<Longrightarrow> keeps s s''"
  using ref.send_built_good by (simp add: keeps_def)

lemma keeps_refresh: "keeps s s' \<Longrightarrow> same_refresh (fst s) (fst s')"
  by (simp add: keeps_def ref.good_def)

lemma task_fields [simp]:
  "tl_guestRefreshAttempted (set_pc t pc c) = tl_guestRefreshAttempted c" "tl_reconnects (set_pc t pc c) = tl_reconnects c"
  "tl_guestRefreshAttempted (finish t r c) = tl_guestRefreshAttempted c" "tl_reconnects (finish t r c) = tl_reconnects c"
  "tl_guestRefreshAttempted (upd_sock i f c) = tl_guestRefreshAttempted c" "tl_reconnects (upd_sock i f c) = tl_reconnects c"
  "tl_guestRefreshAttempted (add_socket g u h rm c) = tl_guestRefreshAttempted c" "tl_reconnects (add_socket g u h rm c) = tl_reconnects c"
  "closing (add_socket g u h rm c) = closing c"
  by (simp_all add: set_pc_def finish_def upd_sock_def add_socket_def)

lemma ensureSigner_fields:
  "ensureSigner g c = (r, c') \<Longrightarrow>
     tl_guestRefreshAttempted c' = tl_guestRefreshAttempted c \<and> tl_reconnects c' = tl_reconnects c \<and> closing c' = closing c"
  "signer_created g x c = (y, c') \<Longrightarrow>
     tl_guestRefreshAttempted c' = tl_guestRefreshAttempted c \<and> tl_reconnects c' = tl_reconnects c \<and> closing c' = closing c"
  by (auto simp: ensureSigner_def signer_created_def split: if_splits sum.splits)

lemma after_fields [simp]:
  "tl_guestRefreshAttempted (after_gifts t g c) = tl_guestRefreshAttempted c" "tl_reconnects (after_gifts t g c) = tl_reconnects c"
  "tl_guestRefreshAttempted (after_info t g c) = tl_guestRefreshAttempted c" "tl_reconnects (after_info t g c) = tl_reconnects c"
  "tl_guestRefreshAttempted (after_room t g c) = tl_guestRefreshAttempted c" "tl_reconnects (after_room t g c) = tl_reconnects c"
  "tl_guestRefreshAttempted (after_session t g c) = tl_guestRefreshAttempted c" "tl_reconnects (after_session t g c) = tl_reconnects c"
  "tl_guestRefreshAttempted (after_lookup h t g v c) = tl_guestRefreshAttempted c" "tl_reconnects (after_lookup h t g v c) = tl_reconnects c"
  by (auto simp: after_gifts_def after_info_def after_room_def after_session_def after_lookup_def
      split: prod.splits sum.splits dest!: ensureSigner_fields)

lemma keeps_open_socket:
  assumes "idle s"
  shows "keeps s (open_socket env t g s)"
  by (auto simp: open_socket_def Let_def split: prod.split sum.split option.split
      intro!: keeps_on_core keeps_calls keeps_refl assms)

lemma keeps_resume_connect:
  assumes "idle s"
  shows "keeps s (resume_connect env t v s)"
  using keeps_open_socket [OF assms]
  by (auto simp: resume_connect_def Let_def split: conn_pc.split option.split sum.split settled_value.split bool.split prod.split
      dest!: ensureSigner_fields intro!: keeps_on_core keeps_refl assms)

lemma keeps_scheduleReconnect: "keeps s s' \<Longrightarrow> keeps s (scheduleReconnect env s')"
  by (auto simp: scheduleReconnect_def Let_def intro!: keeps_on_core keeps_notify keeps_emitError)

lemma keeps_receive:
  assumes "idle s"
  shows "keeps s (receive env data s)"
proof -
  have hint: "keeps s (on_core (heartbeat_hint batch) s)" for batch
    by (intro keeps_on_core keeps_refl assms) (simp_all add: heartbeat_hint_def startHeartbeat_def stopHeartbeat_def)
  have ack: "keeps s (acknowledge env frame batch s')" if "keeps s s'" for frame batch s'
    using that keeps_send [OF that]
    by (auto simp: acknowledge_def split: option.split prod.split intro: keeps_emitError)
  have "keeps s (submit_messages tl_calls env g ms s')" if "keeps s s'" for g ms s'
    using that ref.submit_messages_good by (simp add: keeps_def)
  with hint ack show ?thesis
    by (auto simp: receive_def split: sum.split option.split intro!: keeps_emitError keeps_refl assms)
qed

lemma keeps_on_close:
  assumes "idle s"
  shows "keeps s (on_close env i closeCode reason s)"
  by (auto simp: on_close_def Let_def closed_client_def stopHeartbeat_def
      intro!: keeps_on_core keeps_notify keeps_scheduleReconnect keeps_refl assms)

lemma keeps_heartbeat_tick:
  assumes "idle s"
  shows "keeps s (heartbeat_tick env s)"
  using keeps_send [OF keeps_refl [OF assms]] keeps_refl [OF assms]
  by (auto simp: heartbeat_tick_def split: option.split prod.split intro: keeps_emitError)

lemma keeps_immediate:
  assumes "idle s"
  shows "keeps s (run_immediate tl_calls env now s)"
  using keeps_refl [OF assms] ref.drain_good [of env now s]
  by (auto simp: run_immediate_def keeps_def split: option.split)

lemma same_refresh_step:
  assumes "idle s" and "\<And>i. x \<noteq> I_open i" and "\<And>r v. x \<noteq> I_resumeReconnect r v"
  shows "same_refresh (fst s) (fst (step env x s))"
proof -
  have ended: "same_refresh c (connect_finally t c)" "same_refresh c (on_open_timeout i c)" for t i c
    by (auto simp: same_refresh_def connect_finally_def on_open_timeout_def split: conn_pc.split bool.split)
  note keep = keeps_refresh [OF keeps_resume_connect [OF assms(1)]] keeps_refresh [OF keeps_receive [OF assms(1)]]
    keeps_refresh [OF keeps_on_close [OF assms(1)]] keeps_refresh [OF keeps_heartbeat_tick [OF assms(1)]]
    keeps_refresh [OF keeps_immediate [OF assms(1)]] keeps_refresh [OF keeps_emitError [OF keeps_refl [OF assms(1)]]]
  show ?thesis
proof (cases x)
  case I_reconnectTimer
  then show ?thesis
    using connect_refresh [of "(fst s)\<lparr>reconnectTimer := None\<rparr>"]
    by (auto simp: same_refresh_def reconnect_timer_def start_reconnect_def Let_def split: option.split prod.split)
next
  case I_connect
  then show ?thesis using connect_refresh [of "fst s"] by (simp add: tl_calls_def same_refresh_def)
next
  case I_disconnect
  then show ?thesis using disconnect_refresh [of "fst s"] by (simp add: tl_calls_def same_refresh_def)
next
  case (I_guest p r)
  then show ?thesis by (auto simp: same_refresh_def guest_settled_def Let_def split: sum.split)
qed (use assms in \<open>simp_all add: keep ended on_message_def on_error_def\<close>)
qed

section \<open>The two inputs that do not\<close>

lemma emitError_extends: "idle s \<Longrightarrow> extends c (fst s) \<Longrightarrow> extends c (fst (emitError tl_calls env e s))"
  using ext.emitError_good [of c s env e] by (simp add: ext.good_def)

lemma notify_trace:
  assumes "idle s"
  shows "\<exists>os. trace (fst (notify tl_calls env em s)) = trace (fst s) @ O_emit em # os"
proof -
  define s1 where "s1 = on_core (note_out [O_emit em]) s"
  have "ext.good (fst s1) s1" using assms by (simp add: s1_def ext.good_def)
  then have s2: "ext.good (fst s1) (run_calls tl_calls cs s1)" for cs by (rule ext.calls_good)
  obtain cs thrown where l: "ev_listen env s em = (cs, thrown)" by fastforce
  have "ext.good (fst s1) (notify tl_calls env em s)"
    using s2 [of cs] ext.emitError_good [OF ext.count_good [OF s2 [of cs]]]
    by (cases thrown) (simp_all add: notify_def emit_def s1_def [symmetric] l)
  then show ?thesis by (auto simp: ext.good_def extends_def s1_def)
qed

lemma refresh_open:
  assumes "idle s"
  shows "(\<exists>ks. tl_reconnects (fst (on_open env i s)) = tl_reconnects (fst s) @ ks) \<and>
    (tl_guestRefreshAttempted (fst (on_open env i s)) = tl_guestRefreshAttempted (fst s) \<or>
     (\<exists>st os. trace (fst (on_open env i s)) = trace (fst s) @ os \<and> O_emit (E_connected st) \<in> set os))"
proof (cases "valid_sock i (fst s) \<and> \<not> sk_settled (sock_of i (fst s)) \<and> current (sk_generation (sock_of i (fst s))) s \<and> socket (fst s) = Some i")
  case False
  then show ?thesis by (auto simp: on_open_def)
next
  case True
  define s1 where "s1 = on_core (upd_sock i (\<lambda>k. k\<lparr>sk_opened := True\<rparr>)) s"
  define built where "built = enterRoomFrame (cd_encodeEnter (ev_codec env)) (cd_encodeFrame (ev_codec env))
    (tl_roomId (fst s)) (ro_identity (tl_options (fst s))) LIVE_ID"
  have s1: "keeps s s1" unfolding s1_def by (intro keeps_on_core keeps_refl assms) simp_all
  obtain x s2 where b: "send_built tl_calls env i built s1 = (x, s2)" by (cases "send_built tl_calls env i built s1")
  have s2: "keeps s s2" by (rule keeps_send [OF s1 b])
  show ?thesis
  proof (cases x)
    case (Some e)
    with True b have "on_open env i s = call_disconnect tl_calls
        (on_core (\<lambda>c. (upd_sock i (\<lambda>k. (settle (Inl e) k)\<lparr>sk_timer := False\<rparr>) c)\<lparr>cancelOpen := None\<rparr>) s2)"
      by (simp add: on_open_def Let_def s1_def [symmetric] built_def [symmetric])
    then show ?thesis
      using keeps_refresh [OF s2] disconnect_refresh by (auto simp: tl_calls_def same_refresh_def)
  next
    case None
    define s3 where "s3 = on_core (opened_client i) s2"
    have e: "on_open env i s = notify tl_calls env (E_connected (tl_state (fst s3))) s3"
      using True b None by (simp add: on_open_def Let_def s1_def [symmetric] built_def [symmetric] s3_def)
    obtain frame where f: "s2 = on_core (note_out [O_send i frame]) s1" using send_built_sent b None by blast
    have s3: "idle s3" "tl_reconnects (fst s3) = tl_reconnects (fst s)" "trace (fst s3) = trace (fst s) @ [O_send i frame]"
      using assms by (simp_all add: s3_def f s1_def idle_def opened_client_def startHeartbeat_def stopHeartbeat_def)
    with keeps_refresh [OF keeps_notify [OF keeps_refl [OF s3(1)]]] notify_trace [OF s3(1)] show ?thesis
      unfolding e by (fastforce simp: same_refresh_def)
  qed
qed

fun refreshing :: "recon_pc \<Rightarrow> bool" where
  "refreshing (R_session w) = True"
| "refreshing (R_signer b) = True"
| "refreshing (R_again p) = True"
| "refreshing _ = False"

definition no_new_refresh :: "client \<Rightarrow> client \<Rightarrow> bool" where
  "no_new_refresh c c' \<longleftrightarrow> tl_guestRefreshAttempted c' = tl_guestRefreshAttempted c \<and>
     (\<forall>r < length (tl_reconnects c). refreshing (rt_pc (tl_reconnects c' ! r)) \<longrightarrow> refreshing (rt_pc (tl_reconnects c ! r)))"

lemma no_new_refresh_refl [simp]: "no_new_refresh c c"
  by (simp add: no_new_refresh_def)

lemma same_refresh_none: "same_refresh c c' \<Longrightarrow> no_new_refresh c c'"
  by (auto simp: same_refresh_def no_new_refresh_def nth_append)

lemma set_rpc_none:
  assumes "same_refresh (set_rpc r pc c) c'" and "refreshing pc \<Longrightarrow> refreshing (rt_pc (tl_reconnects c ! r))"
  shows "no_new_refresh c c'"
  using assms by (auto simp: same_refresh_def no_new_refresh_def set_rpc_def nth_append nth_update_if split: if_splits)

lemma refresh_failed_none:
  assumes "idle s"
  shows "no_new_refresh (fst s) (fst (refresh_failed env r e s))"
proof -
  let ?s0 = "on_core (set_rpc r R_done) s"
  have "idle ?s0" using assms by simp
  then have "keeps ?s0 (refresh_failed env r e s)"
    by (simp add: refresh_failed_def Let_def keeps_emitError keeps_refl)
  from keeps_refresh [OF this] show ?thesis by (intro set_rpc_none [of r R_done]) simp_all
qed

text \<open>A refresh begins only in guest mode with the flag down, and raises it.\<close>

definition refresh_once :: "client \<Rightarrow> client \<Rightarrow> bool" where
  "refresh_once c c' \<longleftrightarrow> no_new_refresh c c' \<or>
     tl_guestMode c \<and> \<not> tl_guestRefreshAttempted c \<and> tl_guestRefreshAttempted c'"

lemma reconnect_failed_once:
  assumes "idle s"
  shows "refresh_once (fst s) (fst (reconnect_failed env r g e s))"
proof (cases "current g s \<and> isHandshakeRejected e \<and> tl_guestMode (fst s) \<and> \<not> tl_guestRefreshAttempted (fst s)")
  case True
  then show ?thesis
    by (auto simp: refresh_once_def reconnect_failed_def Let_def refreshGuestSession_def set_rpc_def split: prod.split
        dest!: ensureSession_attempted)
next
  case False
  let ?s0 = "on_core (set_rpc r R_done) s"
  have "idle ?s0" using assms by simp
  then have "keeps ?s0 (reconnect_failed env r g e s)"
    using False by (auto simp: reconnect_failed_def Let_def intro!: keeps_scheduleReconnect keeps_emitError keeps_refl)
  from keeps_refresh [OF this] show ?thesis by (auto simp: refresh_once_def intro: set_rpc_none [of r R_done])
qed

lemma resume_reconnect_once:
  assumes "idle s"
  shows "refresh_once (fst s) (fst (resume_reconnect env r v s))"
proof (cases "r < length (tl_reconnects (fst s))")
  case True
  have moved: "refresh_once (fst s) (set_rpc r pc c')"
    if "tl_guestRefreshAttempted c' = tl_guestRefreshAttempted (fst s) \<and> tl_reconnects c' = tl_reconnects (fst s)"
      "refreshing pc \<Longrightarrow> refreshing (rt_pc (tl_reconnects (fst s) ! r))" for pc c'
    using that by (auto simp: refresh_once_def same_refresh_def set_rpc_def intro!: set_rpc_none [of r pc])
  have facts: "refresh_once (fst s) (fst s)" "refresh_once (fst s) (fst (refresh_failed env r e s))"
      "refresh_once (fst s) (fst (reconnect_failed env r g e s))" for e g
    using refresh_failed_none [OF assms] reconnect_failed_once [OF assms] by (simp_all add: refresh_once_def)
  show ?thesis
  proof (cases "rt_pc (tl_reconnects (fst s) ! r)")
    case (R_session w)
    with True facts show ?thesis
      by (auto simp: resume_reconnect_def Let_def split: option.split sum.split prod.split dest!: ensureSigner_fields(1) intro!: moved)
  next
    case (R_signer b)
    with True facts connect_refresh [of "fst s"] show ?thesis
      by (cases b) (auto simp: resume_reconnect_def Let_def split: settled_value.split sum.split prod.split
          dest!: ensureSigner_fields(2) intro!: moved)
  qed (use True facts in \<open>auto simp: resume_reconnect_def Let_def split: option.split sum.split intro!: moved\<close>)
qed (simp add: resume_reconnect_def refresh_once_def)

section \<open>Properties\<close>

text \<open>one step of a reachable client moves a call of \<open>#reconnect\<close> into replacing the guest identity only if the client runs on
  an automatic guest identity and none was replaced since it last connected; it then remembers that, and only a successful
  connection, which is announced, makes it forget.\<close>

lemma guest_refresh_once:
  assumes "reachable s"
  shows "(\<forall>r < length (tl_reconnects (fst s)). refreshing (rt_pc (tl_reconnects (fst (step env x s)) ! r)) \<longrightarrow>
      refreshing (rt_pc (tl_reconnects (fst s) ! r)) \<or>
      tl_guestMode (fst s) \<and> \<not> tl_guestRefreshAttempted (fst s) \<and> tl_guestRefreshAttempted (fst (step env x s))) \<and>
    (tl_guestRefreshAttempted (fst s) \<and> \<not> tl_guestRefreshAttempted (fst (step env x s)) \<longrightarrow>
      (\<exists>i st os. x = I_open i \<and> trace (fst (step env x s)) = trace (fst s) @ os \<and> O_emit (E_connected st) \<in> set os))"
proof -
  have id: "idle s" by (rule good_idle [OF reachable_sound [OF assms]])
  consider i where "x = I_open i" | r v where "x = I_resumeReconnect r v"
    | "\<And>i. x \<noteq> I_open i" "\<And>r v. x \<noteq> I_resumeReconnect r v"
    by blast
  then show ?thesis
  proof cases
    case (1 i)
    then show ?thesis using refresh_open [OF id, of env i] by (auto simp: nth_append)
  next
    case (2 r v)
    then show ?thesis
      using resume_reconnect_once [OF id, of env r v] by (auto simp: refresh_once_def no_new_refresh_def)
  next
    case 3
    from same_refresh_none [OF same_refresh_step [OF id 3]] show ?thesis by (auto simp: no_new_refresh_def)
  qed
qed

lemma guest_refresh_once_witness:
  "\<not> (tl_guestRefreshAttempted (fst connected_client) \<and>
      \<not> tl_guestRefreshAttempted (fst (step example_env I_heartbeat connected_client)))"
  using guest_refresh_once [OF connected_client_fields(1), of example_env I_heartbeat] by auto

text \<open>C28: while \<open>#reconnect\<close> replaces a refused guest identity, a \<open>connect()\<close> of the application joins the bootstrap that belongs to the
  generation it has just superseded; when that bootstrap succeeds its result is thrown away and the application's \<open>connect()\<close> is
  rejected with "connection cancelled", although nothing was cancelled.\<close>

theorem connect_during_refresh_fails:
  fixes c :: client
  assumes r: "r < length (tl_reconnects c)" "tl_reconnects c ! r = \<lparr>rt_generation = generation c, rt_pc = R_connect p\<rparr>"
    and e: "promise_outcome p c = Some (Inl e)" "isHandshakeRejected e"
    and c: "\<not> closing c" "\<not> tl_connected c" "connecting c = None" "tl_guestMode c" "\<not> tl_guestRefreshAttempted c"
  shows "let t = length (tl_tasks c); g = length (tl_guests c);
      c' = fst (run env [I_resumeReconnect r V_none, I_connect, I_guest g (Inr identity), I_resume t V_none] (c, d))
    in \<not> closing c' \<and> connecting c' = Some t \<and> ct_pc (tl_tasks c' ! t) = C_done (Inl cancelled) False"
proof -
  let ?g = "length (tl_guests c)"
  define c1 where "c1 = set_rpc r (R_session (Some ?g)) (c\<lparr>tl_guestRefreshAttempted := True,
    tl_options := (tl_options c)\<lparr>ro_cookie := []\<rparr>, tl_signer := None, tl_guestMode := True,
    tl_guests := tl_guests c @ [\<lparr>gs_generation = generation c, gs_outcome = None\<rparr>], tl_guestSession := Some ?g\<rparr>)"
  have 1: "step env (I_resumeReconnect r V_none) (c, d) = (c1, d)"
    using r e c by (simp add: resume_reconnect_def Let_def reconnect_failed_def current_def refreshGuestSession_def
        ensureSession_def c1_def)
  have f: "\<not> tl_connected c1" "connecting c1 = None" "generation c1 = generation c" "tl_tasks c1 = tl_tasks c"
    "ro_cookie (tl_options c1) = []" "tl_guestSession c1 = Some ?g" "tl_guests c1 = tl_guests c @ [\<lparr>gs_generation = generation c, gs_outcome = None\<rparr>]"
    using c by (simp_all add: c1_def set_rpc_def)
  show ?thesis
    unfolding Let_def run_simps 1
    using f by (simp add: tl_calls_def connect_def ensureSession_def Let_def guest_settled_def checkGeneration_def resume_connect_def
        session_outcome_def finish_def set_pc_def nth_append)
qed

theorem connect_during_refresh_fails_witness:
  "ct_pc (tl_tasks (fst (run example_env [I_resumeReconnect 0 V_none, I_connect,
      I_guest 0 (Inr \<lparr>si_cookie = ''ttwid=1'', si_authenticated = False, si_deviceId = None\<rparr>), I_resume 1 V_none]
     ((fst example_client)\<lparr>generation := 1, tl_guestMode := True,
        tl_tasks := [\<lparr>ct_generation = 1, ct_pc = C_done (Inl (handshake_refused [] 1006)) True\<rparr>],
        tl_reconnects := [\<lparr>rt_generation = 1, rt_pc = R_connect (Task 0)\<rparr>]\<rparr>, snd example_client))) ! 1) = C_done (Inl cancelled) False"
proof -
  let ?c = "(fst example_client)\<lparr>generation := 1, tl_guestMode := True,
        tl_tasks := [\<lparr>ct_generation = 1, ct_pc = C_done (Inl (handshake_refused [] 1006)) True\<rparr>],
        tl_reconnects := [\<lparr>rt_generation = 1, rt_pc = R_connect (Task 0)\<rparr>]\<rparr>"
  have "tl_guests (fst example_client) = []" "\<not> tl_guestRefreshAttempted (fst example_client)" by code_simp+
  moreover have "isHandshakeRejected (handshake_refused [] 1006)" by (simp add: handshake_refused_def)
  moreover have "promise_outcome (Task 0) ?c = Some (Inl (handshake_refused [] 1006))" by (simp add: promise_outcome_def)
  ultimately show ?thesis
    using connect_during_refresh_fails [of 0 ?c "Task 0" "handshake_refused [] 1006" example_env
        "\<lparr>si_cookie = ''ttwid=1'', si_authenticated = False, si_deviceId = None\<rparr>" "snd example_client"] example_fields
    by (simp add: Let_def)
qed

end
