(* ===== verification/Connection_Spec.thy ===== *)
theory Connection_Spec
  imports Client_Core
begin

text \<open>
  An abstract specification of a connection, which both clients implement: what may be seen of a client from outside, by
  its listeners and by the network, as a small machine over the effects of theory \<open>Client_Core\<close>. It knows how many sockets were made and in which
  phase the current one is. A client refines it when its trace is one of the machine's, ending in the phase its fields describe
  (\<open>refines\<close>). The locale \<open>connection\<close> draws the consequences once: when listeners are told of a connection and of its
  loss, and where frames go.
\<close>

section \<open>The machine\<close>

text \<open>There is no socket, or it is waiting to open, or it will not open any more, or it has joined the room.\<close>

datatype phase = No_socket | Opening nat | Shut nat | Joined nat

record conn =
  made :: nat
  phase :: phase

definition conn_start :: conn where
  "conn_start = \<lparr>made = 0, phase = No_socket\<rparr>"

fun phase_socket :: "phase \<Rightarrow> nat option" where
  "phase_socket No_socket = None"
| "phase_socket (Opening i) = Some i"
| "phase_socket (Shut i) = Some i"
| "phase_socket (Joined i) = Some i"

text \<open>What the machine does unseen: a socket that has not joined is given up.\<close>

inductive conn_silent :: "phase \<Rightarrow> phase \<Rightarrow> bool" where
  "conn_silent (Opening i) (Shut i)"
| "conn_silent (Shut i) No_socket"

text \<open>What it does to the outside. A new socket becomes the current one unless a joined one is, or is refused. A frame goes to the current
  socket. Closing a joined socket ends the connection; closing one that is opening gives it up; other sockets may be closed
  at any time. Listeners are told of a connection when the socket that was opening joins, and of its loss when a joined
  one is gone; any other emission is always allowed.\<close>

inductive conn_effect :: "conn \<Rightarrow> effect \<Rightarrow> conn \<Rightarrow> bool" where
  adopted: "(\<forall>j. phase m \<noteq> Joined j) \<Longrightarrow> conn_effect m (O_new url hs) \<lparr>made = Suc (made m), phase = Opening (made m)\<rparr>"
| refused: "conn_effect m (O_new url hs) (m\<lparr>made := Suc (made m)\<rparr>)"
| sent: "phase_socket (phase m) = Some i \<Longrightarrow> conn_effect m (O_send i frame) m"
| closed: "phase m = Joined i \<Longrightarrow> conn_effect m (O_close i) (m\<lparr>phase := No_socket\<rparr>)"
| given_up: "phase m = Opening i \<or> phase m = Shut i \<Longrightarrow> conn_effect m (O_close i) (m\<lparr>phase := Shut i\<rparr>)"
| other_closed: "phase_socket (phase m) \<noteq> Some i \<Longrightarrow> conn_effect m (O_close i) m"
| terminated: "phase m = Shut i \<Longrightarrow> conn_effect m (O_terminate i) (m\<lparr>phase := No_socket\<rparr>)"
| other_terminated: "i < made m \<Longrightarrow> phase_socket (phase m) \<noteq> Some i \<Longrightarrow> conn_effect m (O_terminate i) m"
| aborted: "conn_effect m (O_abort g) m"
| connected: "phase m = Opening i \<Longrightarrow> conn_effect m (O_emit (E_connected info)) (m\<lparr>phase := Joined i\<rparr>)"
| disconnected: "phase m = Joined i \<Longrightarrow> conn_effect m (O_emit (E_disconnected closeCode reason)) (m\<lparr>phase := No_socket\<rparr>)"
| emitted: "\<not> lifecycle em \<Longrightarrow> conn_effect m (O_emit em) m"

inductive conn_run :: "conn \<Rightarrow> effect list \<Rightarrow> conn \<Rightarrow> bool" where
  started: "conn_run m [] m"
| unseen: "conn_run m os m' \<Longrightarrow> conn_silent (phase m') p \<Longrightarrow> conn_run m os (m'\<lparr>phase := p\<rparr>)"
| seen: "conn_run m os m' \<Longrightarrow> conn_effect m' ef m'' \<Longrightarrow> conn_run m (os @ [ef]) m''"

inductive_simps conn_effect_simps:
  "conn_effect m (O_new url hs) m'" "conn_effect m (O_send i frame) m'" "conn_effect m (O_close i) m'"
  "conn_effect m (O_terminate i) m'" "conn_effect m (O_abort g) m'" "conn_effect m (O_emit em) m'"

section \<open>Consequences\<close>

lemma conn_run_wf: "conn_run conn_start os m \<Longrightarrow> (\<forall>i. phase_socket (phase m) = Some i \<longrightarrow> i < made m)"
proof (induction conn_start os m rule: conn_run.induct)
  case (unseen os m' p)
  then show ?case by (auto elim!: conn_silent.cases)
next
  case (seen os m' ef m'')
  then show ?case by (auto elim!: conn_effect.cases split: if_splits)
qed (simp add: conn_start_def)

fun is_new :: "effect \<Rightarrow> bool" where
  "is_new (O_new url hs) = True"
| "is_new _ = False"

lemma conn_run_made: "conn_run m os m' \<Longrightarrow> made m' = made m + length (filter is_new os)"
proof (induction rule: conn_run.induct)
  case (seen m os m' ef m'')
  from seen(2) have "made m'' = made m' + (if is_new ef then 1 else 0)" by cases simp_all
  with seen.IH show ?case by simp
qed simp_all

lemma conn_run_split:
  assumes "conn_run m os m''" and "os = xs @ ef # ys"
  shows "\<exists>m1 m2. conn_run m xs m1 \<and> conn_effect m1 ef m2 \<and> conn_run m2 ys m''"
  using assms
proof (induction arbitrary: ys rule: conn_run.induct)
  case (unseen m os m' p)
  from unseen.IH [OF unseen.prems] unseen(2) show ?case by (blast intro: conn_run.unseen)
next
  case (seen m os m' ef' m'')
  show ?case
  proof (cases ys rule: rev_cases)
    case Nil
    with seen.prems have "os = xs" "ef' = ef" by simp_all
    with seen(1,2) show ?thesis using Nil conn_run.started by blast
  next
    case (snoc zs y)
    with seen.prems have "os = xs @ ef # zs" "ef' = y" by simp_all
    with seen.IH [of zs] seen(2) snoc show ?thesis by (blast intro: conn_run.seen)
  qed
qed simp

text \<open>Since the socket joined, listeners have not been told anything else of the connection, and it has not been closed.\<close>

definition telling :: "effect \<Rightarrow> bool" where
  "telling ef \<longleftrightarrow> (\<exists>em. ef = O_emit em \<and> lifecycle em)"

lemma joined_told:
  "conn_run conn_start os m \<Longrightarrow> phase m = Joined i \<Longrightarrow>
   \<exists>before info after. os = before @ O_emit (E_connected info) # after \<and> (\<forall>ef \<in> set after. \<not> telling ef \<and> ef \<noteq> O_close i)"
proof (induction conn_start os m arbitrary: i rule: conn_run.induct)
  case (unseen os m' p)
  then show ?case by (auto elim: conn_silent.cases)
next
  case (seen os m' ef m'')
  show ?case
  proof (cases "phase m' = Joined i \<and> \<not> telling ef \<and> ef \<noteq> O_close i")
    case True
    with seen.hyps(2) obtain before info after where "os = before @ O_emit (E_connected info) # after"
      "\<forall>ef \<in> set after. \<not> telling ef \<and> ef \<noteq> O_close i" by blast
    with True show ?thesis by (intro exI [of _ before] exI [of _ info] exI [of _ "after @ [ef]"]) auto
  next
    case False
    with seen.hyps(3) seen.prems obtain info where "ef = O_emit (E_connected info)"
      by cases (auto simp: telling_def)
    then show ?thesis by (intro exI [of _ os] exI [of _ info] exI [of _ "[]"]) simp
  qed
qed (simp add: conn_start_def)

text \<open>A joined socket stays joined until it is closed or its loss is told.\<close>

definition ending :: "effect \<Rightarrow> bool" where
  "ending ef \<longleftrightarrow> (\<exists>i. ef = O_close i) \<or> (\<exists>closeCode reason. ef = O_emit (E_disconnected closeCode reason))"

lemma conn_run_stays:
  "conn_run m os m' \<Longrightarrow> phase m = Joined i \<Longrightarrow> \<forall>ef \<in> set os. \<not> ending ef \<Longrightarrow> phase m' = Joined i"
proof (induction rule: conn_run.induct)
  case (unseen m os m' p)
  then show ?case by (auto elim: conn_silent.cases)
next
  case (seen m os m' ef m'')
  then have "phase m' = Joined i" "\<not> ending ef" by simp_all
  with seen(2) show ?case by cases (auto simp: ending_def)
qed simp

text \<open>A socket that is past is never current again.\<close>

definition past :: "nat \<Rightarrow> conn \<Rightarrow> bool" where
  "past i m \<longleftrightarrow> i < made m \<and> phase_socket (phase m) \<noteq> Some i"

lemma conn_run_past: "conn_run m os m' \<Longrightarrow> past i m \<Longrightarrow> past i m'"
proof (induction rule: conn_run.induct)
  case (unseen m os m' p)
  then have "past i m'" by simp
  with unseen(2) show ?case by cases (simp_all add: past_def)
next
  case (seen m os m' ef m'')
  then have "past i m'" by simp
  with seen(2) show ?case by cases (auto simp: past_def)
qed

section \<open>Refinement\<close>

text \<open>The phase a client's fields describe; \<open>joined\<close> says whether a class counts its current socket as open.\<close>

definition phase_of :: "('z core_scheme \<Rightarrow> bool) \<Rightarrow> 'z core_scheme \<Rightarrow> phase" where
  "phase_of joined c = (case socket c of
       None \<Rightarrow> No_socket
     | Some i \<Rightarrow> if joined c then Joined i else if sk_settled (sock_of i c) then Shut i else Opening i)"

definition view :: "('z core_scheme \<Rightarrow> bool) \<Rightarrow> 'z core_scheme \<Rightarrow> conn" where
  "view joined c = \<lparr>made = length (sockets c), phase = phase_of joined c\<rparr>"

definition refines :: "('z core_scheme \<Rightarrow> bool) \<Rightarrow> 'z core_scheme \<Rightarrow> bool" where
  "refines joined c \<longleftrightarrow> conn_run conn_start (trace c) (view joined c)"

text \<open>A client that refines the machine.\<close>

locale connection =
  fixes reach :: "'z sys \<Rightarrow> bool"
    and joined :: "'z core_scheme \<Rightarrow> bool"
  assumes reach_refines: "reach s \<Longrightarrow> refines joined (fst s)"
begin

lemma loss_after_connection:
  assumes "reach s" and "trace (fst s) = pre @ O_emit (E_disconnected closeCode reason) # post"
  shows "\<exists>before info after. pre = before @ O_emit (E_connected info) # after \<and> (\<forall>ef \<in> set after. \<not> telling ef)"
proof -
  from conn_run_split [OF reach_refines [OF assms(1), unfolded refines_def] assms(2)] obtain m1 m2 where
    "conn_run conn_start pre m1" "conn_effect m1 (O_emit (E_disconnected closeCode reason)) m2" by blast
  moreover from this(2) obtain i where "phase m1 = Joined i" by (auto simp: conn_effect_simps)
  ultimately show ?thesis using joined_told by blast
qed

lemma connected_again:
  assumes "reach s" and "trace (fst s) = pre @ O_emit (E_connected info) # mid @ O_emit (E_connected info') # post"
  shows "\<exists>ef \<in> set mid. ending ef"
proof (rule ccontr)
  assume no: "\<not> (\<exists>ef \<in> set mid. ending ef)"
  from conn_run_split [OF reach_refines [OF assms(1), unfolded refines_def] assms(2)] obtain m1 m2 m3 where
    r: "conn_effect m1 (O_emit (E_connected info)) m2" "conn_run m2 (mid @ O_emit (E_connected info') # post) m3" by blast
  from conn_run_split [OF r(2) refl] obtain m4 m5 where
    q: "conn_run m2 mid m4" "conn_effect m4 (O_emit (E_connected info')) m5" by blast
  from r(1) obtain i where "phase m2 = Joined i" by (auto simp: conn_effect_simps)
  from conn_run_stays [OF q(1) this] no q(2) show False by (auto simp: conn_effect_simps)
qed

lemma sent_to_made:
  assumes "reach s" and "trace (fst s) = pre @ O_send i frame # post"
  shows "i < length (filter is_new pre) \<and> O_terminate i \<notin> set pre"
proof -
  from conn_run_split [OF reach_refines [OF assms(1), unfolded refines_def] assms(2)] obtain m1 m2 where
    m1: "conn_run conn_start pre m1" "conn_effect m1 (O_send i frame) m2" by blast
  then have current: "phase_socket (phase m1) = Some i" by (auto simp: conn_effect_simps)
  have "O_terminate i \<notin> set pre"
  proof
    assume "O_terminate i \<in> set pre"
    then obtain xs ys where "pre = xs @ O_terminate i # ys" by (auto simp: in_set_conv_decomp)
    from conn_run_split [OF m1(1) this] obtain a b where
      a: "conn_run conn_start xs a" "conn_effect a (O_terminate i) b" "conn_run b ys m1" by blast
    have "past i b" using a(2) conn_run_wf [OF a(1)] by (auto simp: conn_effect_simps past_def)
    from conn_run_past [OF a(3) this] current show False by (simp add: past_def)
  qed
  moreover have "i < length (filter is_new pre)"
    using conn_run_wf [OF m1(1)] current conn_run_made [OF m1(1)] by (simp add: conn_start_def)
  ultimately show ?thesis by simp
qed

end

section \<open>What the operations of a client do to the phase\<close>

lemma refines_same:
  assumes "refines joined c" "trace c' = trace c" "socket c' = socket c" "sockets c' = sockets c" "joined c' = joined c"
  shows "refines joined c'"
proof -
  have "view joined c' = view joined c" using assms by (simp add: view_def phase_of_def sock_of_def split: option.split)
  with assms show ?thesis by (simp add: refines_def)
qed

lemma view_fields [simp]: "made (view joined c) = length (sockets c)" "phase (view joined c) = phase_of joined c"
  by (simp_all add: view_def)

lemma phase_of_socket [simp]: "phase_socket (phase_of joined c) = socket c"
  by (simp add: phase_of_def split: option.split)

lemma refines_socket: "refines joined c \<Longrightarrow> socket c = Some i \<Longrightarrow> i < length (sockets c)"
  using conn_run_wf [of "trace c" "view joined c"] by (simp add: refines_def)

lemma refines_seen:
  "refines joined c \<Longrightarrow> conn_effect (view joined c) ef (view joined c') \<Longrightarrow> trace c' = trace c @ [ef] \<Longrightarrow> refines joined c'"
  by (simp add: refines_def conn_run.seen)

text \<open>A socket that has not joined is dropped.\<close>

lemma refines_dropped:
  assumes "refines joined c" "\<not> joined c \<or> socket c = None" "socket c' = None" "length (sockets c') = length (sockets c)" "trace c' = trace c"
  shows "refines joined c'"
proof (cases "socket c")
  case None
  then have "view joined c' = view joined c" using assms by (simp add: view_def phase_of_def)
  with assms show ?thesis by (simp add: refines_def)
next
  case (Some i)
  let ?shut = "\<lparr>made = length (sockets c), phase = Shut i\<rparr>"
  have v: "view joined c = \<lparr>made = length (sockets c), phase = Opening i\<rparr> \<or> view joined c = ?shut"
    using Some assms(2) by (simp add: view_def phase_of_def)
  have "conn_run conn_start (trace c) ?shut"
    using v assms(1) conn_run.unseen [of conn_start "trace c" "\<lparr>made = length (sockets c), phase = Opening i\<rparr>" "Shut i"]
    by (auto simp: refines_def conn_silent.intros)
  from conn_run.unseen [OF this, of No_socket] show ?thesis
    using assms(3-5) by (simp add: refines_def view_def phase_of_def conn_silent.intros)
qed

text \<open>\<open>disconnect()\<close>.\<close>

lemma refines_disconnected_effects:
  assumes "refines joined c" "socket c' = None" "length (sockets c') = length (sockets c)" "trace c' = trace c @ disconnect_effects c"
  shows "refines joined c'"
proof -
  define os where "os = (case connectAbort c of None \<Rightarrow> [] | Some g \<Rightarrow> [O_abort g])"
  have v': "view joined c' = \<lparr>made = length (sockets c), phase = No_socket\<rparr>" using assms(2,3) by (simp add: view_def phase_of_def)
  have run: "conn_run conn_start (trace c @ os) (view joined c)"
    using assms(1) conn_run.seen [of conn_start "trace c" "view joined c"] by (auto simp: refines_def os_def conn_effect.aborted split: option.split)
  show ?thesis
  proof (cases "socket c")
    case None
    then have "view joined c = \<lparr>made = length (sockets c), phase = No_socket\<rparr>" by (simp add: view_def phase_of_def)
    with run v' None assms(4) show ?thesis by (simp add: refines_def disconnect_effects_def os_def)
  next
    case (Some i)
    define m where "m = \<lparr>made = length (sockets c), phase = (if joined c then No_socket else Shut i)\<rparr>"
    have "conn_effect (view joined c) (O_close i) m"
      using Some by (auto simp: conn_effect_simps m_def view_def phase_of_def)
    from conn_run.seen [OF run this] have "conn_run conn_start (trace c @ os @ [O_close i]) m" by simp
    moreover have "conn_effect m (O_terminate i) (view joined c')"
      using refines_socket [OF assms(1) Some] by (auto simp: conn_effect_simps m_def v')
    ultimately have "conn_run conn_start ((trace c @ os @ [O_close i]) @ [O_terminate i]) (view joined c')"
      by (rule conn_run.seen)
    with Some assms(4) show ?thesis by (simp add: refines_def disconnect_effects_def os_def)
  qed
qed

text \<open>A class whose \<open>joined\<close> is read off its own fields.\<close>

locale connection_fields =
  fixes joined :: "'z core_scheme \<Rightarrow> bool"
  assumes joined_more: "core.more c' = core.more c \<Longrightarrow> joined c' = joined c"
begin

lemma joined_frame [simp]:
  "joined (note_out os c) = joined c" "joined (upd_sock i f c) = joined c" "joined (add_socket g url hs room c) = joined c"
  by (rule joined_more; simp add: note_out_def upd_sock_def add_socket_def)+

lemma view_note [simp]: "view joined (note_out os c) = view joined c"
  by (simp add: view_def phase_of_def sock_of_def split: option.split)

lemma refines_noted: "refines joined c \<Longrightarrow> conn_effect (view joined c) ef (view joined c) \<Longrightarrow> refines joined (note_out [ef] c)"
  by (erule refines_seen [where ef = ef]) simp_all

lemma refines_emit: "refines joined c \<Longrightarrow> \<not> lifecycle em \<Longrightarrow> refines joined (note_out [O_emit em] c)"
  by (simp add: refines_noted conn_effect.emitted)

lemma refines_send: "refines joined c \<Longrightarrow> socket c = Some i \<Longrightarrow> refines joined (note_out [O_send i data] c)"
  by (simp add: refines_noted conn_effect.sent)

lemma refines_settled:
  assumes "refines joined c" and "\<And>k. sk_settled k \<Longrightarrow> sk_settled (f k)"
  shows "refines joined (upd_sock i f c)"
proof (cases "socket c = Some i \<and> \<not> joined c \<and> \<not> sk_settled (sock_of i c) \<and> sk_settled (f (sock_of i c))")
  case True
  then have v: "phase (view joined c) = Opening i" by (simp add: phase_of_def)
  have "view joined (upd_sock i f c) = (view joined c)\<lparr>phase := Shut i\<rparr>"
    using True refines_socket [OF assms(1)] by (simp add: view_def phase_of_def sock_of_def upd_sock_def joined_frame(2) [unfolded upd_sock_def])
  with conn_run.unseen [of conn_start "trace c" "view joined c" "Shut i"] v assms(1) show ?thesis
    by (simp add: refines_def conn_silent.intros)
next
  case False
  then have "view joined (upd_sock i f c) = view joined c"
    using assms(2) refines_socket [OF assms(1)]
    by (auto simp: view_def phase_of_def sock_of_def upd_sock_def joined_frame(2) [unfolded upd_sock_def] nth_update_if split: option.split)
  with assms(1) show ?thesis by (simp add: refines_def)
qed

lemma refines_closed:
  assumes "refines joined c" and "\<And>k. sk_settled (f k)" and "socket c = Some i \<Longrightarrow> \<not> joined c"
  shows "refines joined (note_out [O_close i] (upd_sock i f c))"
proof -
  have "refines joined (upd_sock i f c)" using assms(1,2) by (intro refines_settled) simp_all
  moreover have "conn_effect (view joined (upd_sock i f c)) (O_close i) (view joined (upd_sock i f c))"
  proof (cases "socket c = Some i")
    case True
    with assms refines_socket [OF assms(1)] have "phase_of joined (upd_sock i f c) = Shut i"
      by (simp add: phase_of_def sock_of_def upd_sock_def joined_frame(2) [unfolded upd_sock_def])
    then show ?thesis by (simp add: conn_effect_simps view_def)
  qed (simp add: conn_effect_simps)
  ultimately show ?thesis by (rule refines_noted)
qed

lemma sock_of_added [simp]: "i < length (sockets c) \<Longrightarrow> sock_of i (add_socket g url hs room c) = sock_of i c"
  by (simp add: sock_of_def add_socket_def nth_append)

lemma added_fields [simp]:
  "socket (add_socket g url hs room c) = socket c" "trace (add_socket g url hs room c) = trace c @ [O_new url hs]"
  "length (sockets (add_socket g url hs room c)) = Suc (length (sockets c))"
  by (simp_all add: add_socket_def)

lemma refines_refused:
  assumes "refines joined c"
  shows "refines joined (add_socket g url hs room c)"
proof (rule refines_seen [OF assms])
  have "phase_of joined (add_socket g url hs room c) = phase_of joined c"
    using refines_socket [OF assms] by (simp add: phase_of_def split: option.split)
  then show "conn_effect (view joined c) (O_new url hs) (view joined (add_socket g url hs room c))"
    using conn_effect.refused [of "view joined c" url hs] by (simp add: view_def)
qed simp

text \<open>A new socket becomes the current one of a client that has not joined.\<close>

lemma refines_adopted:
  assumes "refines joined c" and "\<not> joined c" and "\<not> joined c'" and "trace c' = trace c @ [O_new url hs]"
    and "sockets c' = sockets (add_socket g url hs room c)" and "socket c' = Some (length (sockets c))"
  shows "refines joined c'"
proof (rule refines_seen [OF assms(1) _ assms(4)])
  have "phase_of joined c' = Opening (length (sockets c))"
    using assms(3,5,6) by (simp add: phase_of_def sock_of_def add_socket_def nth_append)
  moreover have "phase_of joined c \<noteq> Joined j" for j using assms(2) by (simp add: phase_of_def split: option.split)
  ultimately show "conn_effect (view joined c) (O_new url hs) (view joined c')"
    using conn_effect.adopted [of "view joined c" url hs] assms(5) by (simp add: view_def add_socket_def)
qed

text \<open>The current socket joins; a joined socket is lost.\<close>

lemma refines_joins:
  assumes "refines joined c" and "socket c = Some i" and "\<not> joined c" and "\<not> sk_settled (sock_of i c)" and "joined c'"
    and "socket c' = Some i" and "length (sockets c') = length (sockets c)" and "trace c' = trace c"
  shows "refines joined (note_out [O_emit (E_connected info)] c')"
proof (rule refines_seen [OF assms(1)])
  show "conn_effect (view joined c) (O_emit (E_connected info)) (view joined (note_out [O_emit (E_connected info)] c'))"
    using assms(2-7) by (simp add: conn_effect_simps view_def phase_of_def)
qed (simp add: assms(8))

lemma refines_loses:
  assumes "refines joined c" and "socket c = Some i" and "joined c" and "socket c' = None"
    and "length (sockets c') = length (sockets c)" and "trace c' = trace c"
  shows "refines joined (note_out [O_emit (E_disconnected closeCode reason)] c')"
proof (rule refines_seen [OF assms(1)])
  show "conn_effect (view joined c) (O_emit (E_disconnected closeCode reason))
      (view joined (note_out [O_emit (E_disconnected closeCode reason)] c'))"
    using assms(2-5) by (simp add: conn_effect_simps view_def phase_of_def)
qed (simp add: assms(6))

end

text \<open>Between two steps the current socket, once opened, has joined.\<close>

definition conn_ok :: "('z core_scheme \<Rightarrow> bool) \<Rightarrow> 'z core_scheme \<Rightarrow> bool" where
  "conn_ok joined c \<longleftrightarrow> refines joined c \<and> (\<forall>i. socket c = Some i \<longrightarrow> sk_opened (sock_of i c) \<longrightarrow> joined c)"

lemma conn_ok_same:
  assumes "conn_ok joined c" "trace c' = trace c" "socket c' = socket c" "sockets c' = sockets c" "joined c' = joined c"
  shows "conn_ok joined c'"
  using assms refines_same [of joined c c'] by (simp add: conn_ok_def sock_of_def)

lemma conn_ok_dropped:
  assumes "refines joined c" "\<not> joined c \<or> socket c = None" "socket c' = None" "length (sockets c') = length (sockets c)" "trace c' = trace c"
  shows "conn_ok joined c'"
  using refines_dropped [OF assms] assms(3) by (simp add: conn_ok_def)

lemma conn_ok_disconnected:
  assumes "refines joined c" "socket c' = None" "length (sockets c') = length (sockets c)" "trace c' = trace c @ disconnect_effects c"
  shows "conn_ok joined c'"
  using refines_disconnected_effects [OF assms] assms(2) by (simp add: conn_ok_def)

context connection_fields
begin

lemma conn_ok_note: "conn_ok joined c \<Longrightarrow> refines joined (note_out os c) \<Longrightarrow> conn_ok joined (note_out os c)"
  by (simp add: conn_ok_def sock_of_def)

lemma conn_ok_settled:
  assumes "conn_ok joined c" and "\<And>k. sk_settled k \<Longrightarrow> sk_settled (f k)" and "\<And>k. sk_opened (f k) \<Longrightarrow> sk_opened k"
  shows "conn_ok joined (upd_sock i f c)"
  using assms refines_settled [of c f i] refines_socket [of joined c]
  by (auto simp: conn_ok_def sock_of_def upd_sock_def nth_update_if joined_frame(2) [unfolded upd_sock_def] split: if_splits)

lemma conn_ok_closed:
  assumes "conn_ok joined c" and "\<And>k. sk_settled (f k)" and "\<And>k. sk_opened (f k) \<Longrightarrow> sk_opened k" and "socket c = Some i \<Longrightarrow> \<not> joined c"
  shows "conn_ok joined (note_out [O_close i] (upd_sock i f c))"
  using conn_ok_settled [OF assms(1), of f i] refines_closed [of c f i] assms by (intro conn_ok_note) (auto simp: conn_ok_def)

text \<open>A new socket of a client that has moved on is closed at once; otherwise it becomes the current one.\<close>

lemma conn_ok_refused:
  assumes "conn_ok joined c" and "\<And>k. sk_settled (f k)" and "\<And>k. sk_opened (f k) \<Longrightarrow> sk_opened k"
  shows "conn_ok joined (note_out [O_close (length (sockets c))] (upd_sock (length (sockets c)) f (add_socket g url hs room c)))"
proof (rule conn_ok_closed)
  show "conn_ok joined (add_socket g url hs room c)"
    using assms(1) refines_refused [of c] refines_socket [of joined c] by (auto simp: conn_ok_def)
  show "\<not> joined (add_socket g url hs room c)" if "socket (add_socket g url hs room c) = Some (length (sockets c))"
    using that refines_socket [of joined c] assms(1) by (auto simp: conn_ok_def)
qed (use assms in simp_all)

lemma conn_ok_adopted:
  assumes "conn_ok joined c" and "\<not> joined c" and "\<not> joined c'" and "trace c' = trace c @ [O_new url hs]"
    and "sockets c' = sockets (add_socket g url hs room c)" and "socket c' = Some (length (sockets c))"
  shows "conn_ok joined c'"
  using refines_adopted [OF _ assms(2-6)] assms by (simp add: conn_ok_def sock_of_def add_socket_def nth_append)

text \<open>A current socket that closes is dropped if it had not joined, and its loss is told if it had.\<close>

lemma conn_ok_lost:
  assumes "conn_ok joined c" and "socket c = Some i" and "joined c" and "socket c' = None"
    and "length (sockets c') = length (sockets c)" and "trace c' = trace c"
  shows "conn_ok joined (note_out [O_emit (E_disconnected closeCode reason)] c')"
  using refines_loses [OF _ assms(2-6)] assms(1,4) by (simp add: conn_ok_def)

end

end
