(* ===== verification/Client_Refinement.thy ===== *)
theory Client_Refinement
  imports Client_Invariants Connection_Spec
begin

text \<open>
  \<open>tiktok-live/src/client.ts\<close> refines the connection of theory \<open>Connection_Spec\<close>: every input, with anything listeners, the signer or the socket constructor
  do meanwhile, takes the client along steps of the abstract machine.
\<close>

interpretation tl_conn: connection_fields "tl_connected :: client \<Rightarrow> bool"
proof
  show "tl_connected c' = tl_connected c" if "core.more c' = core.more c" for c c' :: client
    using that by (cases c; cases c') simp
qed

section \<open>Operations that do not concern the socket\<close>

definition same_view :: "client \<Rightarrow> client \<Rightarrow> bool" where
  "same_view c c' \<longleftrightarrow> trace c' = trace c \<and> socket c' = socket c \<and> sockets c' = sockets c \<and> tl_connected c' = tl_connected c"

lemma same_view_ok: "conn_ok tl_connected c \<Longrightarrow> same_view c c' \<Longrightarrow> conn_ok tl_connected c'"
  unfolding same_view_def using conn_ok_same by blast

lemma same_view_refl [simp]: "same_view c c"
  by (simp add: same_view_def)

lemma same_view_pc [simp]:
  "same_view c (set_pc t pc c') = same_view c c'" "same_view c (finish t r c') = same_view c c'" "same_view c (set_rpc r' rpc c') = same_view c c'"
  by (simp_all add: same_view_def set_pc_def finish_def set_rpc_def)

lemma same_view_fields [simp]:
  "same_view c (c'\<lparr>tl_roomId := r, tl_nickname := n\<rparr>) = same_view c c'" "same_view c (c'\<lparr>tl_roomInfo := i\<rparr>) = same_view c c'"
  "same_view c (c'\<lparr>gifts := table\<rparr>) = same_view c c'" "same_view c (c'\<lparr>attempt := a\<rparr>) = same_view c c'"
  "same_view c (c'\<lparr>reconnectTimer := tm\<rparr>) = same_view c c'" "same_view c (c'\<lparr>connecting := t'\<rparr>) = same_view c c'"
  "same_view c (c'\<lparr>tl_reconnects := rs\<rparr>) = same_view c c'" "same_view c (startHeartbeat ms c') = same_view c c'"
  by (simp_all add: same_view_def startHeartbeat_def stopHeartbeat_def)

lemma ensureSigner_view: "ensureSigner g c = (r, c') \<Longrightarrow> same_view c c'"
  by (auto simp: ensureSigner_def same_view_def split: if_splits)

lemma signer_created_view: "signer_created g x c = (r, c') \<Longrightarrow> same_view c c'"
  by (auto simp: signer_created_def same_view_def split: if_splits sum.splits)

lemma ensureSession_view: "ensureSession g c = (w, c') \<Longrightarrow> same_view c c'"
  by (auto simp: ensureSession_def same_view_def split: if_splits option.splits)

lemma same_view_trans: "same_view c c' \<Longrightarrow> same_view c' c'' \<Longrightarrow> same_view c c''"
  by (simp add: same_view_def)

lemma after_gifts_view: "same_view c c' \<Longrightarrow> same_view c (after_gifts t g c')"
  by (auto simp: after_gifts_def split: prod.split sum.split dest!: ensureSigner_view intro: same_view_trans)

lemma after_view:
  "same_view c c' \<Longrightarrow> same_view c (after_info t g c')" "same_view c c' \<Longrightarrow> same_view c (after_room t g c')"
  "same_view c c' \<Longrightarrow> same_view c (after_session t g c')" "same_view c c' \<Longrightarrow> same_view c (after_lookup h t g v c')"
  by (simp_all add: after_info_def after_room_def after_session_def after_lookup_def after_gifts_view)

lemma guest_settled_view: "same_view c (guest_settled p r c)"
  by (simp add: guest_settled_def same_view_def Let_def split: sum.split)

lemma connect_finally_view: "same_view c (connect_finally t c)"
  by (simp add: connect_finally_def split: conn_pc.split bool.split)

lemma connect_view: "same_view c (snd (connect c))"
proof (cases "tl_connected c \<or> connecting c \<noteq> None")
  case False
  then obtain w c2 where e: "ensureSession (generation c + 1)
      (c\<lparr>closing := False, reconnectTimer := None, connectAbort := Some (generation c + 1), generation := generation c + 1\<rparr>) = (w, c2)"
    and c: "connect c = (Task (length (tl_tasks c)),
      c2\<lparr>tl_tasks := tl_tasks c @ [\<lparr>ct_generation = generation c + 1, ct_pc = C_session w\<rparr>], connecting := Some (length (tl_tasks c))\<rparr>)"
    using connect_new by blast
  from ensureSession_view [OF e] show ?thesis by (simp add: c same_view_def)
qed (simp add: connect_same)

section \<open>The public calls\<close>

lemma conn_ok_disconnect: "refines tl_connected c \<Longrightarrow> conn_ok tl_connected (disconnect c)"
  by (erule conn_ok_disconnected) (simp_all add: disconnect_alt run_cancelOpen_def split: option.split)

interpretation conn: guarded_calls tl_calls "conn_ok tl_connected"
proof
  show "closing (fst s)" if "closing (fst (call_connect tl_calls s))" for s by (rule calls.connect_closing [OF that])
  show "conn_ok tl_connected (fst (call_connect tl_calls s))" if "conn_ok tl_connected (fst s)" for s
    using same_view_ok [OF that connect_view] by (simp add: tl_calls_def)
  show "conn_ok tl_connected (fst (call_disconnect tl_calls s))" if "conn_ok tl_connected (fst s)" for s
    using that by (simp add: tl_calls_def conn_ok_def [of _ "fst s"] conn_ok_disconnect)
  show "conn_ok tl_connected (note_out [O_emit em] c)" if "conn_ok tl_connected c" "\<not> lifecycle em" for em and c :: client
    using that by (intro tl_conn.conn_ok_note tl_conn.refines_emit) (simp_all add: conn_ok_def)
  show "conn_ok tl_connected (note_out [O_send i data] c)" if "conn_ok tl_connected c" "socket c = Some i" for i data and c :: client
    using that by (intro tl_conn.conn_ok_note tl_conn.refines_send) (simp_all add: conn_ok_def)
  show "conn_ok tl_connected (count_listener_error c)" if "conn_ok tl_connected c" for c :: client
    using that by (rule same_view_ok) (simp add: same_view_def count_listener_error_def)
  show "conn_ok tl_connected (c\<lparr>writeBufferRejections := n, cancelOpen := None\<rparr>)" if "conn_ok tl_connected c" for n and c :: client
    using that by (rule same_view_ok) (simp add: same_view_def)
qed (simp_all add: tl_calls_def)

section \<open>Every input\<close>

lemma conn_sound_same:
  "conn.sound s \<Longrightarrow> same_view (fst s) (f (fst s)) \<Longrightarrow> closing (f (fst s)) = closing (fst s) \<Longrightarrow> conn.sound (on_core f s)"
  by (rule conn.sound_on_core) (auto dest: conn.sound_P intro: same_view_ok)

lemma conn_sound_refines: "conn.sound s \<Longrightarrow> refines tl_connected (fst s)"
  by (drule conn.sound_P) (simp add: conn_ok_def)

lemma conn_finish: "conn.sound s \<Longrightarrow> conn.sound (on_core (finish t r) s)"
  by (simp add: conn_sound_same)

lemma conn_set_rpc: "conn.sound s \<Longrightarrow> conn.sound (on_core (set_rpc r pc) s)"
  by (simp add: conn_sound_same)

lemma conn_plain_notify: "conn.sound s \<Longrightarrow> \<not> lifecycle em \<Longrightarrow> conn.sound (notify tl_calls env em s)"
  by (rule conn.notify_noted_sound) (rule conn.note_sound)

lemma conn_open_socket:
  assumes s: "conn.sound s" "calls.sound s" and t: "t < length (tl_tasks (fst s))" and fresh: "\<not> past_open (ct_pc (tl_tasks (fst s) ! t))"
  shows "conn.sound (open_socket env t (ct_generation (tl_tasks (fst s) ! t)) s)"
proof -
  let ?g = "ct_generation (tl_tasks (fst s) ! t)"
  obtain cs answer where a: "ev_sign env s (unsigned_url (fst s)) = (cs, answer)" by fastforce
  define s1 where "s1 = run_calls tl_calls cs s"
  have s1: "conn.sound s1" "calls.sound s1" unfolding s1_def using s conn.calls_sound calls.calls_sound by blast+
  show ?thesis
  proof (cases "\<exists>url. answer = Inr url \<and> current ?g s \<and> tl_signer (fst s) \<noteq> None \<and> current ?g s1")
    case False
    then show ?thesis
      using a s conn_finish [OF s1(1), of t] conn_finish [OF s(1), of t]
      by (cases answer) (auto simp: open_socket_def Let_def s1_def)
  next
    case True
    then obtain url where url: "answer = Inr url" by blast
    obtain cs' thrown where b: "ev_construct env s1 url = (cs', thrown)" by fastforce
    define s2 where "s2 = run_calls tl_calls cs' s1"
    have s2: "conn.sound s2" "calls.sound s2" unfolding s2_def using s1 conn.calls_sound calls.calls_sound by blast+
    have x: "extends (fst s) (fst s1)" "extends (fst s1) (fst s2)"
      unfolding s1_def s2_def using s s1 by (auto intro: extends_calls good_idle simp: s1_def)
    then have t2: "t < length (tl_tasks (fst s2))" "tl_tasks (fst s2) ! t = tl_tasks (fst s) ! t"
      using t by (auto simp: extends_def nth_append)
    let ?i = "length (sockets (fst s2))"
    have opened: "conn.sound (on_core (\<lambda>c. set_pc t (C_open ?i) ((add_socket ?g url hs room c)\<lparr>socket := Some ?i, cancelOpen := Some ?i\<rparr>)) s2)"
      if "current ?g s2" for hs room
    proof (rule conn.sound_on_core [OF s2(1)])
      have "\<not> tl_connected (fst s2)"
        using that fresh t2 by (intro no_early_socket [OF good_ok [OF s2(2)] t2(1)]) (simp_all add: current_def)
      then show "conn_ok tl_connected (set_pc t (C_open ?i) ((add_socket ?g url hs room (fst s2))\<lparr>socket := Some ?i, cancelOpen := Some ?i\<rparr>))"
        by (intro tl_conn.conn_ok_adopted [OF conn.sound_P [OF s2(1)], where url = url and hs = hs and g = ?g and room = room])
          (simp_all add: set_pc_def add_socket_def)
    qed (simp add: add_socket_def)
    have refused: "conn.sound (on_core (\<lambda>c. finish t r (note_out [O_close ?i] (upd_sock ?i (\<lambda>k. (settle (Inl cancelled) k)\<lparr>sk_timer := False\<rparr>) (add_socket ?g url hs room c)))) s2)"
      for hs room r
    proof (rule conn.sound_on_core [OF s2(1)])
      have "conn_ok tl_connected (note_out [O_close ?i] (upd_sock ?i (\<lambda>k. (settle (Inl cancelled) k)\<lparr>sk_timer := False\<rparr>) (add_socket ?g url hs room (fst s2))))"
        by (intro tl_conn.conn_ok_refused conn.sound_P s2(1)) (simp_all add: settle_def)
      then show "conn_ok tl_connected (finish t r (note_out [O_close ?i] (upd_sock ?i (\<lambda>k. (settle (Inl cancelled) k)\<lparr>sk_timer := False\<rparr>) (add_socket ?g url hs room (fst s2)))))"
        by (rule same_view_ok) simp
    qed (simp add: add_socket_def)
    show ?thesis
      using True a b url opened refused conn_finish [OF s2(1)]
      by (cases thrown) (auto simp: open_socket_def Let_def on_core_def simp flip: s1_def s2_def)
  qed
qed

lemma conn_resume_connect:
  assumes s: "conn.sound s" "calls.sound s"
  shows "conn.sound (resume_connect env t v s)"
proof (cases "t < length (tl_tasks (fst s))")
  case True
  note fin = conn_finish [OF s(1)]
  show ?thesis
  proof (cases "ct_pc (tl_tasks (fst s) ! t)")
    case (C_signer b)
    with True s fin show ?thesis
      by (cases b) (auto simp: resume_connect_def Let_def split: settled_value.split sum.split prod.split
          dest: signer_created_view signer_created_frame intro!: conn_sound_same conn_open_socket)
  next
    case (C_open i)
    with True s fin show ?thesis
      by (auto simp: resume_connect_def Let_def split: option.split sum.split intro!: conn_sound_same)
  qed (use True s fin in \<open>auto simp: resume_connect_def Let_def after_view after_gifts_view
      split: option.split sum.split settled_value.split intro!: conn_sound_same\<close>)
qed (use s in \<open>simp add: resume_connect_def\<close>)

lemma conn_finally: "conn.sound s \<Longrightarrow> conn.sound (on_core (connect_finally t) s)"
  by (rule conn_sound_same) (simp_all add: connect_finally_view connect_finally_def split: conn_pc.split bool.split)

lemma conn_guest: "conn.sound s \<Longrightarrow> conn.sound (on_core (guest_settled p r) s)"
  by (rule conn_sound_same, assumption, rule guest_settled_view) (simp add: guest_settled_def Let_def split: sum.split)

lemma conn_reconnect_timer:
  assumes "conn.sound s"
  shows "conn.sound (on_core reconnect_timer s)"
proof (cases "reconnectTimer (fst s)")
  case (Some a)
  let ?s = "on_core (\<lambda>c. c\<lparr>reconnectTimer := None\<rparr>) s"
  have s: "conn.sound ?s" using assms by (intro conn_sound_same) simp_all
  have "conn.sound (on_core (\<lambda>c. c\<lparr>tl_reconnects := f c\<rparr>) (call_connect tl_calls ?s))" for f
    by (rule conn_sound_same [OF conn.connect_sound [OF s]]) simp_all
  with s Some show ?thesis
    by (cases a) (auto simp: on_core_def reconnect_timer_def Let_def start_reconnect_def tl_calls_def split: prod.splits)
qed (use assms in \<open>simp add: on_core_def reconnect_timer_def\<close>)

lemma conn_scheduleReconnect:
  assumes "conn.sound s"
  shows "conn.sound (scheduleReconnect env s)"
proof -
  have "conn.sound (on_core (\<lambda>c. c\<lparr>attempt := attempt c + 1\<rparr>) s)" using assms by (intro conn_sound_same) simp_all
  then have "conn.sound (notify tl_calls env (E_reconnecting n d) (on_core (\<lambda>c. c\<lparr>attempt := attempt c + 1\<rparr>) s))" for n d
    by (rule conn_plain_notify) simp
  moreover have "conn.sound (on_core (\<lambda>c. c\<lparr>reconnectTimer := Some x\<rparr>) s')" if "conn.sound s'" for x s'
    using that by (intro conn_sound_same) simp_all
  ultimately show ?thesis
    using assms conn.emitError_sound [OF assms] by (simp add: scheduleReconnect_def Let_def)
qed

lemma conn_refresh:
  assumes "conn.sound s"
  shows "conn.sound (on_core (\<lambda>c. case refreshGuestSession g (c\<lparr>tl_guestRefreshAttempted := True\<rparr>) of
     (w, c') \<Rightarrow> set_rpc r (R_session w) c') s)"
proof (rule conn_sound_same [OF assms])
  have "same_view c c'" if "refreshGuestSession g (c\<lparr>tl_guestRefreshAttempted := True\<rparr>) = (w, c')" for c w c'
    using ensureSession_view [OF that [unfolded refreshGuestSession_def]] by (simp add: same_view_def)
  then show "same_view (fst s) (case refreshGuestSession g ((fst s)\<lparr>tl_guestRefreshAttempted := True\<rparr>) of (w, c') \<Rightarrow> set_rpc r (R_session w) c')"
    by (simp split: prod.split)
qed (auto simp: refreshGuestSession_def split: prod.split dest: ensureSession_frame)

lemma conn_reconnect_failed:
  assumes "conn.sound s"
  shows "conn.sound (reconnect_failed env r g e s)"
  using conn_refresh [OF assms] conn.emitError_sound [OF conn_set_rpc [OF assms]] conn_set_rpc [OF assms]
  by (auto simp: reconnect_failed_def Let_def conn_scheduleReconnect)

lemma conn_refresh_failed: "conn.sound s \<Longrightarrow> conn.sound (refresh_failed env r e s)"
  by (simp add: refresh_failed_def Let_def conn.emitError_sound conn_set_rpc)

lemma conn_connect_again:
  assumes "conn.sound s"
  shows "conn.sound (on_core (\<lambda>c. case connect c of (p, c') \<Rightarrow> set_rpc r (R_again p) c') s)"
  using conn.connect_sound [OF assms] conn_set_rpc [of "(snd (connect (fst s)), snd s)"]
  by (auto simp: on_core_def tl_calls_def split: prod.split)

lemma conn_resume_reconnect:
  assumes s: "conn.sound s"
  shows "conn.sound (resume_reconnect env r v s)"
proof (cases "r < length (tl_reconnects (fst s))")
  case True
  note facts = conn_set_rpc [OF s] conn_reconnect_failed [OF s] conn_refresh_failed [OF s] conn_connect_again [OF s]
  show ?thesis
  proof (cases "rt_pc (tl_reconnects (fst s) ! r)")
    case (R_session w)
    with True s facts show ?thesis
      by (auto simp: resume_reconnect_def Let_def split: option.split sum.split prod.split
          dest: ensureSigner_view ensureSigner_frame intro!: conn_sound_same)
  next
    case (R_signer b)
    with True s facts show ?thesis
      by (cases b) (auto simp: resume_reconnect_def Let_def split: settled_value.split sum.split prod.split
          dest: signer_created_view signer_created_frame intro!: conn_sound_same)
  qed (use True s facts in \<open>auto simp: resume_reconnect_def Let_def split: option.split sum.split\<close>)
qed (use s in \<open>simp add: resume_reconnect_def\<close>)

text \<open>The handlers of the socket. A socket that is not settled has not joined.\<close>

lemma unsettled_not_connected:
  "calls.sound s \<Longrightarrow> socket (fst s) = Some i \<Longrightarrow> \<not> sk_settled (sock_of i (fst s)) \<Longrightarrow> \<not> tl_connected (fst s)"
  by (auto dest!: good_ok simp: ok_defs sock_of_def)

lemma conn_open_timeout:
  assumes "conn.sound s" "calls.sound s"
  shows "conn.sound (on_core (on_open_timeout i) s)"
proof (rule conn.sound_on_core [OF assms(1)])
  show "conn_ok tl_connected (on_open_timeout i (fst s))"
    using conn.sound_P [OF assms(1)] unsettled_not_connected [OF assms(2), of i]
    by (auto simp: on_open_timeout_def settle_def intro!: tl_conn.conn_ok_settled tl_conn.conn_ok_closed)
qed (simp add: on_open_timeout_def)

lemma send_built_refines:
  assumes "refines tl_connected (fst s)" and "socket (fst s) = Some i" and "send_built tl_calls env i built s = (x, s')"
  shows "refines tl_connected (fst s')"
proof -
  let ?c = "(fst s)\<lparr>writeBufferRejections := writeBufferRejections (fst s) + 1, cancelOpen := None\<rparr>"
  have "refines tl_connected ?c" by (rule refines_same [OF assms(1)]) simp_all
  then have "refines tl_connected (disconnect ?c)" using conn_ok_disconnect by (simp add: conn_ok_def)
  moreover have "refines tl_connected (note_out [O_send i frame] (fst s))" for frame by (rule tl_conn.refines_send [OF assms(1,2)])
  ultimately show ?thesis
    using assms(1,3) by (auto simp: send_built_def send_def Let_def tl_calls_def split: sum.splits option.splits if_splits)
qed

lemma conn_sound_disconnect:
  "refines tl_connected (fst s) \<Longrightarrow> settled 0 (snd s) \<Longrightarrow> armed (snd s) \<Longrightarrow> conn.sound (call_disconnect tl_calls s)"
  by (simp add: tl_calls_def conn.sound_def conn.good_def conn_ok_disconnect idle_def settled_clear)

lemma conn_on_open:
  assumes s: "conn.sound s" "calls.sound s"
  shows "conn.sound (on_open env i s)"
proof (cases "valid_sock i (fst s) \<and> \<not> sk_settled (sock_of i (fst s)) \<and> current (sk_generation (sock_of i (fst s))) s \<and> socket (fst s) = Some i")
  case False
  have "conn.sound (on_core (\<lambda>c. note_out [O_close i] (upd_sock i (\<lambda>k. (settle (Inl cancelled) k)\<lparr>sk_timer := False\<rparr>) c)) s)"
    if "\<not> sk_settled (sock_of i (fst s))"
    using conn.sound_P [OF s(1)] unsettled_not_connected [OF s(2)] that
    by (intro conn.sound_on_core [OF s(1)] tl_conn.conn_ok_closed) (auto simp: settle_def)
  with False s show ?thesis by (auto simp: on_open_def)
next
  case True
  define s1 where "s1 = on_core (upd_sock i (\<lambda>k. k\<lparr>sk_opened := True\<rparr>)) s"
  define built where "built = enterRoomFrame (cd_encodeEnter (ev_codec env)) (cd_encodeFrame (ev_codec env))
    (tl_roomId (fst s)) (ro_identity (tl_options (fst s))) LIVE_ID"
  have r1: "refines tl_connected (fst s1)"
    unfolding s1_def on_core_simps by (intro tl_conn.refines_settled conn_sound_refines [OF s(1)]) simp
  have i1: "socket (fst s1) = Some i" "\<not> tl_connected (fst s1)" "\<not> sk_settled (sock_of i (fst s1))"
    using True unsettled_not_connected [OF s(2)] by (auto simp: s1_def sock_of_def upd_sock_def valid_sock_def)
  have c1: "calls.sound s1" unfolding s1_def by (intro good_upd_sock [OF s(2)]) simp_all
  obtain x s2 where b: "send_built tl_calls env i built s1 = (x, s2)" by (cases "send_built tl_calls env i built s1")
  have r2: "refines tl_connected (fst s2)" by (rule send_built_refines [OF r1 i1(1) b])
  have c2: "settled 0 (snd s2)" "armed (snd s2)" "idle s2" using calls.send_built_sound [OF b c1] by (simp_all add: calls.sound_def calls.good_def)
  show ?thesis
  proof (cases x)
    case (Some e)
    let ?c = "(upd_sock i (\<lambda>k. (settle (Inl e) k)\<lparr>sk_timer := False\<rparr>) (fst s2))\<lparr>cancelOpen := None\<rparr>"
    have "refines tl_connected (upd_sock i (\<lambda>k. (settle (Inl e) k)\<lparr>sk_timer := False\<rparr>) (fst s2))"
      by (rule tl_conn.refines_settled [OF r2]) (simp add: settle_def)
    then have "refines tl_connected ?c" by (rule refines_same) simp_all
    with c2 have "conn.sound (call_disconnect tl_calls
        (on_core (\<lambda>c. (upd_sock i (\<lambda>k. (settle (Inl e) k)\<lparr>sk_timer := False\<rparr>) c)\<lparr>cancelOpen := None\<rparr>) s2))"
      by (intro conn_sound_disconnect) simp_all
    with True b Some show ?thesis by (simp add: on_open_def Let_def s1_def [symmetric] built_def [symmetric])
  next
    case None
    obtain frame where e: "s2 = on_core (note_out [O_send i frame]) s1" using send_built_sent b None by blast
    let ?c = "opened_client i (fst s2)" and ?em = "E_connected (tl_state (opened_client i (fst s2)))"
    have "refines tl_connected (note_out [O_emit ?em] ?c)"
      by (rule tl_conn.refines_joins [OF r2, of i])
        (use i1 in \<open>simp_all add: e opened_client_def startHeartbeat_def stopHeartbeat_def sock_of_def\<close>)
    moreover have "tl_connected ?c" "closing ?c = closing (fst s2)"
      by (simp_all add: opened_client_def startHeartbeat_def stopHeartbeat_def)
    ultimately have "conn.sound (on_core (note_out [O_emit ?em]) (on_core (opened_client i) s2))"
      using c2 by (simp add: conn.sound_def conn.good_def conn_ok_def idle_def)
    from conn.notify_noted_sound [OF this] True b None show ?thesis
      by (simp add: on_open_def Let_def s1_def [symmetric] built_def [symmetric])
  qed
qed

lemma conn_acknowledge: "conn.sound s \<Longrightarrow> conn.sound (acknowledge env frame batch s)"
  by (simp add: acknowledge_def conn.send_or_report_current_sound split: option.split)

lemma conn_receive: "conn.sound s \<Longrightarrow> conn.sound (receive env data s)"
proof -
  assume s: "conn.sound s"
  have "conn.sound (on_core (heartbeat_hint batch) s)" for batch
    using s by (rule conn_sound_same) (simp_all add: heartbeat_hint_def startHeartbeat_def stopHeartbeat_def same_view_def)
  with s show ?thesis
    by (auto simp: receive_def conn.emitError_sound conn.submit_messages_sound conn_acknowledge split: sum.split option.split)
qed

lemma conn_on_close:
  assumes s: "conn.sound s" "calls.sound s"
  shows "conn.sound (on_close env i closeCode reason s)"
proof -
  define s0 where "s0 = on_core (upd_sock i (\<lambda>k. k\<lparr>sk_timer := False\<rparr>)) s"
  define s1 where "s1 = on_core (closed_client i) s0"
  have s0: "conn.sound s0"
    unfolding s0_def by (intro conn.sound_on_core [OF s(1)] tl_conn.conn_ok_settled conn.sound_P [OF s(1)]) simp_all
  have f1: "socket (fst s1) = None" "length (sockets (fst s1)) = length (sockets (fst s0))" "trace (fst s1) = trace (fst s0)"
    "closing (fst s1) = closing (fst s0)" "snd s1 = snd s0"
    by (simp_all add: s1_def closed_client_def stopHeartbeat_def)
  have s1: "conn.sound s1" if "\<not> tl_connected (fst s)"
  proof -
    from that have "\<not> tl_connected (fst s0)" by (simp add: s0_def)
    then have "conn_ok tl_connected (fst s1)" using f1 conn_sound_refines [OF s0] by (intro conn_ok_dropped [of tl_connected "fst s0"]) simp_all
    with s0 f1 show ?thesis by (simp add: conn.sound_def conn.good_def idle_def)
  qed
  have settled1: "conn.sound (on_core (upd_sock i (settle r)) s1)" if "\<not> tl_connected (fst s)" for r
    using s1 [OF that] by (intro conn.sound_on_core tl_conn.conn_ok_settled) (simp_all add: conn.sound_P settle_def)
  have told: "conn.sound (notify tl_calls env (E_disconnected closeCode (opt_or reason [])) s1)"
    if "socket (fst s) = Some i" "sk_opened (sock_of i (fst s))"
  proof (rule conn.notify_noted_sound)
    have "tl_connected (fst s0)" "socket (fst s0) = Some i" using conn.sound_P [OF s(1)] that by (simp_all add: conn_ok_def s0_def)
    from tl_conn.conn_ok_lost [OF conn.sound_P [OF s0] this(2,1) f1(1-3)] s0 f1
    show "conn.sound (on_core (note_out [O_emit (E_disconnected closeCode (opt_or reason []))]) s1)"
      by (simp add: conn.sound_def conn.good_def idle_def)
  qed
  have "\<not> tl_connected (fst s)" if "socket (fst s) = Some i" "\<not> sk_opened (sock_of i (fst s))"
    using that good_ok [OF s(2)] by (auto simp: ok_defs sock_of_def)
  with s s0 s1 settled1 told show ?thesis
    by (auto simp: on_close_def Let_def conn_scheduleReconnect s0_def [symmetric] s1_def [symmetric])
qed

lemma conn_step:
  assumes "conn.sound s" "calls.sound s"
  shows "conn.sound (step env x s)"
proof (cases x)
  case (I_message i data)
  with assms show ?thesis by (simp add: on_message_def conn_receive)
next
  case (I_error i m)
  with assms show ?thesis by (simp add: on_error_def conn.emitError_sound)
next
  case I_heartbeat
  with assms show ?thesis by (simp add: heartbeat_tick_def conn.send_or_report_current_sound split: option.split)
qed (use assms in \<open>simp_all add: conn.connect_sound conn.disconnect_sound conn_resume_connect conn_finally conn_guest
    conn_reconnect_timer conn_resume_reconnect conn_on_open conn_on_close conn_open_timeout conn.immediate_sound\<close>)

lemma conn_new: "new_TikTokLive stored uniqueId o1 = Inr s \<Longrightarrow> conn.sound s"
  using new_sound [of stored uniqueId o1 s]
  by (auto simp: new_TikTokLive_def res_bind_Inr_iff Let_def conn.sound_def conn.good_def calls.sound_def calls.good_def conn_ok_def refines_def
      view_def phase_of_def conn_start_def [symmetric] conn_run.started split: if_splits)

lemma reachable_conn: "reachable s \<Longrightarrow> conn.sound s"
  by (induction rule: reachable.induct) (auto intro: conn_new conn_step reachable_sound)

interpretation tl_connection: connection reachable "tl_connected :: client \<Rightarrow> bool"
  by unfold_locales (auto dest: reachable_conn conn_sound_refines)

end
