(* ===== verification/Sdk_Api.thy ===== *)
theory Sdk_Api
  imports Discovery
begin

text \<open>
  The parts of \<open>packages/live-sdk/src\<close> below its client: \<open>unique-id.ts\<close>, \<open>reconnect.ts\<close>, the arithmetic of
  \<open>heartbeat.ts\<close>, \<open>transport.ts\<close> and \<open>api.ts\<close>, the client of the connect service. What \<open>fetch\<close> yields is an argument of
  \<open>api_connect\<close>; the record \<open>runtime\<close> holds what the language provides: \<open>JSON.parse\<close>, the UTF-8 decoder, the two forms of
  \<open>new URL\<close>, and the content of fresh buffers. The numbers of a policy's delays are exact rationals.

  Shown: which handles \<open>normalizeUniqueId\<close> accepts and that it is idempotent; that \<open>api_connect\<close> only returns the
  handle it was asked for and only a descriptor for a signed TikTok socket of the room it names; how its errors are classified;
  the bounds of the reconnection delay.
\<close>

section \<open>Unique ids\<close>

definition unique_id_char :: "char \<Rightarrow> bool" where
  "unique_id_char c \<longleftrightarrow> is_upper c \<or> is_lower c \<or> is_digit c \<or> c = CHR ''.'' \<or> c = CHR ''_''"

text \<open>The pattern \<open>[A-Za-z0-9._]{1,24}\<close>, anchored at both ends.\<close>

definition unique_id_pattern :: "string \<Rightarrow> bool" where
  "unique_id_pattern u \<longleftrightarrow> 1 \<le> length u \<and> length u \<le> 24 \<and> list_all unique_id_char u"

definition normalizeUniqueId :: "string \<Rightarrow> (js_error, string) result" where
  "normalizeUniqueId inp =
     (let v = js_trim inp; refused = Inl (RangeErr ''uniqueId must be a TikTok username'')
      in if starts_with ''@@'' v then refused
         else let uniqueId = (if starts_with ''@'' v then drop 1 v else v)
              in if \<not> unique_id_pattern uniqueId then refused else Inr uniqueId)"

section \<open>Reconnection delays and heartbeats\<close>

record SdkPolicy =
  sp_attempts :: jsnumber
  sp_initialMs :: rat
  sp_maxMs :: rat

definition SDK_DEFAULT_RECONNECT :: SdkPolicy where
  "SDK_DEFAULT_RECONNECT = \<lparr>sp_attempts = js_int 5, sp_initialMs = 2000, sp_maxMs = 60000\<rparr>"

text \<open>\<open>attempt\<close> counts up from one, so \<open>Math.floor(attempt)\<close> is the number itself.\<close>

definition reconnectDelay :: "SdkPolicy \<Rightarrow> nat \<Rightarrow> rat \<Rightarrow> rat" where
  "reconnectDelay policy att random =
     (let exponent = max 0 (min 30 (int att - 1));
          base = min (sp_initialMs policy * 2 ^ nat exponent) (sp_maxMs policy);
          jitter = min 1 (max 0 random)
      in min (sp_maxMs policy) (of_int \<lfloor>base * (1 + jitter * (1 / 2))\<rfloor>))"

definition boundedHeartbeatMs :: "int \<Rightarrow> int" where
  "boundedHeartbeatMs v = (if v \<le> 0 then 10000 else if v > MAX_TIMER_MS then MAX_TIMER_MS else v)"

definition heartbeat_interval :: "int \<Rightarrow> int" where
  "heartbeat_interval everyMs = max 1 everyMs"

section \<open>The connect service\<close>

datatype ConnectionStatus = Live | Offline

record ConnectionDescriptor =
  cn_url :: string
  cn_cookies :: string
  cn_userAgent :: string

record ConnectResponse =
  cr_uniqueId :: string
  cr_roomId :: "string option"
  cr_status :: ConnectionStatus
  cr_connection :: "ConnectionDescriptor option"

record parsed_url =
  pu_text :: string
  pu_protocol :: string
  pu_hostname :: string
  pu_pathname :: string
  pu_params :: "(string \<times> string) list"

record runtime =
  rt_URL :: "string \<Rightarrow> (js_error, parsed_url) result"
  rt_resolve :: "string \<Rightarrow> string \<Rightarrow> (js_error, string) result"
  rt_parse :: "string \<Rightarrow> (js_error, json) result"
  rt_decode :: "bytes \<Rightarrow> string"
  rt_junk :: "nat \<Rightarrow> byte"
  rt_host :: host

text \<open>\<open>error.message\<close> and \<open>String(error)\<close>.\<close>

fun error_message :: "js_error \<Rightarrow> string" where
  "error_message (Err m) = m"
| "error_message (RangeErr m) = m"
| "error_message (TypeErr m) = m"
| "error_message (SyntaxErr m) = m"
| "error_message (GuestSessionErr _ m _ _) = m"
| "error_message (HandshakeRejectedErr m _) = m"
| "error_message (NotLiveErr m) = m"
| "error_message (WebcastRefusalErr _ m) = m"
| "error_message (JsonValidationErr endpoint path expct rcvd) = ''Invalid '' @ endpoint @ '': '' @ (if path = [] then ''$'' else path) @
     '' expected '' @ expct @ '', received '' @ rcvd"
| "error_message (SocketWriteOverflowErr m) = m"
| "error_message (LiveApiErr e) = lae_message e"

fun error_name :: "js_error \<Rightarrow> string" where
  "error_name (RangeErr _) = ''RangeError''"
| "error_name (TypeErr _) = ''TypeError''"
| "error_name (SyntaxErr _) = ''SyntaxError''"
| "error_name (GuestSessionErr _ _ _ _) = ''GuestSessionError''"
| "error_name (HandshakeRejectedErr _ _) = ''HandshakeRejectedError''"
| "error_name (WebcastRefusalErr _ _) = ''WebcastRefusal''"
| "error_name (JsonValidationErr _ _ _ _) = ''JsonValidationError''"
| "error_name (LiveApiErr e) = (case lae_class e of PlainLiveApi \<Rightarrow> ''LiveApiError'' | ProtocolClass \<Rightarrow> ''ProtocolError''
     | SocketClass _ \<Rightarrow> ''SocketError'')"
| "error_name _ = ''Error''"

definition String_error :: "js_error \<Rightarrow> string" where
  "String_error e = (if error_message e = [] then error_name e else error_name e @ '': '' @ error_message e)"

abbreviation protocol_error :: "string \<Rightarrow> js_error" where
  "protocol_error m \<equiv> LiveApiErr (ProtocolError m)"

record ConnectApiOptions =
  co_apiUrl :: "string option"
  co_apiBaseUrl :: "string option"
  co_apiKey :: "string option"
  co_timeoutMs :: "jsnumber option"

record ConnectApi =
  ca_apiUrl :: string
  ca_apiKey :: "string option"
  ca_timeoutMs :: int

definition DEFAULT_API_URL :: string where "DEFAULT_API_URL = ''http://127.0.0.1:8080''"

definition strip_slash :: "string \<Rightarrow> string" where
  "strip_slash u = (if u \<noteq> [] \<and> last u = CHR ''/'' then butlast u else u)"

definition normalizeApiUrl :: "runtime \<Rightarrow> string \<Rightarrow> (js_error, string) result" where
  "normalizeApiUrl rt v =
     (let bad = (\<lambda>e. Inl (TypeErr (''invalid API URL: '' @ String_error e)))
      in case rt_URL rt v of
          Inl e \<Rightarrow> bad e
        | Inr url \<Rightarrow> if pu_protocol url \<noteq> ''http:'' \<and> pu_protocol url \<noteq> ''https:''
            then bad (Err ''API URL must use HTTP or HTTPS'') else Inr (strip_slash (pu_text url)))"

definition boundedTimeout :: "jsnumber \<Rightarrow> int" where
  "boundedTimeout v = (if \<not> isFinite v \<or> js_le v (js_int 0) then 10000 else min \<lfloor>num_val v\<rfloor> MAX_TIMER_MS)"

definition new_ConnectApi :: "runtime \<Rightarrow> ConnectApiOptions \<Rightarrow> (js_error, ConnectApi) result" where
  "new_ConnectApi rt o1 =
     res_bind (normalizeApiUrl rt (opt_or (co_apiUrl o1) (opt_or (co_apiBaseUrl o1) DEFAULT_API_URL))) (\<lambda>url.
       Inr \<lparr>ca_apiUrl = url, ca_apiKey = co_apiKey o1, ca_timeoutMs = boundedTimeout (opt_or (co_timeoutMs o1) (js_int 10000))\<rparr>)"

text \<open>The answer of \<open>fetch\<close>: a response with the request id of its headers.\<close>

record broker_response = http_response +
  bp_requestId :: "string option"

definition readBody :: "runtime \<Rightarrow> broker_response \<Rightarrow> (js_error, string) result" where
  "readBody rt response = (case fst (readResponseText (rt_decode rt) (rt_junk rt) (hr_body response) (1024 * 1024)) of
       Inr t \<Rightarrow> Inr t
     | Inl _ \<Rightarrow> Inl (protocol_error (''connection broker response body could not be read (HTTP '' @ int_str (hr_status response) @ '')'')))"

definition isRecord :: "json option \<Rightarrow> bool" where
  "isRecord v = (case v of Some (JObj _) \<Rightarrow> True | Some (JArr _) \<Rightarrow> True | _ \<Rightarrow> False)"

definition isDigits :: "json option \<Rightarrow> bool" where
  "isDigits v = (case v of Some (JStr s) \<Rightarrow> numeric_string s | _ \<Rightarrow> False)"

definition parseApiError :: "int \<Rightarrow> string option \<Rightarrow> json option \<Rightarrow> live_api_error" where
  "parseApiError status requestId body =
     (let r = (if isRecord body \<and> isRecord (j_opt body ''error'') then j_opt body ''error'' else Some (JObj []));
          errorCode = (case j_opt r ''code'' of Some (JStr s) \<Rightarrow> s | _ \<Rightarrow> if status = 429 then ''RATE_LIMITED'' else ''INTERNAL_ERROR'');
          message = (case j_opt r ''message'' of Some (JStr s) \<Rightarrow> s | _ \<Rightarrow> ''connection broker returned HTTP '' @ int_str status);
          retryable = (case j_opt r ''retryable'' of Some (JBool b) \<Rightarrow> b | _ \<Rightarrow> status \<ge> 500 \<or> status = 429);
          retryAfterMs = (case j_opt r ''retryAfterMs'' of
              Some (JNum n) \<Rightarrow> if isFinite n then Some (max 0 \<lfloor>num_val n\<rfloor>) else None | _ \<Rightarrow> None)
      in LiveApiError errorCode message (Some retryable) retryAfterMs (Some status) requestId)"

definition SOCKET_HOSTS :: "string list" where
  "SOCKET_HOSTS = [''webcast-ws.tiktok.com'', ''webcast-ws.us.tiktok.com'', ''webcast-ws.eu.tiktok.com'']"

definition isAllowedSocketUrl :: "runtime \<Rightarrow> string \<Rightarrow> string \<Rightarrow> bool" where
  "isAllowedSocketUrl rt v roomId = (case rt_URL rt v of
       Inl _ \<Rightarrow> False
     | Inr url \<Rightarrow> pu_protocol url = ''wss:'' \<and> pu_hostname url \<in> set SOCKET_HOSTS \<and>
         pu_pathname url = ''/webcast/im/ws_proxy/ws_reuse_supplement/'' \<and> map_of (pu_params url) ''room_id'' = Some roomId \<and>
         (case map_of (pu_params url) ''X-Gnarly'' of None \<Rightarrow> False | Some signature \<Rightarrow> signature \<noteq> []))"

definition parse_descriptor :: "runtime \<Rightarrow> json \<Rightarrow> string \<Rightarrow> (js_error, ConnectionDescriptor) result" where
  "parse_descriptor rt connection roomId =
     (case (j_get connection ''url'', j_get connection ''cookies'', j_get connection ''userAgent'') of
        (Some (JStr url), Some (JStr cookies), Some (JStr userAgent)) \<Rightarrow>
          if isAllowedSocketUrl rt url roomId
          then Inr \<lparr>cn_url = url, cn_cookies = cookies, cn_userAgent = userAgent\<rparr>
          else Inl (protocol_error ''live connection descriptor is invalid'')
      | _ \<Rightarrow> Inl (protocol_error ''live connection descriptor is invalid''))"

definition parseConnectResponse :: "runtime \<Rightarrow> json option \<Rightarrow> string \<Rightarrow> (js_error, ConnectResponse) result" where
  "parseConnectResponse rt v requested =
     (if \<not> isRecord v then Inl (protocol_error ''connection broker response is not an object'')
      else if \<not> j_is_num (j_opt v ''version'') 1 \<or> j_opt v ''uniqueId'' \<noteq> Some (JStr requested)
      then Inl (protocol_error ''connection broker returned mismatched connection metadata'')
      else if j_opt v ''status'' \<noteq> Some (JStr ''live'') \<and> j_opt v ''status'' \<noteq> Some (JStr ''offline'')
      then Inl (protocol_error ''connection broker returned an unknown connection status'')
      else if j_opt v ''status'' = Some (JStr ''offline'')
      then Inr \<lparr>cr_uniqueId = requested,
          cr_roomId = (case j_opt v ''roomId'' of Some (JStr s) \<Rightarrow> if isDigits (j_opt v ''roomId'') then Some s else None | _ \<Rightarrow> None),
          cr_status = Offline, cr_connection = None\<rparr>
      else case (j_opt v ''roomId'', j_opt v ''connection'') of
          (Some (JStr roomId), Some connection) \<Rightarrow>
            if \<not> isDigits (Some (JStr roomId)) \<or> roomId = ''0'' \<or> \<not> isRecord (Some connection)
            then Inl (protocol_error ''live connection response is missing a valid descriptor'')
            else res_bind (parse_descriptor rt connection roomId) (\<lambda>d.
              Inr \<lparr>cr_uniqueId = requested, cr_roomId = Some roomId, cr_status = Live, cr_connection = Some d\<rparr>)
        | _ \<Rightarrow> Inl (protocol_error ''live connection response is missing a valid descriptor''))"

definition request_headers :: "ConnectApi \<Rightarrow> (string \<times> string) list" where
  "request_headers api =
     [(''accept'', ''application/json''), (''content-type'', ''application/json'')] @
     (case ca_apiKey api of Some k \<Rightarrow> if k \<noteq> [] then [(''authorization'', ''Bearer '' @ k)] else [] | None \<Rightarrow> [])"

text \<open>\<open>ConnectApi.connect\<close>: what it makes of a response, and the whole; \<open>fetch\<close> is called with the URL, the headers and the body.\<close>

definition parse_body :: "runtime \<Rightarrow> string \<Rightarrow> (js_error, json option) result" where
  "parse_body rt raw = (if raw = [] then Inr None else res_bind (rt_parse rt raw) (\<lambda>v. Inr (Some v)))"

definition broker_answer :: "runtime \<Rightarrow> broker_response \<Rightarrow> string \<Rightarrow> (js_error, ConnectResponse) result" where
  "broker_answer rt response uniqueId =
     res_bind (readBody rt response) (\<lambda>raw.
       case parse_body rt raw of
         Inl _ \<Rightarrow> Inl (protocol_error (''connection broker returned invalid JSON (HTTP '' @ int_str (hr_status response) @ '')''))
       | Inr body \<Rightarrow>
           if \<not> hr_ok response then Inl (LiveApiErr (parseApiError (hr_status response) (bp_requestId response) body))
           else parseConnectResponse rt body uniqueId)"

definition api_connect ::
  "runtime \<Rightarrow> (string \<Rightarrow> (string \<times> string) list \<Rightarrow> string \<Rightarrow> (js_error, broker_response) result) \<Rightarrow> ConnectApi \<Rightarrow> string \<Rightarrow>
   (js_error, ConnectResponse) result" where
  "api_connect rt fetch api inp =
     res_bind (normalizeUniqueId inp) (\<lambda>uniqueId.
     res_bind (rt_resolve rt ''/v1/connect'' (ca_apiUrl api)) (\<lambda>url.
       case fetch url (request_headers api) (JSON_stringify (rt_host rt) (JObj [(''uniqueId'', JStr uniqueId)])) of
         Inl e \<Rightarrow> Inl (LiveApiErr (LiveApiError ''DISCOVERY_FAILED'' (''connection broker request failed: '' @ error_message e)
           (Some True) None None None))
       | Inr response \<Rightarrow> broker_answer rt response uniqueId))"

definition socketHeaders :: "ConnectionDescriptor \<Rightarrow> (string \<times> string) list" where
  "socketHeaders d = [(''cookie'', cn_cookies d), (''user-agent'', cn_userAgent d), (''origin'', ''https://www.tiktok.com'')]"

section \<open>Lemmas\<close>

lemma unique_id_char_plain: "unique_id_char c \<Longrightarrow> \<not> is_space c \<and> c \<noteq> CHR ''@''"
  by (auto simp: unique_id_char_def is_space_def is_upper_def is_lower_def is_digit_def code_def)

lemma unique_id_trim: "unique_id_pattern u \<Longrightarrow> js_trim u = u"
  using unique_id_char_plain
  by (intro js_trim_id) (auto simp: unique_id_pattern_def list_all_iff trimmed_def)

lemma isDigits_iff: "isDigits v \<longleftrightarrow> (\<exists>s. v = Some (JStr s) \<and> numeric_string s)"
  by (auto simp: isDigits_def split: option.splits json.splits)

lemma parse_descriptor_Inr:
  "parse_descriptor rt connection roomId = Inr d \<Longrightarrow> isAllowedSocketUrl rt (cn_url d) roomId"
  by (auto simp: parse_descriptor_def split: option.splits json.splits if_splits)

lemma parseConnectResponse_live:
  assumes "parseConnectResponse rt v u = Inr r" and "cr_status r = Live"
  obtains roomId d where "cr_roomId r = Some roomId" "numeric_string roomId" "roomId \<noteq> ''0''" "cr_connection r = Some d"
    "isAllowedSocketUrl rt (cn_url d) roomId"
  using assms
  by (auto simp: parseConnectResponse_def isDigits_iff res_bind_Inr_iff split: if_splits option.splits json.splits prod.splits
      dest!: parse_descriptor_Inr)

lemma parseConnectResponse_fields:
  assumes "parseConnectResponse rt v u = Inr r"
  shows "cr_uniqueId r = u" and "cr_status r = Offline \<Longrightarrow> cr_connection r = None"
  using assms
  by (auto simp: parseConnectResponse_def res_bind_Inr_iff split: if_splits option.splits json.splits prod.splits)

lemma broker_answer_Inr:
  assumes "broker_answer rt response u = Inr r"
  obtains v where "parseConnectResponse rt v u = Inr r"
proof -
  from assms obtain raw where raw: "readBody rt response = Inr raw" by (auto simp: broker_answer_def res_bind_Inr_iff)
  with assms that show thesis
    by (cases "parse_body rt raw") (auto simp: broker_answer_def split: if_splits)
qed

lemma api_connect_Inr:
  assumes "api_connect rt fetch api inp = Inr r"
  obtains u v where "normalizeUniqueId inp = Inr u" and "parseConnectResponse rt v u = Inr r"
proof -
  from assms obtain u where u: "normalizeUniqueId inp = Inr u" by (auto simp: api_connect_def res_bind_Inr_iff)
  from assms obtain url where url: "rt_resolve rt ''/v1/connect'' (ca_apiUrl api) = Inr url"
    by (auto simp: api_connect_def u res_bind_Inr_iff)
  from assms obtain response where "broker_answer rt response u = Inr r"
    by (simp add: api_connect_def u url split: sum.split_asm)
  with broker_answer_Inr u that show thesis by metis
qed

lemma parseApiError_retryAfter: "lae_retryAfterMs (parseApiError status requestId body) = Some ms \<Longrightarrow> 0 \<le> ms"
  by (auto simp: parseApiError_def Let_def split: option.splits json.splits if_splits)

section \<open>Properties\<close>

text \<open>\<open>normalizeUniqueId\<close> accepts exactly the inputs that are, but for white space around them and one leading \<open>@\<close>, a handle of
  one to twenty-four letters, digits, dots and underscores; it returns that handle, and normalizing it again changes nothing.\<close>

lemma normalizeUniqueId_exact:
  "(normalizeUniqueId inp = Inr u \<longleftrightarrow> unique_id_pattern u \<and> (js_trim inp = u \<or> js_trim inp = CHR ''@'' # u)) \<and>
   (normalizeUniqueId inp = Inr u \<longrightarrow> normalizeUniqueId u = Inr u)"
proof -
  have at: "\<not> starts_with ''@'' u" if "unique_id_pattern u" for u
    using that unique_id_char_plain by (cases u) (auto simp: unique_id_pattern_def starts_with_def)
  have exact: "normalizeUniqueId inp = Inr u \<longleftrightarrow> unique_id_pattern u \<and> (js_trim inp = u \<or> js_trim inp = CHR ''@'' # u)" for inp u
  proof (cases "js_trim inp")
    case (Cons a v)
    show ?thesis
      using at [of u] at [of v] by (cases v) (auto simp: normalizeUniqueId_def Let_def Cons starts_with_def)
  qed (auto simp: normalizeUniqueId_def starts_with_def unique_id_pattern_def)
  moreover have "normalizeUniqueId u = Inr u" if "normalizeUniqueId inp = Inr u"
    using that unique_id_trim unfolding exact by blast
  ultimately show ?thesis by blast
qed

lemma normalizeUniqueId_exact_witness:
  "normalizeUniqueId '' @some.user_1 '' = Inr ''some.user_1'' \<and>
   normalizeUniqueId ''some.user_1'' = Inr ''some.user_1''"
proof -
  have "unique_id_pattern ''some.user_1''" "js_trim '' @some.user_1 '' = CHR ''@'' # ''some.user_1''" by code_simp+
  then show ?thesis
    using normalizeUniqueId_exact [of "'' @some.user_1 ''" "''some.user_1''"] by simp
qed

text \<open>whatever the connect service sends, \<open>ConnectApi.connect\<close> returns only the handle that was asked for; a live answer names a
  numeric room other than \<open>0\<close> and carries a descriptor whose URL is a TLS socket on one of TikTok's three push hosts, on the
  expected path, for that very room, with a non-empty signature; an offline answer carries no descriptor.\<close>

lemma api_connect_sound:
  assumes "api_connect rt fetch api inp = Inr r"
  shows "normalizeUniqueId inp = Inr (cr_uniqueId r) \<and> (cr_status r = Offline \<longrightarrow> cr_connection r = None) \<and>
    (cr_status r = Live \<longrightarrow> (\<exists>roomId d url. cr_roomId r = Some roomId \<and> numeric_string roomId \<and> roomId \<noteq> ''0'' \<and>
       cr_connection r = Some d \<and> rt_URL rt (cn_url d) = Inr url \<and> pu_protocol url = ''wss:'' \<and>
       pu_hostname url \<in> {''webcast-ws.tiktok.com'', ''webcast-ws.us.tiktok.com'', ''webcast-ws.eu.tiktok.com''} \<and>
       pu_pathname url = ''/webcast/im/ws_proxy/ws_reuse_supplement/'' \<and> map_of (pu_params url) ''room_id'' = Some roomId \<and>
       (\<exists>signature. map_of (pu_params url) ''X-Gnarly'' = Some signature \<and> signature \<noteq> [])))"
proof -
  from assms obtain u v where u: "normalizeUniqueId inp = Inr u" and p: "parseConnectResponse rt v u = Inr r"
    by (rule api_connect_Inr)
  have "\<exists>url. rt_URL rt w = Inr url \<and> pu_protocol url = ''wss:'' \<and> pu_hostname url \<in> set SOCKET_HOSTS \<and>
       pu_pathname url = ''/webcast/im/ws_proxy/ws_reuse_supplement/'' \<and> map_of (pu_params url) ''room_id'' = Some roomId \<and>
       (\<exists>signature. map_of (pu_params url) ''X-Gnarly'' = Some signature \<and> signature \<noteq> [])"
    if "isAllowedSocketUrl rt w roomId" for w roomId
    using that by (auto simp: isAllowedSocketUrl_def split: sum.splits option.splits)
  then show ?thesis
    using u parseConnectResponse_fields [OF p] parseConnectResponse_live [OF p] unfolding SOCKET_HOSTS_def by (metis list.set(1,2))
qed

definition example_url :: parsed_url where
  "example_url = \<lparr>pu_text = ''u'', pu_protocol = ''wss:'', pu_hostname = ''webcast-ws.tiktok.com'',
     pu_pathname = ''/webcast/im/ws_proxy/ws_reuse_supplement/'', pu_params = [(''room_id'', ''7''), (''X-Gnarly'', ''s'')]\<rparr>"

definition example_answer :: json where
  "example_answer = JObj [(''version'', jint 1), (''uniqueId'', JStr ''someone''), (''roomId'', JStr ''7''), (''status'', JStr ''live''),
     (''connection'', JObj [(''url'', JStr ''u''), (''cookies'', JStr ''c=1''), (''userAgent'', JStr ''agent'')])]"

definition example_runtime :: runtime where
  "example_runtime = \<lparr>rt_URL = (\<lambda>v. if v = ''u'' then Inr example_url
       else Inr \<lparr>pu_text = v, pu_protocol = ''http:'', pu_hostname = [], pu_pathname = [], pu_params = []\<rparr>), rt_resolve = (\<lambda>p b. Inr (b @ p)), rt_parse = (\<lambda>_. Inr example_answer),
     rt_decode = (\<lambda>_. ''x''), rt_junk = (\<lambda>_. 0), rt_host = \<lparr>host_URL = (\<lambda>_. None), host_number = (\<lambda>_. [])\<rparr>\<rparr>"

definition example_fetch :: "string \<Rightarrow> (string \<times> string) list \<Rightarrow> string \<Rightarrow> (js_error, broker_response) result" where
  "example_fetch url headers body = Inr \<lparr>hr_ok = True, hr_status = 200,
     hr_body = \<lparr>rb_declared = NaN, rb_stream = None, rb_text = Inr []\<rparr>, bp_requestId = None\<rparr>"

lemma example_connect:
  "api_connect example_runtime example_fetch api ''someone'' = Inr \<lparr>cr_uniqueId = ''someone'', cr_roomId = Some ''7'',
     cr_status = Live, cr_connection = Some \<lparr>cn_url = ''u'', cn_cookies = ''c=1'', cn_userAgent = ''agent''\<rparr>\<rparr>"
proof -
  have "normalizeUniqueId ''someone'' = Inr ''someone''" by code_simp
  moreover have "isAllowedSocketUrl example_runtime ''u'' ''7''"
    by (simp add: isAllowedSocketUrl_def example_runtime_def example_url_def SOCKET_HOSTS_def)
  moreover have "numeric_string ''7''" by code_simp
  ultimately have "parseConnectResponse example_runtime (Some example_answer) ''someone'' = Inr \<lparr>cr_uniqueId = ''someone'',
      cr_roomId = Some ''7'', cr_status = Live, cr_connection = Some \<lparr>cn_url = ''u'', cn_cookies = ''c=1'', cn_userAgent = ''agent''\<rparr>\<rparr>"
    by (simp add: parseConnectResponse_def example_answer_def isRecord_def j_is_num_def js_strict_eq_def isDigits_iff parse_descriptor_def)
  with \<open>normalizeUniqueId ''someone'' = Inr ''someone''\<close> show ?thesis
    by (simp add: api_connect_def broker_answer_def readBody_def readResponseText_def parse_body_def example_fetch_def
        example_runtime_def)
qed

lemma api_connect_sound_witness:
  "\<exists>url. rt_URL example_runtime ''u'' = Inr url \<and> pu_protocol url = ''wss:'' \<and> map_of (pu_params url) ''room_id'' = Some ''7''"
  using api_connect_sound [OF example_connect] by auto

text \<open>The delay before a reconnection attempt is never negative, never more than the policy's maximum, and lies between the doubled
  and capped base delay, rounded down, and one and a half times it, whatever the random source returns.\<close>

lemma reconnectDelay_bounds:
  assumes "0 \<le> sp_initialMs p" and "0 \<le> sp_maxMs p" and "1 \<le> att"
  shows "let base = min (sp_initialMs p * 2 ^ min 30 (att - 1)) (sp_maxMs p)
    in 0 \<le> reconnectDelay p att random \<and> reconnectDelay p att random \<le> sp_maxMs p \<and>
       of_int \<lfloor>base\<rfloor> \<le> reconnectDelay p att random \<and> reconnectDelay p att random \<le> 3 / 2 * base"
proof -
  define base where "base = min (sp_initialMs p * 2 ^ min 30 (att - 1)) (sp_maxMs p)"
  define jitter where "jitter = min 1 (max 0 random)"
  have e: "nat (max 0 (min 30 (int att - 1))) = min 30 (att - 1)" using assms(3) by linarith
  have b: "0 \<le> base" "base \<le> sp_maxMs p" using assms(1,2) by (simp_all add: base_def)
  have j: "0 \<le> jitter" "jitter \<le> 1" by (simp_all add: jitter_def)
  let ?x = "base * (1 + jitter * (1 / 2))"
  have "base * 1 \<le> ?x" "?x \<le> base * (3 / 2)" using b j by (intro mult_left_mono; simp)+
  moreover have "of_int \<lfloor>?x\<rfloor> \<le> ?x" by (rule of_int_floor_le)
  ultimately have x: "\<lfloor>base\<rfloor> \<le> \<lfloor>?x\<rfloor>" "of_int \<lfloor>?x\<rfloor> \<le> 3 / 2 * base"
    by (simp_all only: floor_mono)
  have r: "reconnectDelay p att random = min (sp_maxMs p) (of_int \<lfloor>?x\<rfloor>)"
    by (simp add: reconnectDelay_def Let_def e base_def jitter_def)
  have "0 \<le> \<lfloor>base\<rfloor>" "of_int \<lfloor>base\<rfloor> \<le> base" using b by simp_all
  with x b have "0 \<le> \<lfloor>?x\<rfloor>" "(of_int \<lfloor>base\<rfloor> :: rat) \<le> of_int \<lfloor>?x\<rfloor>" "of_int \<lfloor>base\<rfloor> \<le> sp_maxMs p"
    by (simp_all only: of_int_le_iff)
  then show ?thesis
    using x(2) assms(2) unfolding Let_def base_def [symmetric] r by (simp add: min_le_iff_disj)
qed

lemma reconnectDelay_bounds_witness:
  "0 \<le> reconnectDelay SDK_DEFAULT_RECONNECT 3 (1 / 2) \<and> reconnectDelay SDK_DEFAULT_RECONNECT 3 (1 / 2) \<le> 60000"
  using reconnectDelay_bounds [of SDK_DEFAULT_RECONNECT 3 "1 / 2"] by (simp add: Let_def SDK_DEFAULT_RECONNECT_def)

end
