(* ===== verification/Sdk.thy ===== *)
theory Sdk
  imports Client_Core Sdk_Api
begin

text \<open>
  \<open>packages/live-sdk/src/client.ts\<close>: the \<open>TikTokLive\<close> class that obtains a signed descriptor from the connect service
  and opens its socket directly; with it \<open>decoder.ts\<close>, the socket of \<open>transport.ts\<close> and the interval of
  \<open>heartbeat.ts\<close>. The record \<open>sdk\<close> extends \<open>core\<close>; the methods are cut at their \<open>await\<close>s and driven by inputs as
  in theory \<open>Client\<close>. What the connect service answers is computed by \<open>api_connect\<close> from what \<open>fetch\<close> yields.
\<close>

section \<open>State and construction\<close>

record PartialSdkPolicy =
  psp_attempts :: "jsnumber option"
  psp_initialMs :: "rat option"
  psp_maxMs :: "rat option"

record SdkOptions =
  so_api :: ConnectApiOptions
  so_eventDelivery :: "delivery_options option"
  so_maxBufferedBytes :: "jsnumber option"
  so_fetchGifts :: "bool option"
  so_reconnect :: "PartialSdkPolicy option"

record LiveState =
  ls_uniqueId :: string
  ls_roomId :: "string option"
  ls_status :: ConnectionStatus
  ls_connected :: bool

text \<open>The closure of a heartbeat interval.\<close>

record beat =
  bt_socket :: nat
  bt_roomId :: string
  bt_everyMs :: int

text \<open>Where a call of \<open>#connectFromApi\<close> waits: for the connect service, for the gift table, for \<open>#loadGifts\<close> to return, for
  the socket; \<open>D_done r b\<close> has settled with \<open>r\<close>, and \<open>b\<close> says whether its \<open>finally\<close> has run.\<close>

datatype sdk_pc =
    D_api
  | D_gifts ConnectionDescriptor string
  | D_ready ConnectionDescriptor string
  | D_open nat
  | D_done "(js_error, LiveState) result" bool

record sdk_task =
  st_generation :: nat
  st_pc :: sdk_pc

datatype sdk_promise = Settled LiveState | Pending nat

record sdk_recon =
  sr_generation :: nat
  sr_wait :: "sdk_promise option"

record sdk = core +
  sd_uniqueId :: string
  sd_api :: ConnectApi
  sd_fetchGifts :: bool
  sd_policy :: SdkPolicy
  sd_roomId :: "string option"
  sd_status :: ConnectionStatus
  sd_socketOpen :: bool
  sd_heartbeat :: "beat option"
  sd_tasks :: "sdk_task list"
  sd_reconnects :: "sdk_recon list"

type_synonym sdk_sys = "sdk \<times> LiveEvent delivery"
type_synonym sdk_env = "unit sdk_ext env"

definition sdk_policy :: "PartialSdkPolicy option \<Rightarrow> SdkPolicy" where
  "sdk_policy p = (case p of None \<Rightarrow> SDK_DEFAULT_RECONNECT
     | Some q \<Rightarrow> \<lparr>sp_attempts = opt_or (psp_attempts q) (sp_attempts SDK_DEFAULT_RECONNECT),
         sp_initialMs = opt_or (psp_initialMs q) (sp_initialMs SDK_DEFAULT_RECONNECT),
         sp_maxMs = opt_or (psp_maxMs q) (sp_maxMs SDK_DEFAULT_RECONNECT)\<rparr>)"

definition new_Sdk :: "runtime \<Rightarrow> string \<Rightarrow> SdkOptions \<Rightarrow> (js_error, sdk_sys) result" where
  "new_Sdk rt inp o1 =
     res_bind (writeBufferLimit (so_maxBufferedBytes o1)) (\<lambda>limit.
     res_bind (new_EventDelivery (so_eventDelivery o1)) (\<lambda>d.
     res_bind (normalizeUniqueId inp) (\<lambda>uniqueId.
     res_bind (new_ConnectApi rt (so_api o1)) (\<lambda>api.
       Inr (\<lparr>closing = False, generation = 0, socket = None, connecting = None, connectAbort = None, reconnectTimer = None,
         cancelOpen = None, attempt = 0, listenerErrors = 0, writeBufferRejections = 0, maxBufferedBytes = limit, gifts = [],
         sockets = [], trace = [], sd_uniqueId = uniqueId, sd_api = api, sd_fetchGifts = opt_or (so_fetchGifts o1) False,
         sd_policy = sdk_policy (so_reconnect o1), sd_roomId = None, sd_status = Offline, sd_socketOpen = False,
         sd_heartbeat = None, sd_tasks = [], sd_reconnects = []\<rparr>, d)))))"

definition sdk_connected :: "sdk \<Rightarrow> bool" where
  "sdk_connected c \<longleftrightarrow> sd_socketOpen c \<and> sd_status c = Live"

definition sdk_state :: "sdk \<Rightarrow> LiveState" where
  "sdk_state c = \<lparr>ls_uniqueId = sd_uniqueId c, ls_roomId = sd_roomId c, ls_status = sd_status c, ls_connected = sdk_connected c\<rparr>"

definition live_state_json :: "LiveState \<Rightarrow> json" where
  "live_state_json l = JObj [(''uniqueId'', JStr (ls_uniqueId l)),
     (''roomId'', (case ls_roomId l of Some r \<Rightarrow> JStr r | None \<Rightarrow> JNull)),
     (''status'', JStr (case ls_status l of Live \<Rightarrow> ''live'' | Offline \<Rightarrow> ''offline'')), (''connected'', JBool (ls_connected l))]"

abbreviation socket_error :: "string \<Rightarrow> js_error" where
  "socket_error m \<equiv> LiveApiErr (SocketError m None)"

definition sdk_cancelled :: js_error where
  "sdk_cancelled = socket_error ''connection cancelled''"

section \<open>The public calls\<close>

definition sdk_connect :: "sdk \<Rightarrow> sdk_promise \<times> sdk" where
  "sdk_connect c =
     (if sdk_connected c then (Settled (sdk_state c), c)
      else case connecting c of
          Some t \<Rightarrow> (Pending t, c)
        | None \<Rightarrow>
            let g = generation c + 1; t = length (sd_tasks c)
            in (Pending t, c\<lparr>closing := False, reconnectTimer := None, connectAbort := Some g, generation := g,
                 sd_tasks := sd_tasks c @ [\<lparr>st_generation = g, st_pc = D_api\<rparr>], connecting := Some t\<rparr>))"

definition sdk_cancelOpen :: "'z core_scheme \<Rightarrow> 'z core_scheme" where
  "sdk_cancelOpen c = (case cancelOpen c of None \<Rightarrow> c
     | Some i \<Rightarrow> upd_sock i (\<lambda>k. (if sk_settled k then k else settle (Inl sdk_cancelled) k)\<lparr>sk_timer := False\<rparr>) c)"

definition sdk_stopHeartbeat :: "sdk \<Rightarrow> sdk" where
  "sdk_stopHeartbeat c = c\<lparr>sd_heartbeat := None\<rparr>"

text \<open>As in \<open>disconnect_effects\<close>, \<open>O_terminate\<close> stands for \<open>socket.terminate?.()\<close>, whether or not the socket has the method.\<close>

definition sdk_disconnect :: "sdk \<Rightarrow> sdk" where
  "sdk_disconnect c =
     (sdk_stopHeartbeat ((sdk_cancelOpen (note_out (disconnect_effects c)
        (c\<lparr>closing := True, connectAbort := None, generation := generation c + 1, connecting := None\<rparr>)))
        \<lparr>cancelOpen := None, sd_socketOpen := False, reconnectTimer := None\<rparr>))\<lparr>socket := None\<rparr>"

definition sdk_calls :: "unit sdk_ext calls" where
  "sdk_calls = \<lparr>call_connect = on_core (\<lambda>c. snd (sdk_connect c)),
     call_disconnect = (\<lambda>s. (sdk_disconnect (fst s), clear (snd s)))\<rparr>"

section \<open>The socket\<close>

definition sdk_set_pc :: "nat \<Rightarrow> sdk_pc \<Rightarrow> sdk \<Rightarrow> sdk" where
  "sdk_set_pc t pc c = c\<lparr>sd_tasks := (sd_tasks c)[t := (sd_tasks c ! t)\<lparr>st_pc := pc\<rparr>]\<rparr>"

definition sdk_finish :: "nat \<Rightarrow> (js_error, LiveState) result \<Rightarrow> sdk \<Rightarrow> sdk" where
  "sdk_finish t r c = sdk_set_pc t (D_done r False) c"

text \<open>\<open>#open\<close> from its start to the handlers, with \<open>createDirectSocket\<close>.\<close>

definition sdk_open :: "sdk_env \<Rightarrow> nat \<Rightarrow> nat \<Rightarrow> ConnectionDescriptor \<Rightarrow> string \<Rightarrow> sdk_sys \<Rightarrow> sdk_sys" where
  "sdk_open env t g d roomId s =
     (let fail = (\<lambda>e. on_core (sdk_finish t (Inl e)))
      in if \<not> current g s then fail sdk_cancelled s
         else case ev_construct env s (cn_url d) of (cs, thrown) \<Rightarrow>
           let s1 = run_calls sdk_calls cs s; i = length (sockets (fst s1))
           in case thrown of
               Some e \<Rightarrow> fail (socket_error (''TikTok WebSocket could not be created: '' @ error_message e)) s1
             | None \<Rightarrow>
                 let s2 = on_core (add_socket g (cn_url d) (socketHeaders d) roomId) s1
                 in if \<not> current g s1
                    then fail sdk_cancelled (on_core (\<lambda>c. note_out [O_close i]
                      (upd_sock i (\<lambda>k. (settle (Inl sdk_cancelled) k)\<lparr>sk_timer := False\<rparr>) c)) s2)
                    else on_core (\<lambda>c. sdk_set_pc t (D_open i) (c\<lparr>socket := Some i, cancelOpen := Some i\<rparr>)) s2)"

definition sdk_startHeartbeat :: "nat \<Rightarrow> string \<Rightarrow> int \<Rightarrow> sdk \<Rightarrow> sdk" where
  "sdk_startHeartbeat i roomId everyMs c =
     (sdk_stopHeartbeat c)\<lparr>sd_heartbeat := Some \<lparr>bt_socket = i, bt_roomId = roomId, bt_everyMs = heartbeat_interval everyMs\<rparr>\<rparr>"

text \<open>The callback of the interval: what it throws is swallowed by \<open>startHeartbeat\<close>.\<close>

definition sdk_heartbeat_tick :: "sdk_env \<Rightarrow> sdk_sys \<Rightarrow> sdk_sys" where
  "sdk_heartbeat_tick env s =
     (case sd_heartbeat (fst s) of None \<Rightarrow> s
      | Some b \<Rightarrow>
          (case heartbeatFrame (cd_encodeBeat (ev_codec env)) (cd_encodeFrame (ev_codec env)) (bt_roomId b) of
             Inl _ \<Rightarrow> s
           | Inr frame \<Rightarrow>
               if socket (fst s) \<noteq> Some (bt_socket b) then s
               else (case send sdk_calls env (bt_socket b) frame s of
                   (None, s') \<Rightarrow> s'
                 | (Some e, s') \<Rightarrow> if is_write_overflow e then emitError sdk_calls env e s' else s')))"

definition SDK_OPEN_TIMEOUT_MS :: int where "SDK_OPEN_TIMEOUT_MS = 15000"

definition sdk_open_timeout :: "nat \<Rightarrow> sdk \<Rightarrow> sdk" where
  "sdk_open_timeout i c =
     (if valid_sock i c \<and> sk_timer (sock_of i c)
      then if sk_settled (sock_of i c) then upd_sock i (\<lambda>k. k\<lparr>sk_timer := False\<rparr>) c
           else note_out [O_close i] (upd_sock i (\<lambda>k. (settle (Inl (socket_error (''TikTok WebSocket did not open within '' @
                  int_str SDK_OPEN_TIMEOUT_MS @ '' ms''))) k)\<lparr>sk_timer := False\<rparr>) c)
      else c)"

definition sdk_opened :: "nat \<Rightarrow> sdk \<Rightarrow> sdk" where
  "sdk_opened i c = (upd_sock i (\<lambda>k. (settle (Inr ()) k)\<lparr>sk_opened := True, sk_timer := False\<rparr>)
     ((sdk_startHeartbeat i (sk_roomId (sock_of i c)) 10000 c)\<lparr>sd_status := Live, sd_socketOpen := True, attempt := 0\<rparr>))
     \<lparr>cancelOpen := None\<rparr>"

definition sdk_on_open :: "sdk_env \<Rightarrow> nat \<Rightarrow> sdk_sys \<Rightarrow> sdk_sys" where
  "sdk_on_open env i s =
     (if \<not> valid_sock i (fst s) \<or> sk_settled (sock_of i (fst s)) then s
      else if \<not> current (sk_generation (sock_of i (fst s))) s \<or> socket (fst s) \<noteq> Some i
      then on_core (\<lambda>c. note_out [O_close i] (upd_sock i (\<lambda>k. (settle (Inl sdk_cancelled) k)\<lparr>sk_timer := False\<rparr>) c)) s
      else case send_built sdk_calls env i (enterRoomFrame (cd_encodeEnter (ev_codec env)) (cd_encodeFrame (ev_codec env))
              (sk_roomId (sock_of i (fst s))) audience LIVE_ID) s of
            (Some e, s1) \<Rightarrow> on_core (\<lambda>c. note_out [O_close i] (upd_sock i (\<lambda>k. (settle (Inl (socket_error
                (''enter-room frame could not be sent: '' @ String_error e))) k)\<lparr>sk_timer := False\<rparr>) c)) s1
          | (None, s1) \<Rightarrow> let s2 = on_core (sdk_opened i) s1
              in notify sdk_calls env (E_connected (live_state_json (sdk_state (fst s2)))) s2)"

definition sdk_heartbeat_hint :: "nat \<Rightarrow> ProtoMessageFetchResult \<Rightarrow> sdk \<Rightarrow> sdk" where
  "sdk_heartbeat_hint i batch c =
     (if fr_heartbeatDuration batch > 0
      then sdk_startHeartbeat i (opt_or (sd_roomId c) ''0'') (boundedHeartbeatMs (fr_heartbeatDuration batch)) c else c)"

definition sdk_acknowledge :: "sdk_env \<Rightarrow> nat \<Rightarrow> WebcastPushFrame \<Rightarrow> ProtoMessageFetchResult \<Rightarrow> sdk_sys \<Rightarrow> sdk_sys" where
  "sdk_acknowledge env i frame batch s =
     (if fr_needAck batch
      then (case send_built sdk_calls env i
               (ackFrameForBatch (cd_encodeFrame (ev_codec env)) frame (fr_internalExt batch)) s of
             (None, s') \<Rightarrow> s' | (Some e, s') \<Rightarrow> emitError sdk_calls env e s')
      else s)"

definition sdk_receive :: "sdk_env \<Rightarrow> nat \<Rightarrow> bytes \<Rightarrow> sdk_sys \<Rightarrow> sdk_sys" where
  "sdk_receive env i data s =
     (case decode_message (ev_codec env) data of
        Inl e \<Rightarrow> emitError sdk_calls env e s
      | Inr None \<Rightarrow> s
      | Inr (Some (frame, batch)) \<Rightarrow>
          submit_messages sdk_calls env (generation (fst s)) (fr_messages batch)
            (sdk_acknowledge env i frame batch (on_core (sdk_heartbeat_hint i batch) s)))"

definition sdk_on_message :: "sdk_env \<Rightarrow> nat \<Rightarrow> bytes \<Rightarrow> sdk_sys \<Rightarrow> sdk_sys" where
  "sdk_on_message env i data s =
     (if valid_sock i (fst s) \<and> \<not> closing (fst s) \<and> socket (fst s) = Some i \<and> sk_generation (sock_of i (fst s)) = generation (fst s)
      then sdk_receive env i data s else s)"

definition sdk_on_error :: "sdk_env \<Rightarrow> nat \<Rightarrow> string option \<Rightarrow> sdk_sys \<Rightarrow> sdk_sys" where
  "sdk_on_error env i message s =
     (if \<not> valid_sock i (fst s) \<or> socket (fst s) \<noteq> Some i \<or> sk_generation (sock_of i (fst s)) \<noteq> generation (fst s) then s
      else if sk_settled (sock_of i (fst s))
      then emitError sdk_calls env (socket_error (opt_or message ''TikTok WebSocket error'')) s
      else s)"

section \<open>Reconnecting\<close>

text \<open>\<open>attempt < Math.max(0, Math.floor(attempts))\<close>.\<close>

fun attempts_left :: "jsnumber \<Rightarrow> nat \<Rightarrow> bool" where
  "attempts_left (Fin q) n = (int n < max 0 \<lfloor>q\<rfloor>)"
| "attempts_left NegZero n = False"
| "attempts_left NegInf n = False"
| "attempts_left _ n = True"

definition attempts_text :: "jsnumber \<Rightarrow> string" where
  "attempts_text a = (case a of Fin q \<Rightarrow> int_str (max 0 \<lfloor>q\<rfloor>) | _ \<Rightarrow> ''0'')"

text \<open>The delay kept in \<open>reconnectTimer\<close> is the argument of \<open>setTimeout\<close>; what Node makes of it is \<open>node_timeout\<close> in theory \<open>Sdk_Properties\<close>.\<close>

definition sdk_scheduleReconnect :: "sdk_env \<Rightarrow> int \<Rightarrow> sdk_sys \<Rightarrow> sdk_sys" where
  "sdk_scheduleReconnect env minDelayMs s =
     (if closing (fst s) \<or> reconnectTimer (fst s) \<noteq> None then s
      else let p = sd_policy (fst s)
           in if \<not> attempts_left (sp_attempts p) (attempt (fst s))
              then emitError sdk_calls env (LiveApiErr (LiveApiError ''SOCKET_ERROR''
                (''gave up after '' @ attempts_text (sp_attempts p) @ '' reconnection attempts'') None None None None)) s
              else let s1 = on_core (\<lambda>c. c\<lparr>attempt := attempt c + 1\<rparr>) s;
                       delayMs = max (reconnectDelay p (attempt (fst s1)) (ev_random env)) (max 0 (of_int minDelayMs));
                       g = generation (fst s);
                       s2 = notify sdk_calls env (E_reconnecting (attempt (fst s1)) delayMs) s1
                   in if \<not> current g s2 then s2
                      else on_core (\<lambda>c. c\<lparr>reconnectTimer := Some (delayMs, g)\<rparr>) s2)"

definition sdk_closed :: "sdk \<Rightarrow> sdk" where
  "sdk_closed c = sdk_stopHeartbeat (c\<lparr>cancelOpen := None, socket := None, sd_socketOpen := False\<rparr>)"

definition sdk_on_close :: "sdk_env \<Rightarrow> nat \<Rightarrow> int \<Rightarrow> string option \<Rightarrow> sdk_sys \<Rightarrow> sdk_sys" where
  "sdk_on_close env i closeCode reason s =
     (if \<not> valid_sock i (fst s) then s
      else let s0 = on_core (upd_sock i (\<lambda>k. k\<lparr>sk_timer := False\<rparr>)) s
           in if socket (fst s) \<noteq> Some i then s0
              else let s1 = on_core sdk_closed s0
                   in if \<not> sk_opened (sock_of i (fst s))
                      then if sk_settled (sock_of i (fst s)) then s1
                           else on_core (upd_sock i (settle (Inl (LiveApiErr (SocketError
                             (''TikTok WebSocket handshake was rejected (code '' @ int_str closeCode @ '')'') (Some closeCode)))))) s1
                      else let s2 = notify sdk_calls env (E_disconnected closeCode (opt_or reason []))
                                  (on_core (\<lambda>c. c\<lparr>sd_status := Live\<rparr>) s1)
                           in if \<not> closing (fst s2) then sdk_scheduleReconnect env 0 s2 else s2)"

section \<open>Resuming the asynchronous methods\<close>

datatype sdk_answer =
    W_none
  | W_fetch "string \<Rightarrow> (string \<times> string) list \<Rightarrow> string \<Rightarrow> (js_error, broker_response) result"
  | W_gifts "(js_error, (string \<times> json) list) result"

text \<open>\<open>#connectFromApi\<close> after the connect service has answered.\<close>

definition sdk_described :: "sdk_env \<Rightarrow> nat \<Rightarrow> nat \<Rightarrow> ConnectResponse \<Rightarrow> sdk_sys \<Rightarrow> sdk_sys" where
  "sdk_described env t g r s =
     (let s1 = on_core (\<lambda>c. c\<lparr>sd_roomId := cr_roomId r, sd_status := cr_status r\<rparr>) s
      in if cr_status r = Offline
         then (let s2 = notify sdk_calls env E_offline (on_core sdk_stopHeartbeat s1)
               in on_core (\<lambda>c. sdk_finish t (Inr (sdk_state c)) c) s2)
         else case (cr_connection r, cr_roomId r) of
             (Some d, Some roomId) \<Rightarrow>
               if roomId = [] then on_core (sdk_finish t (Inl (protocol_error ''live response did not include connection metadata''))) s1
               else if sd_fetchGifts (fst s1) then on_core (sdk_set_pc t (D_gifts d roomId)) s1
               else sdk_open env t g d roomId s1
           | _ \<Rightarrow> on_core (sdk_finish t (Inl (protocol_error ''live response did not include connection metadata''))) s1)"

text \<open>\<open>#loadGifts\<close> after the gift table has answered.\<close>

definition sdk_loadGifts :: "sdk_env \<Rightarrow> nat \<Rightarrow> nat \<Rightarrow> sdk_pc \<Rightarrow> (js_error, (string \<times> json) list) result \<Rightarrow> sdk_sys \<Rightarrow> sdk_sys" where
  "sdk_loadGifts env t g next_pc r s =
     (if \<not> current g s then on_core (sdk_finish t (Inl sdk_cancelled)) s
      else case r of
          Inr table \<Rightarrow> on_core (\<lambda>c. sdk_set_pc t next_pc (c\<lparr>gifts := table\<rparr>)) s
        | Inl e \<Rightarrow> on_core (\<lambda>c. sdk_set_pc t next_pc (c\<lparr>gifts := []\<rparr>)) (emitError sdk_calls env e s))"

definition sdk_resume :: "runtime \<Rightarrow> sdk_env \<Rightarrow> nat \<Rightarrow> sdk_answer \<Rightarrow> sdk_sys \<Rightarrow> sdk_sys" where
  "sdk_resume rt env t v s =
     (let c = fst s; g = st_generation (sd_tasks c ! t); fail = (\<lambda>e. on_core (sdk_finish t (Inl e)) s)
      in if t \<ge> length (sd_tasks c) then s
         else case st_pc (sd_tasks c ! t) of
            D_api \<Rightarrow> (case v of
                W_fetch f \<Rightarrow> (case api_connect rt f (sd_api c) (sd_uniqueId c) of
                    Inl e \<Rightarrow> fail e
                  | Inr r \<Rightarrow> if current g s then sdk_described env t g r s else fail sdk_cancelled)
              | _ \<Rightarrow> s)
          | D_gifts d roomId \<Rightarrow> (case v of W_gifts r \<Rightarrow> sdk_loadGifts env t g (D_ready d roomId) r s | _ \<Rightarrow> s)
          | D_ready d roomId \<Rightarrow> if current g s then sdk_open env t g d roomId s else fail sdk_cancelled
          | D_open i \<Rightarrow> (case (if valid_sock i c then sk_outcome (sock_of i c) else None) of
                None \<Rightarrow> s
              | Some (Inl e) \<Rightarrow> fail e
              | Some (Inr _) \<Rightarrow> on_core (\<lambda>c. sdk_finish t (Inr (sdk_state c)) c) s)
          | D_done _ _ \<Rightarrow> s)"

definition sdk_finally :: "nat \<Rightarrow> sdk \<Rightarrow> sdk" where
  "sdk_finally t c =
     (if t < length (sd_tasks c)
      then case st_pc (sd_tasks c ! t) of
          D_done r False \<Rightarrow> sdk_set_pc t (D_done r True) (if connecting c = Some t then c\<lparr>connecting := None\<rparr> else c)
        | _ \<Rightarrow> c
      else c)"

definition sdk_outcome :: "sdk_promise \<Rightarrow> sdk \<Rightarrow> (js_error, LiveState) result option" where
  "sdk_outcome p c = (case p of
       Settled l \<Rightarrow> Some (Inr l)
     | Pending t \<Rightarrow> if t < length (sd_tasks c)
         then (case st_pc (sd_tasks c ! t) of D_done r True \<Rightarrow> Some r | _ \<Rightarrow> None) else None)"

text \<open>The callback of the reconnection timer, which starts \<open>#reconnect\<close>.\<close>

definition sdk_start_reconnect :: "sdk \<Rightarrow> sdk" where
  "sdk_start_reconnect c = (case sdk_connect c of (p, c') \<Rightarrow>
     c'\<lparr>sd_reconnects := sd_reconnects c' @ [\<lparr>sr_generation = generation c', sr_wait = Some p\<rparr>]\<rparr>)"

definition sdk_reconnect_timer :: "sdk \<Rightarrow> sdk" where
  "sdk_reconnect_timer c = (case reconnectTimer c of
       None \<Rightarrow> c
     | Some (delayMs, g) \<Rightarrow>
         let c1 = c\<lparr>reconnectTimer := None\<rparr>
         in if closing c \<or> g \<noteq> generation c then c1 else sdk_start_reconnect c1)"

definition retry_after :: "js_error \<Rightarrow> int" where
  "retry_after e = (case e of LiveApiErr x \<Rightarrow> opt_or (lae_retryAfterMs x) 0 | _ \<Rightarrow> 0)"

definition sdk_resume_reconnect :: "sdk_env \<Rightarrow> nat \<Rightarrow> sdk_sys \<Rightarrow> sdk_sys" where
  "sdk_resume_reconnect env r s =
     (let c = fst s; g = sr_generation (sd_reconnects c ! r);
          s0 = on_core (\<lambda>c. c\<lparr>sd_reconnects := (sd_reconnects c)[r := (sd_reconnects c ! r)\<lparr>sr_wait := None\<rparr>]\<rparr>) s
      in if r \<ge> length (sd_reconnects c) then s
         else case sr_wait (sd_reconnects c ! r) of
             None \<Rightarrow> s
           | Some p \<Rightarrow> (case sdk_outcome p c of
                 None \<Rightarrow> s
               | Some (Inr l) \<Rightarrow> if ls_status l = Offline \<and> \<not> closing c then sdk_scheduleReconnect env 0 s0 else s0
               | Some (Inl e) \<Rightarrow>
                   if \<not> current g s then s0
                   else let s1 = emitError sdk_calls env e s0
                        in if \<not> closing (fst s1) \<and> isRetryable e then sdk_scheduleReconnect env (retry_after e) s1 else s1))"

section \<open>Steps\<close>

datatype sdk_input =
    J_connect
  | J_disconnect
  | J_resume nat sdk_answer
  | J_finally nat
  | J_reconnectTimer
  | J_resumeReconnect nat
  | J_open nat
  | J_message nat bytes
  | J_error nat "string option"
  | J_close nat int "string option"
  | J_openTimeout nat
  | J_heartbeat
  | J_immediate "nat \<Rightarrow> rat"

fun sdk_step :: "runtime \<Rightarrow> sdk_env \<Rightarrow> sdk_input \<Rightarrow> sdk_sys \<Rightarrow> sdk_sys" where
  "sdk_step rt env J_connect s = call_connect sdk_calls s"
| "sdk_step rt env J_disconnect s = call_disconnect sdk_calls s"
| "sdk_step rt env (J_resume t v) s = sdk_resume rt env t v s"
| "sdk_step rt env (J_finally t) s = on_core (sdk_finally t) s"
| "sdk_step rt env J_reconnectTimer s = on_core sdk_reconnect_timer s"
| "sdk_step rt env (J_resumeReconnect r) s = sdk_resume_reconnect env r s"
| "sdk_step rt env (J_open i) s = sdk_on_open env i s"
| "sdk_step rt env (J_message i data) s = sdk_on_message env i data s"
| "sdk_step rt env (J_error i m) s = sdk_on_error env i m s"
| "sdk_step rt env (J_close i closeCode reason) s = sdk_on_close env i closeCode reason s"
| "sdk_step rt env (J_openTimeout i) s = on_core (sdk_open_timeout i) s"
| "sdk_step rt env J_heartbeat s = sdk_heartbeat_tick env s"
| "sdk_step rt env (J_immediate now) s = run_immediate sdk_calls env now s"

inductive sdk_reachable :: "runtime \<Rightarrow> sdk_sys \<Rightarrow> bool" for rt where
  initial: "new_Sdk rt inp o1 = Inr s \<Longrightarrow> sdk_reachable rt s"
| stepped: "sdk_reachable rt s \<Longrightarrow> sdk_reachable rt (sdk_step rt env x s)"

section \<open>Decoding without a client\<close>

record DecodedFrame =
  df_frame :: WebcastPushFrame
  df_events :: "(LiveEvent \<times> string \<times> bool) list"
  df_heartbeatDuration :: int
  df_needAck :: bool
  df_internalExt :: string

definition decodeFrameEvents :: "codec \<Rightarrow> bytes \<Rightarrow> (js_error, DecodedFrame option) result" where
  "decodeFrameEvents cd inp =
     res_bind (decodePushFrame (cd_pushFrame cd) inp) (\<lambda>frame.
       if pf_payloadType frame \<noteq> ''msg'' then Inr None
       else res_bind (decompress (cd_gunzip cd) frame) (\<lambda>payload.
         res_bind (decodeBatch (cd_batch cd) payload) (\<lambda>batch.
           Inr (Some \<lparr>df_frame = frame,
             df_events = map (\<lambda>m. (let ev = decodeEvent (cd_host cd) (cd_decoders cd) (bm_method m) (bm_payload m)
                 in ev\<lparr>le_props := obj_put ''isHistory'' (JBool (bm_isHistory m))
                      (obj_put ''msgId'' (JStr (int_str (bm_msgId m))) (le_props ev))\<rparr>,
                 int_str (bm_msgId m), bm_isHistory m)) (fr_messages batch),
             df_heartbeatDuration = fr_heartbeatDuration batch, df_needAck = fr_needAck batch,
             df_internalExt = fr_internalExt batch\<rparr>))))"

end
