(* ===== verification/Sdk_Invariants.thy ===== *)
theory Sdk_Invariants
  imports Sdk
begin

text \<open>
  Invariants of \<open>live-sdk/src/client.ts\<close>. \<open>sdk_ok rt\<close> says what the fields promise each other between two steps, that a
  descriptor is kept only if the connect client accepted it, and that every socket opened so far was opened on such a
  descriptor. The public calls keep it, so by the locale \<open>client_calls\<close> no listener or socket constructor can break it from
  within a step, and every input keeps it.
\<close>

section \<open>The invariant\<close>

definition allowed_target :: "runtime \<Rightarrow> string \<Rightarrow> string \<Rightarrow> bool" where
  "allowed_target rt url roomId \<longleftrightarrow> isAllowedSocketUrl rt url roomId \<and> numeric_string roomId \<and> roomId \<noteq> ''0''"

fun pc_allowed :: "runtime \<Rightarrow> sdk_pc \<Rightarrow> bool" where
  "pc_allowed rt (D_gifts d roomId) = allowed_target rt (cn_url d) roomId"
| "pc_allowed rt (D_ready d roomId) = allowed_target rt (cn_url d) roomId"
| "pc_allowed rt _ = True"

fun effect_allowed :: "runtime \<Rightarrow> effect \<Rightarrow> bool" where
  "effect_allowed rt (O_new url hs) = (\<exists>roomId. allowed_target rt url roomId)"
| "effect_allowed rt _ = True"

fun sdk_past_open :: "sdk_pc \<Rightarrow> bool" where
  "sdk_past_open (D_open i) = True"
| "sdk_past_open (D_done r b) = True"
| "sdk_past_open _ = False"

definition sdk_stopped :: "sdk \<Rightarrow> bool" where
  "sdk_stopped c \<longleftrightarrow> \<not> sd_socketOpen c \<and> socket c = None \<and> sd_heartbeat c = None \<and> reconnectTimer c = None \<and>
     connecting c = None \<and> cancelOpen c = None"

definition sdk_live :: "sdk \<Rightarrow> nat \<Rightarrow> bool" where
  "sdk_live c i \<longleftrightarrow> i < length (sockets c) \<and>
     (sd_socketOpen c \<longrightarrow> sk_generation (sockets c ! i) = generation c \<and> sk_opened (sockets c ! i) \<and> sk_settled (sockets c ! i))"

definition sdk_tasks_ok :: "runtime \<Rightarrow> sdk \<Rightarrow> bool" where
  "sdk_tasks_ok rt c \<longleftrightarrow> (\<forall>i < length (sockets c). sk_generation (sockets c ! i) \<le> generation c) \<and>
     (\<forall>t < length (sd_tasks c). st_generation (sd_tasks c ! t) \<le> generation c) \<and>
     (\<forall>t < length (sd_tasks c). \<forall>t' < t. st_generation (sd_tasks c ! t') < st_generation (sd_tasks c ! t)) \<and>
     (\<forall>t < length (sd_tasks c). \<forall>i < length (sockets c).
        sk_generation (sockets c ! i) = st_generation (sd_tasks c ! t) \<longrightarrow> sdk_past_open (st_pc (sd_tasks c ! t))) \<and>
     (\<forall>t < length (sd_tasks c). pc_allowed rt (st_pc (sd_tasks c ! t)))"

definition sdk_ok :: "runtime \<Rightarrow> sdk \<Rightarrow> bool" where
  "sdk_ok rt c \<longleftrightarrow> (closing c \<longrightarrow> sdk_stopped c) \<and>
     (socket c = None \<longrightarrow> \<not> sd_socketOpen c \<and> sd_heartbeat c = None) \<and>
     (\<forall>i. socket c = Some i \<longrightarrow> sdk_live c i) \<and> (sd_socketOpen c \<longrightarrow> sd_status c = Live) \<and>
     (\<forall>t. connecting c = Some t \<longrightarrow> t < length (sd_tasks c) \<and> st_generation (sd_tasks c ! t) = generation c) \<and>
     (attempt c = 0 \<or> attempts_left (sp_attempts (sd_policy c)) (attempt c - 1)) \<and> sdk_tasks_ok rt c \<and>
     list_all (effect_allowed rt) (trace c)"

lemmas sdk_ok_defs = sdk_ok_def sdk_stopped_def sdk_live_def sdk_tasks_ok_def

lemma sdk_ok_note:
  assumes "sdk_ok rt c" and "list_all (effect_allowed rt) os"
  shows "sdk_ok rt (note_out os c)"
  using assms by (auto simp: sdk_ok_defs note_out_def)

lemma sdk_ok_set_pc:
  assumes "sdk_ok rt c" and "sdk_past_open (st_pc (sd_tasks c ! t)) \<Longrightarrow> sdk_past_open pc" and "pc_allowed rt pc"
  shows "sdk_ok rt (sdk_set_pc t pc c)"
  using assms by (auto simp: sdk_ok_defs sdk_set_pc_def nth_update_if)

lemma sdk_ok_finish [simp]: "sdk_ok rt c \<Longrightarrow> sdk_ok rt (sdk_finish t r c)"
  by (simp add: sdk_finish_def sdk_ok_set_pc)

lemma sdk_ok_upd_sock:
  assumes "sdk_ok rt c" and "\<And>k. sk_generation (f k) = sk_generation k"
    and "\<And>k. sk_opened k \<Longrightarrow> sk_opened (f k)" and "\<And>k. sk_settled k \<Longrightarrow> sk_settled (f k)"
  shows "sdk_ok rt (upd_sock i f c)"
  using assms by (auto simp: sdk_ok_defs upd_sock_def nth_update_if)

lemma sdk_connect_same: "sdk_connected c \<or> connecting c \<noteq> None \<Longrightarrow> snd (sdk_connect c) = c"
  by (auto simp: sdk_connect_def)

lemma sdk_connect_new:
  "\<not> sdk_connected c \<Longrightarrow> connecting c = None \<Longrightarrow> sdk_connect c = (Pending (length (sd_tasks c)),
     c\<lparr>closing := False, reconnectTimer := None, connectAbort := Some (generation c + 1), generation := generation c + 1,
       sd_tasks := sd_tasks c @ [\<lparr>st_generation = generation c + 1, st_pc = D_api\<rparr>], connecting := Some (length (sd_tasks c))\<rparr>)"
  by (simp add: sdk_connect_def Let_def)

lemma sdk_ok_connect: "sdk_ok rt c \<Longrightarrow> sdk_ok rt (snd (sdk_connect c))"
proof (cases "sdk_connected c \<or> connecting c \<noteq> None")
  case False
  assume "sdk_ok rt c"
  moreover from this False have "\<not> sd_socketOpen c" by (auto simp: sdk_connected_def sdk_ok_def)
  ultimately show ?thesis
    using False by (auto simp: sdk_connect_new sdk_ok_defs nth_append less_Suc_eq less_Suc_eq_le)
qed (simp add: sdk_connect_same)

lemma sdk_cancelOpen_frame [simp]:
  "closing (sdk_cancelOpen c) = closing c" "generation (sdk_cancelOpen c) = generation c" "socket (sdk_cancelOpen c) = socket c"
  "connecting (sdk_cancelOpen c) = connecting c" "attempt (sdk_cancelOpen c) = attempt c" "trace (sdk_cancelOpen c) = trace c"
  "core.more (sdk_cancelOpen c) = core.more c"
  by (simp_all add: sdk_cancelOpen_def split: option.split)

lemma sdk_ok_cancelOpen: "sdk_ok rt c \<Longrightarrow> sdk_ok rt (sdk_cancelOpen c)"
  by (auto simp: sdk_cancelOpen_def settle_def split: option.split intro!: sdk_ok_upd_sock)

text \<open>\<open>disconnect\<close> as one update after the pending promise is rejected.\<close>

lemma sdk_disconnect_alt:
  "sdk_disconnect c = note_out (disconnect_effects c) ((sdk_cancelOpen c)\<lparr>closing := True, connectAbort := None,
     generation := generation c + 1, connecting := None, cancelOpen := None, reconnectTimer := None, socket := None,
     sd_socketOpen := False, sd_heartbeat := None\<rparr>)"
  by (cases c) (simp add: sdk_disconnect_def sdk_stopHeartbeat_def sdk_cancelOpen_def note_out_def upd_sock_def split: option.split)

lemma sdk_ok_disconnect:
  assumes "sdk_ok rt c"
  shows "sdk_ok rt (sdk_disconnect c)"
  using sdk_ok_cancelOpen [OF assms] unfolding sdk_disconnect_alt
  by (intro sdk_ok_note) (auto simp: sdk_ok_defs disconnect_effects_def split: option.splits)

interpretation sdk: client_calls sdk_calls "sdk_ok rt" for rt
proof
  show "closing (fst s)" if "closing (fst (call_connect sdk_calls s))" for s
    using that by (auto simp: sdk_calls_def sdk_connect_def Let_def split: if_splits option.splits)
qed (simp_all add: sdk_calls_def sdk_ok_connect sdk_ok_disconnect sdk_ok_note, simp_all add: sdk_ok_defs count_listener_error_def)

text \<open>What the public calls never undo.\<close>

definition sdk_extends :: "sdk \<Rightarrow> sdk \<Rightarrow> bool" where
  "sdk_extends c0 c \<longleftrightarrow> (\<exists>ts. sd_tasks c = sd_tasks c0 @ ts) \<and> generation c0 \<le> generation c \<and> (\<exists>os. trace c = trace c0 @ os)"

lemma sdk_extends_refl [simp]: "sdk_extends c c"
  by (simp add: sdk_extends_def)

lemma sdk_more [simp]:
  "sd_tasks (sdk_cancelOpen c) = sd_tasks c" "sd_tasks (note_out os c) = sd_tasks c" "sd_tasks (upd_sock i f c) = sd_tasks c"
  by (simp_all add: sdk_cancelOpen_def upd_sock_def note_out_def split: option.split)

lemma sdk_extends_connect: "sdk_extends c0 c \<Longrightarrow> sdk_extends c0 (snd (sdk_connect c))"
  by (cases "sdk_connected c \<or> connecting c \<noteq> None")
    (auto simp: sdk_connect_same sdk_connect_new sdk_extends_def)

interpretation sdk_ext: client_calls sdk_calls "sdk_extends c0" for c0
proof
  show "closing (fst s)" if "closing (fst (call_connect sdk_calls s))" for s by (rule sdk.connect_closing [OF that])
  show "sdk_extends c0 (fst (call_disconnect sdk_calls s))" if "sdk_extends c0 (fst s)" for s
    using that by (auto simp: sdk_calls_def sdk_disconnect_alt sdk_extends_def)
qed (simp_all add: sdk_calls_def sdk_extends_connect, auto simp: sdk_extends_def count_listener_error_def)

lemma sdk_extends_calls: "idle s \<Longrightarrow> sdk_extends (fst s) (fst (run_calls sdk_calls cs s))"
  using sdk_ext.calls_good [of "fst s" s cs] by (simp add: sdk_ext.good_def)

lemma sdk_extends_emitError: "idle s \<Longrightarrow> sdk_extends (fst s) (fst (emitError sdk_calls env e s))"
  using sdk_ext.emitError_good [of "fst s" s env e] by (simp add: sdk_ext.good_def)

lemma sdk_extends_task: "sdk_extends c0 c \<Longrightarrow> t < length (sd_tasks c0) \<Longrightarrow> t < length (sd_tasks c) \<and> sd_tasks c ! t = sd_tasks c0 ! t"
  by (auto simp: sdk_extends_def nth_append)

section \<open>Every input keeps it\<close>

lemmas sdk_on_core = sdk.sound_on_core
lemmas sdk_sound_ok = sdk.sound_P
lemmas sdk_sound_idle = sdk.sound_idle

lemma sdk_pc_frame [simp]:
  "closing (sdk_set_pc t pc c) = closing c" "closing (sdk_finish t r c) = closing c"
  "generation (sdk_set_pc t pc c) = generation c" "generation (sdk_finish t r c) = generation c"
  "trace (sdk_set_pc t pc c) = trace c" "trace (sdk_finish t r c) = trace c"
  by (simp_all add: sdk_set_pc_def sdk_finish_def)

lemma sdk_good_finish: "sdk.sound rt s \<Longrightarrow> sdk.sound rt (on_core (\<lambda>c. sdk_finish t (r c) c) s)"
  by (rule sdk_on_core) (simp_all add: sdk_sound_ok)

lemma sdk_good_upd_sock:
  assumes "sdk.sound rt s" and "\<And>k. sk_generation (f k) = sk_generation k"
    and "\<And>k. sk_opened k \<Longrightarrow> sk_opened (f k)" and "\<And>k. sk_settled k \<Longrightarrow> sk_settled (f k)"
  shows "sdk.sound rt (on_core (upd_sock i f) s)"
  using assms by (intro sdk_on_core) (simp_all add: sdk_ok_upd_sock sdk_sound_ok)

lemma sdk_good_refused:
  assumes "sdk.sound rt s"
  shows "sdk.sound rt (on_core (\<lambda>c. note_out [O_close i] (upd_sock i (\<lambda>k. (settle r k)\<lparr>sk_timer := False\<rparr>) c)) s)"
  using sdk_sound_ok [OF assms] by (intro sdk_on_core [OF assms] sdk_ok_note sdk_ok_upd_sock) (simp_all add: settle_def)

text \<open>Opening a socket for a task that has none.\<close>

lemma sdk_unique_generation:
  assumes "sdk_ok rt c" and "t < length (sd_tasks c)" and "t' < length (sd_tasks c)"
    and "st_generation (sd_tasks c ! t') = st_generation (sd_tasks c ! t)"
  shows "t' = t"
  using assms unfolding sdk_ok_def sdk_tasks_ok_def by (metis less_irrefl nat_neq_iff)

lemma sdk_ok_add_socket:
  assumes ok: "sdk_ok rt c" and t: "t < length (sd_tasks c)" and pc: "sdk_past_open pc" "pc_allowed rt pc"
    and url: "allowed_target rt url roomId"
  shows "sdk_ok rt (sdk_set_pc t pc (add_socket (st_generation (sd_tasks c ! t)) url hs room c))"
proof -
  have "sdk_tasks_ok rt (sdk_set_pc t pc (add_socket (st_generation (sd_tasks c ! t)) url hs room c))"
    using ok t pc sdk_unique_generation [OF ok t]
    by (simp add: sdk_ok_def sdk_tasks_ok_def sdk_set_pc_def add_socket_def note_out_def nth_append nth_update_if less_Suc_eq) metis
  with ok url show ?thesis
    by (auto simp: sdk_ok_def sdk_stopped_def sdk_live_def sdk_set_pc_def add_socket_def note_out_def nth_append nth_update_if)
qed

lemma sdk_ok_assign:
  "sdk_ok rt c \<Longrightarrow> \<not> closing c \<Longrightarrow> \<not> sd_socketOpen c \<Longrightarrow> i < length (sockets c) \<Longrightarrow>
   sdk_ok rt (c\<lparr>socket := Some i, cancelOpen := Some i\<rparr>)"
  by (auto simp: sdk_ok_defs)

lemma sdk_set_pc_commute:
  fixes c :: sdk
  shows "sdk_set_pc t pc (c\<lparr>socket := a, cancelOpen := b\<rparr>) = (sdk_set_pc t pc c)\<lparr>socket := a, cancelOpen := b\<rparr>"
    and "sdk_set_pc t pc (note_out os (upd_sock i f c)) = note_out os (upd_sock i f (sdk_set_pc t pc c))"
  by (cases c, simp add: sdk_set_pc_def note_out_def upd_sock_def)+

lemma sdk_no_early_socket:
  assumes ok: "sdk_ok rt c" and t: "t < length (sd_tasks c)" "st_generation (sd_tasks c ! t) = generation c"
    and fresh: "\<not> sdk_past_open (st_pc (sd_tasks c ! t))"
  shows "\<not> sd_socketOpen c"
proof -
  have "sk_generation (sockets c ! i) \<noteq> generation c" if "i < length (sockets c)" for i
    using ok t fresh that unfolding sdk_ok_def sdk_tasks_ok_def by metis
  then show ?thesis
    using ok by (cases "socket c") (auto simp: sdk_ok_def sdk_live_def)
qed

lemma sdk_good_open:
  assumes s: "sdk.sound rt s" and t: "t < length (sd_tasks (fst s))" and fresh: "\<not> sdk_past_open (st_pc (sd_tasks (fst s) ! t))"
    and d: "allowed_target rt (cn_url d) roomId"
  shows "sdk.sound rt (sdk_open env t (st_generation (sd_tasks (fst s) ! t)) d roomId s)"
proof -
  let ?g = "st_generation (sd_tasks (fst s) ! t)" and ?url = "cn_url d" and ?hs = "socketHeaders d"
  obtain cs thrown where b: "ev_construct env s ?url = (cs, thrown)" by fastforce
  define s1 where "s1 = run_calls sdk_calls cs s"
  have s1: "sdk.sound rt s1" unfolding s1_def using s by (rule sdk.calls_sound)
  have "sdk_extends (fst s) (fst s1)" unfolding s1_def using s by (auto intro: sdk_extends_calls sdk_sound_idle)
  from sdk_extends_task [OF this t] have t1: "t < length (sd_tasks (fst s1))" "sd_tasks (fst s1) ! t = sd_tasks (fst s) ! t" by auto
  note new = sdk_ok_add_socket [OF sdk_sound_ok [OF s1] t1(1) _ _ d, unfolded t1(2)]
  let ?i = "length (sockets (fst s1))"
  have opened: "sdk.sound rt (on_core (\<lambda>c. sdk_set_pc t (D_open ?i) ((add_socket ?g ?url ?hs roomId c)\<lparr>socket := Some ?i, cancelOpen := Some ?i\<rparr>)) s1)"
    if "current ?g s1"
  proof (rule sdk_on_core [OF s1])
    have "\<not> sd_socketOpen (fst s1)"
      using that fresh t1 by (intro sdk_no_early_socket [OF sdk_sound_ok [OF s1] t1(1)]) (simp_all add: current_def)
    with that have "sdk_ok rt ((sdk_set_pc t (D_open ?i) (add_socket ?g ?url ?hs roomId (fst s1)))\<lparr>socket := Some ?i, cancelOpen := Some ?i\<rparr>)"
      by (intro sdk_ok_assign new) (simp_all add: current_def sdk_set_pc_def add_socket_def note_out_def)
    then show "sdk_ok rt (sdk_set_pc t (D_open ?i) ((add_socket ?g ?url ?hs roomId (fst s1))\<lparr>socket := Some ?i, cancelOpen := Some ?i\<rparr>))"
      by (simp only: sdk_set_pc_commute)
  qed (simp add: add_socket_def)
  have refused: "sdk.sound rt (on_core (\<lambda>c. sdk_finish t r (note_out [O_close ?i] (upd_sock ?i (\<lambda>k. (settle q k)\<lparr>sk_timer := False\<rparr>)
      (add_socket ?g ?url ?hs roomId c)))) s1)" for r q
  proof (rule sdk_on_core [OF s1])
    have "sdk_ok rt (note_out [O_close ?i] (upd_sock ?i (\<lambda>k. (settle q k)\<lparr>sk_timer := False\<rparr>)
        (sdk_finish t r (add_socket ?g ?url ?hs roomId (fst s1)))))"
      unfolding sdk_finish_def by (intro sdk_ok_note sdk_ok_upd_sock new) (simp_all add: settle_def)
    then show "sdk_ok rt (sdk_finish t r (note_out [O_close ?i] (upd_sock ?i (\<lambda>k. (settle q k)\<lparr>sk_timer := False\<rparr>)
        (add_socket ?g ?url ?hs roomId (fst s1)))))"
      by (simp only: sdk_finish_def sdk_set_pc_commute)
  qed (simp add: add_socket_def)
  show ?thesis
    using b opened refused sdk_good_finish [OF s1] sdk_good_finish [OF s]
    by (cases thrown) (auto simp: sdk_open_def Let_def on_core_def simp flip: s1_def)
qed

lemma api_connect_allowed:
  assumes "api_connect rt fetch api u = Inr r" and "cr_status r = Live"
  obtains roomId d where "cr_roomId r = Some roomId" and "cr_connection r = Some d" and "allowed_target rt (cn_url d) roomId"
  using api_connect_Inr [OF assms(1)] parseConnectResponse_live [OF _ assms(2)] unfolding allowed_target_def by metis

lemma sdk_good_stopHeartbeat: "sdk.sound rt s \<Longrightarrow> sdk.sound rt (on_core sdk_stopHeartbeat s)"
  by (rule sdk_on_core) (auto simp: sdk_stopHeartbeat_def sdk_ok_defs dest: sdk_sound_ok)

lemma sdk_good_described:
  assumes s: "sdk.sound rt s" and t: "t < length (sd_tasks (fst s))" and pc: "st_pc (sd_tasks (fst s) ! t) = D_api"
    and g: "current (st_generation (sd_tasks (fst s) ! t)) s" and r: "api_connect rt fetch api u = Inr r"
  shows "sdk.sound rt (sdk_described env t (st_generation (sd_tasks (fst s) ! t)) r s)"
proof -
  let ?g = "st_generation (sd_tasks (fst s) ! t)"
  define s1 where "s1 = on_core (\<lambda>c. c\<lparr>sd_roomId := cr_roomId r, sd_status := cr_status r\<rparr>) s"
  have "\<not> sd_socketOpen (fst s)"
    using g pc by (intro sdk_no_early_socket [OF sdk_sound_ok [OF s] t]) (simp_all add: current_def)
  then have s1: "sdk.sound rt s1" unfolding s1_def using sdk_sound_ok [OF s]
    by (intro sdk_on_core [OF s]) (auto simp: sdk_ok_defs)
  show ?thesis
  proof (cases "cr_status r")
    case Offline
    then show ?thesis
      using sdk_good_finish [OF sdk.notify_sound [OF sdk_good_stopHeartbeat [OF s1]]] unfolding s1_def
      by (simp add: sdk_described_def Let_def)
  next
    case Live
    with r obtain roomId d where d: "cr_roomId r = Some roomId" "cr_connection r = Some d" "allowed_target rt (cn_url d) roomId"
      by (rule api_connect_allowed)
    have f: "sd_tasks (fst s1) = sd_tasks (fst s)" by (simp add: s1_def)
    have "sdk.sound rt (on_core (sdk_set_pc t (D_gifts d roomId)) s1)"
      using sdk_sound_ok [OF s1] d(3) pc by (intro sdk_on_core [OF s1] sdk_ok_set_pc) (simp_all add: f)
    moreover have "sdk.sound rt (sdk_open env t ?g d roomId s1)"
      using sdk_good_open [OF s1, unfolded f, OF t _ d(3)] pc by simp
    ultimately show ?thesis
      using Live d unfolding s1_def by (simp add: sdk_described_def Let_def allowed_target_def numeric_string_def)
  qed
qed

lemma sdk_ok_gifts: "sdk_ok rt (c\<lparr>gifts := table\<rparr>) = sdk_ok rt c"
  by (simp add: sdk_ok_defs)

lemma sdk_good_loadGifts:
  assumes s: "sdk.sound rt s" and t: "t < length (sd_tasks (fst s))" and pc: "st_pc (sd_tasks (fst s) ! t) = D_gifts d roomId"
  shows "sdk.sound rt (sdk_loadGifts env t g (D_ready d roomId) r s)"
proof -
  have a: "pc_allowed rt (D_ready d roomId)"
    using sdk_sound_ok [OF s] t pc unfolding sdk_ok_def sdk_tasks_ok_def by fastforce
  have *: "sdk.sound rt (on_core (\<lambda>c. sdk_set_pc t (D_ready d roomId) (c\<lparr>gifts := table\<rparr>)) s')"
    if "sdk.sound rt s'" "st_pc (sd_tasks (fst s') ! t) = D_gifts d roomId" for s' table
    using that a sdk_sound_ok [OF that(1)] by (intro sdk_on_core [OF that(1)] sdk_ok_set_pc) (simp_all add: sdk_ok_gifts)
  have "st_pc (sd_tasks (fst (emitError sdk_calls env e s)) ! t) = D_gifts d roomId" for e
    using sdk_extends_task [OF sdk_extends_emitError [OF sdk_sound_idle [OF s]] t] pc by simp
  with * [OF s pc] * [OF sdk.emitError_sound [OF s]] sdk_good_finish [OF s] show ?thesis
    by (auto simp: sdk_loadGifts_def split: sum.split)
qed

lemma sdk_good_resume:
  assumes s: "sdk.sound rt s"
  shows "sdk.sound rt (sdk_resume rt env t v s)"
proof (cases "t < length (sd_tasks (fst s))")
  case True
  note fin = sdk_good_finish [OF s]
  have fin': "sdk.sound rt (on_core (sdk_finish t r) s)" for r using fin [of t "\<lambda>_. r"] by simp
  show ?thesis
  proof (cases "st_pc (sd_tasks (fst s) ! t)")
    case D_api
    with True s fin' sdk_good_described [OF s True D_api] show ?thesis
      by (cases v) (auto simp: sdk_resume_def Let_def split: sum.split)
  next
    case (D_gifts d roomId)
    with True s sdk_good_loadGifts [OF s True D_gifts] show ?thesis
      by (auto simp: sdk_resume_def Let_def split: sdk_answer.split)
  next
    case (D_ready d roomId)
    then have "allowed_target rt (cn_url d) roomId"
      using sdk_sound_ok [OF s] True unfolding sdk_ok_def sdk_tasks_ok_def by fastforce
    with D_ready True fin' sdk_good_open [OF s True] show ?thesis by (simp add: sdk_resume_def Let_def)
  next
    case (D_open i)
    with True s fin fin' show ?thesis
      by (auto simp: sdk_resume_def Let_def split: option.split sum.split)
  qed (use True s in \<open>simp add: sdk_resume_def\<close>)
qed (use s in \<open>simp add: sdk_resume_def\<close>)

lemma sdk_good_finally: "sdk.sound rt s \<Longrightarrow> sdk.sound rt (on_core (sdk_finally t) s)"
proof -
  have "sdk_ok rt (c\<lparr>connecting := None\<rparr>)" if "sdk_ok rt c" for c using that by (simp add: sdk_ok_defs)
  then show "sdk.sound rt s \<Longrightarrow> sdk.sound rt (on_core (sdk_finally t) s)"
    by (intro sdk_on_core) (auto simp: sdk_finally_def sdk_sound_ok split: sdk_pc.split bool.split intro!: sdk_ok_set_pc)
qed

lemma sdk_sound_reconnects: "sdk.sound rt (c\<lparr>sd_reconnects := rs\<rparr>, d) = sdk.sound rt (c, d)"
  by (simp add: sdk.sound_def sdk.good_def idle_def sdk_ok_defs)

lemma sdk_good_reconnect_timer: "sdk.sound rt s \<Longrightarrow> sdk.sound rt (on_core sdk_reconnect_timer s)"
proof (cases "reconnectTimer (fst s)")
  case (Some a)
  let ?s = "on_core (\<lambda>c. c\<lparr>reconnectTimer := None\<rparr>) s"
  assume "sdk.sound rt s"
  then have "sdk.sound rt ?s" by (intro sdk_on_core) (auto simp: sdk_ok_defs dest: sdk_sound_ok)
  with sdk.connect_sound [OF this] Some show ?thesis
    by (cases a) (auto simp: on_core_def sdk_reconnect_timer_def Let_def sdk_start_reconnect_def sdk_calls_def sdk_sound_reconnects
        split: prod.splits)
qed (simp add: on_core_def sdk_reconnect_timer_def)

lemma sdk_good_scheduleReconnect:
  assumes "sdk.sound rt s"
  shows "sdk.sound rt (sdk_scheduleReconnect env ms s)"
proof -
  let ?s1 = "on_core (\<lambda>c. c\<lparr>attempt := attempt c + 1\<rparr>) s"
  have s1: "sdk.sound rt ?s1" if "attempts_left (sp_attempts (sd_policy (fst s))) (attempt (fst s))"
    using assms that by (intro sdk_on_core) (auto simp: sdk_ok_defs dest!: sdk_sound_ok)
  have s2: "sdk.sound rt (on_core (\<lambda>c. c\<lparr>reconnectTimer := Some x\<rparr>) s')" if "sdk.sound rt s'" "current g s'" for x g s'
    using that by (intro sdk_on_core) (auto simp: sdk_ok_defs current_def dest!: sdk_sound_ok)
  show ?thesis
    using assms sdk.emitError_sound [OF assms] sdk.notify_sound [OF s1]
    by (auto simp: sdk_scheduleReconnect_def Let_def intro!: s2)
qed

lemma sdk_good_resume_reconnect:
  assumes s: "sdk.sound rt s"
  shows "sdk.sound rt (sdk_resume_reconnect env r s)"
proof -
  define s0 where "s0 = on_core (\<lambda>c. c\<lparr>sd_reconnects := (sd_reconnects c)[r := (sd_reconnects c ! r)\<lparr>sr_wait := None\<rparr>]\<rparr>) s"
  have s0: "sdk.sound rt s0" using s by (cases s) (simp add: s0_def sdk_sound_reconnects)
  show ?thesis
    using s s0 sdk.emitError_sound [OF s0]
    by (simp add: sdk_resume_reconnect_def Let_def sdk_good_scheduleReconnect s0_def [symmetric] split: option.split sum.split)
qed

lemma sdk_good_open_timeout: "sdk.sound rt s \<Longrightarrow> sdk.sound rt (on_core (sdk_open_timeout i) s)"
  by (intro sdk_on_core) (auto simp: sdk_open_timeout_def settle_def sdk_sound_ok intro!: sdk_ok_upd_sock sdk_ok_note)

lemma sdk_startHeartbeat_ok: "sdk_ok rt c \<Longrightarrow> socket c = Some i \<Longrightarrow> sdk_ok rt (sdk_startHeartbeat j roomId ms c)"
  by (auto simp: sdk_startHeartbeat_def sdk_stopHeartbeat_def sdk_ok_defs)

lemma sdk_ok_opened:
  assumes "sdk_ok rt c" and "socket c = Some i" and "sk_generation (sockets c ! i) = generation c" and "\<not> closing c"
  shows "sdk_ok rt (sdk_opened i c)"
  using assms
  by (auto simp: sdk_opened_def sdk_startHeartbeat_def sdk_stopHeartbeat_def sdk_ok_defs upd_sock_def nth_update_if settle_def)

lemma sdk_good_on_open:
  assumes s: "sdk.sound rt s"
  shows "sdk.sound rt (sdk_on_open env i s)"
proof (cases "valid_sock i (fst s) \<and> \<not> sk_settled (sock_of i (fst s)) \<and> current (sk_generation (sock_of i (fst s))) s \<and> socket (fst s) = Some i")
  case False
  with s sdk_good_refused [OF s] show ?thesis by (auto simp: sdk_on_open_def)
next
  case True
  define built where "built = enterRoomFrame (cd_encodeEnter (ev_codec env)) (cd_encodeFrame (ev_codec env))
    (sk_roomId (sock_of i (fst s))) audience LIVE_ID"
  obtain x s1 where b: "send_built sdk_calls env i built s = (x, s1)" by (cases "send_built sdk_calls env i built s")
  have s1: "sdk.sound rt s1" by (rule sdk.send_built_sound [OF b s])
  show ?thesis
  proof (cases x)
    case (Some e)
    with True b sdk_good_refused [OF s1] show ?thesis by (simp add: sdk_on_open_def Let_def built_def [symmetric])
  next
    case None
    obtain frame where e: "s1 = on_core (note_out [O_send i frame]) s" using send_built_sent b None by blast
    have "sdk.sound rt (on_core (sdk_opened i) s1)"
    proof (rule sdk_on_core [OF s1])
      show "sdk_ok rt (sdk_opened i (fst s1))"
        using True sdk_sound_ok [OF s1] by (intro sdk_ok_opened) (auto simp: e current_def sock_of_def)
    qed (simp add: sdk_opened_def sdk_startHeartbeat_def sdk_stopHeartbeat_def)
    from sdk.notify_sound [OF this] True b None show ?thesis
      by (simp add: sdk_on_open_def Let_def built_def [symmetric])
  qed
qed

lemma sdk_good_receive:
  assumes "sdk.sound rt s" and "socket (fst s) = Some i"
  shows "sdk.sound rt (sdk_receive env i data s)"
proof -
  have "sdk.sound rt (on_core (sdk_heartbeat_hint i batch) s)" for batch
    using assms sdk_startHeartbeat_ok [OF sdk_sound_ok [OF assms(1)] assms(2)]
    by (intro sdk_on_core) (simp_all add: sdk_heartbeat_hint_def sdk_sound_ok, simp add: sdk_startHeartbeat_def sdk_stopHeartbeat_def)
  then have "sdk.sound rt (sdk_acknowledge env i frame batch (on_core (sdk_heartbeat_hint i batch) s))" for frame batch
    by (simp add: sdk_acknowledge_def sdk.send_or_report_sound)
  with assms show ?thesis
    by (auto simp: sdk_receive_def sdk.emitError_sound sdk.submit_messages_sound split: sum.split option.split)
qed

lemma sdk_good_heartbeat_tick:
  assumes "sdk.sound rt s"
  shows "sdk.sound rt (sdk_heartbeat_tick env s)"
  using assms sdk.send_or_report_sound(1) [OF assms, where built = "Inr _" and reported = is_write_overflow]
  by (auto simp: sdk_heartbeat_tick_def send_built_def split: option.split sum.split)

lemma sdk_good_on_close:
  assumes s: "sdk.sound rt s"
  shows "sdk.sound rt (sdk_on_close env i closeCode reason s)"
proof -
  define s0 where "s0 = on_core (upd_sock i (\<lambda>k. k\<lparr>sk_timer := False\<rparr>)) s"
  define s1 where "s1 = on_core sdk_closed s0"
  define s2 where "s2 = on_core (\<lambda>c. c\<lparr>sd_status := Live\<rparr>) s1"
  have s0: "sdk.sound rt s0" unfolding s0_def by (intro sdk_good_upd_sock [OF s]) simp_all
  have s1: "sdk.sound rt s1" unfolding s1_def using sdk_sound_ok [OF s0]
    by (intro sdk_on_core [OF s0]) (auto simp: sdk_closed_def sdk_stopHeartbeat_def sdk_ok_defs)
  have s2: "sdk.sound rt s2" unfolding s2_def using sdk_sound_ok [OF s1] by (intro sdk_on_core [OF s1]) (auto simp: sdk_ok_defs)
  have "sdk.sound rt (on_core (upd_sock i (settle r)) s1)" for r by (intro sdk_good_upd_sock [OF s1]) (simp_all add: settle_def)
  with s s0 s1 sdk.notify_sound [OF s2] show ?thesis
    by (auto simp: sdk_on_close_def Let_def sdk_good_scheduleReconnect s0_def [symmetric] s1_def [symmetric] s2_def [symmetric])
qed

lemma sdk_step_sound: "sdk.sound rt s \<Longrightarrow> sdk.sound rt (sdk_step rt env x s)"
  by (cases x) (simp_all add: sdk.connect_sound sdk.disconnect_sound sdk_good_resume sdk_good_finally sdk_good_reconnect_timer
      sdk_good_resume_reconnect sdk_good_on_open sdk_good_receive sdk_on_message_def sdk_on_error_def sdk.emitError_sound
      sdk_good_on_close sdk_good_open_timeout sdk_good_heartbeat_tick sdk.immediate_sound)

lemma new_Sdk_sound: "new_Sdk rt inp o1 = Inr s \<Longrightarrow> sdk.sound rt s"
  by (auto simp: new_Sdk_def res_bind_Inr_iff sdk.sound_def sdk.good_def idle_def sdk_ok_defs
      new_EventDelivery_settled new_EventDelivery_fields)

lemma sdk_reachable_sound: "sdk_reachable rt s \<Longrightarrow> sdk.sound rt s"
  by (induction rule: sdk_reachable.induct) (auto intro: new_Sdk_sound sdk_step_sound)

end
