(* ===== verification/Sdk_Refinement.thy ===== *)
theory Sdk_Refinement
  imports Sdk_Invariants Connection_Spec
begin

text \<open>
  \<open>live-sdk/src/client.ts\<close> refines the connection of theory \<open>Connection_Spec\<close>, in the same way as the other client.
\<close>

interpretation sdk_conn: connection_fields "sd_socketOpen :: sdk \<Rightarrow> bool"
proof
  show "sd_socketOpen c' = sd_socketOpen c" if "core.more c' = core.more c" for c c' :: sdk
    using that by (cases c; cases c') simp
qed

section \<open>Operations that do not concern the socket\<close>

definition sdk_same_view :: "sdk \<Rightarrow> sdk \<Rightarrow> bool" where
  "sdk_same_view c c' \<longleftrightarrow> trace c' = trace c \<and> socket c' = socket c \<and> sockets c' = sockets c \<and> sd_socketOpen c' = sd_socketOpen c"

lemma sdk_same_view_ok: "conn_ok sd_socketOpen c \<Longrightarrow> sdk_same_view c c' \<Longrightarrow> conn_ok sd_socketOpen c'"
  unfolding sdk_same_view_def using conn_ok_same by blast

lemma sdk_same_view_simps [simp]:
  "sdk_same_view c c" "sdk_same_view c (sdk_set_pc t pc c') = sdk_same_view c c'" "sdk_same_view c (sdk_finish t r c') = sdk_same_view c c'"
  "sdk_same_view c (c'\<lparr>sd_roomId := room\<rparr>) = sdk_same_view c c'" "sdk_same_view c (c'\<lparr>sd_status := st\<rparr>) = sdk_same_view c c'"
  "sdk_same_view c (c'\<lparr>gifts := table\<rparr>) = sdk_same_view c c'" "sdk_same_view c (c'\<lparr>attempt := a\<rparr>) = sdk_same_view c c'"
  "sdk_same_view c (c'\<lparr>reconnectTimer := tm\<rparr>) = sdk_same_view c c'" "sdk_same_view c (c'\<lparr>connecting := t'\<rparr>) = sdk_same_view c c'"
  "sdk_same_view c (c'\<lparr>sd_reconnects := rs\<rparr>) = sdk_same_view c c'" "sdk_same_view c (sdk_stopHeartbeat c') = sdk_same_view c c'"
  "sdk_same_view c (sdk_startHeartbeat i roomId ms c') = sdk_same_view c c'"
  by (simp_all add: sdk_same_view_def sdk_set_pc_def sdk_finish_def sdk_startHeartbeat_def sdk_stopHeartbeat_def)

lemma sdk_heartbeat_frame [simp]:
  "closing (sdk_stopHeartbeat c) = closing c" "closing (sdk_startHeartbeat i roomId ms c) = closing c"
  "socket (sdk_startHeartbeat i roomId ms c) = socket c"
  by (simp_all add: sdk_startHeartbeat_def sdk_stopHeartbeat_def)

lemma sdk_connect_view: "sdk_same_view c (snd (sdk_connect c))"
  by (cases "sdk_connected c \<or> connecting c \<noteq> None") (auto simp: sdk_connect_same sdk_connect_new sdk_same_view_def)

section \<open>The public calls\<close>

lemma sdk_conn_ok_disconnect: "refines sd_socketOpen c \<Longrightarrow> conn_ok sd_socketOpen (sdk_disconnect c)"
  by (erule conn_ok_disconnected) (simp_all add: sdk_disconnect_alt sdk_cancelOpen_def split: option.split)

interpretation scon: guarded_calls sdk_calls "conn_ok sd_socketOpen"
proof
  show "closing (fst s)" if "closing (fst (call_connect sdk_calls s))" for s by (rule sdk.connect_closing [OF that])
  show "conn_ok sd_socketOpen (fst (call_connect sdk_calls s))" if "conn_ok sd_socketOpen (fst s)" for s
    using sdk_same_view_ok [OF that sdk_connect_view] by (simp add: sdk_calls_def)
  show "conn_ok sd_socketOpen (fst (call_disconnect sdk_calls s))" if "conn_ok sd_socketOpen (fst s)" for s
    using that by (simp add: sdk_calls_def conn_ok_def [of _ "fst s"] sdk_conn_ok_disconnect)
  show "conn_ok sd_socketOpen (note_out [O_emit em] c)" if "conn_ok sd_socketOpen c" "\<not> lifecycle em" for em and c :: sdk
    using that by (intro sdk_conn.conn_ok_note sdk_conn.refines_emit) (simp_all add: conn_ok_def)
  show "conn_ok sd_socketOpen (note_out [O_send i data] c)" if "conn_ok sd_socketOpen c" "socket c = Some i" for i data and c :: sdk
    using that by (intro sdk_conn.conn_ok_note sdk_conn.refines_send) (simp_all add: conn_ok_def)
  show "conn_ok sd_socketOpen (count_listener_error c)" if "conn_ok sd_socketOpen c" for c :: sdk
    using that by (rule sdk_same_view_ok) (simp add: sdk_same_view_def count_listener_error_def)
  show "conn_ok sd_socketOpen (c\<lparr>writeBufferRejections := n, cancelOpen := None\<rparr>)" if "conn_ok sd_socketOpen c" for n and c :: sdk
    using that by (rule sdk_same_view_ok) (simp add: sdk_same_view_def)
qed (simp_all add: sdk_calls_def)

section \<open>Every input\<close>

lemma scon_same:
  "scon.sound s \<Longrightarrow> sdk_same_view (fst s) (f (fst s)) \<Longrightarrow> closing (f (fst s)) = closing (fst s) \<Longrightarrow> scon.sound (on_core f s)"
  by (rule scon.sound_on_core) (auto dest: scon.sound_P intro: sdk_same_view_ok)

lemma scon_refines: "scon.sound s \<Longrightarrow> refines sd_socketOpen (fst s)"
  by (drule scon.sound_P) (simp add: conn_ok_def)

lemma scon_finish: "scon.sound s \<Longrightarrow> scon.sound (on_core (\<lambda>c. sdk_finish t (r c) c) s)"
  by (simp add: scon_same)

lemma scon_plain_notify: "scon.sound s \<Longrightarrow> \<not> lifecycle em \<Longrightarrow> scon.sound (notify sdk_calls env em s)"
  by (rule scon.notify_noted_sound) (rule scon.note_sound)

lemma unsettled_not_open:
  "sdk.sound rt s \<Longrightarrow> socket (fst s) = Some i \<Longrightarrow> \<not> sk_settled (sock_of i (fst s)) \<Longrightarrow> \<not> sd_socketOpen (fst s)"
  by (auto dest!: sdk_sound_ok simp: sdk_ok_defs sock_of_def)

lemma scon_open:
  assumes s: "scon.sound s" "sdk.sound rt s" and t: "t < length (sd_tasks (fst s))" and fresh: "\<not> sdk_past_open (st_pc (sd_tasks (fst s) ! t))"
  shows "scon.sound (sdk_open env t (st_generation (sd_tasks (fst s) ! t)) d roomId s)"
proof -
  let ?g = "st_generation (sd_tasks (fst s) ! t)" and ?url = "cn_url d" and ?hs = "socketHeaders d"
  obtain cs thrown where b: "ev_construct env s ?url = (cs, thrown)" by fastforce
  define s1 where "s1 = run_calls sdk_calls cs s"
  have s1: "scon.sound s1" "sdk.sound rt s1" unfolding s1_def using s scon.calls_sound sdk.calls_sound by blast+
  have "sdk_extends (fst s) (fst s1)" unfolding s1_def using s by (auto intro: sdk_extends_calls sdk_sound_idle)
  from sdk_extends_task [OF this t] have t1: "t < length (sd_tasks (fst s1))" "sd_tasks (fst s1) ! t = sd_tasks (fst s) ! t" by auto
  let ?i = "length (sockets (fst s1))"
  have opened: "scon.sound (on_core (\<lambda>c. sdk_set_pc t (D_open ?i) ((add_socket ?g ?url ?hs roomId c)\<lparr>socket := Some ?i, cancelOpen := Some ?i\<rparr>)) s1)"
    if "current ?g s1"
  proof (rule scon.sound_on_core [OF s1(1)])
    have "\<not> sd_socketOpen (fst s1)"
      using that fresh t1 by (intro sdk_no_early_socket [OF sdk_sound_ok [OF s1(2)] t1(1)]) (simp_all add: current_def)
    then show "conn_ok sd_socketOpen (sdk_set_pc t (D_open ?i) ((add_socket ?g ?url ?hs roomId (fst s1))\<lparr>socket := Some ?i, cancelOpen := Some ?i\<rparr>))"
      by (intro sdk_conn.conn_ok_adopted [OF scon.sound_P [OF s1(1)], where url = ?url and hs = ?hs and g = ?g and room = roomId])
        (simp_all add: sdk_set_pc_def add_socket_def)
  qed (simp add: add_socket_def)
  have refused: "scon.sound (on_core (\<lambda>c. sdk_finish t r (note_out [O_close ?i] (upd_sock ?i (\<lambda>k. (settle q k)\<lparr>sk_timer := False\<rparr>)
      (add_socket ?g ?url ?hs roomId c)))) s1)" for r q
  proof (rule scon.sound_on_core [OF s1(1)])
    have "conn_ok sd_socketOpen (note_out [O_close ?i] (upd_sock ?i (\<lambda>k. (settle q k)\<lparr>sk_timer := False\<rparr>) (add_socket ?g ?url ?hs roomId (fst s1))))"
      by (intro sdk_conn.conn_ok_refused scon.sound_P s1(1)) (simp_all add: settle_def)
    then show "conn_ok sd_socketOpen (sdk_finish t r (note_out [O_close ?i] (upd_sock ?i (\<lambda>k. (settle q k)\<lparr>sk_timer := False\<rparr>)
        (add_socket ?g ?url ?hs roomId (fst s1)))))"
      by (rule sdk_same_view_ok) simp
  qed (simp add: add_socket_def)
  show ?thesis
    using b opened refused scon_finish [OF s1(1)] scon_finish [OF s(1)]
    by (cases thrown) (auto simp: sdk_open_def Let_def on_core_def simp flip: s1_def)
qed

lemma scon_described:
  assumes s: "scon.sound s" "sdk.sound rt s" and t: "t < length (sd_tasks (fst s))" and pc: "st_pc (sd_tasks (fst s) ! t) = D_api"
    and g: "current (st_generation (sd_tasks (fst s) ! t)) s"
  shows "scon.sound (sdk_described env t (st_generation (sd_tasks (fst s) ! t)) r s)"
proof -
  define s1 where "s1 = on_core (\<lambda>c. c\<lparr>sd_roomId := cr_roomId r, sd_status := cr_status r\<rparr>) s"
  have s1: "scon.sound s1" unfolding s1_def using s(1) by (intro scon_same) simp_all
  have "\<not> sd_socketOpen (fst s)"
    using g pc by (intro sdk_no_early_socket [OF sdk_sound_ok [OF s(2)] t]) (simp_all add: current_def)
  then have s1': "sdk.sound rt s1" unfolding s1_def using sdk_sound_ok [OF s(2)]
    by (intro sdk_on_core [OF s(2)]) (auto simp: sdk_ok_defs)
  have f: "sd_tasks (fst s1) = sd_tasks (fst s)" by (simp add: s1_def)
  have "scon.sound (on_core sdk_stopHeartbeat s1)" using s1 by (intro scon_same) simp_all
  then have "scon.sound (on_core (\<lambda>c. sdk_finish t (Inr (sdk_state c)) c) (notify sdk_calls env E_offline (on_core sdk_stopHeartbeat s1)))"
    by (intro scon_finish scon_plain_notify) simp_all
  moreover have "scon.sound (on_core (sdk_set_pc t q) s1)" for q using s1 by (intro scon_same) simp_all
  moreover have "scon.sound (on_core (sdk_finish t q) s1)" for q using s1 by (intro scon_same) simp_all
  moreover have "scon.sound (sdk_open env t (st_generation (sd_tasks (fst s) ! t)) d roomId s1)" for d roomId
    using scon_open [OF s1 s1', unfolded f, OF t] pc by simp
  ultimately show ?thesis unfolding sdk_described_def Let_def s1_def [symmetric] by (auto split: option.split)
qed

lemma scon_loadGifts:
  assumes "scon.sound s"
  shows "scon.sound (sdk_loadGifts env t g pc r s)"
proof -
  have "scon.sound (on_core (\<lambda>c. sdk_set_pc t pc (c\<lparr>gifts := table\<rparr>)) s')" if "scon.sound s'" for s' table
    using that by (intro scon_same) simp_all
  with assms scon.emitError_sound [OF assms] scon_finish [OF assms] show ?thesis by (auto simp: sdk_loadGifts_def split: sum.split)
qed

lemma scon_resume:
  assumes s: "scon.sound s" "sdk.sound rt s"
  shows "scon.sound (sdk_resume rt env t v s)"
proof (cases "t < length (sd_tasks (fst s))")
  case True
  have fin: "scon.sound (on_core (sdk_finish t r) s)" for r using s(1) by (intro scon_same) simp_all
  show ?thesis
  proof (cases "st_pc (sd_tasks (fst s) ! t)")
    case D_api
    with True s fin scon_described [OF s True D_api] show ?thesis
      by (cases v) (auto simp: sdk_resume_def Let_def split: sum.split)
  next
    case (D_gifts d roomId)
    with True s scon_loadGifts [OF s(1)] show ?thesis by (auto simp: sdk_resume_def Let_def split: sdk_answer.split)
  next
    case (D_ready d roomId)
    with True fin scon_open [OF s True] show ?thesis by (simp add: sdk_resume_def Let_def)
  next
    case (D_open i)
    with True s fin scon_finish [OF s(1)] show ?thesis
      by (auto simp: sdk_resume_def Let_def split: option.split sum.split)
  qed (use True s in \<open>simp add: sdk_resume_def\<close>)
qed (use s in \<open>simp add: sdk_resume_def\<close>)

lemma scon_finally: "scon.sound s \<Longrightarrow> scon.sound (on_core (sdk_finally t) s)"
  by (rule scon_same) (simp_all add: sdk_finally_def split: sdk_pc.split bool.split)

lemma scon_reconnect_timer:
  assumes "scon.sound s"
  shows "scon.sound (on_core sdk_reconnect_timer s)"
proof (cases "reconnectTimer (fst s)")
  case (Some a)
  let ?s = "on_core (\<lambda>c. c\<lparr>reconnectTimer := None\<rparr>) s"
  have s: "scon.sound ?s" using assms by (intro scon_same) simp_all
  have "scon.sound (on_core (\<lambda>c. c\<lparr>sd_reconnects := f c\<rparr>) (call_connect sdk_calls ?s))" for f
    by (rule scon_same [OF scon.connect_sound [OF s]]) simp_all
  with s Some show ?thesis
    by (cases a) (auto simp: on_core_def sdk_reconnect_timer_def Let_def sdk_start_reconnect_def sdk_calls_def split: prod.splits)
qed (use assms in \<open>simp add: on_core_def sdk_reconnect_timer_def\<close>)

lemma scon_scheduleReconnect:
  assumes "scon.sound s"
  shows "scon.sound (sdk_scheduleReconnect env ms s)"
proof -
  have "scon.sound (on_core (\<lambda>c. c\<lparr>attempt := attempt c + 1\<rparr>) s)" using assms by (intro scon_same) simp_all
  then have "scon.sound (notify sdk_calls env (E_reconnecting n d) (on_core (\<lambda>c. c\<lparr>attempt := attempt c + 1\<rparr>) s))" for n d
    by (rule scon_plain_notify) simp
  moreover have "scon.sound (on_core (\<lambda>c. c\<lparr>reconnectTimer := Some x\<rparr>) s')" if "scon.sound s'" for x s'
    using that by (intro scon_same) simp_all
  ultimately show ?thesis using assms scon.emitError_sound [OF assms] by (simp add: sdk_scheduleReconnect_def Let_def)
qed

lemma scon_resume_reconnect:
  assumes s: "scon.sound s"
  shows "scon.sound (sdk_resume_reconnect env r s)"
proof -
  define s0 where "s0 = on_core (\<lambda>c. c\<lparr>sd_reconnects := (sd_reconnects c)[r := (sd_reconnects c ! r)\<lparr>sr_wait := None\<rparr>]\<rparr>) s"
  have s0: "scon.sound s0" unfolding s0_def using s by (intro scon_same) simp_all
  show ?thesis
    using s s0 scon.emitError_sound [OF s0]
    by (simp add: sdk_resume_reconnect_def Let_def scon_scheduleReconnect s0_def [symmetric] split: option.split sum.split)
qed

lemma scon_given_up:
  assumes "scon.sound s" and "socket (fst s) = Some i \<Longrightarrow> \<not> sd_socketOpen (fst s)"
  shows "scon.sound (on_core (\<lambda>c. note_out [O_close i] (upd_sock i (\<lambda>k. (settle r k)\<lparr>sk_timer := False\<rparr>) c)) s)"
  using scon.sound_P [OF assms(1)] assms(2)
  by (intro scon.sound_on_core [OF assms(1)] sdk_conn.conn_ok_closed) (auto simp: settle_def)

lemma scon_open_timeout:
  assumes "scon.sound s" "sdk.sound rt s"
  shows "scon.sound (on_core (sdk_open_timeout i) s)"
proof (rule scon.sound_on_core [OF assms(1)])
  show "conn_ok sd_socketOpen (sdk_open_timeout i (fst s))"
    using scon.sound_P [OF assms(1)] unsettled_not_open [OF assms(2), of i]
    by (auto simp: sdk_open_timeout_def settle_def intro!: sdk_conn.conn_ok_settled sdk_conn.conn_ok_closed)
qed (simp add: sdk_open_timeout_def)

lemma scon_on_open:
  assumes s: "scon.sound s" "sdk.sound rt s"
  shows "scon.sound (sdk_on_open env i s)"
proof (cases "valid_sock i (fst s) \<and> \<not> sk_settled (sock_of i (fst s)) \<and> current (sk_generation (sock_of i (fst s))) s \<and> socket (fst s) = Some i")
  case False
  with s scon_given_up [OF s(1)] unsettled_not_open [OF s(2)] show ?thesis by (auto simp: sdk_on_open_def)
next
  case True
  define built where "built = enterRoomFrame (cd_encodeEnter (ev_codec env)) (cd_encodeFrame (ev_codec env))
    (sk_roomId (sock_of i (fst s))) audience LIVE_ID"
  obtain x s1 where b: "send_built sdk_calls env i built s = (x, s1)" by (cases "send_built sdk_calls env i built s")
  have s1: "scon.sound s1" using scon.send_built_current_sound [OF b s(1)] True by simp
  have n: "\<not> sd_socketOpen (fst s)" using True unsettled_not_open [OF s(2)] by blast
  show ?thesis
  proof (cases x)
    case (Some e)
    have "\<not> sd_socketOpen (fst s1)"
      using b Some n by (auto simp: send_built_def send_def Let_def sdk_calls_def sdk_disconnect_alt split: sum.splits option.splits if_splits)
    with True b Some scon_given_up [OF s1] show ?thesis by (simp add: sdk_on_open_def Let_def built_def [symmetric])
  next
    case None
    obtain frame where e: "s1 = on_core (note_out [O_send i frame]) s" using send_built_sent b None by blast
    let ?c = "sdk_opened i (fst s1)" and ?em = "E_connected (live_state_json (sdk_state (sdk_opened i (fst s1))))"
    have "refines sd_socketOpen (note_out [O_emit ?em] ?c)"
      by (rule sdk_conn.refines_joins [OF scon_refines [OF s1], of i])
        (use True n in \<open>simp_all add: e sdk_opened_def sdk_startHeartbeat_def sdk_stopHeartbeat_def sock_of_def\<close>)
    moreover have "sd_socketOpen ?c" "closing ?c = closing (fst s1)"
      by (simp_all add: sdk_opened_def sdk_startHeartbeat_def sdk_stopHeartbeat_def)
    ultimately have "scon.sound (on_core (note_out [O_emit ?em]) (on_core (sdk_opened i) s1))"
      using s1 by (simp add: scon.sound_def scon.good_def conn_ok_def idle_def)
    from scon.notify_noted_sound [OF this] True b None show ?thesis
      by (simp add: sdk_on_open_def Let_def built_def [symmetric])
  qed
qed

lemma scon_receive:
  assumes "scon.sound s" and "socket (fst s) = Some i"
  shows "scon.sound (sdk_receive env i data s)"
proof -
  have "scon.sound (on_core (sdk_heartbeat_hint i batch) s)" "socket (fst (on_core (sdk_heartbeat_hint i batch) s)) = Some i" for batch
    using assms by (simp_all add: sdk_heartbeat_hint_def scon_same)
  then have "scon.sound (sdk_acknowledge env i frame batch (on_core (sdk_heartbeat_hint i batch) s))" for frame batch
    by (simp add: sdk_acknowledge_def scon.send_or_report_current_sound)
  with assms show ?thesis
    by (auto simp: sdk_receive_def scon.emitError_sound scon.submit_messages_sound split: sum.split option.split)
qed

lemma scon_heartbeat_tick:
  assumes "scon.sound s"
  shows "scon.sound (sdk_heartbeat_tick env s)"
  using assms scon.send_or_report_current_sound(1) [OF assms, where built = "Inr _" and reported = is_write_overflow]
  by (auto simp: sdk_heartbeat_tick_def send_built_def split: option.split sum.split)

lemma scon_on_close:
  assumes s: "scon.sound s" "sdk.sound rt s"
  shows "scon.sound (sdk_on_close env i closeCode reason s)"
proof -
  define s0 where "s0 = on_core (upd_sock i (\<lambda>k. k\<lparr>sk_timer := False\<rparr>)) s"
  define s1 where "s1 = on_core sdk_closed s0"
  define s2 where "s2 = on_core (\<lambda>c. c\<lparr>sd_status := Live\<rparr>) s1"
  have s0: "scon.sound s0"
    unfolding s0_def by (intro scon.sound_on_core [OF s(1)] sdk_conn.conn_ok_settled scon.sound_P [OF s(1)]) simp_all
  have f: "socket (fst s1) = None" "length (sockets (fst s1)) = length (sockets (fst s0))" "trace (fst s1) = trace (fst s0)"
    "closing (fst s1) = closing (fst s0)" "snd s1 = snd s0" "socket (fst s2) = None" "length (sockets (fst s2)) = length (sockets (fst s0))"
    "trace (fst s2) = trace (fst s0)" "closing (fst s2) = closing (fst s0)" "snd s2 = snd s0"
    by (simp_all add: s2_def s1_def sdk_closed_def sdk_stopHeartbeat_def)
  have s1: "scon.sound s1" if "\<not> sd_socketOpen (fst s)"
  proof -
    from that have "\<not> sd_socketOpen (fst s0)" by (simp add: s0_def)
    then have "conn_ok sd_socketOpen (fst s1)" using f scon_refines [OF s0] by (intro conn_ok_dropped [of sd_socketOpen "fst s0"]) simp_all
    with s0 f show ?thesis by (simp add: scon.sound_def scon.good_def idle_def)
  qed
  have settled1: "scon.sound (on_core (upd_sock i (settle r)) s1)" if "\<not> sd_socketOpen (fst s)" for r
    using s1 [OF that] by (intro scon.sound_on_core sdk_conn.conn_ok_settled) (simp_all add: scon.sound_P settle_def)
  have told: "scon.sound (notify sdk_calls env (E_disconnected closeCode (opt_or reason [])) s2)"
    if "socket (fst s) = Some i" "sk_opened (sock_of i (fst s))"
  proof (rule scon.notify_noted_sound)
    have "sd_socketOpen (fst s0)" "socket (fst s0) = Some i" using scon.sound_P [OF s(1)] that by (simp_all add: conn_ok_def s0_def)
    from sdk_conn.conn_ok_lost [OF scon.sound_P [OF s0] this(2,1) f(6-8)] s0 f
    show "scon.sound (on_core (note_out [O_emit (E_disconnected closeCode (opt_or reason []))]) s2)"
      by (simp add: scon.sound_def scon.good_def idle_def)
  qed
  have "\<not> sd_socketOpen (fst s)" if "socket (fst s) = Some i" "\<not> sk_opened (sock_of i (fst s))"
    using that sdk_sound_ok [OF s(2)] by (auto simp: sdk_ok_defs sock_of_def)
  with s s0 s1 settled1 told show ?thesis
    by (auto simp: sdk_on_close_def Let_def scon_scheduleReconnect s0_def [symmetric] s1_def [symmetric] s2_def [symmetric])
qed

lemma scon_step:
  assumes "scon.sound s" "sdk.sound rt s"
  shows "scon.sound (sdk_step rt env x s)"
proof (cases x)
  case (J_message i data)
  with assms show ?thesis by (simp add: sdk_on_message_def scon_receive)
next
  case (J_error i m)
  with assms show ?thesis by (simp add: sdk_on_error_def scon.emitError_sound)
qed (use assms in \<open>simp_all add: scon.connect_sound scon.disconnect_sound scon_resume scon_finally scon_reconnect_timer
    scon_resume_reconnect scon_on_open scon_on_close scon_open_timeout scon_heartbeat_tick scon.immediate_sound\<close>)

lemma scon_new: "new_Sdk rt inp o1 = Inr s \<Longrightarrow> scon.sound s"
  using new_Sdk_sound [of rt inp o1 s]
  by (auto simp: new_Sdk_def res_bind_Inr_iff scon.sound_def scon.good_def sdk.sound_def sdk.good_def conn_ok_def refines_def
      view_def phase_of_def conn_start_def [symmetric] conn_run.started)

lemma sdk_reachable_conn: "sdk_reachable rt s \<Longrightarrow> scon.sound s"
  by (induction rule: sdk_reachable.induct) (auto intro: scon_new scon_step sdk_reachable_sound)

interpretation sdk_connection: connection "sdk_reachable rt" "sd_socketOpen :: sdk \<Rightarrow> bool" for rt
  by unfold_locales (auto dest: sdk_reachable_conn scon_refines)

end
