(* ===== verification/Sdk_Properties.thy ===== *)
theory Sdk_Properties
  imports Sdk_Invariants Client_Properties
begin

text \<open>
  What \<open>live-sdk/src/client.ts\<close> guarantees: where it connects and how, what its invariant says of its public state, that it is
  silent once disconnected, which failures it retries and when, and that \<open>decodeFrameEvents\<close> decodes what the client decodes.
\<close>

section \<open>Runs\<close>

definition sdk_run :: "runtime \<Rightarrow> sdk_env \<Rightarrow> sdk_input list \<Rightarrow> sdk_sys \<Rightarrow> sdk_sys" where
  "sdk_run rt env xs s = fold (sdk_step rt env) xs s"

lemma sdk_run_simps [simp]: "sdk_run rt env [] s = s" "sdk_run rt env (x # xs) s = sdk_run rt env xs (sdk_step rt env x s)"
  by (simp_all add: sdk_run_def)

lemma sdk_reachable_run: "sdk_reachable rt s \<Longrightarrow> sdk_reachable rt (sdk_run rt env xs s)"
  by (induction xs arbitrary: s) (simp_all add: sdk_reachable.stepped)

definition sdk_placid :: "sdk_env \<Rightarrow> bool" where
  "sdk_placid env \<longleftrightarrow> ev_listen env = (\<lambda>s em. ([], None)) \<and> ev_errorListeners env = (\<lambda>s. True) \<and>
     ev_construct env = (\<lambda>s u. ([], None)) \<and> ev_bufferedAmount env = (\<lambda>s i. None) \<and> ev_send env = (\<lambda>s i b. None)"

lemma sdk_placid_emit:
  assumes "sdk_placid env"
  shows "emit sdk_calls env em s = (None, on_core (note_out [O_emit em]) s)"
    and "notify sdk_calls env em s = on_core (note_out [O_emit em]) s"
    and "emitError sdk_calls env e s = on_core (note_out [O_emit (E_error e)]) s"
  using assms by (simp_all add: emit_def notify_def emitError_def sdk_placid_def run_calls_def)

text \<open>With passive listeners a reconnection is announced and its timer armed.\<close>

lemma sdk_schedule_placid:
  assumes "sdk_placid env" and "\<not> closing c" and "reconnectTimer c = None" and "attempts_left (sp_attempts (sd_policy c)) (attempt c)"
  shows "let delay = max (reconnectDelay (sd_policy c) (attempt c + 1) (ev_random env)) (max 0 (of_int ms));
      c' = fst (sdk_scheduleReconnect env ms (c, d))
    in reconnectTimer c' = Some (delay, generation c) \<and> attempt c' = attempt c + 1 \<and>
       trace c' = trace c @ [O_emit (E_reconnecting (attempt c + 1) delay)]"
  using assms by (simp add: sdk_scheduleReconnect_def Let_def sdk_placid_emit current_def)

lemma sdk_gives_up_placid:
  assumes "sdk_placid env" and "\<not> closing c" and "\<not> attempts_left (sp_attempts (sd_policy c)) (attempt c)"
  shows "reconnectTimer (fst (sdk_scheduleReconnect env ms (c, d))) = reconnectTimer c"
  using assms by (simp add: sdk_scheduleReconnect_def Let_def sdk_placid_emit)

section \<open>Example\<close>

definition sdk_example_env :: sdk_env where
  "sdk_example_env = \<lparr>ev_codec = example_codec, ev_listen = (\<lambda>s em. ([], None)), ev_errorListeners = (\<lambda>s. True),
     ev_bufferedAmount = (\<lambda>s i. None), ev_send = (\<lambda>s i b. None), ev_sign = (\<lambda>s u. ([], Inr u)),
     ev_construct = (\<lambda>s u. ([], None)), ev_random = 0\<rparr>"

definition sdk_example_options :: SdkOptions where
  "sdk_example_options = \<lparr>so_api = \<lparr>co_apiUrl = None, co_apiBaseUrl = None, co_apiKey = None, co_timeoutMs = None\<rparr>,
     so_eventDelivery = None, so_maxBufferedBytes = None, so_fetchGifts = None, so_reconnect = None\<rparr>"

definition sdk_example :: sdk_sys where
  "sdk_example = (case new_Sdk example_runtime ''@someone'' sdk_example_options of Inr s \<Rightarrow> s)"

lemma sdk_example_built: "new_Sdk example_runtime ''@someone'' sdk_example_options = Inr sdk_example"
proof -
  have "is_ok (new_Sdk example_runtime ''@someone'' sdk_example_options)" by code_simp
  then show ?thesis by (auto simp: is_ok_iff sdk_example_def)
qed

lemma sdk_example_fields:
  "\<not> sdk_connected (fst sdk_example)" "connecting (fst sdk_example) = None" "sd_tasks (fst sdk_example) = []"
  "sockets (fst sdk_example) = []" "\<not> sd_fetchGifts (fst sdk_example)" "sd_uniqueId (fst sdk_example) = ''someone''"
  "maxBufferedBytes (fst sdk_example) = 33554432" "\<not> closing (fst sdk_example)" "reconnectTimer (fst sdk_example) = None"
  "attempt (fst sdk_example) = 0" "sd_policy (fst sdk_example) = SDK_DEFAULT_RECONNECT" "sd_reconnects (fst sdk_example) = []"
  "generation (fst sdk_example) = 0"
  by code_simp+

lemma sdk_example_placid: "sdk_placid sdk_example_env"
  by (simp add: sdk_placid_def sdk_example_env_def)

section \<open>Connecting\<close>

lemma sdk_open_event:
  fixes c :: sdk
  assumes p: "sdk_placid env" and k: "valid_sock i c" "sock_of i c = \<lparr>sk_generation = generation c, sk_roomId = roomId, sk_opened = False,
      sk_settled = False, sk_timer = True, sk_outcome = None\<rparr>" and c: "\<not> closing c" "socket c = Some i"
    and frame: "enterRoomFrame (cd_encodeEnter (ev_codec env)) (cd_encodeFrame (ev_codec env)) roomId audience LIVE_ID = Inr frame"
      "int (length frame) \<le> maxBufferedBytes c"
  obtains c' where "sdk_step rt env (J_open i) (c, q) = (c', q)" and "sd_tasks c' = sd_tasks c" "connecting c' = connecting c"
    "sk_outcome (sockets c' ! i) = Some (Inr ())" "length (sockets c') = length (sockets c)" "sdk_connected c'" "socket c' = Some i"
    "sd_roomId c' = sd_roomId c" "attempt c' = 0" "sd_heartbeat c' = Some \<lparr>bt_socket = i, bt_roomId = roomId, bt_everyMs = 10000\<rparr>"
    "trace c' = trace c @ [O_send i frame, O_emit (E_connected (live_state_json (sdk_state c')))]"
proof -
  define c1 where "c1 = sdk_opened i (note_out [O_send i frame] c)"
  define c' where "c' = note_out [O_emit (E_connected (live_state_json (sdk_state c1)))] c1"
  have st: "sdk_state c' = sdk_state c1" by (simp add: c'_def sdk_state_def sdk_connected_def note_out_def)
  show thesis
  proof (rule that)
    show "sdk_step rt env (J_open i) (c, q) = (c', q)"
      using p k c frame
      by (simp add: sdk_on_open_def Let_def current_def send_built_def send_def sendBoundedFrame_def sdk_placid_emit [OF p]
          sdk_placid_def c1_def c'_def)
  qed (use k c in \<open>simp_all add: st, simp_all add: c'_def c1_def sdk_opened_def sdk_startHeartbeat_def sdk_stopHeartbeat_def upd_sock_def
      note_out_def settle_def sdk_connected_def heartbeat_interval_def sock_of_def valid_sock_def\<close>)
qed

text \<open>C13: when the connect service answers with a live descriptor and the socket opens, \<open>connect()\<close> leaves the SDK connected to the room
  of that descriptor: it opened one socket, on exactly the descriptor's URL with its cookies and user agent, sent the enter-room
  frame of that room first, announced the connection last, and sends heartbeats for that room on that socket.\<close>

theorem sdk_connect_reaches_room:
  fixes c :: sdk
  assumes p: "sdk_placid env" and c: "\<not> sdk_connected c" "connecting c = None" "\<not> sd_fetchGifts c"
    and r: "api_connect rt f (sd_api c) (sd_uniqueId c) = Inr r" "cr_status r = Live" "cr_roomId r = Some roomId" "cr_connection r = Some d"
    and frame: "enterRoomFrame (cd_encodeEnter (ev_codec env)) (cd_encodeFrame (ev_codec env)) roomId audience LIVE_ID = Inr frame"
      "int (length frame) \<le> maxBufferedBytes c"
  shows "let t = length (sd_tasks c); i = length (sockets c);
      c' = fst (sdk_run rt env [J_connect, J_resume t (W_fetch f), J_open i, J_resume t W_none, J_finally t] (c, q))
    in sdk_connected c' \<and> socket c' = Some i \<and> sd_roomId c' = Some roomId \<and> connecting c' = None \<and> attempt c' = 0 \<and>
       sd_heartbeat c' = Some \<lparr>bt_socket = i, bt_roomId = roomId, bt_everyMs = 10000\<rparr> \<and>
       trace c' = trace c @ [O_new (cn_url d) (socketHeaders d), O_send i frame, O_emit (E_connected (live_state_json (sdk_state c')))]"
proof -
  let ?t = "length (sd_tasks c)" and ?i = "length (sockets c)"
  from r have room: "roomId \<noteq> []" using api_connect_allowed [OF r(1,2)] by (auto simp: allowed_target_def numeric_string_def)
  define c1 where "c1 = snd (sdk_connect c)"
  have c1: "sd_tasks c1 = sd_tasks c @ [\<lparr>st_generation = generation c1, st_pc = D_api\<rparr>]" "\<not> closing c1" "sd_api c1 = sd_api c"
    "sd_uniqueId c1 = sd_uniqueId c" "sd_fetchGifts c1 = sd_fetchGifts c" "sockets c1 = sockets c" "trace c1 = trace c"
    "connecting c1 = Some ?t" "maxBufferedBytes c1 = maxBufferedBytes c"
    using c by (simp_all add: c1_def sdk_connect_new)
  define c2 where "c2 = sdk_set_pc ?t (D_open ?i) ((add_socket (generation c1) (cn_url d) (socketHeaders d) roomId
    (c1\<lparr>sd_roomId := Some roomId, sd_status := Live\<rparr>))\<lparr>socket := Some ?i, cancelOpen := Some ?i\<rparr>)"
  have s2: "sdk_step rt env (J_resume ?t (W_fetch f)) (c1, q) = (c2, q)"
    using p c c1 r room
    by (simp add: sdk_resume_def Let_def current_def sdk_described_def sdk_open_def sdk_placid_def run_calls_def c2_def add_socket_def)
  have c2: "valid_sock ?i c2" "sock_of ?i c2 = \<lparr>sk_generation = generation c2, sk_roomId = roomId, sk_opened = False, sk_settled = False,
      sk_timer = True, sk_outcome = None\<rparr>" "\<not> closing c2" "generation c2 = generation c1" "socket c2 = Some ?i"
    "maxBufferedBytes c2 = maxBufferedBytes c" "length (sockets c2) = Suc ?i" "sd_roomId c2 = Some roomId" "sd_tasks c2 = sd_tasks c @ [\<lparr>st_generation = generation c1, st_pc = D_open ?i\<rparr>]"
    "connecting c2 = Some ?t" "trace c2 = trace c @ [O_new (cn_url d) (socketHeaders d)]"
    using c1 by (simp_all add: c2_def sdk_set_pc_def add_socket_def valid_sock_def sock_of_def note_out_def nth_append)
  have "int (length frame) \<le> maxBufferedBytes c2" using frame(2) c2(6) by simp
  from sdk_open_event [OF p c2(1,2,3,5) frame(1) this] obtain c4 where s3: "sdk_step rt env (J_open ?i) (c2, q) = (c4, q)" and c4: "sd_tasks c4 = sd_tasks c2"
    "connecting c4 = connecting c2" "sk_outcome (sockets c4 ! ?i) = Some (Inr ())" "length (sockets c4) = length (sockets c2)" "sdk_connected c4"
    "socket c4 = Some ?i" "sd_roomId c4 = sd_roomId c2" "attempt c4 = 0" "sd_heartbeat c4 = Some \<lparr>bt_socket = ?i, bt_roomId = roomId, bt_everyMs = 10000\<rparr>"
    "trace c4 = trace c2 @ [O_send ?i frame, O_emit (E_connected (live_state_json (sdk_state c4)))]"
    by blast
  define c5 where "c5 = (sdk_finish ?t (Inr (sdk_state c4)) c4)\<lparr>connecting := None\<rparr>"
  have s1: "sdk_step rt env J_connect (c, q) = (c1, q)" by (simp add: sdk_calls_def c1_def)
  have "sdk_run rt env [J_resume ?t W_none, J_finally ?t] (c4, q) = (sdk_set_pc ?t (D_done (Inr (sdk_state c4)) True) c5, q)"
    using c4 c2 by (simp add: sdk_resume_def Let_def valid_sock_def sock_of_def sdk_finish_def sdk_finally_def sdk_set_pc_def c5_def)
  then show ?thesis
    using c4 c2 unfolding Let_def sdk_run_simps s1 s2 s3
    by (simp add: c5_def sdk_set_pc_def sdk_finish_def sdk_connected_def sdk_state_def)
qed

lemma sdk_example_enter:
  "enterRoomFrame (cd_encodeEnter (ev_codec sdk_example_env)) (cd_encodeFrame (ev_codec sdk_example_env)) ''7'' audience LIVE_ID = Inr [1]"
proof -
  have "nonNegativeInt64 ''7'' = Inr 7" "nonNegativeInt64 LIVE_ID = Inr 12" by code_simp+
  then show ?thesis by (simp add: enterRoomFrame_def sdk_example_env_def example_codec_def pushFrame_def)
qed

definition sdk_joined :: sdk_sys where
  "sdk_joined = sdk_run example_runtime sdk_example_env
     [J_connect, J_resume 0 (W_fetch example_fetch), J_open 0, J_resume 0 W_none, J_finally 0] sdk_example"

theorem sdk_connect_reaches_room_witness:
  "sdk_connected (fst sdk_joined) \<and> socket (fst sdk_joined) = Some 0 \<and> sd_roomId (fst sdk_joined) = Some ''7''"
proof -
  obtain c q where e: "sdk_example = (c, q)" by fastforce
  note f = sdk_example_fields [unfolded e fst_conv]
  have "int (length [1 :: byte]) \<le> maxBufferedBytes c" using f(7) by simp
  from sdk_connect_reaches_room [OF sdk_example_placid f(1,2,5) example_connect [of "sd_api c", folded f(6)] _ _ _ sdk_example_enter this, of _ q]
  show ?thesis using f(3,4) by (simp add: sdk_joined_def e Let_def)
qed

lemma sdk_joined_reachable: "sdk_reachable example_runtime sdk_joined"
  unfolding sdk_joined_def by (intro sdk_reachable_run sdk_reachable.initial [OF sdk_example_built])

section \<open>Invariants\<close>

text \<open>C12: in every state the SDK can reach, whatever its listeners, its sockets and the connect service do, it has never opened a socket
  anywhere but on a TLS URL of TikTok's push hosts that carries a signature and names a numeric room.\<close>

theorem sdk_opens_only_tiktok:
  assumes "sdk_reachable rt s" and "O_new url headers \<in> set (trace (fst s))"
  shows "\<exists>p. rt_URL rt url = Inr p \<and> pu_protocol p = ''wss:'' \<and>
    pu_hostname p \<in> {''webcast-ws.tiktok.com'', ''webcast-ws.us.tiktok.com'', ''webcast-ws.eu.tiktok.com''} \<and>
    (\<exists>roomId signature. map_of (pu_params p) ''room_id'' = Some roomId \<and> numeric_string roomId \<and> roomId \<noteq> ''0'' \<and>
       map_of (pu_params p) ''X-Gnarly'' = Some signature \<and> signature \<noteq> [])"
proof -
  have "list_all (effect_allowed rt) (trace (fst s))"
    using sdk_sound_ok [OF sdk_reachable_sound [OF assms(1)]] by (simp add: sdk_ok_def)
  with assms(2) have "effect_allowed rt (O_new url headers)" by (auto simp: list_all_iff simp del: effect_allowed.simps)
  then obtain roomId where "allowed_target rt url roomId" by auto
  then show ?thesis
    by (auto simp: allowed_target_def isAllowedSocketUrl_def SOCKET_HOSTS_def split: sum.splits option.splits)
qed

theorem sdk_opens_only_tiktok_witness:
  "\<exists>p. rt_URL example_runtime ''u'' = Inr p \<and> pu_protocol p = ''wss:''"
proof -
  obtain c q where e: "sdk_example = (c, q)" by fastforce
  note f = sdk_example_fields [unfolded e fst_conv]
  let ?s = "sdk_run example_runtime sdk_example_env [J_connect, J_resume 0 (W_fetch example_fetch)] sdk_example"
  have "sdk_reachable example_runtime ?s" by (intro sdk_reachable_run sdk_reachable.initial [OF sdk_example_built])
  moreover have "O_new ''u'' (socketHeaders \<lparr>cn_url = ''u'', cn_cookies = ''c=1'', cn_userAgent = ''agent''\<rparr>) \<in> set (trace (fst ?s))"
    using f example_connect [of "sd_api c"]
    by (simp add: e sdk_calls_def sdk_connect_new sdk_resume_def Let_def current_def sdk_described_def sdk_open_def sdk_example_env_def
        run_calls_def add_socket_def)
  ultimately show ?thesis using sdk_opens_only_tiktok by blast
qed

text \<open>C15: in every reachable state, the SDK says it is connected exactly while its handshake flag is up, and then it holds an opened socket of
  the current generation and is not closing; a heartbeat runs only with a socket; a closing SDK holds no socket, timer, pending
  \<open>connect()\<close> or queued event; and it never makes more reconnection attempts than its policy allows.\<close>

theorem sdk_invariant:
  assumes "sdk_reachable rt s"
  shows "(sd_socketOpen (fst s) \<longleftrightarrow> sdk_connected (fst s)) \<and>
    (sdk_connected (fst s) \<longrightarrow> \<not> closing (fst s) \<and> (\<exists>i. socket (fst s) = Some i \<and> i < length (sockets (fst s)) \<and>
      sk_generation (sockets (fst s) ! i) = generation (fst s) \<and> sk_opened (sockets (fst s) ! i))) \<and>
    (sd_heartbeat (fst s) \<noteq> None \<longrightarrow> socket (fst s) \<noteq> None) \<and>
    (closing (fst s) \<longrightarrow> socket (fst s) = None \<and> sd_heartbeat (fst s) = None \<and> reconnectTimer (fst s) = None \<and>
      connecting (fst s) = None \<and> depth (snd s) = 0) \<and>
    (attempt (fst s) \<noteq> 0 \<longrightarrow> attempts_left (sp_attempts (sd_policy (fst s))) (attempt (fst s) - 1))"
proof -
  have "sdk_ok rt (fst s)" "idle s"
    using sdk_reachable_sound [OF assms] by (auto intro: sdk_sound_ok sdk_sound_idle)
  then show ?thesis
    by (cases "socket (fst s)") (auto simp: sdk_ok_def sdk_stopped_def sdk_live_def sdk_connected_def idle_def)
qed

theorem sdk_invariant_witness: "sdk_connected (fst sdk_joined) \<longleftrightarrow> sd_socketOpen (fst sdk_joined)"
  using sdk_invariant [OF sdk_joined_reachable] by blast

section \<open>A closing SDK is silent\<close>

lemma sdk_quiet_resume: "closing (fst s) \<Longrightarrow> quiet_step s (sdk_resume rt env t v s)"
  by (intro quiet_same; auto simp: sdk_resume_def Let_def closing_not_current sdk_loadGifts_def
      split: sdk_pc.split option.split sum.split sdk_answer.split)

lemma sdk_quiet_resume_reconnect: "closing (fst s) \<Longrightarrow> quiet_step s (sdk_resume_reconnect env r s)"
  by (intro quiet_same; auto simp: sdk_resume_reconnect_def Let_def closing_not_current split: option.split sum.split)

lemma sdk_quiet_steps:
  assumes "sdk.sound rt s" and c: "closing (fst s)" and "x \<noteq> J_connect"
  shows "quiet_step s (sdk_step rt env x s)"
proof -
  have st: "sdk_stopped (fst s)" and id: "idle s"
    using sdk_sound_ok [OF assms(1)] sdk_sound_idle [OF assms(1)] c by (simp_all add: sdk_ok_def)
  show ?thesis
  proof (cases x)
    case (J_open i)
    then show ?thesis using c by (auto simp: sdk_on_open_def closing_not_current quiet_step_def)
  next
    case (J_openTimeout i)
    then show ?thesis using c by (auto simp: sdk_open_timeout_def quiet_step_def)
  next
    case J_disconnect
    then show ?thesis
      by (auto simp: quiet_step_def sdk_calls_def sdk_disconnect_alt disconnect_effects_def split: option.split)
  next
    case (J_close i closeCode reason)
    then show ?thesis using c st by (intro quiet_same; simp add: sdk_on_close_def sdk_stopped_def)
  qed (use assms st id in \<open>simp_all add: sdk_quiet_resume sdk_quiet_resume_reconnect quiet_immediate
      sdk_on_message_def sdk_on_error_def sdk_heartbeat_tick_def sdk_reconnect_timer_def sdk_stopped_def sdk_finally_def quiet_same
      split: sdk_pc.split bool.split\<close>)
qed

text \<open>C17: after \<open>disconnect()\<close>, and until \<open>connect()\<close> is called again, no late answer of the connect service, socket event, timer or queued
  event makes the SDK emit, write or open anything: all it does is close sockets.\<close>

theorem sdk_disconnected_silent:
  assumes "sdk_reachable rt s" and "closing (fst s)" and "x \<noteq> J_connect"
  shows "closing (fst (sdk_step rt env x s)) \<and>
    (\<exists>os. trace (fst (sdk_step rt env x s)) = trace (fst s) @ os \<and> list_all silent os)"
  using sdk_quiet_steps [OF sdk_reachable_sound [OF assms(1)] assms(2,3)] by (simp add: quiet_step_def)

theorem sdk_disconnected_silent_witness:
  "closing (fst (sdk_step example_runtime sdk_example_env (J_resume 0 (W_fetch example_fetch))
     (sdk_step example_runtime sdk_example_env J_disconnect sdk_joined)))"
proof -
  let ?s = "sdk_step example_runtime sdk_example_env J_disconnect sdk_joined"
  have "closing (fst ?s)" by (simp add: sdk_calls_def sdk_disconnect_alt)
  from sdk_disconnected_silent [OF sdk_reachable.stepped [OF sdk_joined_reachable] this, of "J_resume 0 (W_fetch example_fetch)" sdk_example_env]
  show ?thesis by simp
qed

section \<open>Which failures are retried\<close>

lemma sdk_reconnect_failure:
  assumes p: "sdk_placid env" and r: "r < length (sd_reconnects c)" "sd_reconnects c ! r = \<lparr>sr_generation = generation c, sr_wait = Some pr\<rparr>"
    and e: "sdk_outcome pr c = Some (Inl e)" and c: "\<not> closing c"
  shows "\<exists>c1. sdk_step rt env (J_resumeReconnect r) (c, d) =
      (if isRetryable e then sdk_scheduleReconnect env (retry_after e) (c1, d) else (c1, d)) \<and>
    trace c1 = trace c @ [O_emit (E_error e)] \<and> \<not> closing c1 \<and> generation c1 = generation c \<and> attempt c1 = attempt c \<and>
    sd_policy c1 = sd_policy c \<and> reconnectTimer c1 = reconnectTimer c"
proof -
  let ?c1 = "note_out [O_emit (E_error e)] (c\<lparr>sd_reconnects := (sd_reconnects c)[r := (sd_reconnects c ! r)\<lparr>sr_wait := None\<rparr>]\<rparr>)"
  have "sdk_step rt env (J_resumeReconnect r) (c, d) =
      (if isRetryable e then sdk_scheduleReconnect env (retry_after e) (?c1, d) else (?c1, d))"
    using r e c by (simp add: sdk_resume_reconnect_def Let_def current_def sdk_placid_emit [OF p])
  moreover have "sd_policy ?c1 = sd_policy c" by (simp add: note_out_def)
  ultimately show ?thesis using c by (intro exI [of _ ?c1]) simp
qed

text \<open>The pause \<open>setTimeout\<close> makes when asked for \<open>ms\<close>: Node drops fractions, and takes one millisecond for what is less than one
  or more than 2147483647.\<close>

definition node_timeout :: "rat \<Rightarrow> rat" where
  "node_timeout ms = (if 1 \<le> ms \<and> ms \<le> of_int MAX_TIMER_MS then of_int \<lfloor>ms\<rfloor> else 1)"

lemma node_timeout_keeps: "of_int k \<le> ms \<Longrightarrow> ms \<le> of_int MAX_TIMER_MS \<Longrightarrow> of_int k \<le> node_timeout ms"
  by (cases "1 \<le> ms") (auto simp: node_timeout_def le_floor_iff)

lemma node_timeout_collapses: "of_int MAX_TIMER_MS < ms \<Longrightarrow> node_timeout ms = 1"
  by (simp add: node_timeout_def)

text \<open>C18: when a reconnection attempt fails, listeners hear of the error; if the failure says it must not be retried, or the policy
  has no attempts left, nothing more is scheduled. Otherwise the next attempt is armed with the longer of the policy's own delay and
  the pause the server asks for. When that is within what Node's timers can represent, the timer fires no earlier than either of them,
  in whole milliseconds; when it is more than 2147483647 ms, Node fires it after one millisecond, so that the longest pause a server
  can ask for becomes the shortest.\<close>

theorem sdk_retries_as_told:
  assumes p: "sdk_placid env" and r: "r < length (sd_reconnects c)" "sd_reconnects c ! r = \<lparr>sr_generation = generation c, sr_wait = Some pr\<rparr>"
    and e: "sdk_outcome pr c = Some (Inl e)" and c: "\<not> closing c" "reconnectTimer c = None"
  shows "let c' = fst (sdk_step rt env (J_resumeReconnect r) (c, d)); own = reconnectDelay (sd_policy c) (attempt c + 1) (ev_random env)
    in (\<exists>os. trace c' = trace c @ O_emit (E_error e) # os) \<and>
       (if isRetryable e \<and> attempts_left (sp_attempts (sd_policy c)) (attempt c)
        then attempt c' = attempt c + 1 \<and> (\<exists>delay. reconnectTimer c' = Some (delay, generation c) \<and>
          delay = max own (of_int (max 0 (retry_after e))) \<and>
          (if delay \<le> of_int MAX_TIMER_MS then of_int (retry_after e) \<le> node_timeout delay \<and> of_int \<lfloor>own\<rfloor> \<le> node_timeout delay
           else node_timeout delay = 1))
        else reconnectTimer c' = None)"
proof -
  from sdk_reconnect_failure [OF p r e c(1), of rt d] obtain c1 where
    s: "sdk_step rt env (J_resumeReconnect r) (c, d) = (if isRetryable e then sdk_scheduleReconnect env (retry_after e) (c1, d) else (c1, d))"
    and c1: "trace c1 = trace c @ [O_emit (E_error e)]" "\<not> closing c1" "generation c1 = generation c" "attempt c1 = attempt c"
      "sd_policy c1 = sd_policy c" "reconnectTimer c1 = reconnectTimer c"
    by blast
  have gu: "\<exists>os. trace (fst (sdk_scheduleReconnect env ms (c1, d))) = trace c1 @ os" if "\<not> attempts_left (sp_attempts (sd_policy c1)) (attempt c1)" for ms
    using that by (simp add: sdk_scheduleReconnect_def Let_def sdk_placid_emit [OF p])
  let ?own = "reconnectDelay (sd_policy c) (attempt c + 1) (ev_random env)"
  let ?delay = "max ?own (max 0 (of_int (retry_after e)))"
  have exact: "?delay = max ?own (of_int (max 0 (retry_after e)))" by (simp add: of_int_max)
  have "of_int (retry_after e) \<le> ?delay" "of_int \<lfloor>?own\<rfloor> \<le> ?delay"
    by (simp_all add: le_max_iff_disj)
  then have "if ?delay \<le> of_int MAX_TIMER_MS then of_int (retry_after e) \<le> node_timeout ?delay \<and> of_int \<lfloor>?own\<rfloor> \<le> node_timeout ?delay
      else node_timeout ?delay = 1"
    using node_timeout_keeps [of _ ?delay] node_timeout_collapses [of ?delay] by (simp only: not_le split: if_split) blast
  note pause = this [unfolded exact]
  show ?thesis
  proof (cases "isRetryable e \<and> attempts_left (sp_attempts (sd_policy c)) (attempt c)")
    case True
    from sdk_schedule_placid [OF p c1(2), of "retry_after e" d] True c1 c(2) exact
    have "reconnectTimer (fst (sdk_scheduleReconnect env (retry_after e) (c1, d))) = Some (max ?own (of_int (max 0 (retry_after e))), generation c)"
      "attempt (fst (sdk_scheduleReconnect env (retry_after e) (c1, d))) = attempt c + 1"
      "\<exists>os. trace (fst (sdk_scheduleReconnect env (retry_after e) (c1, d))) = trace c @ O_emit (E_error e) # os"
      by (simp_all add: Let_def)
    note armed = this
    from s True have s': "sdk_step rt env (J_resumeReconnect r) (c, d) = sdk_scheduleReconnect env (retry_after e) (c1, d)" by simp
    show ?thesis unfolding Let_def s' if_P [OF True]
      by (intro conjI exI [of _ "max ?own (of_int (max 0 (retry_after e)))"] armed pause refl)
  next
    case False
    then show ?thesis
      using sdk_gives_up_placid [OF p c1(2), of "retry_after e" d] gu [of "retry_after e"] c1 c(2)
      unfolding s Let_def by (cases "isRetryable e") auto
  qed
qed

definition failed_sdk :: "js_error \<Rightarrow> sdk" where
  "failed_sdk e = (fst sdk_example)\<lparr>generation := 1, sd_tasks := [\<lparr>st_generation = 1, st_pc = D_done (Inl e) True\<rparr>],
     sd_reconnects := [\<lparr>sr_generation = 1, sr_wait = Some (Pending 0)\<rparr>]\<rparr>"

lemma failed_sdk_fields:
  "0 < length (sd_reconnects (failed_sdk e))"
  "sd_reconnects (failed_sdk e) ! 0 = \<lparr>sr_generation = generation (failed_sdk e), sr_wait = Some (Pending 0)\<rparr>"
  "sdk_outcome (Pending 0) (failed_sdk e) = Some (Inl e)" "\<not> closing (failed_sdk e)" "reconnectTimer (failed_sdk e) = None"
  "attempts_left (sp_attempts (sd_policy (failed_sdk e))) (attempt (failed_sdk e))"
  using sdk_example_fields by (simp_all add: failed_sdk_def sdk_outcome_def SDK_DEFAULT_RECONNECT_def)

text \<open>A 503 answer that asks for a pause.\<close>

definition pause_answer :: "int \<Rightarrow> js_error" where
  "pause_answer ms = LiveApiErr (parseApiError 503 None (Some (JObj [(''error'', JObj [(''retryAfterMs'', jint ms)])])))"

lemma pause_answer_fields: "0 \<le> ms \<Longrightarrow> isRetryable (pause_answer ms)" "0 \<le> ms \<Longrightarrow> retry_after (pause_answer ms) = ms"
  by (simp_all add: pause_answer_def retry_after_def parseApiError_def isRecord_def opt_or_def)

theorem sdk_retries_as_told_witness:
  "(\<exists>delay. reconnectTimer (fst (sdk_step example_runtime sdk_example_env (J_resumeReconnect 0)
     (failed_sdk (pause_answer 30000), snd sdk_example))) = Some (delay, 1) \<and> 30000 \<le> node_timeout delay) \<and>
   (\<exists>delay. reconnectTimer (fst (sdk_step example_runtime sdk_example_env (J_resumeReconnect 0)
     (failed_sdk (pause_answer 2592000000), snd sdk_example))) = Some (delay, 1) \<and> 2592000000 \<le> delay \<and> node_timeout delay = 1) \<and>
   reconnectTimer (fst (sdk_step example_runtime sdk_example_env (J_resumeReconnect 0)
     (failed_sdk (protocol_error ''live connection descriptor is invalid''), snd sdk_example))) = None"
proof -
  note told = sdk_retries_as_told [OF sdk_example_placid failed_sdk_fields(1-5), of example_runtime _ "snd sdk_example"]
  have g: "generation (failed_sdk e) = 1" for e by (simp add: failed_sdk_def)
  have own: "reconnectDelay (sd_policy (failed_sdk e)) (attempt (failed_sdk e) + 1) (ev_random sdk_example_env) \<le> 30000" for e
    by code_simp
  have "\<exists>delay. reconnectTimer (fst (sdk_step example_runtime sdk_example_env (J_resumeReconnect 0)
     (failed_sdk (pause_answer 30000), snd sdk_example))) = Some (delay, 1) \<and> 30000 \<le> node_timeout delay"
    using told [of "pause_answer 30000"] own [of "pause_answer 30000"] failed_sdk_fields(6)
    by (simp add: Let_def pause_answer_fields g MAX_TIMER_MS_def max_def split: if_splits)
  moreover have "\<exists>delay. reconnectTimer (fst (sdk_step example_runtime sdk_example_env (J_resumeReconnect 0)
     (failed_sdk (pause_answer 2592000000), snd sdk_example))) = Some (delay, 1) \<and> 2592000000 \<le> delay \<and> node_timeout delay = 1"
    using told [of "pause_answer 2592000000"] own [of "pause_answer 2592000000"] failed_sdk_fields(6)
    by (simp add: Let_def pause_answer_fields g MAX_TIMER_MS_def max_def split: if_splits)
  moreover have "reconnectTimer (fst (sdk_step example_runtime sdk_example_env (J_resumeReconnect 0)
     (failed_sdk (protocol_error ''live connection descriptor is invalid''), snd sdk_example))) = None"
    using told [of "protocol_error ''live connection descriptor is invalid''"] by (simp add: Let_def)
  ultimately show ?thesis by blast
qed

section \<open>Decoding without a client\<close>

text \<open>C39: \<open>decodeFrameEvents\<close> decodes a frame exactly as the clients do before they hand its events to their queue: it fails with the
  same errors, ignores the same frames, and yields the same batch and, for a client without a gift table, the same events.\<close>

theorem decodeFrameEvents_agrees:
  "decodeFrameEvents cd inp = res_bind (decode_message cd inp) (\<lambda>x. Inr (case x of None \<Rightarrow> None
     | Some (frame, batch) \<Rightarrow> Some \<lparr>df_frame = frame,
         df_events = map (\<lambda>m. (message_event cd [] m, int_str (bm_msgId m), bm_isHistory m)) (fr_messages batch),
         df_heartbeatDuration = fr_heartbeatDuration batch, df_needAck = fr_needAck batch, df_internalExt = fr_internalExt batch\<rparr>))"
proof -
  have "enrich [] ev = ev" for ev by (simp add: enrich_def)
  then have "message_event cd [] m = (let ev = decodeEvent (cd_host cd) (cd_decoders cd) (bm_method m) (bm_payload m)
      in ev\<lparr>le_props := obj_put ''isHistory'' (JBool (bm_isHistory m)) (obj_put ''msgId'' (JStr (int_str (bm_msgId m))) (le_props ev))\<rparr>)" for m
    by (simp add: message_event_def stamped_def Let_def)
  then show ?thesis
    by (simp add: decodeFrameEvents_def decode_message_def carriesEvents_def MESSAGE_PAYLOAD_TYPE_def res_bind_def split: sum.split)
qed

end
