(* ===== verification/Connection_Properties.thy ===== *)
theory Connection_Properties
  imports Client_Refinement Sdk_Refinement Client_Properties Sdk_Properties
begin

text \<open>
  Both clients implement the connection of theory \<open>Connection_Spec\<close>. What follows of that for anyone who watches a client is
  stated once for both: a trace is \<open>observable\<close> if one of them can produce it.
\<close>

definition observable :: "runtime \<Rightarrow> effect list \<Rightarrow> bool" where
  "observable rt tr \<longleftrightarrow> (\<exists>s. reachable s \<and> tr = trace (fst s)) \<or> (\<exists>s. sdk_reachable rt s \<and> tr = trace (fst s))"

text \<open>C4: everything a \<open>TikTokLive\<close> client of the first package ever does to the outside, whatever it is fed and whatever its listeners, its signer and its sockets
  do, is a run of the abstract connection, and the run ends in the phase that the client's \<open>socket\<close>, \<open>connected\<close> and handshake fields describe.\<close>

theorem client_refines_connection:
  assumes "reachable s"
  shows "conn_run conn_start (trace (fst s)) \<lparr>made = length (sockets (fst s)), phase = phase_of tl_connected (fst s)\<rparr>"
  using tl_connection.reach_refines [OF assms] by (simp add: refines_def view_def)

theorem client_refines_connection_witness:
  "conn_run conn_start (trace (fst connected_client)) \<lparr>made = length (sockets (fst connected_client)), phase = Joined 0\<rparr>"
  using client_refines_connection [OF connected_client_fields(1)] connected_client_fields(2,3) by (simp add: phase_of_def)

text \<open>C16: so does the SDK's client, with its own notion of an open socket.\<close>

theorem sdk_refines_connection:
  assumes "sdk_reachable rt s"
  shows "conn_run conn_start (trace (fst s)) \<lparr>made = length (sockets (fst s)), phase = phase_of sd_socketOpen (fst s)\<rparr>"
  using sdk_connection.reach_refines [OF assms] by (simp add: refines_def view_def)

definition sdk_asked :: sdk_sys where
  "sdk_asked = sdk_run example_runtime sdk_example_env [J_connect, J_resume 0 (W_fetch example_fetch)] sdk_example"

lemma sdk_asked_reachable: "sdk_reachable example_runtime sdk_asked"
  unfolding sdk_asked_def by (intro sdk_reachable_run sdk_reachable.initial [OF sdk_example_built])

lemma sdk_example_closed: "\<not> sd_socketOpen (fst sdk_example)"
  by code_simp

lemma sdk_asked_opening: "length (sockets (fst sdk_asked)) = 1 \<and> phase_of sd_socketOpen (fst sdk_asked) = Opening 0"
proof -
  obtain c q where e: "sdk_example = (c, q)" by fastforce
  note f = sdk_example_fields [unfolded e fst_conv]
  have "\<not> sd_socketOpen c" using sdk_example_closed by (simp add: e)
  then show ?thesis
    using f example_connect [of "sd_api c"]
    by (simp add: sdk_asked_def e sdk_calls_def sdk_connect_new sdk_resume_def Let_def current_def sdk_described_def sdk_open_def
        sdk_example_env_def run_calls_def add_socket_def phase_of_def sock_of_def sdk_set_pc_def)
qed

theorem sdk_refines_connection_witness: "conn_run conn_start (trace (fst sdk_asked)) \<lparr>made = 1, phase = Opening 0\<rparr>"
  using sdk_refines_connection [OF sdk_asked_reachable] sdk_asked_opening by simp

text \<open>C20: listeners of either client are told of a loss only after a connection, with nothing told of the connection in between, and of a second connection only
  after the loss of the first was told or a socket was closed, as \<open>disconnect()\<close> does.\<close>

theorem lifecycle_in_order:
  assumes "observable rt tr"
  shows "(\<forall>pre closeCode reason post. tr = pre @ O_emit (E_disconnected closeCode reason) # post \<longrightarrow>
      (\<exists>before info after. pre = before @ O_emit (E_connected info) # after \<and> (\<forall>ef \<in> set after. \<not> telling ef))) \<and>
    (\<forall>pre info mid info' post. tr = pre @ O_emit (E_connected info) # mid @ O_emit (E_connected info') # post \<longrightarrow> (\<exists>ef \<in> set mid. ending ef))"
proof (intro conjI allI impI)
  show "\<exists>before info after. pre = before @ O_emit (E_connected info) # after \<and> (\<forall>ef \<in> set after. \<not> telling ef)"
    if "tr = pre @ O_emit (E_disconnected closeCode reason) # post" for pre closeCode reason post
    using assms that tl_connection.loss_after_connection sdk_connection.loss_after_connection unfolding observable_def by metis
  show "\<exists>ef \<in> set mid. ending ef" if "tr = pre @ O_emit (E_connected info) # mid @ O_emit (E_connected info') # post" for pre info mid info' post
    using assms that tl_connection.connected_again sdk_connection.connected_again unfolding observable_def by metis
qed

lemma connected_client_loses:
  "\<exists>post. trace (fst (step example_env (I_close 0 1006 (Some ''gone'')) connected_client)) =
     trace (fst connected_client) @ O_emit (E_disconnected 1006 ''gone'') # post"
proof -
  note f = connected_client_fields
  have "valid_sock 0 (fst connected_client)" "sk_opened (sock_of 0 (fst connected_client))" "\<not> closing (fst connected_client)"
    using good_ok [OF reachable_sound [OF f(1)]] f(2,3) by (auto simp: ok_defs valid_sock_def sock_of_def)
  then show ?thesis
    using f by (simp add: on_close_def Let_def placid_notify [OF example_placid] scheduleReconnect_def closed_client_def stopHeartbeat_def opt_or_def
        current_def DEFAULT_RECONNECT_def upd_sock_def)
qed

theorem lifecycle_in_order_witness:
  "\<exists>before info after. trace (fst connected_client) = before @ O_emit (E_connected info) # after"
proof -
  let ?s = "step example_env (I_close 0 1006 (Some ''gone'')) connected_client"
  have "observable example_runtime (trace (fst ?s))"
    unfolding observable_def using reachable.stepped [OF connected_client_fields(1)] by blast
  with lifecycle_in_order [of example_runtime] connected_client_loses show ?thesis by blast
qed

text \<open>C21: either client writes only to a socket it has made and has not given up by \<open>disconnect()\<close>.\<close>

theorem frames_to_current_socket:
  assumes "observable rt tr" and "tr = pre @ O_send i frame # post"
  shows "i < length (filter is_new pre) \<and> O_terminate i \<notin> set pre"
  using assms tl_connection.sent_to_made sdk_connection.sent_to_made unfolding observable_def by metis

theorem frames_to_current_socket_witness:
  "\<exists>pre frame post. trace (fst connected_client) = pre @ O_send 0 frame # post \<and> 0 < length (filter is_new pre) \<and> O_terminate 0 \<notin> set pre"
proof -
  obtain url hs em where t: "trace (fst connected_client) = [O_new url hs] @ O_send 0 [1] # [O_emit em]"
    using connected_client_fields(9) by auto
  have "observable example_runtime (trace (fst connected_client))"
    unfolding observable_def using connected_client_fields(1) by blast
  from frames_to_current_socket [OF this t] t show ?thesis by blast
qed

end
