(* ===== verification/Page_Properties.thy ===== *)
theory Page_Properties
  imports Page Sdk_Properties
begin

text \<open>
  What the browser page keeps to and where it differs from the packages it mirrors. A page runs at most one interval and, before anything else,
  enters the room; it reads a frame as the SDK does. Its intervals are the SDK's up to the largest timer a browser has.
\<close>

section \<open>Fields an operation leaves alone\<close>

definition page_sent :: "page \<Rightarrow> bytes list" where
  "page_sent p = List.map_filter (\<lambda>e. case e of Eff_sent f \<Rightarrow> Some f | Eff_console _ \<Rightarrow> None) (pg_effects p)"

lemma map_filter_append: "List.map_filter f (xs @ ys) = List.map_filter f xs @ List.map_filter f ys"
  by (simp add: List.map_filter_def)

lemma page_sent_console [simp]:
  "List.map_filter (\<lambda>e. case e of Eff_sent f \<Rightarrow> Some f | Eff_console _ \<Rightarrow> None) (map Eff_console ls) = []"
  by (simp add: List.map_filter_def)

lemma console_out_fields [simp]:
  "pg_relay (console_out ls p) = pg_relay p" "pg_roomId (console_out ls p) = pg_roomId p"
  "pg_ready (console_out ls p) = pg_ready p" "pg_heartbeat (console_out ls p) = pg_heartbeat p"
  "pg_intervals (console_out ls p) = pg_intervals p" "pg_nextId (console_out ls p) = pg_nextId p"
  "pg_unzipping (console_out ls p) = pg_unzipping p"
  "pg_effects (console_out ls p) = pg_effects p @ map Eff_console ls"
  "page_sent (console_out ls p) = page_sent p"
  by (simp_all add: console_out_def page_sent_def map_filter_append)

lemma clearInterval_fields [simp]:
  "pg_relay (clearInterval t p) = pg_relay p" "pg_roomId (clearInterval t p) = pg_roomId p"
  "pg_ready (clearInterval t p) = pg_ready p" "pg_heartbeat (clearInterval t p) = pg_heartbeat p"
  "pg_nextId (clearInterval t p) = pg_nextId p" "pg_unzipping (clearInterval t p) = pg_unzipping p"
  "pg_effects (clearInterval t p) = pg_effects p" "page_sent (clearInterval t p) = page_sent p"
  by (simp_all add: clearInterval_def page_sent_def split: option.split)

text \<open>An operation that only writes: to the console, and to the socket while it is open.\<close>

definition only_writes :: "(bytes \<Rightarrow> bool) \<Rightarrow> page \<Rightarrow> page \<Rightarrow> bool" where
  "only_writes ok p p' \<longleftrightarrow> (\<exists>es. p' = p\<lparr>pg_effects := pg_effects p @ es\<rparr>) \<and>
     (\<exists>fs. page_sent p' = page_sent p @ fs \<and> (pg_ready p \<noteq> Ws_open \<longrightarrow> fs = []) \<and> list_all ok fs)"

lemma console_out_only_writes [simp]: "only_writes ok p (console_out ls p)"
  by (auto simp: only_writes_def console_out_def page_sent_def map_filter_append)

lemma only_writes_refl [simp]: "only_writes ok p p"
  unfolding only_writes_def by (intro conjI exI [of _ "[]"]) simp_all

lemma only_writes_trans: "only_writes ok p q \<Longrightarrow> only_writes ok q r \<Longrightarrow> only_writes ok p r"
  unfolding only_writes_def by (elim conjE exE, intro conjI) (auto simp: list_all_append intro!: exI)

lemma only_writes_fields:
  assumes "only_writes ok p p'"
  shows "pg_relay p' = pg_relay p" "pg_roomId p' = pg_roomId p" "pg_ready p' = pg_ready p" "pg_heartbeat p' = pg_heartbeat p"
    "pg_intervals p' = pg_intervals p" "pg_nextId p' = pg_nextId p" "pg_unzipping p' = pg_unzipping p"
  using assms by (auto simp: only_writes_def)

lemma try_send_only_writes:
  assumes "\<And>f. frame = Inr f \<Longrightarrow> ok f"
  shows "only_writes ok p (try_send failed frame p)"
proof -
  have "only_writes ok p p'" if "ws_send f p = (r, p')" "ok f" for f r p'
  proof (cases "pg_ready p = Ws_open")
    case True
    with that show ?thesis
      by (auto simp: ws_send_def only_writes_def page_sent_def map_filter_append List.map_filter_simps)
  next
    case False
    with that have "p' = p" by (auto simp: ws_send_def split: ready_state.splits)
    then show ?thesis by simp
  qed
  then show ?thesis
    using assms unfolding try_send_def
    by (auto intro: only_writes_trans [OF _ console_out_only_writes] split: sum.split prod.split option.split)
qed

text \<open>The frames a page sends once it has entered.\<close>

definition ack_frame :: "codec \<Rightarrow> bytes \<Rightarrow> bool" where
  "ack_frame cd f \<longleftrightarrow> (\<exists>ext logId. ext \<noteq> [] \<and> page_pushFrame (cd_encodeFrame cd) ''ack'' (PText ext) logId = Inr f)"

definition routine_frame :: "codec \<Rightarrow> json \<Rightarrow> bytes \<Rightarrow> bool" where
  "routine_frame cd roomId f \<longleftrightarrow> page_heartbeatFrame cd roomId = Inr f \<or> ack_frame cd f"

lemma page_beat_only_writes: "only_writes (routine_frame cd (pg_roomId p)) p (page_beat cd p)"
  unfolding page_beat_def by (rule try_send_only_writes) (simp add: routine_frame_def)

lemma page_ack_acks: "only_writes (ack_frame cd) p (page_ack cd frame batch p)"
  unfolding page_ack_def by (auto simp: ack_frame_def intro!: try_send_only_writes) (metis list.distinct(1))+

lemma page_ack_only_writes: "only_writes (routine_frame cd roomId) p (page_ack cd frame batch p)"
  using page_ack_acks [of cd p frame batch] unfolding only_writes_def routine_frame_def by (auto simp: list_all_iff)

section \<open>The invariant\<close>

definition intervals_sound :: "page \<Rightarrow> bool" where
  "intervals_sound p \<longleftrightarrow> (case pg_heartbeat p of None \<Rightarrow> pg_intervals p = []
      | Some t \<Rightarrow> t < pg_nextId p \<and> (pg_intervals p = [] \<or> (\<exists>ms \<ge> 0. pg_intervals p = [(t, ms)]))) \<and>
     (pg_ready p = Ws_connecting \<longrightarrow> pg_heartbeat p = None \<and> pg_unzipping p = [])"

text \<open>The frames sent begin with the one that enters the room, when it can be built at all, and are otherwise heartbeats and acknowledgements.\<close>

definition frames_sound :: "codec \<Rightarrow> json \<Rightarrow> ready_state \<Rightarrow> bytes list \<Rightarrow> bool" where
  "frames_sound cd room ready sent \<longleftrightarrow> (ready = Ws_connecting \<longrightarrow> sent = []) \<and> (case page_enterRoomFrame cd room of
       Inl _ \<Rightarrow> list_all (routine_frame cd room) sent
     | Inr f \<Rightarrow> (sent = [] \<and> ready \<noteq> Ws_open) \<or> (\<exists>rest. sent = f # rest \<and> list_all (routine_frame cd room) rest))"

definition page_sound :: "codec \<Rightarrow> page \<Rightarrow> bool" where
  "page_sound cd p \<longleftrightarrow> intervals_sound p \<and> frames_sound cd (pg_roomId p) (pg_ready p) (page_sent p)"

lemma page_sound_only_writes:
  assumes s: "page_sound cd p" and w: "only_writes (routine_frame cd (pg_roomId p)) p p'"
  shows "page_sound cd p'"
proof -
  from w obtain fs where fs: "page_sent p' = page_sent p @ fs" "pg_ready p \<noteq> Ws_open \<longrightarrow> fs = []"
    "list_all (routine_frame cd (pg_roomId p)) fs" by (auto simp: only_writes_def)
  with s show ?thesis
    unfolding page_sound_def intervals_sound_def frames_sound_def only_writes_fields [OF w]
    by (auto split: sum.splits)
qed

lemma page_sound_console: "page_sound cd p \<Longrightarrow> page_sound cd (console_out ls p)"
  by (rule page_sound_only_writes [OF _ console_out_only_writes])

lemma page_sound_unzipping:
  "page_sound cd p \<Longrightarrow> pg_ready p \<noteq> Ws_connecting \<or> u = [] \<Longrightarrow> page_sound cd (p\<lparr>pg_unzipping := u\<rparr>)"
  by (auto simp: page_sound_def intervals_sound_def page_sent_def split: option.split)

lemma window_delay_nonneg [simp]: "0 \<le> window_delay ms"
  by (simp add: window_delay_def)

lemma page_hint_fields [simp]:
  "pg_ready (page_hint batch p) = pg_ready p" "pg_roomId (page_hint batch p) = pg_roomId p"
  "pg_unzipping (page_hint batch p) = pg_unzipping p" "page_sent (page_hint batch p) = page_sent p"
  by (simp_all add: page_hint_def setInterval_def Let_def page_sent_def map_filter_append List.map_filter_simps)

lemma page_hint_intervals: "intervals_sound p \<Longrightarrow> intervals_sound (page_hint batch p)"
  by (cases "pg_heartbeat p") (auto simp: page_hint_def intervals_sound_def setInterval_def clearInterval_def Let_def)

lemma page_batch_sound:
  assumes "page_sound cd p"
  shows "page_sound cd (page_batch cd frame payload p)"
proof -
  have "page_sound cd (page_hint batch p)" for batch
    using assms by (simp add: page_sound_def page_hint_intervals)
  then have "page_sound cd (page_ack cd frame batch (page_hint batch p))" for batch
    by (rule page_sound_only_writes) (rule page_ack_only_writes)
  with assms show ?thesis by (simp add: page_batch_def page_sound_console split: sum.split)
qed

lemma page_onmessage_sound:
  "page_sound cd p \<Longrightarrow> pg_ready p = Ws_open \<Longrightarrow> page_sound cd (page_onmessage cd raw p)"
  by (auto simp: page_onmessage_def page_batch_sound page_sound_unzipping split: sum.split)

lemma page_unzipped_sound:
  assumes "page_sound cd p"
  shows "page_sound cd (page_unzipped cd k r p)"
proof -
  have "page_sound cd (p\<lparr>pg_unzipping := (pg_unzipping p)[k := None]\<rparr>)"
    using assms by (rule page_sound_unzipping) (use assms in \<open>auto simp: page_sound_def intervals_sound_def\<close>)
  with assms show ?thesis
    by (auto simp: page_unzipped_def Let_def page_batch_sound page_sound_console split: option.split sum.split)
qed

lemma page_onopen_sound:
  "page_sound cd p \<Longrightarrow> pg_ready p = Ws_connecting \<Longrightarrow> page_sound cd (page_onopen cd (p\<lparr>pg_ready := Ws_open\<rparr>))"
  by (auto simp: page_onopen_def page_sound_def intervals_sound_def frames_sound_def ws_send_def setInterval_def page_sent_def
      map_filter_append List.map_filter_simps Let_def split: sum.splits)

lemma page_onclose_sound: "page_sound cd p \<Longrightarrow> page_sound cd (page_onclose closeCode reason p)"
  by (auto simp: page_onclose_def page_sound_def intervals_sound_def frames_sound_def clearInterval_def page_sent_def
      map_filter_append List.map_filter_simps split: option.splits sum.splits)

lemma page_step_sound:
  assumes "page_sound cd p"
  shows "page_sound cd (page_step cd x p)"
proof (cases x)
  case (G_beat t)
  with page_sound_only_writes [OF assms page_beat_only_writes] assms show ?thesis by simp
qed (simp_all add: assms page_onopen_sound page_onmessage_sound page_unzipped_sound page_onclose_sound page_sound_console)

lemma page_ticket_opening:
  assumes "page_ticket rt dial apiUrl apiKey uniqueId ticket = (ls, Opening p)"
  obtains relay room where "p = new_page relay room" "relay_url rt apiUrl apiKey uniqueId = Inr relay"
    "j_get ticket ''roomId'' = Some room" "j_truthy (Some room)"
  using assms
  by (cases "j_get ticket ''roomId''") (auto simp: page_ticket_def Let_def split: if_splits sum.splits option.splits)

lemma page_main_opening:
  assumes "page_main rt fetch dial href params = (ls, Opening p)"
  obtains apiUrl apiKey uniqueId relay room where "p = new_page relay room" "page_param params [''apiKey''] = apiKey"
    "relay_url rt apiUrl apiKey uniqueId = Inr relay" "apiUrl = opt_or (page_param params [''apiUrl'']) DEFAULT_API_URL"
    "page_normalizeUniqueId (opt_or (page_param params [''uniqueId'', ''unique_id'', ''id'', ''handle'']) []) = Inr uniqueId"
  using assms
  by (auto simp: page_main_def Let_def simp del: page_param.simps elim!: page_ticket_opening split: sum.splits prod.splits)

lemma page_reachable_sound: "page_reachable cd p \<Longrightarrow> page_sound cd p"
proof (induction rule: page_reachable.induct)
  case (initial rt fetch dial href params ls p)
  then show ?case
    by (elim page_main_opening) (auto simp: new_page_def page_sound_def intervals_sound_def frames_sound_def page_sent_def List.map_filter_simps split: sum.split)
qed (rule page_step_sound)

section \<open>A room that cannot be encoded\<close>

text \<open>\<open>onopen\<close> throws before it sends or starts anything; the socket stays open.\<close>

definition unentered :: "codec \<Rightarrow> page \<Rightarrow> bool" where
  "unentered cd p \<longleftrightarrow> pg_heartbeat p = None \<and> pg_intervals p = [] \<and> list_all (ack_frame cd) (page_sent p)"

lemma unentered_batch:
  assumes "unentered cd p"
  shows "unentered cd (page_batch cd frame payload p)"
proof -
  have h: "page_hint batch p = p" for batch using assms by (simp add: page_hint_def unentered_def)
  have "unentered cd (page_ack cd frame batch p)" for batch
    using assms page_ack_acks [of cd p frame batch] only_writes_fields [OF page_ack_acks [of cd p frame batch]]
    by (auto simp: unentered_def only_writes_def)
  then show ?thesis using assms by (simp add: page_batch_def h unentered_def split: sum.split)
qed

lemma unentered_step:
  assumes "unentered cd p" and "page_enterRoomFrame cd (pg_roomId p) = Inl e"
  shows "unentered cd (page_step cd x p)"
proof (cases x)
  case (G_message raw)
  have "unentered cd (p\<lparr>pg_unzipping := u\<rparr>)" for u using assms(1) by (simp add: unentered_def page_sent_def)
  then show ?thesis using assms(1) G_message by (auto simp: page_onmessage_def unentered_batch split: sum.split)
next
  case (G_unzipped k r)
  have u: "unentered cd (p\<lparr>pg_unzipping := u\<rparr>)" for u using assms(1) by (simp add: unentered_def page_sent_def)
  then have "unentered cd (console_out ls (p\<lparr>pg_unzipping := u\<rparr>))" for ls u by (simp add: unentered_def)
  with u show ?thesis using assms(1) G_unzipped by (auto simp: page_unzipped_def Let_def unentered_batch split: option.split sum.split)
qed (use assms in \<open>auto simp: unentered_def page_onopen_def page_onclose_def page_sent_def clearInterval_def map_filter_append List.map_filter_simps\<close>)

lemma page_step_roomId: "pg_roomId (page_step cd x p) = pg_roomId p"
proof -
  have b: "pg_roomId (page_batch cd frame payload q) = pg_roomId q" for frame payload q
    by (simp add: page_batch_def only_writes_fields(2) [OF page_ack_acks] split: sum.split)
  show ?thesis
    by (cases x) (auto simp: b page_onopen_def page_onmessage_def page_unzipped_def page_onclose_def ws_send_def setInterval_def Let_def
        only_writes_fields(2) [OF page_beat_only_writes] split: sum.split option.split prod.split ready_state.split)
qed

lemma page_reachable_unentered:
  "page_reachable cd p \<Longrightarrow> page_enterRoomFrame cd (pg_roomId p) = Inl e \<Longrightarrow> unentered cd p"
proof (induction rule: page_reachable.induct)
  case (initial rt fetch dial href params ls p)
  then show ?case by (elim page_main_opening) (simp add: new_page_def unentered_def page_sent_def List.map_filter_simps)
next
  case (stepped p x)
  then show ?case by (simp add: page_step_roomId unentered_step)
qed

section \<open>After the socket has closed\<close>

definition no_unzipping :: "page \<Rightarrow> bool" where
  "no_unzipping p \<longleftrightarrow> list_all (\<lambda>u. u = None) (pg_unzipping p)"

text \<open>On a closed page only the end of a decompression does anything beyond the console.\<close>

lemma page_step_closed:
  assumes "pg_ready p = Ws_closed"
  shows "pg_ready (page_step cd x p) = Ws_closed \<and> page_sent (page_step cd x p) = page_sent p \<and>
    (pg_intervals p \<noteq> [] \<longrightarrow> pg_intervals (page_step cd x p) \<noteq> []) \<and>
    (no_unzipping p \<longrightarrow> no_unzipping (page_step cd x p) \<and> pg_intervals (page_step cd x p) = pg_intervals p)"
proof -
  have writes: "pg_ready p' = Ws_closed \<and> page_sent p' = page_sent p \<and> pg_intervals p' = pg_intervals p \<and> pg_unzipping p' = pg_unzipping p"
    if "pg_ready p = Ws_closed" "only_writes ok p p'" for p p' :: page and ok
    using that only_writes_fields [OF that(2)] by (auto simp: only_writes_def)
  have hint: "pg_intervals (page_hint batch p) \<noteq> []" if "pg_intervals p \<noteq> []" for batch p
    using that by (auto simp: page_hint_def setInterval_def Let_def)
  have batch: "pg_ready (page_batch cd frame payload q) = Ws_closed \<and> page_sent (page_batch cd frame payload q) = page_sent q \<and>
      (pg_intervals q \<noteq> [] \<longrightarrow> pg_intervals (page_batch cd frame payload q) \<noteq> [])"
    if "pg_ready q = Ws_closed" for frame payload q
    using that hint writes [OF _ page_ack_only_writes] by (simp add: page_batch_def split: sum.split)
  show ?thesis
  proof (cases x)
    case (G_beat t)
    then show ?thesis using assms writes [OF assms page_beat_only_writes] by (simp add: no_unzipping_def)
  next
    case (G_unzipped k r)
    let ?q = "p\<lparr>pg_unzipping := (pg_unzipping p)[k := None]\<rparr>"
    have "page_sent ?q = page_sent p" by (simp add: page_sent_def)
    then show ?thesis
      using assms G_unzipped batch [of ?q]
      by (auto simp: page_unzipped_def Let_def no_unzipping_def list_all_length split: option.splits sum.splits)
  qed (use assms in \<open>simp_all add: no_unzipping_def\<close>)
qed

lemma page_run_closed:
  assumes "pg_ready p = Ws_closed"
  shows "page_sent (page_run cd xs p) = page_sent p \<and> (pg_intervals p \<noteq> [] \<longrightarrow> pg_intervals (page_run cd xs p) \<noteq> []) \<and>
    (no_unzipping p \<longrightarrow> pg_intervals (page_run cd xs p) = pg_intervals p)"
  using assms
proof (induction xs arbitrary: p)
  case (Cons x xs)
  from page_step_closed [OF Cons.prems, of cd x] Cons.IH [of "page_step cd x p"] show ?case
    by (auto simp: page_run_def)
qed (simp add: page_run_def)

section \<open>Intervals\<close>

lemma window_delay_small: "ms < 2 ^ 31 \<Longrightarrow> window_delay ms = int ms"
  by (simp add: window_delay_def sint_uint signed_take_bit_int_eq_self uint_nat take_bit_nat_eq_self unsigned_of_nat)

lemma window_delay_wraps:
  assumes "2 ^ 31 \<le> ms" "ms < 2 ^ 32"
  shows "window_delay ms = 0"
proof -
  have "sint (of_nat ms :: 32 word) = (int ms + 2 ^ 31) mod 2 ^ 32 - 2 ^ 31"
    by (simp add: signed_of_nat signed_take_bit_eq_take_bit_shift take_bit_eq_mod)
  moreover have "(int ms + 2 ^ 31) mod 2 ^ 32 = int ms + 2 ^ 31 - 2 ^ 32"
    using assms by (simp add: mod_pos_geq mod_pos_pos_trivial)
  ultimately show ?thesis using assms by (simp add: window_delay_def)
qed

section \<open>An example page\<close>

definition page_message :: "int \<Rightarrow> BaseProtoMessage" where
  "page_message i = \<lparr>bm_method = ''M'', bm_payload = [], bm_msgId = i, bm_msgType = 0, bm_offset = 0, bm_isHistory = False, bm_sampleFlag = 0\<rparr>"

definition page_codec :: codec where
  "page_codec = example_codec\<lparr>cd_pushFrame := (\<lambda>b. Inr (blank_PushFrame\<lparr>pf_logId := 5,
       pf_headers := [\<lparr>hdr_key = ''compress_type'', hdr_value = ''gzip''\<rparr>], pf_payloadType := ''msg'', pf_payload := b\<rparr>)),
     cd_batch := (\<lambda>b. Inr \<lparr>fr_messages = [page_message 1, page_message 2], fr_cursor = [], fr_fetchInterval = 0, fr_now = 0, fr_internalExt = ''e'', fr_fetchType = 0,
       fr_routeParams = [], fr_heartbeatDuration = 10000, fr_needAck = True, fr_pushServer = [], fr_isFirst = False,
       fr_historyCommentCursor = [], fr_historyNoMore = False\<rparr>)\<rparr>"

definition example_page :: page where
  "example_page = new_page (example_url\<lparr>pu_text := DEFAULT_API_URL @ ''/v1/live'', pu_protocol := ''ws:'', pu_hostname := [], pu_pathname := [],
     pu_params := [(''uniqueId'', ''someone'')]\<rparr>) (JStr ''7'')"

lemma example_page_opens:
  "\<exists>ls. page_main example_runtime (\<lambda>url hs body. Inr \<lparr>pr_ok = True, pr_status = 200, pr_json = Inr example_answer\<rparr>) (\<lambda>u. None) ''h''
     [(''uniqueId'', ''@someone'')] = (ls, Opening example_page)"
proof -
  have "page_normalizeUniqueId ''@someone'' = Inr ''someone''"
    "page_param [(''uniqueId'', ''@someone'')] [''uniqueId'', ''unique_id'', ''id'', ''handle''] = Some ''@someone''"
    "page_param [(''uniqueId'', ''@someone'')] [''apiUrl''] = None" "page_param [(''uniqueId'', ''@someone'')] [''apiKey''] = None"
    "DEFAULT_API_URL @ ''/v1/live'' \<noteq> ''u''" "j_truthy (Some (JStr ''7''))"
    by code_simp+
  then show ?thesis
    by (simp add: page_main_def fetchDescriptor_def example_runtime_def page_ticket_def example_answer_def relay_url_def
        example_page_def example_url_def opt_or_def Let_def)
qed

definition waiting_page :: page where
  "waiting_page = page_run page_codec [G_open, G_message []] example_page"

lemma page_reachable_run: "page_reachable cd p \<Longrightarrow> page_reachable cd (page_run cd xs p)"
  by (induction xs arbitrary: p) (simp_all add: page_run_def page_reachable.stepped)

lemma example_page_reachable: "page_reachable page_codec (page_run page_codec xs example_page)"
  using example_page_opens page_reachable.initial page_reachable_run by blast

lemma waiting_page_eval:
  "let p = waiting_page in pg_ready p = Ws_open \<and> pg_heartbeat p = Some 1 \<and> pg_intervals p = [(1, 10000)] \<and>
     length (pg_unzipping p) = 1 \<and> pg_unzipping p ! 0 \<noteq> None \<and> page_sent p = [[1]] \<and> pg_nextId p = 2"
  by code_simp

lemma waiting_page_fields:
  "pg_ready waiting_page = Ws_open" "pg_heartbeat waiting_page = Some 1" "pg_intervals waiting_page = [(1, 10000)]"
  "length (pg_unzipping waiting_page) = 1" "pg_unzipping waiting_page ! 0 \<noteq> None" "page_sent waiting_page = [[1]]"
  "pg_nextId waiting_page = 2"
  using waiting_page_eval unfolding Let_def by blast+

section \<open>Properties\<close>

text \<open>C34: in every state a page can reach it runs at most one heartbeat interval, the one it remembers, and none before the socket has
  opened. When the room of its ticket can be encoded, the first frame it ever sends enters that room, and every other frame is a
  heartbeat for that room or an acknowledgement with a non-empty text. The ticket is not validated, so the room may be one that
  cannot be encoded: then the page, though connected, never enters a room and never runs a heartbeat, and all it ever sends are
  acknowledgements.\<close>

theorem page_invariant:
  assumes "page_reachable cd p"
  shows "length (pg_intervals p) \<le> 1 \<and> (\<forall>(t, ms) \<in> set (pg_intervals p). pg_heartbeat p = Some t \<and> 0 \<le> ms \<and> pg_ready p \<noteq> Ws_connecting) \<and>
    (case page_enterRoomFrame cd (pg_roomId p) of
       Inr f \<Rightarrow> page_sent p = [] \<or> hd (page_sent p) = f \<and> (\<forall>g \<in> set (tl (page_sent p)). routine_frame cd (pg_roomId p) g)
     | Inl e \<Rightarrow> pg_intervals p = [] \<and> (\<forall>g \<in> set (page_sent p). ack_frame cd g))"
proof -
  have i: "intervals_sound p" and f: "frames_sound cd (pg_roomId p) (pg_ready p) (page_sent p)"
    using page_reachable_sound [OF assms] by (simp_all add: page_sound_def)
  have u: "unentered cd p" if "page_enterRoomFrame cd (pg_roomId p) = Inl e" for e
    using page_reachable_unentered [OF assms that] .
  from i have "length (pg_intervals p) \<le> 1 \<and> (\<forall>(t, ms) \<in> set (pg_intervals p). pg_heartbeat p = Some t \<and> 0 \<le> ms \<and> pg_ready p \<noteq> Ws_connecting)"
    by (auto simp: intervals_sound_def split: option.splits)
  moreover have "case page_enterRoomFrame cd (pg_roomId p) of
       Inr f \<Rightarrow> page_sent p = [] \<or> hd (page_sent p) = f \<and> (\<forall>g \<in> set (tl (page_sent p)). routine_frame cd (pg_roomId p) g)
     | Inl e \<Rightarrow> pg_intervals p = [] \<and> (\<forall>g \<in> set (page_sent p). ack_frame cd g)"
    using f u by (auto simp: frames_sound_def unentered_def list_all_iff split: sum.splits)
  ultimately show ?thesis by blast
qed

text \<open>A page whose ticket names the room \<open>x\<close>.\<close>

definition lost_page :: page where
  "lost_page = page_run page_codec [G_open, G_message [], G_unzipped 0 (Inr [])] (new_page (pg_relay example_page) (JStr ''x''))"

lemma lost_page_reachable: "page_reachable page_codec lost_page"
proof -
  let ?ticket = "JObj [(''uniqueId'', JStr ''someone''), (''roomId'', JStr ''x''), (''status'', JStr ''live'')]"
  have "page_normalizeUniqueId ''@someone'' = Inr ''someone''"
    "page_param [(''uniqueId'', ''@someone'')] [''uniqueId'', ''unique_id'', ''id'', ''handle''] = Some ''@someone''"
    "page_param [(''uniqueId'', ''@someone'')] [''apiUrl''] = None" "page_param [(''uniqueId'', ''@someone'')] [''apiKey''] = None"
    "DEFAULT_API_URL @ ''/v1/live'' \<noteq> ''u''" "j_truthy (Some (JStr ''x''))"
    by code_simp+
  then have "\<exists>ls. page_main example_runtime (\<lambda>url hs body. Inr \<lparr>pr_ok = True, pr_status = 200, pr_json = Inr ?ticket\<rparr>) (\<lambda>u. None) ''h''
     [(''uniqueId'', ''@someone'')] = (ls, Opening (new_page (pg_relay example_page) (JStr ''x'')))"
    by (simp add: page_main_def fetchDescriptor_def example_runtime_def page_ticket_def relay_url_def
        example_page_def new_page_def example_url_def opt_or_def Let_def)
  then show ?thesis unfolding lost_page_def using page_reachable.initial page_reachable_run by blast
qed

lemma lost_page_eval: "page_sent lost_page = [[1]] \<and> (case page_enterRoomFrame page_codec (pg_roomId lost_page) of Inl _ \<Rightarrow> True | Inr _ \<Rightarrow> False)"
  by code_simp

theorem page_invariant_witness:
  "length (pg_intervals waiting_page) \<le> 1 \<and> hd (page_sent waiting_page) = [1] \<and>
   page_sent lost_page \<noteq> [] \<and> pg_intervals lost_page = [] \<and> ack_frame page_codec (hd (page_sent lost_page))"
proof -
  have "page_enterRoomFrame page_codec (pg_roomId waiting_page) = Inr [1]" by code_simp
  then have "length (pg_intervals waiting_page) \<le> 1 \<and> hd (page_sent waiting_page) = [1]"
    using page_invariant [OF example_page_reachable, of "[G_open, G_message []]"] waiting_page_fields(6)
    unfolding waiting_page_def [symmetric] by auto
  then show ?thesis
    using page_invariant [OF lost_page_reachable] lost_page_eval by (auto split: sum.splits)
qed

text \<open>For a hint the SDK does not have to bound, a batch makes the page run the interval the SDK runs; a hint of between 2147483648 and
  4294967295 ms, which the SDK bounds to the largest timer, makes the page run its heartbeat without any delay.\<close>

lemma page_hint_interval:
  assumes "0 < fr_heartbeatDuration batch" and "pg_heartbeat p = Some t" and "pg_intervals p = [(t, ms)]"
  shows "(fr_heartbeatDuration batch \<le> MAX_TIMER_MS \<longrightarrow> pg_intervals (page_hint batch p) =
       [(pg_nextId p, heartbeat_interval (boundedHeartbeatMs (fr_heartbeatDuration batch)))]) \<and>
    (MAX_TIMER_MS < fr_heartbeatDuration batch \<and> fr_heartbeatDuration batch < 2 ^ 32 \<longrightarrow>
       pg_intervals (page_hint batch p) = [(pg_nextId p, 0)] \<and>
       heartbeat_interval (boundedHeartbeatMs (fr_heartbeatDuration batch)) = MAX_TIMER_MS)"
proof -
  let ?d = "fr_heartbeatDuration batch"
  have p: "pg_intervals (page_hint batch p) = [(pg_nextId p, window_delay (round53 (nat ?d)))]"
    using assms by (simp add: page_hint_def setInterval_def clearInterval_def Let_def)
  have r: "round53 (nat ?d) = nat ?d" if "?d < 2 ^ 32"
  proof -
    from that have "nat ?d < 2 ^ 53" by simp
    then show ?thesis by (rule round53_exact)
  qed
  have "window_delay (round53 (nat ?d)) = ?d" if "?d \<le> MAX_TIMER_MS"
    using that r assms(1) window_delay_small [of "nat ?d"] by (simp add: MAX_TIMER_MS_def)
  moreover have "window_delay (round53 (nat ?d)) = 0" if "MAX_TIMER_MS < ?d" "?d < 2 ^ 32"
    using that r window_delay_wraps [of "nat ?d"] by (simp add: MAX_TIMER_MS_def)
  ultimately show ?thesis
    unfolding p using assms(1) by (auto simp: heartbeat_interval_def boundedHeartbeatMs_def MAX_TIMER_MS_def)
qed

lemma page_hint_interval_witness:
  "\<exists>batch. cd_batch page_codec [] = Inr batch \<and> pg_intervals (page_hint batch waiting_page) = [(2, 10000)]"
proof -
  obtain batch where b: "cd_batch page_codec [] = Inr batch" "fr_heartbeatDuration batch = 10000"
    by (simp add: page_codec_def)
  from waiting_page_fields(7) b page_hint_interval [OF _ waiting_page_fields(2,3), of batch] show ?thesis
    by (simp add: MAX_TIMER_MS_def heartbeat_interval_def boundedHeartbeatMs_def)
qed

text \<open>The handling of one frame, with the decompression it may have to await.\<close>

definition page_reads :: "codec \<Rightarrow> (bytes \<Rightarrow> (js_error, bytes) result) \<Rightarrow> bytes \<Rightarrow> page \<Rightarrow> page" where
  "page_reads cd unzip raw p =
     (let p1 = page_step cd (G_message raw) p; k = length (pg_unzipping p)
      in if k < length (pg_unzipping p1)
         then case pg_unzipping p1 ! k of
             None \<Rightarrow> p1
           | Some frame \<Rightarrow> page_step cd (G_unzipped k (unzip (pf_payload frame))) p1
         else p1)"

lemma page_ack_unzipping [simp]: "pg_unzipping (page_ack cd frame batch p) = pg_unzipping p"
  by (rule only_writes_fields(7) [OF page_ack_only_writes])

lemma page_batch_unzipping [simp]: "pg_unzipping (page_batch cd frame payload p) = pg_unzipping p"
  by (simp add: page_batch_def split: sum.split)

lemma page_reads_decoded:
  assumes open1: "pg_ready p = Ws_open" and dec: "decodePushFrame (cd_pushFrame cd) raw = Inr frame"
    and msg: "pf_payloadType frame = ''msg''" and un: "decompress (cd_gunzip cd) frame = Inr payload"
    and unzip: "\<And>b u. cd_gunzip cd b MAX_BATCH_BYTES = Inr u \<Longrightarrow> unzip b = Inr u"
  shows "\<exists>u. page_reads cd unzip raw p = page_batch cd frame payload (p\<lparr>pg_unzipping := u\<rparr>)"
proof -
  have f: "cd_pushFrame cd raw = Inr frame" using dec by (auto simp: decodePushFrame_def bounded_def res_bind_def split: sum.splits if_splits)
  have g: "(case find (\<lambda>h. hdr_key h = ''compress_type'') (pf_headers frame) of None \<Rightarrow> [] | Some h \<Rightarrow> hdr_value h) = frameCompressType frame"
    by (simp add: frameCompressType_def COMPRESS_TYPE_HEADER_def)
  show ?thesis
  proof (cases "frameCompressType frame = ''gzip''")
    case True
    with un have "unzip (pf_payload frame) = Inr payload"
      by (intro unzip) (auto simp: decompress_def res_bind_def split: sum.splits)
    then show ?thesis
      using open1 f msg True g by (auto simp: page_reads_def page_onmessage_def page_unzipped_def Let_def)
  next
    case False
    with un have "payload = pf_payload frame"
      by (auto simp: decompress_def bounded_def res_bind_def split: sum.splits if_splits)
    then show ?thesis
      using open1 f msg False g by (intro exI [of _ "pg_unzipping p"]) (simp add: page_reads_def page_onmessage_def)
  qed
qed

text \<open>What handling a batch adds to the effects of an open page.\<close>

definition quiet_effect :: "page_effect \<Rightarrow> bool" where
  "quiet_effect e \<longleftrightarrow> (\<forall>ev. e \<noteq> Eff_console (Con_event ev))"

definition frames_of :: "page_effect list \<Rightarrow> bytes list" where
  "frames_of es = List.map_filter (\<lambda>e. case e of Eff_sent f \<Rightarrow> Some f | Eff_console _ \<Rightarrow> None) es"

lemma frames_of_simps [simp]:
  "frames_of [] = []" "frames_of (Eff_sent f # es) = f # frames_of es" "frames_of (Eff_console l # es) = frames_of es"
  "frames_of (es @ es') = frames_of es @ frames_of es'"
  by (simp_all add: frames_of_def map_filter_append List.map_filter_simps)

text \<open>The frames an acknowledgement amounts to: one, when it is wanted and can be built.\<close>

definition acks :: "bool \<Rightarrow> (js_error, bytes) result \<Rightarrow> bytes list" where
  "acks wanted built = (if wanted then case built of Inr f \<Rightarrow> [f] | Inl _ \<Rightarrow> [] else [])"

text \<open>What the page acknowledges a frame with, and the SDK.\<close>

definition page_ack_built :: "codec \<Rightarrow> WebcastPushFrame \<Rightarrow> string \<Rightarrow> (js_error, bytes) result" where
  "page_ack_built cd frame ext = page_pushFrame (cd_encodeFrame cd) ''ack'' (PText (if ext = [] then ''-'' else ext)) (pf_logId frame)"

abbreviation sdk_ack_built :: "codec \<Rightarrow> WebcastPushFrame \<Rightarrow> string \<Rightarrow> (js_error, bytes) result" where
  "sdk_ack_built cd frame ext \<equiv> ackFrameForBatch (cd_encodeFrame cd) frame ext"

lemma acks_built:
  "sdk_ack_built cd frame ext = (if pf_logId frame < 0 then Inl (RangeErr ''protobuf int64 values must be non-negative'')
     else page_pushFrame (cd_encodeFrame cd) ''ack'' (PText ext) (pf_logId frame))"
  by (simp add: ackFrameForBatch_def pushFrame_def page_pushFrame_def push_frame_message_def FRAME_TYPE_ack_def PAYLOAD_ENCODING_PB_def)

lemma acks_agree: "ext \<noteq> [] \<Longrightarrow> 0 \<le> pf_logId frame \<Longrightarrow> page_ack_built cd frame ext = sdk_ack_built cd frame ext"
  by (simp add: page_ack_built_def acks_built)

lemma page_hint_effects: "\<exists>es. pg_effects (page_hint batch p) = pg_effects p @ es \<and> list_all quiet_effect es \<and> frames_of es = []"
  by (auto simp: page_hint_def setInterval_def clearInterval_def Let_def quiet_effect_def split: option.splits)

lemma page_ack_effects:
  assumes "pg_ready p = Ws_open"
  shows "\<exists>es. pg_effects (page_ack cd frame batch p) = pg_effects p @ es \<and> list_all quiet_effect es \<and>
    frames_of es = acks (fr_needAck batch) (page_ack_built cd frame (fr_internalExt batch))"
  using assms by (auto simp: page_ack_def page_ack_built_def acks_def try_send_def ws_send_def quiet_effect_def split: sum.split)

lemma page_batch_effects:
  assumes "pg_ready p = Ws_open" and "cd_batch cd payload = Inr batch"
  shows "\<exists>pre. pg_effects (page_batch cd frame payload p) =
      pg_effects p @ pre @ map (\<lambda>m. Eff_console (Con_event (page_event cd m))) (fr_messages batch) \<and> list_all quiet_effect pre \<and>
    frames_of pre = acks (fr_needAck batch) (page_ack_built cd frame (fr_internalExt batch))"
proof -
  obtain es where es: "pg_effects (page_hint batch p) = pg_effects p @ es" "list_all quiet_effect es" "frames_of es = []"
    using page_hint_effects by blast
  obtain es' where es': "pg_effects (page_ack cd frame batch (page_hint batch p)) = pg_effects (page_hint batch p) @ es'"
    "list_all quiet_effect es'" "frames_of es' = acks (fr_needAck batch) (page_ack_built cd frame (fr_internalExt batch))"
    using page_ack_effects [of "page_hint batch p" cd frame batch] assms(1) by auto
  show ?thesis
    by (rule exI [of _ "es @ es'"]) (use assms(2) es es' in \<open>simp add: page_batch_def\<close>)
qed

text \<open>C33: suppose the browser's decompression yields what the SDK's bounded one yields whenever that succeeds. Then an open page reads every
  frame the SDK's stand-alone decoder accepts as the decoder does. A frame of the transport changes nothing. For a batch the page
  reports exactly the decoder's events, in its order, and before them it sends exactly one frame when the batch asks for an
  acknowledgement that can be built, and otherwise none. That frame is the one the SDK sends, when the batch names its
  \<open>internalExt\<close> and the frame's \<open>logId\<close> is not negative. In the two other cases they disagree: the SDK acknowledges a batch without
  \<open>internalExt\<close> with an empty text, the page with \<open>-\<close> as its text; and to a frame with a negative \<open>logId\<close> the SDK cannot build an
  acknowledgement at all, while the page tries to send it.\<close>

theorem page_agrees_with_sdk:
  assumes "pg_ready p = Ws_open" and unzip: "\<And>b u. cd_gunzip cd b MAX_BATCH_BYTES = Inr u \<Longrightarrow> unzip b = Inr u"
  shows "case decodeFrameEvents cd raw of
      Inl _ \<Rightarrow> True
    | Inr None \<Rightarrow> page_reads cd unzip raw p = p
    | Inr (Some df) \<Rightarrow> (\<exists>pre. pg_effects (page_reads cd unzip raw p) =
         pg_effects p @ pre @ map (\<lambda>e. Eff_console (Con_event (fst e))) (df_events df) \<and> list_all quiet_effect pre \<and>
         frames_of pre = acks (df_needAck df) (page_ack_built cd (df_frame df) (df_internalExt df)) \<and>
         (if pf_logId (df_frame df) < 0 then acks (df_needAck df) (sdk_ack_built cd (df_frame df) (df_internalExt df)) = []
          else if df_internalExt df \<noteq> [] then frames_of pre = acks (df_needAck df) (sdk_ack_built cd (df_frame df) (df_internalExt df))
          else sdk_ack_built cd (df_frame df) [] = page_pushFrame (cd_encodeFrame cd) ''ack'' (PText []) (pf_logId (df_frame df)) \<and>
            page_ack_built cd (df_frame df) [] = page_pushFrame (cd_encodeFrame cd) ''ack'' (PText ''-'') (pf_logId (df_frame df))))"
proof (cases "decodeFrameEvents cd raw")
  case (Inr found)
  show ?thesis
  proof (cases found)
    case None
    with Inr obtain frame where "cd_pushFrame cd raw = Inr frame" "pf_payloadType frame \<noteq> ''msg''"
      by (auto simp: decodeFrameEvents_def decodePushFrame_def bounded_def res_bind_def split: sum.splits if_splits)
    then show ?thesis using assms(1) Inr None by (simp add: page_reads_def page_onmessage_def)
  next
    case (Some df)
    with Inr obtain frame payload batch where dec: "decodePushFrame (cd_pushFrame cd) raw = Inr frame" "pf_payloadType frame = ''msg''"
        "decompress (cd_gunzip cd) frame = Inr payload" and b: "decodeBatch (cd_batch cd) payload = Inr batch"
      and df: "df_frame df = frame" "df_events df = map (\<lambda>m. (page_event cd m, int_str (bm_msgId m), bm_isHistory m)) (fr_messages batch)"
        "df_needAck df = fr_needAck batch" "df_internalExt df = fr_internalExt batch"
      by (auto simp: decodeFrameEvents_def res_bind_def page_event_def split: sum.splits if_splits)
    have "cd_batch cd payload = Inr batch" using b by (auto simp: decodeBatch_def bounded_def res_bind_def split: sum.splits if_splits)
    moreover obtain u where u: "page_reads cd unzip raw p = page_batch cd frame payload (p\<lparr>pg_unzipping := u\<rparr>)"
      using page_reads_decoded [of p cd raw frame payload unzip] assms dec by blast
    ultimately obtain pre where "pg_effects (page_reads cd unzip raw p) =
        pg_effects p @ pre @ map (\<lambda>e. Eff_console (Con_event (fst e))) (df_events df)" "list_all quiet_effect pre"
      "frames_of pre = acks (df_needAck df) (page_ack_built cd (df_frame df) (df_internalExt df))"
      using page_batch_effects [of "p\<lparr>pg_unzipping := u\<rparr>" cd payload batch frame] assms(1) df u by (auto simp: comp_def)
    then show ?thesis using Inr Some acks_agree [of "df_internalExt df" "df_frame df" cd]
      by (auto simp: acks_built acks_def page_ack_built_def)
  qed
qed simp

text \<open>A batch of two events that asks for an acknowledgement and names no \<open>internalExt\<close>.\<close>

definition dash_codec :: codec where
  "dash_codec = page_codec\<lparr>cd_batch := (\<lambda>b. case cd_batch page_codec b of Inr x \<Rightarrow> Inr (x\<lparr>fr_internalExt := []\<rparr>) | Inl e \<Rightarrow> Inl e),
     cd_encodeFrame := (\<lambda>f. Inr (pf_payload f))\<rparr>"

lemma dash_not_page: "dash_codec \<noteq> page_codec"
proof
  assume "dash_codec = page_codec"
  then have "cd_encodeFrame dash_codec (blank_PushFrame\<lparr>pf_payload := []\<rparr>) = cd_encodeFrame page_codec (blank_PushFrame\<lparr>pf_payload := []\<rparr>)" by simp
  then show False by (simp add: dash_codec_def page_codec_def example_codec_def)
qed

lemma page_codec_reads:
  assumes "cd \<in> {page_codec, dash_codec}"
  obtains df where "decodeFrameEvents cd [] = Inr (Some df)" "pf_logId (df_frame df) = 5" "df_needAck df"
    "map fst (df_events df) = [page_event cd (page_message 1), page_event cd (page_message 2)]"
    "df_internalExt df = (if cd = page_codec then ''e'' else [])"
proof -
  have d: "decodePushFrame (cd_pushFrame cd) [] = Inr (blank_PushFrame\<lparr>pf_logId := 5,
       pf_headers := [\<lparr>hdr_key = ''compress_type'', hdr_value = ''gzip''\<rparr>], pf_payloadType := ''msg'', pf_payload := []\<rparr>)"
    "cd_gunzip cd = (\<lambda>b n. Inr b)"
    using assms by (auto simp: dash_codec_def page_codec_def example_codec_def decodePushFrame_def bounded_def)
  obtain b where b: "cd_batch cd [] = Inr b" "fr_messages b = [page_message 1, page_message 2]" "fr_needAck b"
      "fr_internalExt b = (if cd = page_codec then ''e'' else [])"
    using assms dash_not_page by (auto simp: dash_codec_def page_codec_def)
  have "decodeBatch (cd_batch cd) [] = Inr b"
    using b(1) by (simp add: decodeBatch_def bounded_def preflightBatch_def preflight_loop.simps [of "[]" 0 0])
  then show thesis
    using that b d by (simp add: decodeFrameEvents_def decompress_def frameCompressType_def COMPRESS_TYPE_HEADER_def
        blank_PushFrame_def page_event_def bounded_def)
qed

theorem page_agrees_with_sdk_witness:
  "(\<exists>es. pg_effects (page_reads page_codec (\<lambda>b. Inr b) [] waiting_page) = pg_effects waiting_page @ es @
      map (\<lambda>i. Eff_console (Con_event (page_event page_codec (page_message i)))) [1, 2] \<and> frames_of es = [[1]]) \<and>
   (\<exists>es. pg_effects (page_reads dash_codec (\<lambda>b. Inr b) [] waiting_page) = pg_effects waiting_page @ es @
      map (\<lambda>i. Eff_console (Con_event (page_event dash_codec (page_message i)))) [1, 2] \<and> frames_of es = [[45]])"
proof -
  have unzip: "cd_gunzip page_codec b MAX_BATCH_BYTES = Inr u \<Longrightarrow> (Inr b :: (js_error, bytes) result) = Inr u"
    "cd_gunzip dash_codec b MAX_BATCH_BYTES = Inr u \<Longrightarrow> (Inr b :: (js_error, bytes) result) = Inr u" for b u
    by (simp_all add: page_codec_def dash_codec_def example_codec_def)
  note agree = page_agrees_with_sdk [where raw = "[]" and unzip = "\<lambda>b. Inr b", OF waiting_page_fields(1)]
  have events: "map (\<lambda>e. Eff_console (Con_event (fst e))) es = map (\<lambda>ev. Eff_console (Con_event ev)) (map fst es)" for es :: "(LiveEvent \<times> 'a \<times> 'b) list"
    by simp
  obtain df where df: "decodeFrameEvents page_codec [] = Inr (Some df)" "pf_logId (df_frame df) = 5" "df_needAck df"
    "map fst (df_events df) = [page_event page_codec (page_message 1), page_event page_codec (page_message 2)]"
    by (rule page_codec_reads [of page_codec]) auto
  have "page_ack_built page_codec (df_frame df) (df_internalExt df) = Inr [1]"
    by (simp add: page_ack_built_def page_pushFrame_def page_codec_def example_codec_def)
  with agree [where cd = page_codec, OF unzip(1)] df have 1: "\<exists>es. pg_effects (page_reads page_codec (\<lambda>b. Inr b) [] waiting_page) =
      pg_effects waiting_page @ es @ map (\<lambda>i. Eff_console (Con_event (page_event page_codec (page_message i)))) [1, 2] \<and> frames_of es = [[1]]"
    unfolding events by (auto simp: acks_def)
  obtain dd where dd: "decodeFrameEvents dash_codec [] = Inr (Some dd)" "pf_logId (df_frame dd) = 5" "df_needAck dd"
    "map fst (df_events dd) = [page_event dash_codec (page_message 1), page_event dash_codec (page_message 2)]" "df_internalExt dd = []"
    by (rule page_codec_reads [of dash_codec]) (auto simp: dash_not_page)
  have "page_ack_built dash_codec (df_frame dd) [] = Inr [45]"
    by (simp add: page_ack_built_def page_pushFrame_def dash_codec_def utf8_bytes_def utf8_char_def code_def)
  with agree [where cd = dash_codec, OF unzip(2)] dd have 2: "\<exists>es. pg_effects (page_reads dash_codec (\<lambda>b. Inr b) [] waiting_page) =
      pg_effects waiting_page @ es @ map (\<lambda>i. Eff_console (Con_event (page_event dash_codec (page_message i)))) [1, 2] \<and> frames_of es = [[45]]"
    unfolding events by (auto simp: acks_def)
  from 1 2 show ?thesis by blast
qed

text \<open>a page that closes while no batch is being decompressed is at rest: nothing that can still happen sends a frame or leaves an interval.\<close>

lemma page_close_stops:
  assumes "page_reachable cd p" and "pg_ready p \<noteq> Ws_closed" and "no_unzipping p"
  shows "pg_intervals (page_run cd (G_close closeCode reason # xs) p) = [] \<and>
    page_sent (page_run cd (G_close closeCode reason # xs) p) = page_sent p"
proof -
  let ?q = "page_onclose closeCode reason p"
  have "intervals_sound p" using page_reachable_sound [OF assms(1)] by (simp add: page_sound_def)
  then have q: "pg_ready ?q = Ws_closed" "pg_intervals ?q = []" "no_unzipping ?q" "page_sent ?q = page_sent p"
    using assms(3)
    by (auto simp: page_onclose_def intervals_sound_def clearInterval_def no_unzipping_def page_sent_def
        map_filter_append List.map_filter_simps split: option.splits)
  have "page_run cd (G_close closeCode reason # xs) p = page_run cd xs ?q" using assms(2) by (simp add: page_run_def)
  with page_run_closed [OF q(1), of cd xs] q show ?thesis by simp
qed

lemma page_close_stops_witness:
  "pg_intervals (page_run page_codec [G_close 1006 [], G_beat 1] (page_run page_codec [G_open] example_page)) = []"
proof -
  have "pg_ready (page_run page_codec [G_open] example_page) \<noteq> Ws_closed" "no_unzipping (page_run page_codec [G_open] example_page)"
    by code_simp+
  from page_close_stops [OF example_page_reachable this] show ?thesis by simp
qed

text \<open>C40: a page that has entered the room and closes while a batch with a heartbeat hint is being decompressed starts, when the decompression
  ends, an interval that nothing that can still happen will clear: \<open>onclose\<close> clears the interval but keeps its number, which \<open>onmessage\<close> takes
  for a running one.\<close>

theorem page_close_leaks:
  assumes "pg_ready p = Ws_open" and "pg_heartbeat p = Some t" and "k < length (pg_unzipping p)" and "pg_unzipping p ! k = Some frame"
    and "cd_batch cd payload = Inr batch" and "0 < fr_heartbeatDuration batch"
  shows "pg_intervals (page_run cd (G_close closeCode reason # G_unzipped k (Inr payload) # xs) p) \<noteq> []"
proof -
  let ?q = "page_onclose closeCode reason p" and ?r = "page_unzipped cd k (Inr payload) (page_onclose closeCode reason p)"
  have q: "pg_ready ?q = Ws_closed" "pg_heartbeat ?q = Some t" "pg_unzipping ?q = pg_unzipping p" by (simp_all add: page_onclose_def assms(2))
  have "pg_intervals (page_hint batch x) \<noteq> []" if "pg_heartbeat x \<noteq> None" for x
    using that assms(6) by (simp add: page_hint_def setInterval_def Let_def)
  then have "pg_intervals ?r \<noteq> []"
    using q assms(3-5) only_writes_fields(5) [OF page_ack_only_writes]
    by (simp add: page_unzipped_def Let_def page_batch_def)
  moreover have "pg_ready ?r = Ws_closed" using page_step_closed [OF q(1), of cd "G_unzipped k (Inr payload)"] by simp
  moreover have "page_run cd (G_close closeCode reason # G_unzipped k (Inr payload) # xs) p = page_run cd xs ?r"
    using assms(1) by (simp add: page_run_def)
  ultimately show ?thesis using page_run_closed [of ?r cd xs] by simp
qed

theorem page_close_leaks_witness:
  "page_reachable page_codec waiting_page \<and>
   pg_intervals (page_run page_codec [G_close 1006 [], G_unzipped 0 (Inr []), G_error] waiting_page) \<noteq> []"
proof -
  have "page_reachable page_codec waiting_page" unfolding waiting_page_def by (rule example_page_reachable)
  moreover obtain frame where "pg_unzipping waiting_page ! 0 = Some frame" using waiting_page_fields(5) by blast
  moreover obtain batch where "cd_batch page_codec [] = Inr batch" "fr_heartbeatDuration batch = 10000"
    by (simp add: page_codec_def)
  ultimately show ?thesis
    using page_close_leaks [OF waiting_page_fields(1,2), of 0] waiting_page_fields(4) by simp
qed

end
