(* ===== verification/Schema_Generator.thy ===== *)
theory Schema_Generator
  imports Json_Validation
begin

text \<open>
  \<open>packages/tiktok-live/scripts/generate-json-types.mjs\<close>: the generator of the schema constants under \<open>src/gen/json\<close>. This theory
  holds its first half: finding the schema files, following references and refusing keywords the validator does not know.
  \<open>read\<close> stands for \<open>readDocument\<close>: the parsed document of a path, or the error of reading or parsing it; the files do not change while the
  generator runs, so the map of documents already read changes nothing. Paths are absolute, as the script makes them. A walk that follows
  references is bounded by the depth of the call stack, as in theory \<open>Json_Validation\<close>. No document has a member named \<open>__proto__\<close>.

  Shown: following references terminates on every finite set of documents and computes exactly the finite expansion of a
  document, failing when there is none.
\<close>

section \<open>Files\<close>

text \<open>A directory as \<open>readdirSync\<close> lists it; an entry that is neither a file nor a directory is \<open>Other\<close>.\<close>

datatype dir_entry = File string | Directory string "dir_entry list" | Other string

fun entry_name :: "dir_entry \<Rightarrow> string" where
  "entry_name (File n) = n"
| "entry_name (Directory n es) = n"
| "entry_name (Other n) = n"

text \<open>\<open>Array.prototype.sort\<close> is stable; \<open>le\<close> says that \<open>localeCompare\<close> is not positive.\<close>

fun insert_entry :: "(string \<Rightarrow> string \<Rightarrow> bool) \<Rightarrow> dir_entry \<Rightarrow> dir_entry list \<Rightarrow> dir_entry list" where
  "insert_entry le x [] = [x]"
| "insert_entry le x (y # ys) = (if le (entry_name x) (entry_name y) then x # y # ys else y # insert_entry le x ys)"

definition sort_entries :: "(string \<Rightarrow> string \<Rightarrow> bool) \<Rightarrow> dir_entry list \<Rightarrow> dir_entry list" where
  "sort_entries le es = foldr (insert_entry le) es []"

definition ends_with :: "string \<Rightarrow> string \<Rightarrow> bool" where
  "ends_with suffix s \<longleftrightarrow> length suffix \<le> length s \<and> drop (length s - length suffix) s = suffix"

definition path_join :: "string \<Rightarrow> string \<Rightarrow> string" where
  "path_join directory name = directory @ ''/'' @ name"

lemma set_insert_entry: "set (insert_entry le x es) = insert x (set es)"
  by (induction es) auto

lemma set_sort_entries [simp]: "set (sort_entries le es) = set es"
  unfolding sort_entries_def by (induction es) (auto simp: set_insert_entry)

lemma dir_entry_size: "e \<in> set es \<Longrightarrow> size e < Suc (size_list size es)"
  by (induction es) auto

function walk :: "(string \<Rightarrow> string \<Rightarrow> bool) \<Rightarrow> string \<Rightarrow> dir_entry list \<Rightarrow> string list" where
  "walk le directory es = concat (map (\<lambda>e. case e of
       Directory n sub \<Rightarrow> walk le (path_join directory n) sub
     | File n \<Rightarrow> if ends_with ''.schema.json'' n then [path_join directory n] else []
     | Other n \<Rightarrow> []) (sort_entries le es))"
  by pat_completeness auto
termination
  by (relation "measure (\<lambda>(le, d, es). size_list size es)") (auto dest: dir_entry_size)

declare walk.simps [simp del]

section \<open>References\<close>

type_synonym reader = "string \<Rightarrow> (js_error, json) result"

text \<open>\<open>pointer\<close>, with its fragment as \<open>resolveReference\<close> passes it.\<close>

definition pointer :: "json \<Rightarrow> string \<Rightarrow> (js_error, json) result" where
  "pointer document fragment =
     (if fragment = [] \<or> fragment = ''#'' then Inr document
      else if \<not> starts_with ''#/'' fragment then Inl (Err (''unsupported JSON Schema reference: '' @ fragment))
      else case ref_walk document (split_on (CHR ''/'') (drop 2 fragment)) of
          None \<Rightarrow> Inl (Err (''JSON Schema reference does not exist: '' @ fragment))
        | Some v \<Rightarrow> Inr v)"

text \<open>\<open>path.dirname\<close> of a normalised absolute path, and \<open>path.resolve\<close> from an absolute directory.\<close>

definition path_dirname :: "string \<Rightarrow> string" where
  "path_dirname p = (let d = rev (drop 1 (dropWhile (\<lambda>c. c \<noteq> CHR ''/'') (rev p))) in if d = [] then ''/'' else d)"

fun walk_segments :: "string list \<Rightarrow> string list \<Rightarrow> string list" where
  "walk_segments up [] = rev up"
| "walk_segments up (s # ss) =
     (if s = [] \<or> s = ''.'' then walk_segments up ss
      else if s = ''..'' then walk_segments (drop 1 up) ss
      else walk_segments (s # up) ss)"

definition path_resolve :: "string \<Rightarrow> string \<Rightarrow> string" where
  "path_resolve directory p =
     ''/'' @ js_join ''/'' (walk_segments [] (split_on (CHR ''/'') (if starts_with ''/'' p then p else path_join directory p)))"

text \<open>The target of a reference: its file, its fragment, its node.\<close>

definition reference_parts :: "string \<Rightarrow> string \<times> string" where
  "reference_parts reference = (case split_on (CHR ''#'') reference of
       filePart # fragment # _ \<Rightarrow> (filePart, fragment)
     | [filePart] \<Rightarrow> (filePart, [])
     | [] \<Rightarrow> ([], []))"

definition target_file :: "string \<Rightarrow> string \<Rightarrow> string" where
  "target_file fromFile reference = (case reference_parts reference of
       (filePart, _) \<Rightarrow> if filePart \<noteq> [] then path_resolve (path_dirname fromFile) filePart else fromFile)"

definition target_node :: "reader \<Rightarrow> string \<Rightarrow> string \<Rightarrow> (js_error, json) result" where
  "target_node read targetFile fragment =
     res_bind (read targetFile) (\<lambda>document. pointer document (if fragment \<noteq> [] then ''#'' @ fragment else ''#''))"

definition reference_marker :: "string \<Rightarrow> string \<Rightarrow> string" where
  "reference_marker targetFile fragment = targetFile @ ''#'' @ fragment"

definition resolveReference ::
  "reader \<Rightarrow> (json \<Rightarrow> string \<Rightarrow> string list \<Rightarrow> (js_error, json) result) \<Rightarrow> string \<Rightarrow> string \<Rightarrow> string list \<Rightarrow> (js_error, json) result" where
  "resolveReference read resolve reference fromFile stack =
     (let targetFile = target_file fromFile reference; fragment = snd (reference_parts reference);
          marker = reference_marker targetFile fragment
      in res_bind (target_node read targetFile fragment) (\<lambda>target.
           if marker \<in> set stack then Inl (Err (''cyclic JSON Schema reference: '' @ reference))
           else resolve target targetFile (marker # stack)))"

definition j_reference :: "(string \<times> json) list \<Rightarrow> string option" where
  "j_reference ps = (case obj_get ps ''$ref'' of Some (JStr reference) \<Rightarrow> Some reference | _ \<Rightarrow> None)"

definition stack_overflow :: js_error where
  "stack_overflow = RangeErr ''Maximum call stack size exceeded''"

primrec resolveNode :: "reader \<Rightarrow> nat \<Rightarrow> json \<Rightarrow> string \<Rightarrow> string list \<Rightarrow> (js_error, json) result" where
  "resolveNode read 0 node fromFile stack = Inl stack_overflow"
| "resolveNode read (Suc calls) node fromFile stack = (case node of
       JArr items \<Rightarrow> res_bind (res_map (\<lambda>item. resolveNode read calls item fromFile stack) items) (\<lambda>rs. Inr (JArr rs))
     | JObj ps \<Rightarrow> (case j_reference ps of
           Some reference \<Rightarrow> resolveReference read (resolveNode read calls) reference fromFile stack
         | None \<Rightarrow> res_bind (res_map (\<lambda>(k, v). res_bind (resolveNode read calls v fromFile stack) (\<lambda>r. Inr (k, r))) (entries ps))
             (\<lambda>rs. Inr (JObj rs)))
     | _ \<Rightarrow> Inr node)"

section \<open>The expansion of a document\<close>

text \<open>What following references means: a node whose references have all been replaced, however often that takes.\<close>

inductive expands :: "reader \<Rightarrow> string \<Rightarrow> json \<Rightarrow> json \<Rightarrow> bool" for read where
  scalar: "\<not> isRecord v \<Longrightarrow> \<not> j_isArray v \<Longrightarrow> expands read f v v"
| items: "list_all2 (expands read f) xs ys \<Longrightarrow> expands read f (JArr xs) (JArr ys)"
| members: "j_reference ps = None \<Longrightarrow> list_all2 (rel_prod (=) (expands read f)) (entries ps) qs \<Longrightarrow> expands read f (JObj ps) (JObj qs)"
| reference: "j_reference ps = Some r \<Longrightarrow> target_node read (target_file f r) (snd (reference_parts r)) = Inr v \<Longrightarrow>
    expands read (target_file f r) v w \<Longrightarrow> expands read f (JObj ps) w"

text \<open>Replacing references without looking for cycles.\<close>

primrec chase :: "reader \<Rightarrow> nat \<Rightarrow> json \<Rightarrow> string \<Rightarrow> json option" where
  "chase read 0 node f = None"
| "chase read (Suc n) node f = (case node of
       JArr items \<Rightarrow> map_option JArr (those (map (\<lambda>item. chase read n item f) items))
     | JObj ps \<Rightarrow> (case j_reference ps of
           Some r \<Rightarrow> (case target_node read (target_file f r) (snd (reference_parts r)) of
               Inl _ \<Rightarrow> None | Inr v \<Rightarrow> chase read n v (target_file f r))
         | None \<Rightarrow> map_option JObj (those (map (\<lambda>(k, v). map_option (Pair k) (chase read n v f)) (entries ps))))
     | _ \<Rightarrow> Some node)"

lemma those_map_Some: "those (map g xs) = Some ys \<longleftrightarrow> list_all2 (\<lambda>x y. g x = Some y) xs ys"
proof (induction xs arbitrary: ys)
  case (Cons x xs)
  then show ?case by (cases ys) (auto split: option.splits)
qed auto

lemma chase_Some:
  "chase read (Suc n) (JArr xs) f = Some r \<longleftrightarrow> (\<exists>ys. r = JArr ys \<and> list_all2 (\<lambda>x y. chase read n x f = Some y) xs ys)"
  "j_reference ps = None \<Longrightarrow> chase read (Suc n) (JObj ps) f = Some r \<longleftrightarrow>
     (\<exists>qs. r = JObj qs \<and> list_all2 (rel_prod (=) (\<lambda>x y. chase read n x f = Some y)) (entries ps) qs)"
  "j_reference ps = Some rf \<Longrightarrow> chase read (Suc n) (JObj ps) f = Some r \<longleftrightarrow>
     (\<exists>v. target_node read (target_file f rf) (snd (reference_parts rf)) = Inr v \<and> chase read n v (target_file f rf) = Some r)"
  "\<not> isRecord v \<Longrightarrow> \<not> j_isArray v \<Longrightarrow> chase read (Suc n) v f = Some r \<longleftrightarrow> r = v"
proof -
  have "list_all2 (\<lambda>p q. (case p of (k, v) \<Rightarrow> map_option (Pair k) (chase read n v f)) = Some q) es qs =
      list_all2 (rel_prod (=) (\<lambda>x y. chase read n x f = Some y)) es qs" for es qs
    by (intro list.rel_cong refl) auto
  then show "j_reference ps = None \<Longrightarrow> chase read (Suc n) (JObj ps) f = Some r \<longleftrightarrow>
     (\<exists>qs. r = JObj qs \<and> list_all2 (rel_prod (=) (\<lambda>x y. chase read n x f = Some y)) (entries ps) qs)"
    by (auto simp: those_map_Some)
  show "\<not> isRecord v \<Longrightarrow> \<not> j_isArray v \<Longrightarrow> chase read (Suc n) v f = Some r \<longleftrightarrow> r = v" by (cases v) auto
qed (auto simp: those_map_Some split: sum.split)

lemma resolveNode_Inr:
  "resolveNode read (Suc n) (JArr xs) f st = Inr r \<longleftrightarrow>
     (\<exists>ys. r = JArr ys \<and> list_all2 (\<lambda>x y. resolveNode read n x f st = Inr y) xs ys)"
  "j_reference ps = None \<Longrightarrow> resolveNode read (Suc n) (JObj ps) f st = Inr r \<longleftrightarrow>
     (\<exists>qs. r = JObj qs \<and> list_all2 (rel_prod (=) (\<lambda>x y. resolveNode read n x f st = Inr y)) (entries ps) qs)"
  "j_reference ps = Some rf \<Longrightarrow> resolveNode read (Suc n) (JObj ps) f st = Inr r \<longleftrightarrow>
     (\<exists>v. target_node read (target_file f rf) (snd (reference_parts rf)) = Inr v \<and>
       reference_marker (target_file f rf) (snd (reference_parts rf)) \<notin> set st \<and>
       resolveNode read n v (target_file f rf) (reference_marker (target_file f rf) (snd (reference_parts rf)) # st) = Inr r)"
  "\<not> isRecord v \<Longrightarrow> \<not> j_isArray v \<Longrightarrow> resolveNode read (Suc n) v f st = Inr r \<longleftrightarrow> r = v"
proof -
  have "list_all2 (\<lambda>p q. (case p of (k, v) \<Rightarrow> res_bind (resolveNode read n v f st) (\<lambda>r. Inr (k, r))) = Inr q) es qs =
      list_all2 (rel_prod (=) (\<lambda>x y. resolveNode read n x f st = Inr y)) es qs" for es qs
    by (intro list.rel_cong refl) (auto simp: res_bind_Inr_iff)
  then show "j_reference ps = None \<Longrightarrow> resolveNode read (Suc n) (JObj ps) f st = Inr r \<longleftrightarrow>
     (\<exists>qs. r = JObj qs \<and> list_all2 (rel_prod (=) (\<lambda>x y. resolveNode read n x f st = Inr y)) (entries ps) qs)"
    by (auto simp: res_bind_Inr_iff res_map_Inr_iff)
  show "\<not> isRecord v \<Longrightarrow> \<not> j_isArray v \<Longrightarrow> resolveNode read (Suc n) v f st = Inr r \<longleftrightarrow> r = v" by (cases v) auto
qed (auto simp: res_bind_Inr_iff res_map_Inr_iff resolveReference_def Let_def)

lemma node_cases:
  obtains (items) xs where "v = JArr xs" | (members) ps where "v = JObj ps" "j_reference ps = None"
  | (reference) ps r where "v = JObj ps" "j_reference ps = Some r" | (scalar) "\<not> isRecord v" "\<not> j_isArray v"
proof (cases v)
  case (JObj ps)
  then show thesis using members reference by (cases "j_reference ps") auto
qed (use items scalar in simp_all)

lemma rel_prod_mono: "rel_prod (=) R p q \<Longrightarrow> (\<And>x y. R x y \<Longrightarrow> S x y) \<Longrightarrow> rel_prod (=) S p q"
  by (auto elim: rel_prod.cases)

lemma chase_mono: "chase read n v f = Some r \<Longrightarrow> n \<le> m \<Longrightarrow> chase read m v f = Some r"
proof (induction n arbitrary: m v f r)
  case (Suc n)
  then obtain k where k: "m = Suc k" "n \<le> k" by (cases m) auto
  note IH = Suc.IH [OF _ k(2)]
  show ?case unfolding k(1) using Suc.prems(1)
    by (cases v rule: node_cases) (auto simp: chase_Some simp del: chase.simps elim!: list_all2_mono rel_prod_mono intro: IH)
qed simp

text \<open>A result that is not an overflow does not depend on the depth of the stack.\<close>

lemma res_bind_stable:
  "res_bind a k \<noteq> Inl e \<Longrightarrow> (a \<noteq> Inl e \<Longrightarrow> b = a) \<Longrightarrow> (\<And>x. a = Inr x \<Longrightarrow> k x \<noteq> Inl e \<Longrightarrow> k' x = k x) \<Longrightarrow> res_bind b k' = res_bind a k"
  by (cases a) auto

lemma res_map_stable:
  "res_map g xs \<noteq> Inl e \<Longrightarrow> (\<And>x. x \<in> set xs \<Longrightarrow> g x \<noteq> Inl e \<Longrightarrow> h x = g x) \<Longrightarrow> res_map h xs = res_map g xs"
proof (induction xs)
  case (Cons x xs)
  from Cons.prems(1) show ?case unfolding res_map.simps
  proof (rule res_bind_stable)
    show "res_bind (res_map h xs) (\<lambda>ys. Inr (y # ys)) = res_bind (res_map g xs) (\<lambda>ys. Inr (y # ys))"
      if "res_bind (res_map g xs) (\<lambda>ys. Inr (y # ys)) \<noteq> Inl e" for y
      using that by (rule res_bind_stable) (use Cons.IH Cons.prems(2) in simp_all)
  qed (use Cons.prems(2) in simp)
qed simp

lemma resolveNode_stable: "resolveNode read n v f st \<noteq> Inl stack_overflow \<Longrightarrow> n \<le> m \<Longrightarrow> resolveNode read m v f st = resolveNode read n v f st"
proof (induction n arbitrary: m v f st)
  case (Suc n)
  then obtain k where k: "m = Suc k" "n \<le> k" by (cases m) auto
  note IH = Suc.IH [OF _ k(2)]
  show ?case
  proof (cases v rule: node_cases)
    case (items xs)
    with Suc.prems(1) show ?thesis unfolding k(1)
      by (auto intro!: res_bind_stable [where e = stack_overflow] res_map_stable [where e = stack_overflow] IH)
  next
    case (members ps)
    with Suc.prems(1) show ?thesis unfolding k(1)
      by (auto intro!: res_bind_stable [where e = stack_overflow] res_map_stable [where e = stack_overflow] IH)
  next
    case (reference ps r)
    with Suc.prems(1) show ?thesis unfolding k(1)
      by (auto simp: resolveReference_def Let_def intro!: res_bind_stable [where e = stack_overflow] IH split: if_splits)
  next
    case scalar
    then show ?thesis unfolding k(1) by (cases v) simp_all
  qed
qed simp

lemma resolveNode_mono: "resolveNode read n v f st = Inr r \<Longrightarrow> n \<le> m \<Longrightarrow> resolveNode read m v f st = Inr r"
  using resolveNode_stable [of read n v f st m] by simp

text \<open>Both compute expansions only.\<close>

lemma resolveNode_expands: "resolveNode read n v f st = Inr r \<Longrightarrow> expands read f v r"
proof (induction n arbitrary: v f st r)
  case (Suc n)
  show ?case using Suc.prems
    by (cases v rule: node_cases)
      (auto simp: resolveNode_Inr simp del: resolveNode.simps intro!: expands.intros elim!: list_all2_mono rel_prod_mono intro: Suc.IH)
qed simp

text \<open>Every expansion is found by replacing references often enough.\<close>

lemma chase_all:
  assumes "list_all2 (\<lambda>x y. \<exists>n. chase read n x f = Some y) xs ys"
  shows "\<exists>n. list_all2 (\<lambda>x y. chase read n x f = Some y) xs ys"
  using assms
proof (induction rule: list_all2_induct)
  case (Cons x xs y ys)
  then obtain n m where "chase read n x f = Some y" "list_all2 (\<lambda>x y. chase read m x f = Some y) xs ys" by blast
  then have "list_all2 (\<lambda>x y. chase read (max n m) x f = Some y) (x # xs) (y # ys)"
    by (auto intro: chase_mono elim!: list_all2_mono)
  then show ?case by blast
qed auto

lemma rel_prod_unzip:
  "list_all2 (rel_prod (=) R) xs ys \<longleftrightarrow> map fst xs = map fst ys \<and> list_all2 R (map snd xs) (map snd ys)"
proof (induction xs arbitrary: ys)
  case (Cons x xs)
  then show ?case by (cases ys) (auto simp: rel_prod_sel)
qed auto

lemma expands_chase: "expands read f v r \<Longrightarrow> \<exists>n. chase read n v f = Some r"
proof (induction rule: expands.induct)
  case (scalar v f)
  then show ?case by (metis chase_Some(4))
next
  case (items f xs ys)
  then have "list_all2 (\<lambda>x y. \<exists>n. chase read n x f = Some y) xs ys" by (auto elim!: list_all2_mono)
  from chase_all [OF this] obtain n where "chase read (Suc n) (JArr xs) f = Some (JArr ys)" unfolding chase_Some by blast
  then show ?case by blast
next
  case (members ps f qs)
  then have "list_all2 (rel_prod (=) (\<lambda>x y. \<exists>n. chase read n x f = Some y)) (entries ps) qs"
    by (auto elim!: list_all2_mono rel_prod_mono)
  then have "map fst (entries ps) = map fst qs" "list_all2 (\<lambda>x y. \<exists>n. chase read n x f = Some y) (map snd (entries ps)) (map snd qs)"
    by (simp_all add: rel_prod_unzip)
  with chase_all obtain n where "list_all2 (rel_prod (=) (\<lambda>x y. chase read n x f = Some y)) (entries ps) qs"
    unfolding rel_prod_unzip by blast
  with members(1) have "chase read (Suc n) (JObj ps) f = Some (JObj qs)" by (simp add: chase_Some del: chase.simps)
  then show ?case by blast
next
  case (reference ps r f v w)
  then obtain n where "chase read n v (target_file f r) = Some w" by blast
  with reference(1,2) have "chase read (Suc n) (JObj ps) f = Some w" by (auto simp: chase_Some simp del: chase.simps)
  then show ?case by blast
qed

text \<open>A marker names one node: a fragment has no \<open>#\<close>.\<close>

lemma reference_fragment: "CHR ''#'' \<notin> set (snd (reference_parts r))"
  using split_on_parts [of _ "CHR ''#''" r] by (auto simp: reference_parts_def split: list.splits)

lemma reference_marker_inject:
  assumes "reference_marker g a = reference_marker h b" and "CHR ''#'' \<notin> set a" "CHR ''#'' \<notin> set b"
  shows "g = h \<and> a = b"
proof -
  have e: "rev a @ CHR ''#'' # rev g = rev b @ CHR ''#'' # rev h" using arg_cong [OF assms(1), of rev] by (simp add: reference_marker_def)
  have "Some (rev a, rev g) = Some (rev b, rev h)"
    using cut_at_append [of "CHR ''#''" "rev a" "rev g"] cut_at_append [of "CHR ''#''" "rev b" "rev h"] assms(2,3) unfolding e by simp
  then show ?thesis by simp
qed

text \<open>An expansion that takes \<open>n\<close> replacements never meets a node that takes at least as many, so it meets none of those it is part of.\<close>

definition unfinished :: "reader \<Rightarrow> nat \<Rightarrow> string list \<Rightarrow> bool" where
  "unfinished read n st \<longleftrightarrow> (\<forall>g a v. CHR ''#'' \<notin> set a \<longrightarrow> reference_marker g a \<in> set st \<longrightarrow> target_node read g a = Inr v \<longrightarrow>
     (\<forall>m < n. chase read m v g = None))"

lemma unfinished_mono: "unfinished read n st \<Longrightarrow> m \<le> n \<Longrightarrow> unfinished read m st"
  by (auto simp: unfinished_def)

lemma unfinished_reference:
  assumes "unfinished read (Suc n) st" and "target_node read g a = Inr v" and "CHR ''#'' \<notin> set a" and "chase read n v g = Some r"
  shows "\<exists>m \<le> n. chase read m v g = Some r \<and> reference_marker g a \<notin> set st \<and> unfinished read m (reference_marker g a # st)"
proof -
  define m where "m = (LEAST m. \<exists>r. chase read m v g = Some r)"
  have found: "\<exists>r. chase read n v g = Some r" using assms(4) by blast
  have least: "chase read k v g = None" if "k < m" for k using not_less_Least [OF that [unfolded m_def]] by (cases "chase read k v g") auto
  have "m \<le> n" unfolding m_def using found by (rule Least_le)
  moreover obtain r' where "chase read m v g = Some r'" using LeastI [where P = "\<lambda>m. \<exists>r. chase read m v g = Some r", OF found] m_def by blast
  moreover from this \<open>m \<le> n\<close> assms(4) have "r' = r" using chase_mono [of read m v g r' n] by simp
  moreover have "reference_marker g a \<notin> set st" using assms by (auto simp: unfinished_def)
  moreover have "unfinished read m (reference_marker g a # st)"
    unfolding unfinished_def
  proof (intro allI impI)
    fix h b w k
    assume b: "CHR ''#'' \<notin> set b" "reference_marker h b \<in> set (reference_marker g a # st)" "target_node read h b = Inr w" "k < m"
    show "chase read k w h = None"
    proof (cases "reference_marker h b \<in> set st")
      case True
      with b assms(1) \<open>m \<le> n\<close> show ?thesis by (auto simp: unfinished_def)
    next
      case False
      with b(2) have "reference_marker h b = reference_marker g a" by simp
      from reference_marker_inject [OF this b(1) assms(3)] b(3) assms(2) least [OF b(4)] show ?thesis by simp
    qed
  qed
  ultimately show ?thesis by blast
qed

lemma chase_resolveNode: "chase read n v f = Some r \<Longrightarrow> unfinished read n st \<Longrightarrow> resolveNode read n v f st = Inr r"
proof (induction n arbitrary: v f st r rule: less_induct)
  case (less n)
  then obtain k where k: "n = Suc k" by (cases n) auto
  have IH: "resolveNode read k w f st = Inr q" if "chase read k w f = Some q" for w q
    using less.IH [of k w f q st] that unfinished_mono [OF less.prems(2)] k by simp
  show ?case
  proof (cases v rule: node_cases)
    case (reference ps rf)
    let ?g = "target_file f rf" and ?a = "snd (reference_parts rf)"
    from less.prems(1) obtain w where w: "target_node read ?g ?a = Inr w" "chase read k w ?g = Some r"
      unfolding k reference(1) chase_Some(3) [OF reference(2)] by blast
    from unfinished_reference [OF less.prems(2) [unfolded k] w(1) reference_fragment w(2)] obtain m where m: "m \<le> k"
      "chase read m w ?g = Some r" "reference_marker ?g ?a \<notin> set st" "unfinished read m (reference_marker ?g ?a # st)" by blast
    have "m < n" using m(1) k by simp
    from resolveNode_mono [OF less.IH [OF this m(2,4)] m(1)]
    have "resolveNode read k w ?g (reference_marker ?g ?a # st) = Inr r" .
    with w(1) m(3) show ?thesis unfolding k reference(1) resolveNode_Inr(3) [OF reference(2)] by blast
  next
    case (items xs)
    with less.prems(1) show ?thesis unfolding k items(1) chase_Some resolveNode_Inr by (auto elim!: list_all2_mono intro: IH)
  next
    case (members ps)
    with less.prems(1) show ?thesis
      unfolding k members(1) chase_Some(2) [OF members(2)] resolveNode_Inr(2) [OF members(2)] by (auto elim!: list_all2_mono rel_prod_mono intro: IH)
  next
    case scalar
    with less.prems(1) show ?thesis unfolding k by (simp add: chase_Some(4) resolveNode_Inr(4) del: chase.simps resolveNode.simps)
  qed
qed

lemma expands_resolveNode:
  assumes "expands read f v r"
  shows "\<exists>n. \<forall>m \<ge> n. resolveNode read m v f [] = Inr r"
proof -
  from expands_chase [OF assms] obtain n where "chase read n v f = Some r" by blast
  then have "resolveNode read n v f [] = Inr r" by (rule chase_resolveNode) (simp add: unfinished_def)
  then show ?thesis using resolveNode_mono by blast
qed

section \<open>How deep the walk goes\<close>

text \<open>The documents of a package, and the errors of reading anything else.\<close>

definition doc_reader :: "(string \<Rightarrow> js_error) \<Rightarrow> (string \<times> json) list \<Rightarrow> reader" where
  "doc_reader failed docs path = (case map_of docs path of Some d \<Rightarrow> Inr d | None \<Rightarrow> Inl (failed path))"

fun node_refs :: "json \<Rightarrow> string list" where
  "node_refs (JArr xs) = concat (map node_refs xs)"
| "node_refs (JObj ps) = (case j_reference ps of Some r \<Rightarrow> [r] | None \<Rightarrow> []) @ concat (map (\<lambda>(k, v). node_refs v) ps)"
| "node_refs _ = []"

definition doc_refs :: "(string \<times> json) list \<Rightarrow> string list" where
  "doc_refs docs = concat (map (\<lambda>(f, d). node_refs d) docs)"

definition doc_size :: "(string \<times> json) list \<Rightarrow> nat" where
  "doc_size docs = sum_list (map (\<lambda>(f, d). size d) docs)"

text \<open>A path of the walk follows a reference to a file at most once and otherwise goes down a document.\<close>

definition resolve_bound :: "(string \<times> json) list \<Rightarrow> nat" where
  "resolve_bound docs = Suc (length docs * length (doc_refs docs)) * Suc (doc_size docs)"

definition part_of :: "(string \<times> json) list \<Rightarrow> json \<Rightarrow> bool" where
  "part_of docs v \<longleftrightarrow> set (node_refs v) \<subseteq> set (doc_refs docs) \<and> size v \<le> doc_size docs"

lemma part_of_document: "map_of docs f = Some d \<Longrightarrow> part_of docs d"
proof -
  assume "map_of docs f = Some d"
  then have m: "(f, d) \<in> set docs" by (rule map_of_SomeD)
  then have "size d \<in> set (map (\<lambda>(f, d). size d) docs)" by force
  from member_le_sum_list [OF this] m show ?thesis by (auto simp: part_of_def doc_refs_def doc_size_def)
qed

lemma part_of_item: "part_of docs (JArr xs) \<Longrightarrow> x \<in> set xs \<Longrightarrow> part_of docs x"
  using member_size [of x xs] by (auto simp: part_of_def)

lemma part_of_member: "part_of docs (JObj ps) \<Longrightarrow> (k, x) \<in> set ps \<Longrightarrow> part_of docs x"
proof -
  assume a: "part_of docs (JObj ps)" "(k, x) \<in> set ps"
  then have "set (node_refs x) \<subseteq> set (node_refs (JObj ps))" by force
  with a entry_size [OF a(2)] show ?thesis by (auto simp: part_of_def simp del: node_refs.simps)
qed

lemma part_of_step: "part_of docs v \<Longrightarrow> ref_step v k = Some w \<Longrightarrow> part_of docs w"
  by (cases v) (auto intro: part_of_item part_of_member map_of_SomeD split: if_splits)

lemma part_of_walk: "part_of docs v \<Longrightarrow> ref_walk v ss = Some w \<Longrightarrow> part_of docs w"
  by (induction ss arbitrary: v) (auto split: option.splits dest: part_of_step)

lemma part_of_target:
  "target_node (doc_reader failed docs) g a = Inr v \<Longrightarrow> part_of docs v \<and> g \<in> fst ` set docs"
  by (auto simp: target_node_def res_bind_Inr_iff doc_reader_def pointer_def part_of_document split: option.splits if_splits
      dest: part_of_walk [OF part_of_document] map_of_SomeD intro: image_eqI [of _ fst "(g, _)"])

definition doc_markers :: "(string \<times> json) list \<Rightarrow> string set" where
  "doc_markers docs = (\<lambda>(g, r). reference_marker g (snd (reference_parts r))) ` (fst ` set docs \<times> set (doc_refs docs))"

lemma doc_markers_card: "finite (doc_markers docs)" "card (doc_markers docs) \<le> length docs * length (doc_refs docs)"
proof -
  show "finite (doc_markers docs)" by (simp add: doc_markers_def)
  have "card (doc_markers docs) \<le> card (fst ` set docs \<times> set (doc_refs docs))" unfolding doc_markers_def by (rule card_image_le) simp
  also have "\<dots> \<le> length docs * length (doc_refs docs)"
    by (simp add: card_cartesian_product mult_le_mono card_length card_image_le [THEN order_trans])
  finally show "card (doc_markers docs) \<le> length docs * length (doc_refs docs)" .
qed

lemma res_map_Inl: "res_map g xs = Inl e \<Longrightarrow> \<exists>x \<in> set xs. g x = Inl e"
  by (induction xs) (auto simp: res_bind_Inl_iff)

lemma resolveNode_deep_enough:
  assumes "\<And>p. failed p \<noteq> stack_overflow"
  shows "part_of docs v \<Longrightarrow> card (doc_markers docs - set st) * Suc (doc_size docs) + size v < calls \<Longrightarrow>
    resolveNode (doc_reader failed docs) calls v f st \<noteq> Inl stack_overflow"
proof (induction calls arbitrary: v f st)
  case (Suc n)
  show ?case
  proof (cases v rule: node_cases)
    case (items xs)
    have "resolveNode (doc_reader failed docs) n x f st \<noteq> Inl stack_overflow" if "x \<in> set xs" for x
      using Suc.IH [OF part_of_item [OF Suc.prems(1) [unfolded items] that]] Suc.prems(2) member_size [OF that] items by simp
    then show ?thesis using items by (auto simp: res_bind_Inl_iff dest: res_map_Inl)
  next
    case (members ps)
    have "resolveNode (doc_reader failed docs) n x f st \<noteq> Inl stack_overflow" if "(k, x) \<in> set ps" for k x
      using Suc.IH [OF part_of_member [OF Suc.prems(1) [unfolded members(1)] that]] Suc.prems(2) entry_size [OF that] members(1) by simp
    then show ?thesis using members by (auto simp: res_bind_Inl_iff dest!: res_map_Inl)
  next
    case (reference ps r)
    let ?g = "target_file f r" and ?a = "snd (reference_parts r)"
    let ?m = "reference_marker ?g ?a"
    show ?thesis
    proof (cases "target_node (doc_reader failed docs) ?g ?a")
      case (Inl e)
      with assms have "e \<noteq> stack_overflow"
        by (auto simp: target_node_def res_bind_Inl_iff doc_reader_def pointer_def stack_overflow_def split: option.splits if_splits)
      with Inl reference show ?thesis by (simp add: resolveReference_def Let_def)
    next
      case (Inr w)
      note w = part_of_target [OF Inr]
      have "?m \<in> doc_markers docs" using w Suc.prems(1) reference by (auto simp: doc_markers_def part_of_def)
      then have "card (doc_markers docs - set (?m # st)) < card (doc_markers docs - set st)" if "?m \<notin> set st"
        using that doc_markers_card(1) by (intro psubset_card_mono) auto
      then have "card (doc_markers docs - set (?m # st)) * Suc (doc_size docs) + size w < n" if "?m \<notin> set st"
        using that w Suc.prems(2) mult_le_mono1 [of "Suc (card (doc_markers docs - set (?m # st)))" "card (doc_markers docs - set st)" "Suc (doc_size docs)"]
        by (simp add: part_of_def)
      with Suc.IH [of w "?m # st" ?g] w Inr reference show ?thesis by (auto simp: resolveReference_def Let_def stack_overflow_def)
    qed
  next
    case scalar
    then show ?thesis by (cases v) simp_all
  qed
qed simp

section \<open>Properties\<close>

text \<open>C5: with a call stack deeper than a bound that the documents give, resolving a document whose references may lead to the others ends, without running
  out of stack, and is exact: it returns the one value in which every reference has been replaced, or fails because there is none,
  as when references form a cycle, name a file that cannot be read or a node that does not exist.\<close>

theorem resolveNode_exact:
  assumes "map_of docs f = Some d" and "resolve_bound docs \<le> calls" and "\<And>p. failed p \<noteq> stack_overflow"
  shows "case resolveNode (doc_reader failed docs) calls d f [] of
      Inr r \<Rightarrow> (\<forall>r'. expands (doc_reader failed docs) f d r' \<longleftrightarrow> r' = r)
    | Inl e \<Rightarrow> e \<noteq> stack_overflow \<and> (\<forall>r'. \<not> expands (doc_reader failed docs) f d r')"
proof -
  note part = part_of_document [OF assms(1)]
  have "card (doc_markers docs) * Suc (doc_size docs) + size d < resolve_bound docs"
    using mult_le_mono1 [OF doc_markers_card(2), of docs "Suc (doc_size docs)"] part by (simp add: resolve_bound_def part_of_def)
  then have deep: "resolveNode (doc_reader failed docs) calls d f [] \<noteq> Inl stack_overflow"
    using resolveNode_deep_enough [OF assms(3) part, of "[]"] assms(2) by simp
  have exact: "expands (doc_reader failed docs) f d r \<longleftrightarrow> resolveNode (doc_reader failed docs) calls d f [] = Inr r" for r
  proof
    assume "expands (doc_reader failed docs) f d r"
    then obtain n where "\<forall>m \<ge> n. resolveNode (doc_reader failed docs) m d f [] = Inr r" using expands_resolveNode by blast
    then have "resolveNode (doc_reader failed docs) (max calls n) d f [] = Inr r" by simp
    with resolveNode_stable [OF deep, of "max calls n"] show "resolveNode (doc_reader failed docs) calls d f [] = Inr r" by simp
  qed (rule resolveNode_expands)
  then show ?thesis using deep by (auto split: sum.split)
qed

text \<open>A file that refers to another, and one that refers to itself.\<close>

definition example_documents :: "(string \<times> json) list" where
  "example_documents =
     [(''/s/a.schema.json'', JObj [(''type'', JStr ''object''), (''properties'', JObj [(''id'', JObj [(''$ref'', JStr ''./common.schema.json#/$defs/id'')])])]),
      (''/s/common.schema.json'', JObj [(''$defs'', JObj [(''id'', JObj [(''type'', JStr ''string'')])])])]"

definition example_resolved :: json where
  "example_resolved = JObj [(''type'', JStr ''object''), (''properties'', JObj [(''id'', JObj [(''type'', JStr ''string'')])])]"

definition cyclic_documents :: "(string \<times> json) list" where
  "cyclic_documents = [(''/s/a.schema.json'', JObj [(''items'', JObj [(''$ref'', JStr ''#'')])])]"

lemma example_resolves:
  "resolveNode (doc_reader (\<lambda>_. Err []) example_documents) 20 (snd (hd example_documents)) ''/s/a.schema.json'' [] = Inr example_resolved"
  by code_simp

lemma cyclic_fails: "\<not> is_ok (resolveNode (doc_reader (\<lambda>_. Err []) cyclic_documents) 100 (snd (hd cyclic_documents)) ''/s/a.schema.json'' [])"
  by code_simp

theorem resolveNode_exact_witness:
  "{r. expands (doc_reader (\<lambda>_. Err []) example_documents) ''/s/a.schema.json'' (snd (hd example_documents)) r} = {example_resolved} \<and>
   {r. expands (doc_reader (\<lambda>_. Err []) cyclic_documents) ''/s/a.schema.json'' (snd (hd cyclic_documents)) r} = {}"
proof -
  have b: "resolve_bound example_documents \<le> 1000" "resolve_bound cyclic_documents \<le> 100" by code_simp+
  have m: "map_of example_documents ''/s/a.schema.json'' = Some (snd (hd example_documents))"
    "map_of cyclic_documents ''/s/a.schema.json'' = Some (snd (hd cyclic_documents))"
    by (simp_all add: example_documents_def cyclic_documents_def)
  have "resolveNode (doc_reader (\<lambda>_. Err []) example_documents) 1000 (snd (hd example_documents)) ''/s/a.schema.json'' [] = Inr example_resolved"
    by (rule resolveNode_mono [OF example_resolves]) simp
  moreover obtain e where "resolveNode (doc_reader (\<lambda>_. Err []) cyclic_documents) 100 (snd (hd cyclic_documents)) ''/s/a.schema.json'' [] = Inl e"
    using cyclic_fails by (cases "resolveNode (doc_reader (\<lambda>_. Err []) cyclic_documents) 100 (snd (hd cyclic_documents)) ''/s/a.schema.json'' []") auto
  ultimately show ?thesis
    using resolveNode_exact [OF m(1) b(1), of "\<lambda>_. Err []"] resolveNode_exact [OF m(2) b(2), of "\<lambda>_. Err []"]
    by (auto simp: stack_overflow_def)
qed

end
