(* ===== verification/Schema_Keywords.thy ===== *)
theory Schema_Keywords
  imports Schema_Generator
begin

text \<open>
  The check of \<open>generate-json-types.mjs\<close> that a schema file uses only keywords the validator implements. \<open>text_of\<close> is the text a template literal
  makes of a value, and \<open>shown\<close> the path of the file relative to the package, both for messages.

  Shown: the check accepts exactly the documents whose schemas, wherever a schema may stand in them, use known keywords and formats; and what the generator makes of such
  documents is a schema that the validator decides.
\<close>

definition SUPPORTED_SCHEMA_KEYS :: "string list" where
  "SUPPORTED_SCHEMA_KEYS =
     [''$comment'', ''$defs'', ''$id'', ''$ref'', ''$schema'',
      ''additionalProperties'', ''allOf'', ''anyOf'', ''const'', ''default'', ''description'', ''deprecated'',
      ''enum'', ''examples'', ''format'', ''items'', ''maximum'', ''minimum'', ''pattern'', ''properties'',
      ''oneOf'', ''readOnly'', ''required'', ''title'', ''type'', ''writeOnly'']"

definition supported_key :: "string \<Rightarrow> bool" where
  "supported_key k \<longleftrightarrow> k \<in> set SUPPORTED_SCHEMA_KEYS \<or> starts_with ''x-'' k"

definition quoted_text :: "string \<Rightarrow> string" where
  "quoted_text s = [CHR 0x22] @ s @ [CHR 0x22]"

text \<open>The schemas the check descends into, each with its location; only the keywords are fixed, so an object stands for its members.\<close>

definition keyword_members :: "json \<Rightarrow> string \<Rightarrow> (string \<times> json) list" where
  "keyword_members node k = (case j_get node k of
       Some (JObj ms) \<Rightarrow> map (\<lambda>(name, sub). (''.'' @ k @ ''.'' @ name, sub)) (entries ms)
     | _ \<Rightarrow> [])"

definition keyword_branches :: "json \<Rightarrow> string \<Rightarrow> (string \<times> json) list" where
  "keyword_branches node k = (case j_get node k of
       Some (JArr bs) \<Rightarrow> map (\<lambda>(i, b). (''.'' @ k @ ''['' @ nat_str i @ '']'', b)) (enumerate 0 bs)
     | _ \<Rightarrow> [])"

definition nested_schemas :: "json \<Rightarrow> (string \<times> json) list" where
  "nested_schemas node =
     keyword_members node ''$defs'' @ keyword_members node ''properties'' @
     (case j_get node ''additionalProperties'' of
         Some v \<Rightarrow> if isRecord v \<or> j_isArray v then [(''.additionalProperties'', v)] else []
       | None \<Rightarrow> []) @
     (case j_get node ''items'' of Some (JObj ps) \<Rightarrow> [(''.items'', JObj ps)] | _ \<Rightarrow> []) @
     keyword_branches node ''allOf'' @ keyword_branches node ''anyOf'' @ keyword_branches node ''oneOf''"

lemma keyword_members_mem: "(l, v) \<in> set (keyword_members node k) \<Longrightarrow> \<exists>ms name. j_get node k = Some (JObj ms) \<and> (name, v) \<in> set ms"
  by (cases "j_get node k") (auto simp: keyword_members_def split: json.splits)

lemma keyword_branches_mem: "(l, v) \<in> set (keyword_branches node k) \<Longrightarrow> \<exists>bs. j_get node k = Some (JArr bs) \<and> v \<in> set bs"
  by (cases "j_get node k") (auto simp: keyword_branches_def in_set_enumerate_eq split: json.splits)

lemma nested_schemas_size:
  assumes "(l, v) \<in> set (nested_schemas node)"
  shows "size v < size node"
proof -
  have sizes: "size v < size node" if "j_get node k = Some w" "v = w \<or> size v < size w" for k w
    using j_get_size [OF that(1)] that(2) by auto
  from assms consider k where "(l, v) \<in> set (keyword_members node k)" | k where "(l, v) \<in> set (keyword_branches node k)"
    | k where "j_get node k = Some v"
    by (auto simp: nested_schemas_def split: option.splits json.splits if_splits)
  then show ?thesis
  proof cases
    case (1 k)
    with keyword_members_mem entry_size sizes show ?thesis by blast
  next
    case (2 k)
    with keyword_branches_mem member_size sizes show ?thesis by blast
  next
    case (3 k)
    with sizes show ?thesis by blast
  qed
qed

fun res_each :: "('a \<Rightarrow> ('e, unit) result) \<Rightarrow> 'a list \<Rightarrow> ('e, unit) result" where
  "res_each f [] = Inr ()"
| "res_each f (x # xs) = res_bind (f x) (\<lambda>_. res_each f xs)"

lemma res_each_cong [fundef_cong]: "xs = ys \<Longrightarrow> (\<And>x. x \<in> set ys \<Longrightarrow> f x = g x) \<Longrightarrow> res_each f xs = res_each g ys"
  by (induction ys arbitrary: xs) auto

lemma res_each_ok: "res_each f xs = Inr () \<longleftrightarrow> (\<forall>x \<in> set xs. f x = Inr ())"
  by (induction xs) (auto simp: res_bind_Inr_iff)

definition assertKeys :: "string \<Rightarrow> string \<Rightarrow> (string \<times> json) list \<Rightarrow> (js_error, unit) result" where
  "assertKeys shown location ps = res_each (\<lambda>k. if supported_key k then Inr ()
     else Inl (Err (''unsupported JSON Schema keyword '' @ quoted_text k @ '' at '' @ shown @ '':'' @ location))) (obj_keys ps)"

definition assertFormat :: "(json \<Rightarrow> string) \<Rightarrow> string \<Rightarrow> string \<Rightarrow> (string \<times> json) list \<Rightarrow> (js_error, unit) result" where
  "assertFormat text_of shown location ps = (case obj_get ps ''format'' of
       Some v \<Rightarrow> if v = JStr ''uri'' then Inr ()
         else Inl (Err (''unsupported JSON Schema format '' @ quoted_text (text_of v) @ '' at '' @ shown @ '':'' @ location))
     | None \<Rightarrow> Inr ())"

function assertSupportedSchema :: "(json \<Rightarrow> string) \<Rightarrow> json \<Rightarrow> string \<Rightarrow> string \<Rightarrow> (js_error, unit) result" where
  "assertSupportedSchema text_of node shown location = (case node of
       JBool b \<Rightarrow> Inr ()
     | JObj ps \<Rightarrow>
         res_bind (assertKeys shown location ps) (\<lambda>_.
         res_bind (assertFormat text_of shown location ps) (\<lambda>_.
         res_each (\<lambda>(l, sub). assertSupportedSchema text_of sub shown (location @ l)) (nested_schemas (JObj ps))))
     | _ \<Rightarrow> Inl (Err (''invalid JSON Schema at '' @ shown @ '':'' @ location)))"
  by pat_completeness auto
termination
  by (relation "measure (\<lambda>(t, node, f, l). size node)") (auto dest!: nested_schemas_size)

declare assertSupportedSchema.simps [simp del]

text \<open>The places of a document where a schema stands, and what the check asks of each.\<close>

function schema_positions :: "json \<Rightarrow> json list" where
  "schema_positions node = node # concat (map (\<lambda>(l, sub). schema_positions sub) (nested_schemas node))"
  by pat_completeness auto
termination
  by (relation "measure size") (auto dest!: nested_schemas_size)

declare schema_positions.simps [simp del]

lemma schema_positions_scalar: "\<not> isRecord node \<Longrightarrow> schema_positions node = [node]"
  by (subst schema_positions.simps, cases node) (simp_all add: nested_schemas_def keyword_members_def keyword_branches_def)

definition known_schema :: "json \<Rightarrow> bool" where
  "known_schema node \<longleftrightarrow> is_schema node \<and>
     (\<forall>k v. j_get node k = Some v \<longrightarrow> supported_key k) \<and> (j_get node ''format'' = None \<or> j_get node ''format'' = Some (JStr ''uri''))"

text \<open>The check of a schema file succeeds exactly if everything that stands where a schema may stand in it, at any depth, is a
  boolean or an object with keywords of the list, extension keywords and no format but \<open>uri\<close>.\<close>

lemma accepted_positions:
  "assertSupportedSchema text_of node shown location = Inr () \<longleftrightarrow> list_all known_schema (schema_positions node)"
proof (induction node arbitrary: location rule: schema_positions.induct)
  case (1 node)
  have kids: "(\<forall>(l, sub) \<in> set (nested_schemas node). assertSupportedSchema text_of sub shown (location @ l) = Inr ()) \<longleftrightarrow>
      (\<forall>(l, sub) \<in> set (nested_schemas node). list_all known_schema (schema_positions sub))"
    using 1 by fastforce
  have pos: "list_all known_schema (schema_positions node) \<longleftrightarrow>
      known_schema node \<and> (\<forall>(l, sub) \<in> set (nested_schemas node). list_all known_schema (schema_positions sub))"
    by (subst schema_positions.simps) (auto simp: list_all_iff)
  show ?case
  proof (cases node)
    case (JObj ps)
    have "assertKeys shown location ps = Inr () \<longleftrightarrow> (\<forall>k v. obj_get ps k = Some v \<longrightarrow> supported_key k)"
      by (auto simp: assertKeys_def res_each_ok obj_keys_def) (metis fst_conv map_of_SomeD, metis fst_conv weak_map_of_SomeI prod.collapse)
    moreover have "assertFormat text_of shown location ps = Inr () \<longleftrightarrow> (obj_get ps ''format'' = None \<or> obj_get ps ''format'' = Some (JStr ''uri''))"
      by (simp add: assertFormat_def split: option.split)
    ultimately show ?thesis
      unfolding pos kids [symmetric] by (simp add: JObj assertSupportedSchema.simps [of _ "JObj ps"] res_bind_Inr_iff res_each_ok known_schema_def case_prod_beta)
  qed (simp_all add: assertSupportedSchema.simps schema_positions_scalar known_schema_def)
qed

section \<open>What the generator makes of accepted documents\<close>

text \<open>The check does not look at the values of most keywords. \<open>shaped\<close> is what JSON Schema says of those the validator reads.\<close>

fun field_ok :: "('a \<Rightarrow> bool) \<Rightarrow> 'a option \<Rightarrow> bool" where
  "field_ok P None = True"
| "field_ok P (Some v) = P v"

definition shaped :: "json \<Rightarrow> bool" where
  "shaped node \<longleftrightarrow>
     field_ok (\<lambda>v. case v of JStr r \<Rightarrow> True | _ \<Rightarrow> False) (j_get node ''$ref'') \<and>
     field_ok (\<lambda>v. case v of JStr p \<Rightarrow> p = [] \<or> parse_regex p \<noteq> None | _ \<Rightarrow> False) (j_get node ''pattern'') \<and>
     field_ok isRecord (j_get node ''properties'') \<and>
     field_ok is_schema (j_get node ''items'') \<and> field_ok is_schema (j_get node ''additionalProperties'') \<and>
     list_all (\<lambda>k. field_ok j_isArray (j_get node k)) [''allOf'', ''anyOf'', ''oneOf'']"

text \<open>A reference leads to a schema, if it leads anywhere.\<close>

definition refers_to_schema :: "(string \<times> json) list \<Rightarrow> string \<Rightarrow> json \<Rightarrow> bool" where
  "refers_to_schema docs f node = (case schema_str node ''$ref'' of None \<Rightarrow> True
     | Some r \<Rightarrow> (case map_of docs (target_file f r) of None \<Rightarrow> True
         | Some d \<Rightarrow> (case target_node (\<lambda>_. Inr d) (target_file f r) (snd (reference_parts r)) of Inl _ \<Rightarrow> True
             | Inr v \<Rightarrow> v \<in> set (schema_positions d))))"

definition shaped_documents :: "(string \<times> json) list \<Rightarrow> bool" where
  "shaped_documents docs = list_all (\<lambda>(f, d). list_all (\<lambda>node. shaped node \<and> refers_to_schema docs f node) (schema_positions d)) docs"

definition known_documents :: "(string \<times> json) list \<Rightarrow> bool" where
  "known_documents docs = list_all (\<lambda>(f, d). list_all known_schema (schema_positions d)) docs"

definition at_schema :: "(string \<times> json) list \<Rightarrow> string \<Rightarrow> json \<Rightarrow> bool" where
  "at_schema docs f v \<longleftrightarrow> (\<exists>d. map_of docs f = Some d \<and> v \<in> set (schema_positions d))"

lemma schema_positions_trans: "v \<in> set (schema_positions d) \<Longrightarrow> (l, w) \<in> set (nested_schemas v) \<Longrightarrow> w \<in> set (schema_positions d)"
proof (induction d rule: schema_positions.induct)
  case (1 d)
  have self: "w \<in> set (schema_positions w)" by (subst schema_positions.simps) simp
  show ?case
  proof (cases "v = d")
    case True
    with 1(3) self show ?thesis by (subst schema_positions.simps) force
  next
    case False
    with 1(2) obtain l' sub where "(l', sub) \<in> set (nested_schemas d)" "v \<in> set (schema_positions sub)"
      by (subst (asm) schema_positions.simps) auto
    with 1(1) [OF _ refl this(2) 1(3)] show ?thesis by (subst schema_positions.simps) force
  qed
qed

lemma at_schema_nested: "at_schema docs f v \<Longrightarrow> (l, w) \<in> set (nested_schemas v) \<Longrightarrow> at_schema docs f w"
  unfolding at_schema_def using schema_positions_trans by blast

text \<open>A field of an expanded object is the expansion of the field.\<close>

lemma map_of_filter: "map_of xs k = map_of (filter (\<lambda>p. fst p = k) xs) k"
  by (induction xs) auto

lemma map_of_entries: "map_of (entries ps) k = map_of ps k"
proof -
  have "filter (\<lambda>p. fst p = k) (sort_key (str_nat \<circ> fst) xs) = filter (\<lambda>p. fst p = k) xs" for xs :: "(string \<times> 'a) list"
  proof -
    have "filter (\<lambda>p. fst p = k) ys = filter (\<lambda>p. fst p = k) (filter (\<lambda>p. (str_nat \<circ> fst) p = str_nat k) ys)" for ys :: "(string \<times> 'a) list"
      by (induction ys) auto
    then show ?thesis using sort_key_stable [of "str_nat \<circ> fst" "str_nat k" xs] by metis
  qed
  then have "filter (\<lambda>p. fst p = k) (entries ps) = filter (\<lambda>p. fst p = k) (filter (is_index \<circ> fst) ps) @ filter (\<lambda>p. fst p = k) (filter (Not \<circ> is_index \<circ> fst) ps)"
    by (simp add: entries_def)
  also have "filter (\<lambda>p. fst p = k) (filter (is_index \<circ> fst) ps) = (if is_index k then filter (\<lambda>p. fst p = k) ps else [])"
    by (induction ps) auto
  also have "filter (\<lambda>p. fst p = k) (filter (Not \<circ> is_index \<circ> fst) ps) = (if is_index k then [] else filter (\<lambda>p. fst p = k) ps)"
    by (induction ps) auto
  finally have "filter (\<lambda>p. fst p = k) (entries ps) = filter (\<lambda>p. fst p = k) ps" by simp
  then show ?thesis using map_of_filter [of "entries ps" k] map_of_filter [of ps k] by simp
qed

lemma list_all2_map_of: "list_all2 (rel_prod (=) R) xs ys \<Longrightarrow> rel_option R (map_of xs k) (map_of ys k)"
  by (induction rule: list_all2_induct) (auto elim!: rel_prod.cases)

lemma list_all2_mem: "list_all2 R xs ys \<Longrightarrow> y \<in> set ys \<Longrightarrow> \<exists>x \<in> set xs. R x y"
  by (induction rule: list_all2_induct) auto

lemma list_all2_mem_left: "list_all2 R xs ys \<Longrightarrow> x \<in> set xs \<Longrightarrow> \<exists>y \<in> set ys. R x y"
  by (induction rule: list_all2_induct) auto

lemma chase_fields:
  assumes "j_reference ps = None" and "chase read (Suc n) (JObj ps) f = Some (JObj qs)"
  shows "rel_option (\<lambda>x y. chase read n x f = Some y) (obj_get ps k) (obj_get qs k)"
  using assms(2) list_all2_map_of [of _ "entries ps" qs k] unfolding chase_Some(2) [OF assms(1)] by (auto simp: map_of_entries)

lemma documents_at_schema:
  assumes "at_schema docs f v" and "known_documents docs" and "shaped_documents docs"
  shows "known_schema v" "shaped v" "refers_to_schema docs f v"
proof -
  from assms(1) obtain d where d: "map_of docs f = Some d" "v \<in> set (schema_positions d)" by (auto simp: at_schema_def)
  with assms(2,3) map_of_SomeD [OF d(1)] show "known_schema v" "shaped v" "refers_to_schema docs f v"
    by (auto simp: known_documents_def shaped_documents_def list_all_iff)
qed

lemma at_schema_target:
  assumes "refers_to_schema docs f (JObj ps)" and "j_reference ps = Some r"
    and "target_node (doc_reader failed docs) (target_file f r) (snd (reference_parts r)) = Inr v"
  shows "at_schema docs (target_file f r) v"
  using assms by (auto simp: refers_to_schema_def schema_str_def j_reference_def at_schema_def target_node_def doc_reader_def res_bind_Inr_iff
      split: option.splits json.splits)

text \<open>The schemas the validator visits are expansions of schemas the check visited.\<close>

definition sub_expansion :: "reader \<Rightarrow> nat \<Rightarrow> string \<Rightarrow> json \<Rightarrow> json \<Rightarrow> bool" where
  "sub_expansion read n f v s \<longleftrightarrow> (\<exists>l w m. (l, w) \<in> set (nested_schemas v) \<and> m < n \<and> chase read m w f = Some s) \<or> (\<exists>b. s = JBool b)"

lemma expanded_branch:
  assumes "rel_option (\<lambda>x y. chase read n x f = Some y) (j_get v k) (j_get r k)" and "field_ok j_isArray (j_get v k)"
    and "k \<in> {''allOf'', ''anyOf'', ''oneOf''}" and "schema_list r k = Some bs" and "s \<in> set bs"
  shows "sub_expansion read n f v s"
proof -
  from assms(4) have r: "j_get r k = Some (JArr bs)" by (auto simp: schema_list_def split: option.splits json.splits)
  with assms(1,2) obtain xs where x: "j_get v k = Some (JArr xs)" "chase read n (JArr xs) f = Some (JArr bs)"
    by (cases "j_get v k") (auto elim!: j_isArray.elims)
  from x(2) obtain m where m: "n = Suc m" "list_all2 (\<lambda>x y. chase read m x f = Some y) xs bs"
    by (cases n) (auto simp: chase_Some simp del: chase.simps(2))
  from m(2) assms(5) obtain w where w: "w \<in> set xs" "chase read m w f = Some s"
    using list_all2_mem [OF m(2) assms(5)] by auto
  from w(1) obtain i where "(i, w) \<in> set (enumerate 0 xs)" by (metis in_set_impl_in_set_zip2 enumerate_eq_zip length_upt add_0 minus_nat.diff_0)
  with x(1) have "\<exists>l. (l, w) \<in> set (keyword_branches v k)" by (force simp: keyword_branches_def)
  with assms(3) have "\<exists>l. (l, w) \<in> set (nested_schemas v)" by (auto simp: nested_schemas_def)
  with w(2) m(1) show ?thesis unfolding sub_expansion_def by (metis lessI)
qed

lemma expanded_property:
  assumes "rel_option (\<lambda>x y. chase read n x f = Some y) (j_get v ''properties'') (j_get r ''properties'')"
    and "\<And>ms. j_get v ''properties'' = Some (JObj ms) \<Longrightarrow> j_reference ms = None" and "field_ok isRecord (j_get v ''properties'')"
    and "(k, s) \<in> set (schema_props r)"
  shows "sub_expansion read n f v s"
proof -
  from assms(4) obtain qs where r: "j_get r ''properties'' = Some (JObj qs)" "(k, s) \<in> set qs"
    by (cases "j_get r ''properties''") (auto simp: schema_props_def split: json.splits)
  with assms(1,3) obtain ms where x: "j_get v ''properties'' = Some (JObj ms)" "chase read n (JObj ms) f = Some (JObj qs)"
    by (cases "j_get v ''properties''") (auto elim!: isRecord.elims)
  from x(2) obtain m where m: "n = Suc m" "list_all2 (rel_prod (=) (\<lambda>x y. chase read m x f = Some y)) (entries ms) qs"
    using assms(2) [OF x(1)] by (cases n) (auto simp: chase_Some simp del: chase.simps(2))
  from m(2) r(2) obtain w where w: "(k, w) \<in> set (entries ms)" "chase read m w f = Some s"
    using list_all2_mem [OF m(2) r(2)] by auto
  from w(1) x(1) have "\<exists>l. (l, w) \<in> set (keyword_members v ''properties'')" by (force simp: keyword_members_def)
  then have "\<exists>l. (l, w) \<in> set (nested_schemas v)" by (auto simp: nested_schemas_def)
  with w(2) m(1) show ?thesis unfolding sub_expansion_def by (metis lessI)
qed

lemma expanded_member:
  assumes "rel_option (\<lambda>x y. chase read n x f = Some y) (j_get v k) (j_get r k)" and "field_ok is_schema (j_get v k)"
    and "k \<in> {''items'', ''additionalProperties''}" and "j_get r k = Some s"
  shows "sub_expansion read (Suc n) f v s"
proof -
  from assms(1,4) obtain w where w: "j_get v k = Some w" "chase read n w f = Some s" by (cases "j_get v k") auto
  show ?thesis
  proof (cases w)
    case (JObj ps)
    with w(1) assms(3) have "\<exists>l. (l, w) \<in> set (nested_schemas v)" by (auto simp: nested_schemas_def)
    with w(2) show ?thesis unfolding sub_expansion_def by blast
  next
    case (JBool b)
    with w(2) show ?thesis by (cases n) (auto simp: sub_expansion_def)
  qed (use assms(2) w(1) in simp_all)
qed

lemma sub_expansion_mono: "sub_expansion read n f v s \<Longrightarrow> n \<le> m \<Longrightarrow> sub_expansion read m f v s"
  unfolding sub_expansion_def by (meson order_less_le_trans)

lemma sub_schemas_cases:
  "s \<in> set (sub_schemas r) \<Longrightarrow> (\<exists>k \<in> {''allOf'', ''anyOf'', ''oneOf''}. \<exists>bs. schema_list r k = Some bs \<and> s \<in> set bs) \<or>
    (\<exists>k. (k, s) \<in> set (schema_props r)) \<or> (\<exists>k \<in> {''items'', ''additionalProperties''}. j_get r k = Some s)"
  by (cases "schema_list r ''allOf''"; cases "schema_list r ''anyOf''"; cases "schema_list r ''oneOf''"; cases "j_get r ''items''";
      cases "j_get r ''additionalProperties''") (auto simp: sub_schemas_def split: if_splits json.splits)

lemma expanded_sub_schemas:
  assumes fields: "\<And>k. rel_option (\<lambda>x y. chase read n x f = Some y) (j_get v k) (j_get r k)" and "shaped v"
    and "\<And>ms. j_get v ''properties'' = Some (JObj ms) \<Longrightarrow> j_reference ms = None" and "s \<in> set (sub_schemas r)"
  shows "sub_expansion read (Suc n) f v s"
proof -
  from sub_schemas_cases [OF assms(4)] consider (branch) k bs where "k \<in> {''allOf'', ''anyOf'', ''oneOf''}" "schema_list r k = Some bs" "s \<in> set bs"
    | (property) k where "(k, s) \<in> set (schema_props r)" | (member) k where "k \<in> {''items'', ''additionalProperties''}" "j_get r k = Some s"
    by auto
  then show ?thesis
  proof cases
    case (branch k bs)
    have "field_ok j_isArray (j_get v k)" using branch(1) assms(2) by (auto simp: shaped_def)
    from sub_expansion_mono [OF expanded_branch [OF fields this branch]] show ?thesis by simp
  next
    case (property k)
    have "field_ok isRecord (j_get v ''properties'')" using assms(2) by (simp add: shaped_def)
    from sub_expansion_mono [OF expanded_property [OF fields assms(3) this property]] show ?thesis by simp
  next
    case (member k)
    have "field_ok is_schema (j_get v k)" using member(1) assms(2) by (auto simp: shaped_def)
    from expanded_member [OF fields this member] show ?thesis .
  qed
qed

lemma supported_bool: "supported (JBool b)"
  by (simp add: supported.simps plain_schema_def sub_schemas_def schema_list_def schema_props_def schema_str_def)

lemma expanded_scalar:
  assumes "rel_option (\<lambda>x y. chase read n x f = Some y) (j_get v k) (j_get r k)" and "field_ok (\<lambda>x. case x of JStr t \<Rightarrow> P t | _ \<Rightarrow> False) (j_get v k)"
  shows "field_ok (\<lambda>x. case x of JStr t \<Rightarrow> P t | _ \<Rightarrow> False) (j_get r k)" "j_get v k = None \<Longrightarrow> j_get r k = None"
proof -
  have "y = JStr t" if "chase read n (JStr t) f = Some y" for t y using that by (cases n) simp_all
  with assms show "field_ok (\<lambda>x. case x of JStr t \<Rightarrow> P t | _ \<Rightarrow> False) (j_get r k)"
    by (cases "j_get v k") (auto simp: option_rel_Some1 split: json.splits)
  show "j_get v k = None \<Longrightarrow> j_get r k = None" using assms(1) by simp
qed

lemma expansion_supported:
  assumes docs: "known_documents docs" "shaped_documents docs"
  shows "chase (doc_reader failed docs) n v f = Some r \<Longrightarrow> at_schema docs f v \<Longrightarrow> supported r"
proof (induction n arbitrary: v f r rule: less_induct)
  case (less n)
  let ?read = "doc_reader failed docs"
  obtain k where k: "n = Suc k" using less.prems(1) by (cases n) auto
  note v = documents_at_schema [OF less.prems(2) docs]
  show ?case
  proof (cases v rule: node_cases)
    case (reference ps rf)
    from less.prems(1) obtain w where w: "target_node ?read (target_file f rf) (snd (reference_parts rf)) = Inr w"
      "chase ?read k w (target_file f rf) = Some r"
      unfolding k reference(1) chase_Some(3) [OF reference(2)] by blast
    from less.IH [OF _ w(2) at_schema_target [OF v(3) [unfolded reference(1)] reference(2) w(1)]] k show ?thesis by simp
  next
    case (members ps)
    from less.prems(1) obtain qs where qs: "r = JObj qs" unfolding k members(1) chase_Some(2) [OF members(2)] by blast
    have fields: "rel_option (\<lambda>x y. chase ?read k x f = Some y) (j_get v key) (j_get r key)" for key
      using chase_fields [OF members(2) less.prems(1) [unfolded k members(1) qs]] by (simp add: members(1) qs)
    have props: "j_reference ms = None" if "j_get v ''properties'' = Some (JObj ms)" for ms
    proof (rule ccontr)
      assume "j_reference ms \<noteq> None"
      then obtain t where "obj_get ms ''$ref'' = Some (JStr t)" by (auto simp: j_reference_def split: option.splits json.splits)
      with that have "(''.properties.$ref'', JStr t) \<in> set (nested_schemas v)"
        by (force simp: nested_schemas_def keyword_members_def dest: map_of_SomeD)
      from documents_at_schema(1) [OF at_schema_nested [OF less.prems(2) this] docs] show False by (simp add: known_schema_def)
    qed
    have "supported s" if "s \<in> set (sub_schemas r)" for s
    proof -
      have "sub_expansion ?read n f v s" using expanded_sub_schemas [OF fields v(2) props that] k by simp
      then show ?thesis
        using less.IH at_schema_nested [OF less.prems(2)] supported_bool unfolding sub_expansion_def by blast
    qed
    moreover have "plain_schema r"
    proof -
      have "j_get r ''$ref'' = None"
        using v(2) members by (intro expanded_scalar(2) [OF fields, where P = "\<lambda>_. True"]) (auto simp: shaped_def j_reference_def split: option.splits json.splits)
      moreover have "field_ok (\<lambda>x. case x of JStr p \<Rightarrow> p = [] \<or> parse_regex p \<noteq> None | _ \<Rightarrow> False) (j_get r ''pattern'')"
        using v(2) by (intro expanded_scalar(1) [OF fields]) (simp add: shaped_def)
      moreover have "field_ok (\<lambda>x. case x of JStr p \<Rightarrow> p = ''uri'' | _ \<Rightarrow> False) (j_get r ''format'')"
        using v(1) by (intro expanded_scalar(1) [OF fields]) (auto simp: known_schema_def)
      ultimately show ?thesis
        by (auto simp: plain_schema_def qs schema_str_def split: option.splits json.splits)
    qed
    ultimately show ?thesis by (simp add: supported.simps [of r] list_all_iff)
  next
    case (items xs)
    with v(1) show ?thesis by (simp add: known_schema_def)
  next
    case scalar
    with v(1) obtain b where "v = JBool b" by (cases v) (simp_all add: known_schema_def)
    with less.prems(1) k have "r = JBool b" by simp
    then show ?thesis by (simp add: supported_bool)
  qed
qed

text \<open>C19: suppose the check has accepted every schema file, and the files keep to what it does not look at: the values of the keywords
  the validator reads have the shape JSON Schema gives them, a \<open>pattern\<close> is a regular expression of the subset modelled here (characters
  and character classes, each once, optional or repeated, between optional anchors), and a reference that leads anywhere leads to a place where a schema stands.
  Then whatever the generator resolves a file to is a schema without references that the validator supports: on it \<open>validateJson\<close>
  returns the values the declarative reading of the schema admits and throws on all others.\<close>

theorem resolved_schema_decided:
  assumes "\<forall>(f, d) \<in> set docs. assertSupportedSchema text_of d (shown f) ''$'' = Inr ()" and "shaped_documents docs"
    and "map_of docs f = Some d" and "resolveNode (doc_reader failed docs) calls d f [] = Inr schema" and "size schema < depth"
  shows "supported schema \<and> (if admits h schema v then validateJson depth h v schema endpoint = Inr v
    else \<exists>path expect receive. validateJson depth h v schema endpoint = Inl (JsonValidationErr endpoint path expect receive))"
proof -
  have "known_documents docs" using assms(1) [unfolded accepted_positions] by (simp add: known_documents_def list_all_iff [of _ docs])
  moreover have "at_schema docs f d" unfolding at_schema_def using assms(3) by (subst schema_positions.simps) simp
  moreover obtain n where "chase (doc_reader failed docs) n d f = Some schema"
    using expands_chase [OF resolveNode_expands [OF assms(4)]] by blast
  ultimately have s: "supported schema" using expansion_supported [OF _ assms(2)] by blast
  with check_decides [OF s assms(5), of h v "''$''" schema] show ?thesis by (auto simp: decides_def validateJson_def)
qed

lemma example_accepted:
  "list_all (\<lambda>(f, d). assertSupportedSchema (\<lambda>_. []) d f ''$'' = Inr ()) example_documents" "shaped_documents example_documents"
  by code_simp+

theorem resolved_schema_decided_witness:
  "supported example_resolved \<and>
   validateJson 100 \<lparr>host_URL = (\<lambda>_. None), host_number = (\<lambda>_. [])\<rparr> (JObj [(''id'', JStr ''7'')]) example_resolved ''answer'' = Inr (JObj [(''id'', JStr ''7'')])"
proof -
  let ?h = "\<lparr>host_URL = (\<lambda>_. None), host_number = (\<lambda>_. [])\<rparr> :: host"
  have m: "map_of example_documents ''/s/a.schema.json'' = Some (snd (hd example_documents))" by (simp add: example_documents_def)
  have "size example_resolved < 100" "admits ?h example_resolved (JObj [(''id'', JStr ''7'')])" by code_simp+
  moreover have "\<forall>(f, d) \<in> set example_documents. assertSupportedSchema (\<lambda>_. []) d (id f) ''$'' = Inr ()"
    using example_accepted(1) by (simp add: list_all_iff)
  ultimately show ?thesis
    using resolved_schema_decided [OF _ example_accepted(2) m example_resolves, of "\<lambda>_. []" id 100 ?h "JObj [(''id'', JStr ''7'')]" "''answer''"] by simp
qed

end
