(* ===== verification/Schema_Types.thy ===== *)
theory Schema_Types
  imports Schema_Keywords
begin

text \<open>
  The second half of \<open>generate-json-types.mjs\<close>: the text of the TypeScript type of a schema, and the files. A copy
  \<open>{ ...schema, type }\<close> differs from the schema in its \<open>type\<close> only, so reading goes on with the schema and the type beside it.

  \<open>ts_type\<close> is the type the text denotes and \<open>inhabits\<close> what it means for JSON values. Shown: a value the validator accepts has the
  type the generator wrote.
\<close>

lemma res_map_cong [fundef_cong]: "xs = ys \<Longrightarrow> (\<And>x. x \<in> set ys \<Longrightarrow> f x = g x) \<Longrightarrow> res_map f xs = res_map g ys"
  by (induction ys arbitrary: xs) auto

section \<open>The text of a type\<close>

definition property_char :: "char \<Rightarrow> bool" where
  "property_char c \<longleftrightarrow> is_upper c \<or> is_lower c \<or> c = CHR ''_'' \<or> c = CHR ''$''"

definition propertyName :: "string \<Rightarrow> string" where
  "propertyName name = (case name of
       [] \<Rightarrow> json_quote name
     | c # cs \<Rightarrow> if property_char c \<and> list_all (\<lambda>d. property_char d \<or> is_digit d) cs then name else json_quote name)"

text \<open>\<open>text || other\<close>, and \<open>Boolean(v)\<close> of a field.\<close>

definition or_else :: "string \<Rightarrow> string \<Rightarrow> string" where
  "or_else s d = (if s = [] then d else s)"

fun truthy :: "json option \<Rightarrow> bool" where
  "truthy None = False"
| "truthy (Some JNull) = False"
| "truthy (Some (JBool b)) = b"
| "truthy (Some (JNum n)) = (n \<noteq> NaN \<and> n \<noteq> NegZero \<and> n \<noteq> Fin 0)"
| "truthy (Some (JStr s)) = (s \<noteq> [])"
| "truthy (Some _) = True"

definition newline :: string where
  "newline = [CHR 0x0A]"

definition indentation :: "nat \<Rightarrow> string" where
  "indentation level = concat (replicate level ''  '')"

text \<open>\<open>schema.anyOf || schema.oneOf\<close>, once one of them is an array.\<close>

definition type_branches :: "json \<Rightarrow> (js_error, json list) result" where
  "type_branches schema = (case schema_list schema ''anyOf'' of
       Some bs \<Rightarrow> Inr bs
     | None \<Rightarrow> if truthy (j_get schema ''anyOf'') then Inl (TypeErr ''branches.map is not a function'')
         else Inr (case schema_list schema ''oneOf'' of Some bs \<Rightarrow> bs | None \<Rightarrow> []))"

text \<open>\<open>Object.entries\<close> of \<open>properties\<close>.\<close>

definition type_properties :: "json \<Rightarrow> (string \<times> json) list" where
  "type_properties schema = (case j_get schema ''properties'' of
       Some (JObj ps) \<Rightarrow> entries ps
     | Some (JArr xs) \<Rightarrow> map (\<lambda>(i, x). (nat_str i, x)) (enumerate 0 xs)
     | _ \<Rightarrow> [])"

text \<open>The end of \<open>typeFor\<close>: what it makes of the value of \<open>type\<close>, given the types of an array and of an object with the schema's
  \<open>items\<close> and \<open>properties\<close>, and how names and alternatives of types are written.\<close>

definition switch_kind :: "(js_error, 't) result \<Rightarrow> (js_error, 't) result \<Rightarrow> (string \<Rightarrow> 't) \<Rightarrow> bool \<Rightarrow> json option \<Rightarrow> (js_error, 't) result" where
  "switch_kind arr ob name hasProperties kind = (case kind of
       Some (JStr k) \<Rightarrow>
         if k = ''null'' then Inr (name ''null'') else if k = ''boolean'' then Inr (name ''boolean'')
         else if k = ''integer'' \<or> k = ''number'' then Inr (name ''number'') else if k = ''string'' then Inr (name ''string'')
         else if k = ''array'' then arr else if k = ''object'' then ob
         else if hasProperties then ob else Inr (name ''unknown'')
     | _ \<Rightarrow> if hasProperties then ob else Inr (name ''unknown''))"

fun type_kind :: "('t list \<Rightarrow> 't) \<Rightarrow> (js_error, 't) result \<Rightarrow> (js_error, 't) result \<Rightarrow> (string \<Rightarrow> 't) \<Rightarrow> bool \<Rightarrow> json option \<Rightarrow> (js_error, 't) result" where
  "type_kind alternatives arr ob name hasProperties (Some (JArr kinds)) =
     (if length kinds > 1
      then res_bind (res_map (\<lambda>kind. type_kind alternatives arr ob name hasProperties (Some kind)) kinds) (\<lambda>ts. Inr (alternatives ts))
      else switch_kind arr ob name hasProperties (if kinds = [] then None else Some (hd kinds)))"
| "type_kind alternatives arr ob name hasProperties kind = switch_kind arr ob name hasProperties kind"

definition property_line :: "nat \<Rightarrow> json \<Rightarrow> string \<Rightarrow> string \<Rightarrow> string" where
  "property_line level schema name t =
     indentation (Suc level) @ propertyName name @ (if name \<in> set (schema_required schema) then [] else ''?'') @ '': '' @ t @ '';''"

definition index_line :: "nat \<Rightarrow> string \<Rightarrow> string" where
  "index_line level t = indentation (Suc level) @ ''[key: string]: '' @ t @ '';''"

text \<open>What each part of a schema is read from is smaller than the schema.\<close>

lemma type_branches_size: "type_branches schema = Inr bs \<Longrightarrow> b \<in> set bs \<Longrightarrow> size b < size schema"
  by (auto simp: type_branches_def split: option.splits if_splits dest: schema_list_size)

lemma nth_size: "i < length xs \<Longrightarrow> size (xs ! i) < Suc (size_list size (xs :: json list))"
  using member_size [of "xs ! i" xs] by simp

lemma type_properties_size:
  assumes "(k, v) \<in> set (type_properties schema)"
  shows "size v < size schema"
proof -
  from assms obtain w where w: "j_get schema ''properties'' = Some w" "size v < size w"
    by (cases "j_get schema ''properties''")
      (auto simp: type_properties_def in_set_enumerate_eq nth_size split: json.splits dest: entry_size)
  from j_get_size [OF w(1)] w(2) show ?thesis by simp
qed

function typeFor :: "host \<Rightarrow> json \<Rightarrow> nat \<Rightarrow> (js_error, string) result" where
  "typeFor h schema level =
     (if \<not> isRecord schema then Inr ''unknown''
      else case schema_str schema ''x-typescript-type'' of Some t \<Rightarrow> Inr t | None \<Rightarrow>
       (case j_get schema ''const'' of Some c \<Rightarrow> Inr (JSON_stringify h c) | None \<Rightarrow>
       (case schema_list schema ''enum'' of Some es \<Rightarrow> Inr (or_else (js_join '' | '' (map (JSON_stringify h) es)) ''never'') | None \<Rightarrow>
         if schema_list schema ''anyOf'' \<noteq> None \<or> schema_list schema ''oneOf'' \<noteq> None
         then (case type_branches schema of Inl e \<Rightarrow> Inl e
               | Inr bs \<Rightarrow> res_bind (res_map (\<lambda>b. typeFor h b level) bs) (\<lambda>ts. Inr (or_else (js_join '' | '' ts) ''never'')))
         else (case schema_list schema ''allOf'' of
             Some bs \<Rightarrow> res_bind (res_map (\<lambda>b. typeFor h b level) bs) (\<lambda>ts. Inr (or_else (js_join '' & '' ts) ''unknown''))
           | None \<Rightarrow>
               type_kind (js_join '' | '')
                 (res_bind (case j_get schema ''items'' of Some it \<Rightarrow> typeFor h it (Suc level) | None \<Rightarrow> Inr ''unknown'')
                   (\<lambda>t. Inr (''Array<'' @ t @ ''>'')))
                 (res_bind (res_map (\<lambda>(name, v). res_bind (typeFor h v (Suc level)) (\<lambda>t. Inr (property_line level schema name t))) (type_properties schema)) (\<lambda>lines.
                  res_bind (case j_get schema ''additionalProperties'' of
                      Some (JBool b) \<Rightarrow> Inr (if b \<and> j_get schema ''x-typescript-no-index'' \<noteq> Some (JBool True) then [index_line level ''unknown''] else [])
                    | Some v \<Rightarrow> if isRecord v \<or> j_isArray v
                        then res_bind (typeFor h v (Suc level)) (\<lambda>t. Inr [index_line level t]) else Inr []
                    | None \<Rightarrow> Inr []) (\<lambda>index.
                  Inr (js_join newline ([''{''] @ lines @ index @ [indentation level @ ''}''])))))
                 id (truthy (j_get schema ''properties'')) (j_get schema ''type'')))))"
  by pat_completeness auto
termination
  by (relation "measure (\<lambda>(h, schema, level). size schema)")
    (auto dest: type_branches_size schema_list_size type_properties_size j_get_size)

declare typeFor.simps [simp del]

section \<open>The types\<close>

text \<open>A name is one of the keywords below or the text of \<open>x-typescript-type\<close>; a property has a name, may be optional, and has a type; the last
  part of an object type is its index signature.\<close>

datatype ts_type =
    Ts_name string
  | Ts_literal json
  | Ts_union "ts_type list"
  | Ts_intersection "ts_type list"
  | Ts_array ts_type
  | Ts_object "(string \<times> bool \<times> ts_type) list" "ts_type option"

function ts_type_of :: "json \<Rightarrow> (js_error, ts_type) result" where
  "ts_type_of schema =
     (if \<not> isRecord schema then Inr (Ts_name ''unknown'')
      else case schema_str schema ''x-typescript-type'' of Some t \<Rightarrow> Inr (Ts_name t) | None \<Rightarrow>
       (case j_get schema ''const'' of Some c \<Rightarrow> Inr (Ts_literal c) | None \<Rightarrow>
       (case schema_list schema ''enum'' of Some es \<Rightarrow> Inr (Ts_union (map Ts_literal es)) | None \<Rightarrow>
         if schema_list schema ''anyOf'' \<noteq> None \<or> schema_list schema ''oneOf'' \<noteq> None
         then (case type_branches schema of Inl e \<Rightarrow> Inl e
               | Inr bs \<Rightarrow> res_bind (res_map ts_type_of bs) (\<lambda>ts. Inr (Ts_union ts)))
         else (case schema_list schema ''allOf'' of
             Some bs \<Rightarrow> res_bind (res_map ts_type_of bs) (\<lambda>ts. Inr (Ts_intersection ts))
           | None \<Rightarrow>
               type_kind Ts_union
                 (res_bind (case j_get schema ''items'' of Some it \<Rightarrow> ts_type_of it | None \<Rightarrow> Inr (Ts_name ''unknown'')) (\<lambda>t. Inr (Ts_array t)))
                 (res_bind (res_map (\<lambda>(name, v). res_bind (ts_type_of v) (\<lambda>t. Inr (name, name \<notin> set (schema_required schema), t)))
                    (type_properties schema)) (\<lambda>ps.
                  res_bind (case j_get schema ''additionalProperties'' of
                      Some (JBool b) \<Rightarrow> Inr (if b \<and> j_get schema ''x-typescript-no-index'' \<noteq> Some (JBool True) then Some (Ts_name ''unknown'') else None)
                    | Some v \<Rightarrow> if isRecord v \<or> j_isArray v then res_bind (ts_type_of v) (\<lambda>t. Inr (Some t)) else Inr None
                    | None \<Rightarrow> Inr None) (\<lambda>index. Inr (Ts_object ps index))))
                 Ts_name (truthy (j_get schema ''properties'')) (j_get schema ''type'')))))"
  by pat_completeness auto
termination
  by (relation "measure size") (auto dest: type_branches_size schema_list_size type_properties_size j_get_size)

declare ts_type_of.simps [simp del]

text \<open>How a type is written.\<close>

fun ts_print :: "host \<Rightarrow> nat \<Rightarrow> ts_type \<Rightarrow> string" where
  "ts_print h level (Ts_name t) = t"
| "ts_print h level (Ts_literal c) = JSON_stringify h c"
| "ts_print h level (Ts_union ts) = or_else (js_join '' | '' (map (ts_print h level) ts)) ''never''"
| "ts_print h level (Ts_intersection ts) = or_else (js_join '' & '' (map (ts_print h level) ts)) ''unknown''"
| "ts_print h level (Ts_array t) = ''Array<'' @ ts_print h (Suc level) t @ ''>''"
| "ts_print h level (Ts_object ps index) = js_join newline ([''{''] @
     map (\<lambda>(name, optional, t). indentation (Suc level) @ propertyName name @ (if optional then ''?'' else []) @ '': '' @ ts_print h (Suc level) t @ '';'') ps @
     (case index of Some t \<Rightarrow> [index_line level (ts_print h (Suc level) t)] | None \<Rightarrow> []) @ [indentation level @ ''}''])"

text \<open>What a type means for a JSON value; \<open>named\<close> is the meaning of the types named by \<open>x-typescript-type\<close>. Objects may have members their
  type does not mention.\<close>

definition name_inhabits :: "(string \<Rightarrow> json \<Rightarrow> bool) \<Rightarrow> string \<Rightarrow> json \<Rightarrow> bool" where
  "name_inhabits named t v \<longleftrightarrow>
     (if t = ''unknown'' then True else if t = ''null'' then v = JNull else if t = ''boolean'' then \<exists>b. v = JBool b
      else if t = ''number'' then \<exists>n. v = JNum n else if t = ''string'' then \<exists>s. v = JStr s else named t v)"

fun inhabits :: "(string \<Rightarrow> json \<Rightarrow> bool) \<Rightarrow> ts_type \<Rightarrow> json \<Rightarrow> bool" where
  "inhabits named (Ts_name t) v = name_inhabits named t v"
| "inhabits named (Ts_literal c) v = (v = c)"
| "inhabits named (Ts_union ts) v = (\<exists>t \<in> set ts. inhabits named t v)"
| "inhabits named (Ts_intersection ts) v = (\<forall>t \<in> set ts. inhabits named t v)"
| "inhabits named (Ts_array t) v = (\<exists>vs. v = JArr vs \<and> (\<forall>x \<in> set vs. inhabits named t x))"
| "inhabits named (Ts_object ps index) v = (\<exists>ms. v = JObj ms \<and>
     (\<forall>(name, optional, t) \<in> set ps. case obj_get ms name of Some x \<Rightarrow> inhabits named t x | None \<Rightarrow> optional) \<and>
     (case index of Some t \<Rightarrow> \<forall>(k, x) \<in> set ms. k \<in> fst ` set ps \<or> inhabits named t x | None \<Rightarrow> True))"

section \<open>The text denotes the type\<close>

definition res_apply :: "('a \<Rightarrow> 'b) \<Rightarrow> ('e, 'a) result \<Rightarrow> ('e, 'b) result" where
  "res_apply p r = res_bind r (\<lambda>x. Inr (p x))"

lemma res_apply_simps [simp]: "res_apply p (Inl e) = Inl e" "res_apply p (Inr x) = Inr (p x)"
  by (simp_all add: res_apply_def)

lemma res_apply_bind: "res_apply p (res_bind r f) = res_bind r (\<lambda>x. res_apply p (f x))"
  by (cases r) simp_all

lemma res_bind_apply: "res_bind (res_apply p r) f = res_bind r (\<lambda>x. f (p x))"
  by (cases r) simp_all

lemma res_map_apply: "(\<And>x. x \<in> set xs \<Longrightarrow> g x = res_apply p (f x)) \<Longrightarrow> res_map g xs = res_apply (map p) (res_map f xs)"
  by (induction xs) (simp_all add: res_apply_bind res_bind_apply res_bind_assoc)

lemma switch_kind_apply:
  "switch_kind (res_apply p arr) (res_apply p ob) (\<lambda>t. p (name t)) hp kind = res_apply p (switch_kind arr ob name hp kind)"
  by (auto simp: switch_kind_def split: option.split json.split)

lemma type_kind_apply:
  assumes "\<And>ts. length ts > 1 \<Longrightarrow> alternatives' (map p ts) = p (alternatives ts)"
  shows "type_kind alternatives' (res_apply p arr) (res_apply p ob) (\<lambda>t. p (name t)) hp kind =
    res_apply p (type_kind alternatives arr ob name hp kind)"
  using assms
proof (induction alternatives arr ob name hp kind rule: type_kind.induct)
  case (1 alternatives arr ob name hp kinds)
  show ?case
  proof (cases "length kinds > 1")
    case True
    let ?f = "\<lambda>kind. type_kind alternatives arr ob name hp (Some kind)"
    have m: "res_map (\<lambda>kind. type_kind alternatives' (res_apply p arr) (res_apply p ob) (\<lambda>t. p (name t)) hp (Some kind)) kinds =
        res_apply (map p) (res_map ?f kinds)"
      using 1 True by (intro res_map_apply) simp
    show ?thesis
    proof (cases "res_map ?f kinds")
      case (Inr ts)
      then have "length ts = length kinds" by (auto simp: res_map_Inr_iff list_all2_lengthD)
      with True m Inr 1(2) show ?thesis by simp
    qed (use True m in simp)
  qed (simp add: switch_kind_apply)
qed (simp_all add: switch_kind_apply)

lemma join_nonempty: "sep \<noteq> [] \<Longrightarrow> length ts > 1 \<Longrightarrow> js_join sep ts \<noteq> []"
  by (cases ts; cases "tl ts") auto

text \<open>What the generator writes is the text of \<open>ts_type_of\<close>.\<close>

lemma array_type_prints:
  assumes "\<forall>k it. j_get schema k = Some it \<longrightarrow> typeFor h it (Suc level) = res_apply (ts_print h (Suc level)) (ts_type_of it)"
  shows "res_bind (case j_get schema ''items'' of Some it \<Rightarrow> typeFor h it (Suc level) | None \<Rightarrow> Inr ''unknown'') (\<lambda>t. Inr (''Array<'' @ t @ ''>'')) =
    res_apply (ts_print h level) (res_bind (case j_get schema ''items'' of Some it \<Rightarrow> ts_type_of it | None \<Rightarrow> Inr (Ts_name ''unknown'')) (\<lambda>t. Inr (Ts_array t)))"
  using assms by (auto simp: res_apply_bind res_bind_apply split: option.split)

lemma properties_print:
  assumes "\<forall>name v. (name, v) \<in> set ps \<longrightarrow> typeFor h v (Suc level) = res_apply (ts_print h (Suc level)) (ts_type_of v)"
  shows "res_map (\<lambda>(name, v). res_bind (typeFor h v (Suc level)) (\<lambda>t. Inr (property_line level schema name t))) ps =
    res_apply (map (\<lambda>(name, optional, t). indentation (Suc level) @ propertyName name @ (if optional then ''?'' else []) @ '': '' @ ts_print h (Suc level) t @ '';''))
      (res_map (\<lambda>(name, v). res_bind (ts_type_of v) (\<lambda>t. Inr (name, name \<notin> set (schema_required schema), t))) ps)"
  by (rule res_map_apply) (auto simp: assms [simplified, rule_format] res_apply_bind res_bind_apply property_line_def)

lemma index_prints:
  assumes "\<forall>k v. j_get schema k = Some v \<longrightarrow> typeFor h v (Suc level) = res_apply (ts_print h (Suc level)) (ts_type_of v)"
  shows "(case j_get schema ''additionalProperties'' of
        Some (JBool b) \<Rightarrow> Inr (if b \<and> j_get schema ''x-typescript-no-index'' \<noteq> Some (JBool True) then [index_line level ''unknown''] else [])
      | Some v \<Rightarrow> if isRecord v \<or> j_isArray v then res_bind (typeFor h v (Suc level)) (\<lambda>t. Inr [index_line level t]) else Inr []
      | None \<Rightarrow> Inr []) =
    res_apply (\<lambda>index. case index of Some t \<Rightarrow> [index_line level (ts_print h (Suc level) t)] | None \<Rightarrow> [])
      (case j_get schema ''additionalProperties'' of
        Some (JBool b) \<Rightarrow> Inr (if b \<and> j_get schema ''x-typescript-no-index'' \<noteq> Some (JBool True) then Some (Ts_name ''unknown'') else None)
      | Some v \<Rightarrow> if isRecord v \<or> j_isArray v then res_bind (ts_type_of v) (\<lambda>t. Inr (Some t)) else Inr None
      | None \<Rightarrow> Inr None)"
  using assms by (auto simp: res_apply_bind res_bind_apply split: option.split json.split)

lemma typeFor_prints: "typeFor h schema level = res_apply (ts_print h level) (ts_type_of schema)"
proof (induction schema arbitrary: level rule: measure_induct_rule [of size])
  case (less schema)
  have list: "res_map (\<lambda>b. typeFor h b level) bs = res_apply (map (ts_print h level)) (res_map ts_type_of bs)"
    if "\<And>b. b \<in> set bs \<Longrightarrow> size b < size schema" for bs
    by (rule res_map_apply) (rule less [OF that])
  have field: "\<forall>k v. j_get schema k = Some v \<longrightarrow> typeFor h v (Suc level) = res_apply (ts_print h (Suc level)) (ts_type_of v)"
    using less j_get_size by blast
  have property: "\<forall>k v. (k, v) \<in> set (type_properties schema) \<longrightarrow> typeFor h v (Suc level) = res_apply (ts_print h (Suc level)) (ts_type_of v)"
    using less type_properties_size by blast
  have kinds: "type_kind (js_join '' | '') (res_apply (ts_print h level) arr) (res_apply (ts_print h level) ob) id hp kind =
      res_apply (ts_print h level) (type_kind Ts_union arr ob Ts_name hp kind)" for arr ob hp kind
  proof -
    have "js_join '' | '' (map (ts_print h level) ts) = ts_print h level (Ts_union ts)" if "length ts > 1" for ts
      using join_nonempty [of "'' | ''" "map (ts_print h level) ts"] that by (simp add: or_else_def)
    from type_kind_apply [of "js_join '' | ''" "ts_print h level" Ts_union arr ob Ts_name hp kind, OF this] show ?thesis by (simp add: id_def)
  qed
  let ?index = "case j_get schema ''additionalProperties'' of
        Some (JBool b) \<Rightarrow> Inr (if b \<and> j_get schema ''x-typescript-no-index'' \<noteq> Some (JBool True) then [index_line level ''unknown''] else [])
      | Some v \<Rightarrow> if isRecord v \<or> j_isArray v then res_bind (typeFor h v (Suc level)) (\<lambda>t. Inr [index_line level t]) else Inr []
      | None \<Rightarrow> Inr []"
  let ?signature = "case j_get schema ''additionalProperties'' of
        Some (JBool b) \<Rightarrow> Inr (if b \<and> j_get schema ''x-typescript-no-index'' \<noteq> Some (JBool True) then Some (Ts_name ''unknown'') else None)
      | Some v \<Rightarrow> if isRecord v \<or> j_isArray v then res_bind (ts_type_of v) (\<lambda>t. Inr (Some t)) else Inr None
      | None \<Rightarrow> Inr None"
  let ?members = "res_map (\<lambda>(name, v). res_bind (ts_type_of v) (\<lambda>t. Inr (name, name \<notin> set (schema_required schema), t))) (type_properties schema)"
  show ?case
  proof (cases "schema_list schema ''anyOf'' = None \<and> schema_list schema ''oneOf'' = None")
    case False
    show ?thesis
    proof (cases "type_branches schema")
      case (Inr bs)
      from list [OF type_branches_size [OF Inr]] Inr False show ?thesis
        by (auto simp: typeFor.simps [of h schema] ts_type_of.simps [of schema] o_def res_apply_bind res_bind_apply split: option.split)
    qed (use False in \<open>auto simp: typeFor.simps [of h schema] ts_type_of.simps [of schema] o_def split: option.split\<close>)
  next
    case True
    have all: "res_bind (res_map (\<lambda>b. typeFor h b level) bs) (\<lambda>ts. Inr (or_else (js_join '' & '' ts) ''unknown'')) =
        res_apply (ts_print h level) (res_bind (res_map ts_type_of bs) (\<lambda>ts. Inr (Ts_intersection ts)))"
      if "schema_list schema ''allOf'' = Some bs" for bs
      using list [OF schema_list_size [OF that]] by (simp add: res_apply_bind res_bind_apply)
    show ?thesis
    proof (cases "schema_list schema ''allOf''")
      case None
      have object: "res_bind (res_map (\<lambda>(name, v). res_bind (typeFor h v (Suc level)) (\<lambda>t. Inr (property_line level schema name t))) (type_properties schema))
          (\<lambda>lines. res_bind ?index (\<lambda>index. Inr (js_join newline ([''{''] @ lines @ index @ [indentation level @ ''}''])))) =
        res_apply (ts_print h level) (res_bind ?members (\<lambda>ps. res_bind ?signature (\<lambda>index. Inr (Ts_object ps index))))"
        unfolding properties_print [of "type_properties schema", OF property] index_prints [of schema, OF field]
        by (simp add: res_apply_bind res_bind_apply)
      show ?thesis
      proof (cases "isRecord schema \<and> schema_str schema ''x-typescript-type'' = None \<and> j_get schema ''const'' = None \<and> schema_list schema ''enum'' = None")
        case False
        then show ?thesis by (auto simp: typeFor.simps [of h schema] ts_type_of.simps [of schema] o_def split: option.split)
      next
        case plain: True
        show ?thesis
          by (subst typeFor.simps, subst ts_type_of.simps)
            (simp only: plain True None simp_thms if_False option.case array_type_prints [of schema, OF field] object kinds)
      qed
    qed (use True all in \<open>auto simp: typeFor.simps [of h schema] ts_type_of.simps [of schema] o_def split: option.split\<close>)
  qed
qed

section \<open>The type is sound\<close>

text \<open>What soundness needs of the schemas: the validator takes a schema without \<open>type\<close> to allow every value, and one with an unknown \<open>type\<close> as well, while
  the generator makes an object type of either if it has properties.\<close>

definition known_kinds :: "string list" where
  "known_kinds = [''null'', ''boolean'', ''integer'', ''number'', ''string'', ''array'', ''object'']"

fun kind_strings :: "json option \<Rightarrow> string list option" where
  "kind_strings None = Some []"
| "kind_strings (Some (JStr k)) = Some [k]"
| "kind_strings (Some (JArr ks)) = (if list_all (\<lambda>k. case k of JStr _ \<Rightarrow> True | _ \<Rightarrow> False) ks then Some (json_strings ks) else None)"
| "kind_strings (Some _) = None"

definition typed_node :: "json \<Rightarrow> bool" where
  "typed_node schema = (case kind_strings (j_get schema ''type'') of None \<Rightarrow> False
     | Some ks \<Rightarrow> field_ok isRecord (j_get schema ''properties'') \<and>
         (truthy (j_get schema ''properties'') \<longrightarrow> ks \<noteq> [] \<and> list_all (\<lambda>k. k \<in> set known_kinds) ks))"

function typed_schema :: "json \<Rightarrow> bool" where
  "typed_schema schema \<longleftrightarrow> typed_node schema \<and> list_all typed_schema (sub_schemas schema)"
  by pat_completeness auto
termination
  by (relation "measure size") (auto dest: sub_schemas_size)

declare typed_schema.simps [simp del]

lemma Object_is_eq: "Object_is v c \<Longrightarrow> v = c"
  by (cases v) auto

lemma switch_kind_sound:
  assumes "switch_kind arr ob Ts_name hp kind = Inr t" and "kind = Some (JStr k)" and "matchesType v k" and "hp \<Longrightarrow> k \<in> set known_kinds"
    and "\<And>t. arr = Inr t \<Longrightarrow> j_isArray v \<Longrightarrow> inhabits named t v" and "\<And>t. ob = Inr t \<Longrightarrow> isRecord v \<Longrightarrow> inhabits named t v"
  shows "inhabits named t v"
  using assms by (auto simp: switch_kind_def matchesType_def known_kinds_def name_inhabits_def split: if_splits json.splits)

lemma json_strings_map: "list_all (\<lambda>k. case k of JStr _ \<Rightarrow> True | _ \<Rightarrow> False) ks \<Longrightarrow> ks = map JStr (json_strings ks)"
  by (induction ks) (auto split: json.splits)

lemma json_strings_of [simp]: "json_strings (map JStr ks) = ks"
  by (induction ks) simp_all

lemma type_kind_sound:
  assumes t: "type_kind Ts_union arr ob Ts_name hp (j_get schema ''type'') = Inr t" and "type_ok schema v" and node: "typed_node schema"
    and hp: "hp = truthy (j_get schema ''properties'')"
    and arr: "\<And>t. arr = Inr t \<Longrightarrow> j_isArray v \<Longrightarrow> inhabits named t v" and ob: "\<And>t. ob = Inr t \<Longrightarrow> isRecord v \<Longrightarrow> inhabits named t v"
  shows "inhabits named t v"
proof -
  have one: "inhabits named t v" if "switch_kind arr ob Ts_name hp (Some (JStr k)) = Inr t" "matchesType v k" "hp \<Longrightarrow> k \<in> set known_kinds" for k t
    using switch_kind_sound [OF that(1) refl that(2,3) arr ob] .
  have none: "inhabits named t v" if "\<not> hp" "switch_kind arr ob Ts_name hp kind = Inr t" "kind = None \<or> kind = Some (JStr [])" for t kind
    using that by (auto simp: switch_kind_def name_inhabits_def)
  from node obtain strs where strs: "kind_strings (j_get schema ''type'') = Some strs" "hp \<Longrightarrow> strs \<noteq> [] \<and> (\<forall>k \<in> set strs. k \<in> set known_kinds)"
    by (auto simp: typed_node_def hp list_all_iff split: option.splits)
  show ?thesis
  proof (cases "j_get schema ''type''")
    case None
    with strs have "\<not> hp" by auto
    with t None none [of None] show ?thesis by simp
  next
    case (Some ty)
    have "ty = JStr k \<Longrightarrow> strs = [k]" "ty = JArr ks \<Longrightarrow> ks = map JStr strs" for k ks
      using strs(1) Some json_strings_map [of ks] by (auto split: if_splits)
    moreover have "(\<exists>k. ty = JStr k) \<or> (\<exists>ks. ty = JArr ks)" using strs(1) Some by (cases ty) simp_all
    ultimately consider (string) k where "ty = JStr k" "strs = [k]" | (list) ks where "ty = JArr ks" "ks = map JStr strs" by blast
    then show ?thesis
    proof cases
      case (string k)
      have "matchesType v k" if "k \<noteq> []" using assms(2) Some string that by (simp add: type_ok_def schema_types_def)
      moreover have "\<not> hp" if "k = []" using strs(2) string that by (auto simp: known_kinds_def)
      ultimately show ?thesis using t Some string strs(2) one [of k t] none [of "Some (JStr [])" t] by (cases "k = []") auto
    next
      case (list ks)
      have m: "\<exists>k \<in> set strs. matchesType v k" if "strs \<noteq> []"
        using assms(2) Some list that by (simp add: type_ok_def schema_types_def)
      show ?thesis
      proof (cases "length ks > 1")
        case True
        with t Some list obtain ts where ts: "t = Ts_union ts"
          "list_all2 (\<lambda>kind t. type_kind Ts_union arr ob Ts_name hp (Some kind) = Inr t) ks ts"
          by (auto simp: res_bind_Inr_iff res_map_Inr_iff)
        have "strs \<noteq> []" using True list(2) by auto
        with m obtain k where k: "k \<in> set strs" "matchesType v k" by blast
        with list(2) have "JStr k \<in> set ks" by simp
        from list_all2_mem_left [OF ts(2) this] obtain t' where "t' \<in> set ts" "switch_kind arr ob Ts_name hp (Some (JStr k)) = Inr t'" by auto
        with ts(1) k one [of k t'] strs(2) show ?thesis by auto
      next
        case False
        show ?thesis
        proof (cases ks)
          case Nil
          with list have "\<not> hp" using strs(2) by auto
          with t Some list Nil none [of None] show ?thesis by simp
        next
          case (Cons a as)
          with False list obtain k where k: "ks = [JStr k]" "strs = [k]" by auto
          with t Some list m one [of k t] strs(2) show ?thesis by auto
        qed
      qed
    qed
  qed
qed

text \<open>The schemas a type is named in stand for what their validation admits.\<close>

function named_sound :: "host \<Rightarrow> (string \<Rightarrow> json \<Rightarrow> bool) \<Rightarrow> json \<Rightarrow> bool" where
  "named_sound h named schema \<longleftrightarrow>
     (case schema_str schema ''x-typescript-type'' of Some t \<Rightarrow> \<forall>v. admits h schema v \<longrightarrow> name_inhabits named t v | None \<Rightarrow> True) \<and>
     list_all (named_sound h named) (sub_schemas schema)"
  by pat_completeness auto
termination
  by (relation "measure (\<lambda>(h, named, schema). size schema)") (auto dest: sub_schemas_size)

declare named_sound.simps [simp del]

lemma admits_parts:
  assumes "admits h schema v" and "isRecord schema"
  shows "const_ok schema v" "type_ok schema v" "children_ok (admits h) schema v"
    "schema_list schema ''allOf'' = Some bs \<Longrightarrow> b \<in> set bs \<Longrightarrow> admits h b v"
    "schema_list schema ''anyOf'' = Some bs \<Longrightarrow> \<exists>b \<in> set bs. admits h b v"
    "schema_list schema ''anyOf'' = None \<Longrightarrow> schema_list schema ''oneOf'' = Some bs \<Longrightarrow> \<exists>b \<in> set bs. admits h b v"
proof -
  have "schema \<noteq> JBool True" using assms(2) by auto
  with assms(1) have a: "const_ok schema v \<and> type_ok schema v \<and> children_ok (admits h) schema v \<and>
     (case schema_list schema ''allOf'' of Some bs \<Rightarrow> \<forall>b \<in> set bs. admits h b v | None \<Rightarrow> True) \<and>
     (case schema_list schema ''anyOf'' of Some bs \<Rightarrow> \<exists>b \<in> set bs. admits h b v
      | None \<Rightarrow> (case schema_list schema ''oneOf'' of
          Some bs \<Rightarrow> length (filter (\<lambda>b. admits h b v) bs) = 1 | None \<Rightarrow> True))"
    by (simp add: admits.simps [of h schema v] children_ok_def)
  then show "const_ok schema v" "type_ok schema v" "children_ok (admits h) schema v" by simp_all
  show "schema_list schema ''allOf'' = Some bs \<Longrightarrow> b \<in> set bs \<Longrightarrow> admits h b v"
    "schema_list schema ''anyOf'' = Some bs \<Longrightarrow> \<exists>b \<in> set bs. admits h b v" using a by simp_all
  show "\<exists>b \<in> set bs. admits h b v" if "schema_list schema ''anyOf'' = None" "schema_list schema ''oneOf'' = Some bs"
  proof -
    from a that have "filter (\<lambda>b. admits h b v) bs \<noteq> []" by auto
    then show ?thesis by (auto simp: filter_empty_conv)
  qed
qed

lemma array_sound:
  assumes "children_ok (admits h) schema (JArr vs)"
    and "\<And>it t x. j_get schema ''items'' = Some it \<Longrightarrow> truthy_schema it \<Longrightarrow> ts_type_of it = Inr t \<Longrightarrow> admits h it x \<Longrightarrow> inhabits named t x"
    and "res_bind (case j_get schema ''items'' of Some it \<Rightarrow> ts_type_of it | None \<Rightarrow> Inr (Ts_name ''unknown'')) (\<lambda>t. Inr (Ts_array t)) = Inr t"
  shows "inhabits named t (JArr vs)"
proof (cases "j_get schema ''items''")
  case None
  with assms(3) show ?thesis by (auto simp: name_inhabits_def)
next
  case (Some it)
  show ?thesis
  proof (cases "truthy_schema it")
    case True
    with assms Some show ?thesis by (auto simp: children_ok_def res_bind_Inr_iff)
  next
    case False
    with assms(3) Some show ?thesis by (auto simp: truthy_schema_def ts_type_of.simps name_inhabits_def)
  qed
qed

lemma object_sound:
  assumes ch: "children_ok (admits h) schema (JObj ms)" and rec: "field_ok isRecord (j_get schema ''properties'')"
    and sub: "\<And>s t x. s \<in> set (sub_schemas schema) \<Longrightarrow> ts_type_of s = Inr t \<Longrightarrow> admits h s x \<Longrightarrow> inhabits named t x"
    and t: "res_bind (res_map (\<lambda>(name, v). res_bind (ts_type_of v) (\<lambda>t. Inr (name, name \<notin> set (schema_required schema), t)))
        (type_properties schema)) (\<lambda>ps.
      res_bind (case j_get schema ''additionalProperties'' of
          Some (JBool b) \<Rightarrow> Inr (if b \<and> j_get schema ''x-typescript-no-index'' \<noteq> Some (JBool True) then Some (Ts_name ''unknown'') else None)
        | Some v \<Rightarrow> if isRecord v \<or> j_isArray v then res_bind (ts_type_of v) (\<lambda>t. Inr (Some t)) else Inr None
        | None \<Rightarrow> Inr None) (\<lambda>index. Inr (Ts_object ps index))) = Inr t"
  shows "inhabits named t (JObj ms)"
proof -
  have props: "set (type_properties schema) = set (schema_props schema)"
    using rec by (cases "j_get schema ''properties''") (auto simp: type_properties_def schema_props_def elim!: isRecord.elims)
  from t obtain ps index where t': "t = Ts_object ps index"
    and ps: "list_all2 (\<lambda>(name, v) q. \<exists>t. ts_type_of v = Inr t \<and> (name, name \<notin> set (schema_required schema), t) = q) (type_properties schema) ps"
    and index: "(case j_get schema ''additionalProperties'' of
          Some (JBool b) \<Rightarrow> Inr (if b \<and> j_get schema ''x-typescript-no-index'' \<noteq> Some (JBool True) then Some (Ts_name ''unknown'') else None)
        | Some v \<Rightarrow> if isRecord v \<or> j_isArray v then res_bind (ts_type_of v) (\<lambda>t. Inr (Some t)) else Inr None
        | None \<Rightarrow> Inr None) = Inr index"
    by (auto simp: res_bind_Inr_iff res_map_Inr_iff case_prod_unfold elim!: list_all2_mono)
  have names: "known_keys schema = fst ` set ps"
  proof -
    have "map fst (type_properties schema) = map fst ps" using ps by (induction rule: list_all2_induct) auto
    then show ?thesis unfolding known_keys_def set_map props [symmetric] by (metis set_map)
  qed
  have "case obj_get ms name of Some x \<Rightarrow> inhabits named t x | None \<Rightarrow> optional" if q: "(name, optional, t) \<in> set ps" for name optional t
  proof -
    from list_all2_mem [OF ps q] props obtain v where v: "(name, v) \<in> set (schema_props schema)" "ts_type_of v = Inr t"
      "optional \<longleftrightarrow> name \<notin> set (schema_required schema)" by auto
    from ch v(1) have "obj_get ms name = Some x \<Longrightarrow> admits h v x" for x by (auto simp: children_ok_def)
    with sub [OF sub_schemas_mem(3) [OF v(1)] v(2)] ch v(3) show ?thesis by (auto simp: children_ok_def split: option.split)
  qed
  moreover have "case index of Some t \<Rightarrow> \<forall>(k, x) \<in> set ms. k \<in> fst ` set ps \<or> inhabits named t x | None \<Rightarrow> True"
  proof (cases "j_get schema ''additionalProperties''")
    case (Some v)
    show ?thesis
    proof (cases v)
      case (JObj ap)
      with index Some obtain t' where t': "index = Some t'" "ts_type_of (JObj ap) = Inr t'" by (auto simp: res_bind_Inr_iff)
      from ch Some JObj have "\<forall>(k, x) \<in> set ms. k \<in> known_keys schema \<or> admits h (JObj ap) x" by (simp add: children_ok_def)
      with sub [OF sub_schemas_mem(4) t'(2)] Some JObj t'(1) names show ?thesis by auto
    qed (use index Some in \<open>auto simp: ts_type_of.simps name_inhabits_def split: if_splits\<close>)
  qed (use index in simp)
  ultimately show ?thesis by (auto simp: t')
qed

lemma const_sound: "const_ok schema v \<Longrightarrow> j_get schema ''const'' = Some c \<Longrightarrow> inhabits named (Ts_literal c) v"
  by (auto simp: const_ok_def dest: Object_is_eq)

lemma enum_sound: "const_ok schema v \<Longrightarrow> schema_list schema ''enum'' = Some es \<Longrightarrow> inhabits named (Ts_union (map Ts_literal es)) v"
  by (auto simp: const_ok_def dest: Object_is_eq)

lemma sub_sound:
  assumes "typed_schema schema" and "named_sound h named schema" and "s \<in> set (sub_schemas schema)"
  shows "typed_schema s" "named_sound h named s" "typed_node schema"
  using assms by (simp_all add: typed_schema.simps [of schema] named_sound.simps [of h named schema] list_all_iff)

lemma ts_type_sound:
  "typed_schema schema \<Longrightarrow> named_sound h named schema \<Longrightarrow> ts_type_of schema = Inr t \<Longrightarrow> admits h schema v \<Longrightarrow> inhabits named t v"
proof (induction schema arbitrary: t v rule: measure_induct_rule [of size])
  case (less schema)
  have sub: "inhabits named t x" if "s \<in> set (sub_schemas schema)" "ts_type_of s = Inr t" "admits h s x" for s t x
    using less.IH [OF sub_schemas_size [OF that(1)] sub_sound(1,2) [OF less.prems(1,2) that(1)] that(2,3)] .
  have branch: "\<exists>t \<in> set ts. ts_type_of b = Inr t" if "list_all2 (\<lambda>b t. ts_type_of b = Inr t) bs ts" "b \<in> set bs" for bs ts b
    using list_all2_mem_left [OF that] .
  have node: "typed_node schema" using less.prems(1) by (simp add: typed_schema.simps [of schema])
  show ?case
  proof (cases "isRecord schema \<and> schema_str schema ''x-typescript-type'' = None \<and> j_get schema ''const'' = None \<and> schema_list schema ''enum'' = None")
    case False
    then consider (other) "\<not> isRecord schema" | (verbatim) t' where "isRecord schema" "schema_str schema ''x-typescript-type'' = Some t'"
      | (const) c where "isRecord schema" "schema_str schema ''x-typescript-type'' = None" "j_get schema ''const'' = Some c"
      | (enum) es where "isRecord schema" "schema_str schema ''x-typescript-type'' = None" "j_get schema ''const'' = None" "schema_list schema ''enum'' = Some es"
      by (cases "schema_str schema ''x-typescript-type''"; cases "j_get schema ''const''"; cases "schema_list schema ''enum''") auto
    then show ?thesis
    proof cases
      case other
      with less.prems(3) show ?thesis by (auto simp: ts_type_of.simps [of schema] name_inhabits_def)
    next
      case verbatim
      with less.prems show ?thesis by (auto simp: ts_type_of.simps [of schema] named_sound.simps [of h named schema])
    next
      case const
      with less.prems(3) have "t = Ts_literal c" by (simp add: ts_type_of.simps [of schema])
      with const_sound [OF admits_parts(1) [OF less.prems(4) const(1)] const(3)] show ?thesis by simp
    next
      case enum
      with less.prems(3) have "t = Ts_union (map Ts_literal es)" by (simp add: ts_type_of.simps [of schema])
      with enum_sound [OF admits_parts(1) [OF less.prems(4) enum(1)] enum(4)] show ?thesis by simp
    qed
  next
    case True
    note a = admits_parts [OF less.prems(4)]
    consider (any) bs ts where "type_branches schema = Inr bs" "schema_list schema ''anyOf'' = Some bs \<or> schema_list schema ''anyOf'' = None \<and> schema_list schema ''oneOf'' = Some bs"
        "list_all2 (\<lambda>b t. ts_type_of b = Inr t) bs ts" "t = Ts_union ts"
      | (all) bs ts where "schema_list schema ''allOf'' = Some bs" "list_all2 (\<lambda>b t. ts_type_of b = Inr t) bs ts" "t = Ts_intersection ts"
      | (kind) "schema_list schema ''anyOf'' = None" "schema_list schema ''oneOf'' = None" "schema_list schema ''allOf'' = None"
      using True less.prems(3)
      by (cases "schema_list schema ''anyOf''"; cases "schema_list schema ''oneOf''"; cases "schema_list schema ''allOf''")
        (auto simp: ts_type_of.simps [of schema] res_bind_Inr_iff res_map_Inr_iff type_branches_def split: sum.splits if_splits)
    then show ?thesis
    proof cases
      case (any bs ts)
      from any(2) a(5,6) True obtain b where b: "b \<in> set bs" "admits h b v" by blast
      with any(2) have "b \<in> set (sub_schemas schema)" using sub_schemas_mem(1) by blast
      with branch [OF any(3) b(1)] sub b(2) any(4) show ?thesis by auto
    next
      case (all bs ts)
      have "inhabits named t' v" if "t' \<in> set ts" for t'
      proof -
        from list_all2_mem [OF all(2) that] obtain b where b: "b \<in> set bs" "ts_type_of b = Inr t'" by blast
        with sub [OF sub_schemas_mem(1) [OF all(1) b(1)] b(2)] a(4) [OF _ all(1)] True show ?thesis by blast
      qed
      with all(3) show ?thesis by simp
    next
      case kind
      let ?arr = "res_bind (case j_get schema ''items'' of Some it \<Rightarrow> ts_type_of it | None \<Rightarrow> Inr (Ts_name ''unknown'')) (\<lambda>t. Inr (Ts_array t))"
      let ?ob = "res_bind (res_map (\<lambda>(name, v). res_bind (ts_type_of v) (\<lambda>t. Inr (name, name \<notin> set (schema_required schema), t)))
          (type_properties schema)) (\<lambda>ps.
        res_bind (case j_get schema ''additionalProperties'' of
            Some (JBool b) \<Rightarrow> Inr (if b \<and> j_get schema ''x-typescript-no-index'' \<noteq> Some (JBool True) then Some (Ts_name ''unknown'') else None)
          | Some v \<Rightarrow> if isRecord v \<or> j_isArray v then res_bind (ts_type_of v) (\<lambda>t. Inr (Some t)) else Inr None
          | None \<Rightarrow> Inr None) (\<lambda>index. Inr (Ts_object ps index)))"
      have e: "type_kind Ts_union ?arr ?ob Ts_name (truthy (j_get schema ''properties'')) (j_get schema ''type'') = Inr t"
        using less.prems(3) by (subst (asm) ts_type_of.simps) (simp only: True kind simp_thms if_False option.case)
      have "type_ok schema v" "children_ok (admits h) schema v" using a(2,3) True by blast+
      note ok = this
      show ?thesis
      proof (rule type_kind_sound [OF e ok(1) node refl])
        fix t assume arr: "?arr = Inr t" "j_isArray v"
        then obtain vs where vs: "v = JArr vs" by (cases v) auto
        from array_sound [OF ok(2) [unfolded vs] sub [OF sub_schemas_mem(2)] arr(1)] vs show "inhabits named t v" by simp
      next
        fix t assume ob: "?ob = Inr t" "isRecord v"
        then obtain ms where ms: "v = JObj ms" by (cases v) auto
        have "field_ok isRecord (j_get schema ''properties'')" using node by (auto simp: typed_node_def split: option.splits)
        from object_sound [OF ok(2) [unfolded ms] this sub ob(1)] ms show "inhabits named t v" by simp
      qed
    qed
  qed
qed

text \<open>Without the second condition of the property below it fails: the validator accepts a string for a schema that has \<open>properties\<close> and no
  \<open>type\<close>, and the generator writes an object type for it.\<close>

definition untyped_schema :: json where
  "untyped_schema = JObj [(''properties'', JObj [(''id'', JObj [(''type'', JStr ''string'')])]), (''required'', JArr [JStr ''id''])]"

lemma untyped_properties_unsound:
  "supported untyped_schema \<and> \<not> typed_schema untyped_schema \<and> validateJson 100 h (JStr s) untyped_schema endpoint = Inr (JStr s) \<and>
   ts_type_of untyped_schema = Inr (Ts_object [(''id'', False, Ts_name ''string'')] None) \<and>
   \<not> inhabits named (Ts_object [(''id'', False, Ts_name ''string'')] None) (JStr s)"
proof -
  have s: "supported untyped_schema" "size untyped_schema < 100" "\<not> typed_schema untyped_schema" by code_simp+
  have "admits h untyped_schema (JStr s)"
    by (simp add: admits.simps untyped_schema_def const_ok_def type_ok_def string_ok_def number_ok_def below_minimum_def above_maximum_def schema_props_def schema_types_def schema_str_def schema_list_def schema_num_def schema_required_def known_keys_def)
  then have "validateJson 100 h (JStr s) untyped_schema endpoint = Inr (JStr s)"
    using check_decides [OF s(1,2), of h "JStr s" "''$''" untyped_schema] by (auto simp: decides_def validateJson_def)
  moreover have "ts_type_of untyped_schema = Inr (Ts_object [(''id'', False, Ts_name ''string'')] None)" by code_simp
  ultimately show ?thesis using s by simp
qed

text \<open>C6: let a schema be within what the validator supports, let every part of it that has \<open>properties\<close> also have a known \<open>type\<close>, and let
  the names written verbatim by \<open>x-typescript-type\<close> describe what their schemas admit. Then every value \<open>validateJson\<close> accepts for the
  schema has the TypeScript type the generator writes for it: what \<open>typeFor\<close> writes is the text of a type that the value inhabits.\<close>

theorem validated_value_has_type:
  assumes "supported schema" and "typed_schema schema" and "named_sound h named schema" and "size schema < depth"
    and "typeFor h schema level = Inr text" and "validateJson depth h v schema endpoint = Inr w"
  shows "w = v \<and> (\<exists>t. ts_type_of schema = Inr t \<and> text = ts_print h level t \<and> inhabits named t v)"
proof -
  from assms(5) obtain t where t: "ts_type_of schema = Inr t" "text = ts_print h level t"
    unfolding typeFor_prints by (cases "ts_type_of schema") auto
  have "admits h schema v" "w = v"
    using check_decides [OF assms(1,4), of h v "''$''" schema] assms(6) by (auto simp: decides_def validateJson_def)
  with ts_type_sound [OF assms(2,3) t(1)] t show ?thesis by blast
qed

definition pair_schema :: json where
  "pair_schema = JObj [(''type'', JStr ''object''), (''properties'', JObj [(''id'', JObj [(''type'', JArr [JStr ''string'', JStr ''null''])])]),
     (''required'', JArr [JStr ''id'']), (''additionalProperties'', JBool False)]"

definition pair_type :: ts_type where
  "pair_type = Ts_object [(''id'', False, Ts_union [Ts_name ''string'', Ts_name ''null''])] None"

theorem validated_value_has_type_witness:
  "typeFor \<lparr>host_URL = (\<lambda>_. None), host_number = (\<lambda>_. [])\<rparr> pair_schema 0 =
     Inr (js_join newline [''{'', ''  id: string | null;'', ''}'']) \<and>
   inhabits (\<lambda>_ _. False) pair_type (JObj [(''id'', JNull)])"
proof -
  let ?h = "\<lparr>host_URL = (\<lambda>_. None), host_number = (\<lambda>_. [])\<rparr> :: host" and ?v = "JObj [(''id'', JNull)]"
  have s: "supported pair_schema" "typed_schema pair_schema" "size pair_schema < 200" by code_simp+
  have n: "named_sound ?h (\<lambda>_ _. False) pair_schema"
    by (simp add: named_sound.simps pair_schema_def schema_str_def sub_schemas_def schema_list_def schema_props_def)
  have t: "ts_type_of pair_schema = Inr pair_type" by code_simp
  have p: "typeFor ?h pair_schema 0 = Inr (js_join newline [''{'', ''  id: string | null;'', ''}''])"
    unfolding typeFor_prints t by code_simp
  have "admits ?h pair_schema ?v" by code_simp
  then have "validateJson 200 ?h ?v pair_schema ''pair'' = Inr ?v"
    using check_decides [OF s(1,3), of ?h ?v "''$''" pair_schema] by (auto simp: decides_def validateJson_def)
  from validated_value_has_type [OF s(1,2) n s(3) p this] t p show ?thesis by simp
qed

end
