(* ===== verification/Schema_Output.thy ===== *)
theory Schema_Output
  imports Schema_Types
begin

text \<open>
  The end of \<open>generate-json-types.mjs\<close>: the text of a generated file, and the run of the script. What the script does to the output directory is
  a list of effects, in order; what it has done when it throws stays done. Entries of the output directory are a tree, as \<open>readdirSync\<close> lists
  them; one that does not exist has none.

  Shown: a keyword or format that is not supported, anywhere in the schema files, stops the script before it has touched the output directory; a
  run that ends well leaves exactly the files it generated for the schema files, and no older one.
\<close>

section \<open>Names\<close>

definition alphanumeric :: "char \<Rightarrow> bool" where
  "alphanumeric c \<longleftrightarrow> is_upper c \<or> is_lower c \<or> is_digit c"

definition to_upper :: "char \<Rightarrow> char" where
  "to_upper c = (if is_lower c then char_of (code c - 32) else c)"

definition strip_suffix :: "string \<Rightarrow> string \<Rightarrow> string" where
  "strip_suffix suffix s = (if ends_with suffix s then take (length s - length suffix) s else s)"

text \<open>The parts between maximal runs of other characters that are not empty.\<close>

fun name_parts :: "string \<Rightarrow> string \<Rightarrow> string list" where
  "name_parts part [] = (if part = [] then [] else [rev part])"
| "name_parts part (c # cs) =
     (if alphanumeric c then name_parts (c # part) cs
      else if part = [] then name_parts [] cs else rev part # name_parts [] cs)"

definition pascalCase :: "string \<Rightarrow> string" where
  "pascalCase value = concat (map (\<lambda>part. to_upper (hd part) # tl part) (name_parts [] (strip_suffix ''.schema.json'' value)))"

definition path_basename :: "string \<Rightarrow> string" where
  "path_basename p = rev (takeWhile (\<lambda>c. c \<noteq> CHR ''/'') (rev p))"

definition typeName :: "(json \<Rightarrow> string) \<Rightarrow> json \<Rightarrow> string \<Rightarrow> string" where
  "typeName text_of document filePath =
     (if truthy (j_get document ''x-typescript-name'') then text_of (the (j_get document ''x-typescript-name''))
      else pascalCase (path_basename filePath))"

section \<open>A generated file\<close>

text \<open>\<open>JSON.stringify(v, null, 2)\<close>.\<close>

fun stringify_indented :: "host \<Rightarrow> nat \<Rightarrow> json \<Rightarrow> string" where
  "stringify_indented h level (JArr xs) = (if xs = [] then ''[]''
     else ''['' @ newline @ js_join ('','' @ newline) (map (\<lambda>x. indentation (Suc level) @ stringify_indented h (Suc level) x) xs) @
       newline @ indentation level @ '']'')"
| "stringify_indented h level (JObj ps) = (if ps = [] then ''{}''
     else ''{'' @ newline @ js_join ('','' @ newline) (map (\<lambda>(k, t). indentation (Suc level) @ json_quote k @ '': '' @ t)
         (entries (map (\<lambda>(k, x). (k, stringify_indented h (Suc level) x)) ps))) @
       newline @ indentation level @ ''}'')"
| "stringify_indented h level v = JSON_stringify h v"

text \<open>What the script is given: the runtime, the text of values in messages, how paths are shown, and where schemas and output are.\<close>

record generator =
  gn_host :: host
  gn_calls :: nat
  gn_text :: "json \<Rightarrow> string"
  gn_shown :: "string \<Rightarrow> string"
  gn_schemaRoot :: string
  gn_outputRoot :: string

definition relative_schema :: "generator \<Rightarrow> string \<Rightarrow> string" where
  "relative_schema gn filePath = drop (Suc (length (gn_schemaRoot gn))) filePath"

definition generated_source :: "generator \<Rightarrow> string \<Rightarrow> string \<Rightarrow> string \<Rightarrow> json \<Rightarrow> string" where
  "generated_source gn relativeSchema name t resolved = js_join newline
     [''// Generated file. Do not edit manually.'',
      ''// Source: schema/json/'' @ relativeSchema,
      [],
      ''export type '' @ name @ '' = '' @ t @ '';'',
      [],
      ''export const '' @ name @ ''Schema = '' @ stringify_indented (gn_host gn) 0 resolved @ '' as const;'',
      []]"

text \<open>The directory of the output is made before the type is written out, which may fail.\<close>

datatype output_effect = Make_directory string | Remove_file string | Write_file string string

definition generate :: "generator \<Rightarrow> reader \<Rightarrow> string \<Rightarrow> output_effect list \<times> (js_error, unit) result" where
  "generate gn read filePath =
     (case res_bind (read filePath) (\<lambda>document. res_bind (resolveNode read (gn_calls gn) document filePath []) (\<lambda>resolved. Inr (document, resolved))) of
        Inl e \<Rightarrow> ([], Inl e)
      | Inr (document, resolved) \<Rightarrow>
          let outputPath = path_join (gn_outputRoot gn) (strip_suffix ''.schema.json'' (relative_schema gn filePath) @ ''.ts'')
          in case typeFor (gn_host gn) resolved 0 of
              Inl e \<Rightarrow> ([Make_directory (path_dirname outputPath)], Inl e)
            | Inr t \<Rightarrow> ([Make_directory (path_dirname outputPath), Write_file outputPath
                (generated_source gn (relative_schema gn filePath) (typeName (gn_text gn) document filePath) t resolved)], Inr ()))"

section \<open>The script\<close>

function removeGeneratedFiles :: "string \<Rightarrow> dir_entry list \<Rightarrow> output_effect list" where
  "removeGeneratedFiles directory es = concat (map (\<lambda>e. case e of
       Directory n sub \<Rightarrow> removeGeneratedFiles (path_join directory n) sub
     | File n \<Rightarrow> if ends_with ''.ts'' n then [Remove_file (path_join directory n)] else []
     | Other n \<Rightarrow> []) es)"
  by pat_completeness auto
termination
  by (relation "measure (\<lambda>(d, es). size_list size es)") (auto dest: dir_entry_size)

declare removeGeneratedFiles.simps [simp del]

fun generate_files :: "generator \<Rightarrow> reader \<Rightarrow> string list \<Rightarrow> output_effect list \<times> (js_error, unit) result" where
  "generate_files gn read [] = ([], Inr ())"
| "generate_files gn read (f # fs) = (case generate gn read f of
       (es, Inl e) \<Rightarrow> (es, Inl e)
     | (es, Inr _) \<Rightarrow> (case generate_files gn read fs of (es', r) \<Rightarrow> (es @ es', r)))"

definition generator_main ::
  "generator \<Rightarrow> reader \<Rightarrow> (string \<Rightarrow> string \<Rightarrow> bool) \<Rightarrow> dir_entry list \<Rightarrow> dir_entry list \<Rightarrow> output_effect list \<times> (js_error, unit) result" where
  "generator_main gn read le schemaDirectory outputDirectory =
     (let schemaFiles = walk le (gn_schemaRoot gn) schemaDirectory
      in case res_each (\<lambda>f. res_bind (read f) (\<lambda>d. assertSupportedSchema (gn_text gn) d (gn_shown gn f) ''$'')) schemaFiles of
          Inl e \<Rightarrow> ([], Inl e)
        | Inr _ \<Rightarrow> (case generate_files gn read (filter (\<lambda>f. path_basename f \<noteq> ''common.schema.json'') schemaFiles) of
              (es, r) \<Rightarrow> (Make_directory (gn_outputRoot gn) # removeGeneratedFiles (gn_outputRoot gn) outputDirectory @ es, r)))"

section \<open>What is left in the output directory\<close>

text \<open>The files of a tree, and what the effects make of the files there are.\<close>

function tree_files :: "string \<Rightarrow> dir_entry list \<Rightarrow> string list" where
  "tree_files directory es = concat (map (\<lambda>e. case e of
       Directory n sub \<Rightarrow> tree_files (path_join directory n) sub
     | File n \<Rightarrow> [path_join directory n]
     | Other n \<Rightarrow> []) es)"
  by pat_completeness auto
termination
  by (relation "measure (\<lambda>(d, es). size_list size es)") (auto dest: dir_entry_size)

declare tree_files.simps [simp del]

fun apply_effect :: "output_effect \<Rightarrow> (string \<rightharpoonup> string) \<Rightarrow> (string \<rightharpoonup> string)" where
  "apply_effect (Make_directory p) files = files"
| "apply_effect (Remove_file p) files = files(p := None)"
| "apply_effect (Write_file p source) files = files(p \<mapsto> source)"

abbreviation (input) writes_of :: "(string \<times> string) list \<Rightarrow> output_effect list" where
  "writes_of ps \<equiv> concat (map (\<lambda>(p, source). [Make_directory (path_dirname p), Write_file p source]) ps)"

lemma ends_with_ts_join [simp]: "ends_with ''.ts'' (path_join directory n) \<longleftrightarrow> ends_with ''.ts'' n"
proof -
  have "rev ''.ts'' = take 3 (rev n @ ''/'' @ rev directory) \<longleftrightarrow> rev ''.ts'' = take 3 (rev n)"
    by (cases "rev n"; cases "tl (rev n)"; cases "tl (tl (rev n))") auto
  moreover have "ends_with ''.ts'' m \<longleftrightarrow> rev ''.ts'' = take 3 (rev m)" for m
    by (auto simp: ends_with_def take_rev rev_swap [symmetric] numeral_3_eq_3 dest: arg_cong [of _ _ length])
  ultimately show ?thesis by (simp add: path_join_def)
qed

lemma removed_files: "removeGeneratedFiles directory es = map Remove_file (filter (ends_with ''.ts'') (tree_files directory es))"
proof (induction directory es rule: removeGeneratedFiles.induct)
  case (1 directory es)
  then show ?case
    unfolding removeGeneratedFiles.simps [of directory es] tree_files.simps [of directory es] filter_concat map_concat
    by (auto simp: comp_def intro!: arg_cong [where f = concat] split: dir_entry.split)
qed

lemma fold_removals: "fold apply_effect (map Remove_file ps) files = files |` (- set ps)"
  by (induction ps arbitrary: files) (auto simp: restrict_map_def fun_eq_iff)

lemma fold_writes: "fold apply_effect (writes_of ps) files = files ++ map_of (rev ps)"
  by (induction ps arbitrary: files) (auto simp: map_add_def fun_eq_iff split: option.split)

lemma generate_ok:
  assumes "generate gn read f = (es, Inr ())"
  obtains p source where "generate gn read f = (writes_of [(p, source)], Inr ())" "es = writes_of [(p, source)]"
  using assms by (auto simp: generate_def Let_def split: sum.splits prod.splits)

lemma generate_files_ok:
  "generate_files gn read fs = (es, Inr ()) \<Longrightarrow>
     \<exists>ps. es = writes_of ps \<and> list_all2 (\<lambda>f w. generate gn read f = (writes_of [w], Inr ())) fs ps"
proof (induction fs arbitrary: es)
  case (Cons f fs)
  then obtain es1 es2 where g: "generate gn read f = (es1, Inr ())" "generate_files gn read fs = (es2, Inr ())" "es = es1 @ es2"
    by (auto split: sum.splits prod.splits)
  from Cons.IH [OF g(2)] obtain ps where ps: "es2 = writes_of ps" "list_all2 (\<lambda>f w. generate gn read f = (writes_of [w], Inr ())) fs ps" by blast
  from g(1) obtain w where "generate gn read f = (writes_of [w], Inr ())" "es1 = writes_of [w]" by (rule generate_ok) blast
  with ps g(3) show ?case by (intro exI [of _ "w # ps"]) simp
qed simp

text \<open>C26: the script does nothing to the output directory unless every schema file was read and passed the check. After a run that ends well, the files of the
  output directory are those that are no TypeScript files, as they were, and for every schema file but the common ones the one file \<open>generate\<close>
  writes for it; nothing older is left.\<close>

theorem generator_main_checks_first:
  assumes "generator_main gn read le directory output = (es, r)" and "dom files = set (tree_files (gn_outputRoot gn) output)"
  shows "(es \<noteq> [] \<or> r = Inr () \<longrightarrow>
      (\<forall>f \<in> set (walk le (gn_schemaRoot gn) directory). \<exists>d. read f = Inr d \<and> list_all known_schema (schema_positions d))) \<and>
    (r = Inr () \<longrightarrow> (\<exists>ps. fold apply_effect es files = (files |` {p. \<not> ends_with ''.ts'' p}) ++ map_of (rev ps) \<and>
      list_all2 (\<lambda>f (p, source). generate gn read f = ([Make_directory (path_dirname p), Write_file p source], Inr ()))
        (filter (\<lambda>f. path_basename f \<noteq> ''common.schema.json'') (walk le (gn_schemaRoot gn) directory)) ps))"
proof -
  let ?files = "filter (\<lambda>f. path_basename f \<noteq> ''common.schema.json'') (walk le (gn_schemaRoot gn) directory)"
  have checked: "\<forall>f \<in> set (walk le (gn_schemaRoot gn) directory). \<exists>d. read f = Inr d \<and> list_all known_schema (schema_positions d)"
    if "es \<noteq> [] \<or> r = Inr ()"
    using assms(1) that
    by (fastforce simp: generator_main_def Let_def res_each_ok res_bind_Inr_iff accepted_positions split: sum.splits prod.splits)
  have left: "\<exists>ps. fold apply_effect es files = (files |` {p. \<not> ends_with ''.ts'' p}) ++ map_of (rev ps) \<and>
      list_all2 (\<lambda>f w. generate gn read f = (writes_of [w], Inr ())) ?files ps" if ended: "r = Inr ()"
  proof -
    obtain es' where es: "generate_files gn read ?files = (es', Inr ())"
        "es = Make_directory (gn_outputRoot gn) # removeGeneratedFiles (gn_outputRoot gn) output @ es'"
      using assms(1) [unfolded ended] by (auto simp: generator_main_def Let_def split: sum.splits prod.splits)
    obtain ps where ps: "es' = writes_of ps" "list_all2 (\<lambda>f w. generate gn read f = (writes_of [w], Inr ())) ?files ps"
      using generate_files_ok [OF es(1)] by blast
    have "files |` (- set (filter (ends_with ''.ts'') (tree_files (gn_outputRoot gn) output))) = files |` {p. \<not> ends_with ''.ts'' p}"
      using assms(2) by (auto simp: restrict_map_def fun_eq_iff)
    then show ?thesis using ps by (auto simp: es(2) removed_files fold_removals fold_writes)
  qed
  show ?thesis using checked left by (auto simp: case_prod_unfold)
qed

definition example_generator :: generator where
  "example_generator = \<lparr>gn_host = \<lparr>host_URL = (\<lambda>_. None), host_number = (\<lambda>_. [])\<rparr>, gn_calls = 20, gn_text = (\<lambda>_. []), gn_shown = id,
     gn_schemaRoot = ''/s'', gn_outputRoot = ''/out''\<rparr>"

definition example_directory :: "dir_entry list" where
  "example_directory = [File ''common.schema.json'', File ''readme.md'', File ''a.schema.json'']"

text \<open>An output directory with a file of an earlier run and one that is not generated.\<close>

definition example_output :: "dir_entry list" where
  "example_output = [Directory ''old'' [File ''b.ts''], File ''notes.md'']"

definition example_files :: "string \<rightharpoonup> string" where
  "example_files = [''/out/old/b.ts'' \<mapsto> ''old'', ''/out/notes.md'' \<mapsto> ''notes'']"

lemma example_run:
  "is_ok (snd (generator_main example_generator (doc_reader (\<lambda>_. Err []) example_documents) (\<lambda>a b. True) example_directory example_output))"
  "filter (\<lambda>f. path_basename f \<noteq> ''common.schema.json'') (walk (\<lambda>a b. True) (gn_schemaRoot example_generator) example_directory) =
     [''/s/a.schema.json'']"
  "tree_files (gn_outputRoot example_generator) example_output = [''/out/old/b.ts'', ''/out/notes.md'']"
  "map (case_output_effect (\<lambda>p. p) (\<lambda>p. p) (\<lambda>p source. p))
     (fst (generate example_generator (doc_reader (\<lambda>_. Err []) example_documents) ''/s/a.schema.json'')) = [''/out'', ''/out/a.ts'']"
  by code_simp+

theorem generator_main_checks_first_witness:
  "\<exists>source. fold apply_effect
     (fst (generator_main example_generator (doc_reader (\<lambda>_. Err []) example_documents) (\<lambda>a b. True) example_directory example_output)) example_files =
     [''/out/notes.md'' \<mapsto> ''notes'', ''/out/a.ts'' \<mapsto> source]"
proof -
  let ?read = "doc_reader (\<lambda>_. Err []) example_documents" and ?le = "\<lambda>(a :: string) (b :: string). True"
  obtain es where run: "generator_main example_generator ?read ?le example_directory example_output = (es, Inr ())"
    using example_run(1) by (cases "generator_main example_generator ?read ?le example_directory example_output") (auto simp: is_ok_iff)
  have "dom example_files = set (tree_files (gn_outputRoot example_generator) example_output)"
    by (auto simp: example_run(3) example_files_def)
  from generator_main_checks_first [OF run this] obtain p source where
    left: "fold apply_effect es example_files = (example_files |` {p. \<not> ends_with ''.ts'' p}) ++ [p \<mapsto> source]"
    and "generate example_generator ?read ''/s/a.schema.json'' = ([Make_directory (path_dirname p), Write_file p source], Inr ())"
    by (auto simp: example_run(2) list_all2_Cons1)
  with example_run(4) have "p = ''/out/a.ts''" by simp
  moreover have "example_files |` {p. \<not> ends_with ''.ts'' p} = [''/out/notes.md'' \<mapsto> ''notes'']"
    by (auto simp: example_files_def restrict_map_def ends_with_def fun_eq_iff)
  ultimately show ?thesis using left run by auto
qed

end
