(* ===== verification/Schema_Documents.thy ===== *)
theory Schema_Documents
  imports Json_Schemas Schema_Output
begin

text \<open>
  The schema files of the package, \<open>packages/tiktok-live/schema/json\<close>, member by member, and the types of the generated files
  under \<open>src/gen/json\<close>, read as types; where a type repeats another one verbatim, it is named. The schema constants of the same files are
  in theory \<open>Json_Schemas\<close>.

  Shown: the generated files are what the generator makes of the schema files, and a value that passes validation has the published type.
\<close>

section \<open>The schema files\<close>

definition tiktok_common_document :: json where
  "tiktok_common_document = JObj [
    (''$schema'', JStr ''https://json-schema.org/draft/2020-12/schema''),
    (''$id'', JStr ''https://ttl-live.dev/schema/tiktok/common.schema.json''),
    (''title'', JStr ''TikTok JSON common definitions''),
    (''$defs'', JObj [
      (''id'', JObj [
        (''type'', JStr ''string''),
        (''pattern'', JStr ''^[0-9]+$''),
        (''x-expected'', JStr ''numeric string'')]),
      (''idOrSafeNumber'', JObj [
        (''anyOf'', JArr [
          JObj [(''$ref'', JStr ''#/$defs/id'')],
          JObj [(''type'', JStr ''integer''), (''minimum'', jint 0), (''maximum'', jint 9007199254740991)]]),
        (''x-expected'', JStr ''numeric string or safe integer'')]),
      (''count'', JObj [
        (''type'', JStr ''integer''),
        (''minimum'', jint 0),
        (''maximum'', jint 9007199254740991),
        (''x-expected'', JStr ''safe non-negative integer'')]),
      (''image'', JObj [(''$ref'', JStr ''./image.schema.json'')])])]"

definition tiktok_image_document :: json where
  "tiktok_image_document = JObj [
    (''$schema'', JStr ''https://json-schema.org/draft/2020-12/schema''),
    (''$id'', JStr ''https://ttl-live.dev/schema/tiktok/image.schema.json''),
    (''title'', JStr ''TikTok Image''),
    (''x-typescript-name'', JStr ''TikTokImage''),
    (''type'', JStr ''object''),
    (''properties'', JObj [
      (''url_list'', JObj [
        (''type'', JStr ''array''),
        (''items'', JObj [(''type'', JStr ''string''), (''format'', JStr ''uri'')])])]),
    (''additionalProperties'', JBool True)]"

definition tiktok_room_lookup_document :: json where
  "tiktok_room_lookup_document = JObj [
    (''$schema'', JStr ''https://json-schema.org/draft/2020-12/schema''),
    (''$id'', JStr ''https://ttl-live.dev/schema/tiktok/room-lookup.schema.json''),
    (''title'', JStr ''TikTok Room Lookup Response''),
    (''x-typescript-name'', JStr ''TikTokRoomLookupResponse''),
    (''type'', JStr ''object''),
    (''properties'', JObj [
      (''data'', JObj [
        (''type'', JStr ''object''),
        (''properties'', JObj [
          (''user'', JObj [
            (''type'', JStr ''object''),
            (''properties'', JObj [
              (''uniqueId'', JObj [(''type'', JStr ''string'')]),
              (''roomId'', JObj [
                (''type'', JStr ''string''),
                (''pattern'', JStr ''^[0-9]*$''),
                (''x-expected'', JStr ''numeric string'')]),
              (''nickname'', JObj [(''type'', JStr ''string'')]),
              (''status'', JObj [(''type'', JStr ''integer'')])]),
            (''additionalProperties'', JBool True)]),
          (''liveRoom'', JObj [
            (''type'', JStr ''object''),
            (''properties'', JObj [(''status'', JObj [(''type'', JStr ''integer'')]), (''title'', JObj [(''type'', JStr ''string'')])]),
            (''additionalProperties'', JBool True)])]),
        (''additionalProperties'', JBool True)])]),
    (''additionalProperties'', JBool True)]"

definition tiktok_room_info_document :: json where
  "tiktok_room_info_document = JObj [
    (''$schema'', JStr ''https://json-schema.org/draft/2020-12/schema''),
    (''$id'', JStr ''https://ttl-live.dev/schema/tiktok/room-info.schema.json''),
    (''title'', JStr ''TikTok Room Info Response''),
    (''x-typescript-name'', JStr ''TikTokRoomInfoResponse''),
    (''type'', JStr ''object''),
    (''properties'', JObj [
      (''status_code'', JObj [(''type'', JStr ''integer'')]),
      (''data'', JObj [
        (''type'', JStr ''object''),
        (''properties'', JObj [
          (''message'', JObj [(''type'', JStr ''string'')]),
          (''id_str'', JObj [(''$ref'', JStr ''./common.schema.json#/$defs/id'')]),
          (''title'', JObj [(''type'', JStr ''string'')]),
          (''status'', JObj [(''type'', JStr ''integer'')]),
          (''user_count'', JObj [(''$ref'', JStr ''./common.schema.json#/$defs/count'')]),
          (''cover'', JObj [(''$ref'', JStr ''./common.schema.json#/$defs/image'')]),
          (''share_url'', JObj [(''type'', JStr ''string'')]),
          (''owner'', JObj [
            (''type'', JStr ''object''),
            (''properties'', JObj [
              (''id_str'', JObj [(''$ref'', JStr ''./common.schema.json#/$defs/id'')]),
              (''display_id'', JObj [(''type'', JStr ''string'')]),
              (''nickname'', JObj [(''type'', JStr ''string'')]),
              (''sec_uid'', JObj [(''type'', JStr ''string'')]),
              (''avatar_thumb'', JObj [(''$ref'', JStr ''./common.schema.json#/$defs/image'')]),
              (''follow_info'', JObj [
                (''type'', JStr ''object''),
                (''properties'', JObj [(''follower_count'', JObj [(''$ref'', JStr ''./common.schema.json#/$defs/count'')])]),
                (''additionalProperties'', JBool True)])]),
            (''additionalProperties'', JBool True)]),
          (''stats'', JObj [
            (''type'', JStr ''object''),
            (''properties'', JObj [
              (''total_user'', JObj [(''$ref'', JStr ''./common.schema.json#/$defs/count'')]),
              (''like_count'', JObj [(''$ref'', JStr ''./common.schema.json#/$defs/count'')]),
              (''comment_count'', JObj [(''$ref'', JStr ''./common.schema.json#/$defs/count'')]),
              (''share_count'', JObj [(''$ref'', JStr ''./common.schema.json#/$defs/count'')]),
              (''follow_count'', JObj [(''$ref'', JStr ''./common.schema.json#/$defs/count'')])]),
            (''additionalProperties'', JBool True)])]),
        (''additionalProperties'', JBool True)])]),
    (''required'', JArr [JStr ''status_code'']),
    (''additionalProperties'', JBool True)]"

definition tiktok_gift_list_document :: json where
  "tiktok_gift_list_document = JObj [
    (''$schema'', JStr ''https://json-schema.org/draft/2020-12/schema''),
    (''$id'', JStr ''https://ttl-live.dev/schema/tiktok/gift-list.schema.json''),
    (''title'', JStr ''TikTok Gift List Response''),
    (''x-typescript-name'', JStr ''TikTokGiftListResponse''),
    (''type'', JStr ''object''),
    (''properties'', JObj [
      (''status_code'', JObj [(''type'', JStr ''integer'')]),
      (''data'', JObj [
        (''type'', JStr ''object''),
        (''properties'', JObj [
          (''message'', JObj [(''type'', JStr ''string'')]),
          (''gifts'', JObj [
            (''type'', JStr ''array''),
            (''items'', JObj [
              (''type'', JStr ''object''),
              (''properties'', JObj [
                (''id'', JObj [(''$ref'', JStr ''./common.schema.json#/$defs/idOrSafeNumber'')]),
                (''name'', JObj [(''type'', JStr ''string'')]),
                (''describe'', JObj [(''type'', JStr ''string'')]),
                (''diamond_count'', JObj [(''$ref'', JStr ''./common.schema.json#/$defs/count'')]),
                (''combo'', JObj [(''type'', JStr ''boolean'')]),
                (''type'', JObj [(''$ref'', JStr ''./common.schema.json#/$defs/count'')]),
                (''icon'', JObj [(''$ref'', JStr ''./common.schema.json#/$defs/image'')])]),
              (''required'', JArr [JStr ''id'']),
              (''additionalProperties'', JBool True)])])]),
        (''additionalProperties'', JBool True)])]),
    (''required'', JArr [JStr ''status_code'']),
    (''additionalProperties'', JBool True)]"

definition tiktok_live_search_document :: json where
  "tiktok_live_search_document = JObj [
    (''$schema'', JStr ''https://json-schema.org/draft/2020-12/schema''),
    (''$id'', JStr ''https://ttl-live.dev/schema/tiktok/live-search.schema.json''),
    (''title'', JStr ''TikTok Live Search Response''),
    (''x-typescript-name'', JStr ''TikTokLiveSearchResponse''),
    (''type'', JStr ''object''),
    (''properties'', JObj [
      (''status_code'', JObj [(''type'', JStr ''integer'')]),
      (''status_msg'', JObj [(''type'', JStr ''string'')]),
      (''data'', JObj [
        (''type'', JStr ''array''),
        (''items'', JObj [
          (''type'', JStr ''object''),
          (''properties'', JObj [
            (''live_info'', JObj [
              (''type'', JStr ''object''),
              (''properties'', JObj [(''raw_data'', JObj [(''type'', JStr ''string'')])]),
              (''additionalProperties'', JBool True)])]),
          (''additionalProperties'', JBool True)])])]),
    (''additionalProperties'', JBool True)]"

definition tiktok_search_room_document :: json where
  "tiktok_search_room_document = JObj [
    (''$schema'', JStr ''https://json-schema.org/draft/2020-12/schema''),
    (''$id'', JStr ''https://ttl-live.dev/schema/tiktok/search-room.schema.json''),
    (''title'', JStr ''TikTok Live Search Room''),
    (''x-typescript-name'', JStr ''TikTokSearchRoom''),
    (''type'', JStr ''object''),
    (''properties'', JObj [
      (''status'', JObj [(''type'', JStr ''integer'')]),
      (''id_str'', JObj [(''$ref'', JStr ''./common.schema.json#/$defs/id'')]),
      (''title'', JObj [(''type'', JStr ''string'')]),
      (''user_count'', JObj [(''$ref'', JStr ''./common.schema.json#/$defs/count'')]),
      (''owner'', JObj [
        (''type'', JStr ''object''),
        (''properties'', JObj [
          (''display_id'', JObj [(''type'', JStr ''string'')]),
          (''nickname'', JObj [(''type'', JStr ''string'')])]),
        (''additionalProperties'', JBool True)])]),
    (''additionalProperties'', JBool True)]"

definition public_base_event_document :: json where
  "public_base_event_document = JObj [
    (''$schema'', JStr ''https://json-schema.org/draft/2020-12/schema''),
    (''$id'', JStr ''https://ttl-live.dev/schema/public/base-event.schema.json''),
    (''title'', JStr ''ttl-live Base Event''),
    (''x-typescript-name'', JStr ''BaseEvent''),
    (''type'', JStr ''object''),
    (''properties'', JObj [
      (''method'', JObj [(''type'', JStr ''string'')]),
      (''msgId'', JObj [(''type'', JStr ''string''), (''pattern'', JStr ''^[0-9]+$'')]),
      (''isHistory'', JObj [(''type'', JStr ''boolean'')])]),
    (''required'', JArr [JStr ''method'']),
    (''additionalProperties'', JBool True),
    (''x-typescript-no-index'', JBool True)]"

definition public_event_user_document :: json where
  "public_event_user_document = JObj [
    (''$schema'', JStr ''https://json-schema.org/draft/2020-12/schema''),
    (''$id'', JStr ''https://ttl-live.dev/schema/public/event-user.schema.json''),
    (''title'', JStr ''ttl-live Event User''),
    (''x-typescript-name'', JStr ''EventUser''),
    (''type'', JStr ''object''),
    (''properties'', JObj [
      (''userId'', JObj [(''type'', JStr ''string''), (''pattern'', JStr ''^[0-9]+$'')]),
      (''nickname'', JObj [(''type'', JStr ''string'')]),
      (''uniqueId'', JObj [(''type'', JStr ''string'')]),
      (''secUid'', JObj [(''type'', JStr ''string'')]),
      (''avatarUrl'', JObj [(''type'', JStr ''string''), (''format'', JStr ''uri'')])]),
    (''required'', JArr [JStr ''userId'', JStr ''nickname'', JStr ''uniqueId'', JStr ''secUid'']),
    (''additionalProperties'', JBool False)]"

definition public_live_emote_document :: json where
  "public_live_emote_document = JObj [
    (''$schema'', JStr ''https://json-schema.org/draft/2020-12/schema''),
    (''$id'', JStr ''https://ttl-live.dev/schema/public/live-emote.schema.json''),
    (''title'', JStr ''ttl-live Live Emote''),
    (''x-typescript-name'', JStr ''LiveEmote''),
    (''description'', JStr ''A graphical emote carried by a LIVE comment or emote message. Optional fields are omitted when the wire did not carry them; they are never filled with a guessed default.''),
    (''type'', JStr ''object''),
    (''properties'', JObj [
      (''id'', JObj [(''type'', JStr ''string''), (''description'', JStr ''The original emote identifier, verbatim.'')]),
      (''shortcode'', JObj [
        (''type'', JStr ''string''),
        (''description'', JStr (''The textual shortcode (for example '' @ [CHR 0x22] @ ''[laughcry]'' @ [CHR 0x22] @ ''), only when reliably known.''))]),
      (''imageUrl'', JObj [
        (''type'', JStr ''string''),
        (''format'', JStr ''uri''),
        (''description'', JStr ''Artwork URL from the protobuf ImageModel.'')]),
      (''index'', JObj [
        (''type'', JStr ''integer''),
        (''description'', JStr ''Raw EmoteWithIndex.index. Its unit is not confirmed, so it is preserved unmodified and never used to slice text.'')]),
      (''emoteType'', JObj [
        (''type'', JStr ''integer''),
        (''description'', JStr ''Raw EmoteModel.emote_type enum value when non-zero.'')]),
      (''packageId'', JObj [
        (''type'', JStr ''string''),
        (''description'', JStr ''Original package identifier for creator-specific or custom emotes.'')])]),
    (''required'', JArr [JStr ''id'']),
    (''additionalProperties'', JBool False)]"

definition public_top_viewer_document :: json where
  "public_top_viewer_document = JObj [
    (''$schema'', JStr ''https://json-schema.org/draft/2020-12/schema''),
    (''$id'', JStr ''https://ttl-live.dev/schema/public/top-viewer.schema.json''),
    (''title'', JStr ''ttl-live Top Viewer''),
    (''x-typescript-name'', JStr ''TopViewer''),
    (''type'', JStr ''object''),
    (''properties'', JObj [
      (''rank'', JObj [(''type'', JStr ''integer''), (''minimum'', jint 0), (''maximum'', jint 9007199254740991)]),
      (''score'', JObj [(''type'', JStr ''integer''), (''minimum'', jint 0), (''maximum'', jint 9007199254740991)]),
      (''delta'', JObj [(''type'', JStr ''integer''), (''minimum'', jint 0), (''maximum'', jint 9007199254740991)]),
      (''user'', JObj [(''$ref'', JStr ''./event-user.schema.json'')])]),
    (''required'', JArr [JStr ''rank'', JStr ''score'', JStr ''delta'', JStr ''user'']),
    (''additionalProperties'', JBool False)]"

definition public_gift_document :: json where
  "public_gift_document = JObj [
    (''$schema'', JStr ''https://json-schema.org/draft/2020-12/schema''),
    (''$id'', JStr ''https://ttl-live.dev/schema/public/gift.schema.json''),
    (''title'', JStr ''ttl-live Gift''),
    (''x-typescript-name'', JStr ''Gift''),
    (''type'', JStr ''object''),
    (''properties'', JObj [
      (''id'', JObj [(''type'', JStr ''string''), (''pattern'', JStr ''^[0-9]+$'')]),
      (''name'', JObj [(''type'', JStr ''string'')]),
      (''describe'', JObj [(''type'', JStr ''string'')]),
      (''diamondCount'', JObj [(''type'', JStr ''integer''), (''minimum'', jint 0), (''maximum'', jint 9007199254740991)]),
      (''combo'', JObj [(''type'', JStr ''boolean'')]),
      (''giftType'', JObj [(''type'', JStr ''integer''), (''minimum'', jint 0), (''maximum'', jint 9007199254740991)]),
      (''iconUrl'', JObj [(''type'', JStr ''string''), (''format'', JStr ''uri'')])]),
    (''required'', JArr [
      JStr ''id'',
      JStr ''name'',
      JStr ''describe'',
      JStr ''diamondCount'',
      JStr ''combo'',
      JStr ''giftType'',
      JStr ''iconUrl'']),
    (''additionalProperties'', JBool False)]"

definition public_room_owner_document :: json where
  "public_room_owner_document = JObj [
    (''$schema'', JStr ''https://json-schema.org/draft/2020-12/schema''),
    (''$id'', JStr ''https://ttl-live.dev/schema/public/room-owner.schema.json''),
    (''title'', JStr ''ttl-live Room Owner''),
    (''x-typescript-name'', JStr ''RoomOwner''),
    (''type'', JStr ''object''),
    (''properties'', JObj [
      (''userId'', JObj [(''type'', JStr ''string''), (''pattern'', JStr ''^[0-9]*$'')]),
      (''uniqueId'', JObj [(''type'', JStr ''string'')]),
      (''nickname'', JObj [(''type'', JStr ''string'')]),
      (''secUid'', JObj [(''type'', JStr ''string'')]),
      (''avatarUrl'', JObj [(''type'', JStr ''string''), (''format'', JStr ''uri'')]),
      (''followerCount'', JObj [(''type'', JStr ''integer''), (''minimum'', jint 0), (''maximum'', jint 9007199254740991)])]),
    (''required'', JArr [
      JStr ''userId'',
      JStr ''uniqueId'',
      JStr ''nickname'',
      JStr ''secUid'',
      JStr ''avatarUrl'',
      JStr ''followerCount'']),
    (''additionalProperties'', JBool False)]"

definition public_live_room_document :: json where
  "public_live_room_document = JObj [
    (''$schema'', JStr ''https://json-schema.org/draft/2020-12/schema''),
    (''$id'', JStr ''https://ttl-live.dev/schema/public/live-room.schema.json''),
    (''title'', JStr ''ttl-live Live Room''),
    (''x-typescript-name'', JStr ''LiveRoom''),
    (''type'', JStr ''object''),
    (''properties'', JObj [
      (''uniqueId'', JObj [(''type'', JStr ''string'')]),
      (''roomId'', JObj [(''type'', JStr ''string''), (''pattern'', JStr ''^[0-9]+$'')]),
      (''nickname'', JObj [(''type'', JStr ''string'')]),
      (''title'', JObj [(''type'', JStr ''string'')]),
      (''viewers'', JObj [(''type'', JStr ''integer''), (''minimum'', jint 0), (''maximum'', jint 9007199254740991)])]),
    (''required'', JArr [JStr ''uniqueId'', JStr ''roomId'', JStr ''nickname'', JStr ''title'', JStr ''viewers'']),
    (''additionalProperties'', JBool False)]"

definition public_reconnect_policy_document :: json where
  "public_reconnect_policy_document = JObj [
    (''$schema'', JStr ''https://json-schema.org/draft/2020-12/schema''),
    (''$id'', JStr ''https://ttl-live.dev/schema/public/reconnect-policy.schema.json''),
    (''title'', JStr ''ttl-live Reconnect Policy''),
    (''x-typescript-name'', JStr ''ReconnectPolicy''),
    (''type'', JStr ''object''),
    (''properties'', JObj [
      (''attempts'', JObj [(''type'', JStr ''integer''), (''minimum'', jint 0), (''maximum'', jint 9007199254740991)]),
      (''initialMs'', JObj [(''type'', JStr ''integer''), (''minimum'', jint 0), (''maximum'', jint 9007199254740991)]),
      (''maxMs'', JObj [(''type'', JStr ''integer''), (''minimum'', jint 0), (''maximum'', jint 9007199254740991)])]),
    (''required'', JArr [JStr ''attempts'', JStr ''initialMs'', JStr ''maxMs'']),
    (''additionalProperties'', JBool False)]"

definition public_room_lookup_document :: json where
  "public_room_lookup_document = JObj [
    (''$schema'', JStr ''https://json-schema.org/draft/2020-12/schema''),
    (''$id'', JStr ''https://ttl-live.dev/schema/public/room-lookup.schema.json''),
    (''title'', JStr ''ttl-live Room Lookup''),
    (''x-typescript-name'', JStr ''RoomLookup''),
    (''type'', JStr ''object''),
    (''properties'', JObj [
      (''uniqueId'', JObj [(''type'', JStr ''string'')]),
      (''roomId'', JObj [(''type'', JStr ''string''), (''pattern'', JStr ''^[0-9]*$'')]),
      (''nickname'', JObj [(''type'', JStr ''string'')]),
      (''status'', JObj [(''type'', JStr ''integer'')]),
      (''title'', JObj [(''type'', JStr ''string'')]),
      (''isLive'', JObj [(''type'', JStr ''boolean'')])]),
    (''required'', JArr [
      JStr ''uniqueId'',
      JStr ''roomId'',
      JStr ''nickname'',
      JStr ''status'',
      JStr ''title'',
      JStr ''isLive'']),
    (''additionalProperties'', JBool False)]"

definition public_room_info_document :: json where
  "public_room_info_document = JObj [
    (''$schema'', JStr ''https://json-schema.org/draft/2020-12/schema''),
    (''$id'', JStr ''https://ttl-live.dev/schema/public/room-info.schema.json''),
    (''title'', JStr ''ttl-live Room Info''),
    (''x-typescript-name'', JStr ''RoomInfo''),
    (''type'', JStr ''object''),
    (''properties'', JObj [
      (''roomId'', JObj [(''type'', JStr ''string''), (''pattern'', JStr ''^[0-9]+$'')]),
      (''title'', JObj [(''type'', JStr ''string'')]),
      (''status'', JObj [(''type'', JStr ''integer'')]),
      (''viewers'', JObj [(''type'', JStr ''integer''), (''minimum'', jint 0), (''maximum'', jint 9007199254740991)]),
      (''likes'', JObj [(''type'', JStr ''integer''), (''minimum'', jint 0), (''maximum'', jint 9007199254740991)]),
      (''comments'', JObj [(''type'', JStr ''integer''), (''minimum'', jint 0), (''maximum'', jint 9007199254740991)]),
      (''shares'', JObj [(''type'', JStr ''integer''), (''minimum'', jint 0), (''maximum'', jint 9007199254740991)]),
      (''follows'', JObj [(''type'', JStr ''integer''), (''minimum'', jint 0), (''maximum'', jint 9007199254740991)]),
      (''coverUrl'', JObj [(''type'', JStr ''string''), (''format'', JStr ''uri'')]),
      (''shareUrl'', JObj [(''type'', JStr ''string''), (''format'', JStr ''uri'')]),
      (''owner'', JObj [(''$ref'', JStr ''./room-owner.schema.json'')])]),
    (''required'', JArr [
      JStr ''roomId'',
      JStr ''title'',
      JStr ''status'',
      JStr ''viewers'',
      JStr ''likes'',
      JStr ''comments'',
      JStr ''shares'',
      JStr ''follows'',
      JStr ''coverUrl'',
      JStr ''shareUrl'',
      JStr ''owner'']),
    (''additionalProperties'', JBool False)]"

definition public_chat_event_document :: json where
  "public_chat_event_document = JObj [
    (''$schema'', JStr ''https://json-schema.org/draft/2020-12/schema''),
    (''$id'', JStr ''https://ttl-live.dev/schema/public/chat-event.schema.json''),
    (''title'', JStr ''ttl-live Chat Event''),
    (''x-typescript-name'', JStr ''ChatEvent''),
    (''allOf'', JArr [
      JObj [(''$ref'', JStr ''./base-event.schema.json'')],
      JObj [
        (''type'', JStr ''object''),
        (''properties'', JObj [
          (''type'', JObj [(''const'', JStr ''chat'')]),
          (''user'', JObj [(''$ref'', JStr ''./event-user.schema.json'')]),
          (''comment'', JObj [(''type'', JStr ''string'')]),
          (''emotes'', JObj [
            (''type'', JStr ''array''),
            (''items'', JObj [(''$ref'', JStr ''./live-emote.schema.json'')]),
            (''description'', JStr ''Emotes embedded in the comment. Omitted (never required) so text-only chat stays compatible.'')])]),
        (''required'', JArr [JStr ''type'', JStr ''user'', JStr ''comment'']),
        (''additionalProperties'', JBool True),
        (''x-typescript-no-index'', JBool True)]])]"

definition public_emote_chat_event_document :: json where
  "public_emote_chat_event_document = JObj [
    (''$schema'', JStr ''https://json-schema.org/draft/2020-12/schema''),
    (''$id'', JStr ''https://ttl-live.dev/schema/public/emote-chat-event.schema.json''),
    (''title'', JStr ''ttl-live Emote Chat Event''),
    (''x-typescript-name'', JStr ''EmoteChatEvent''),
    (''allOf'', JArr [
      JObj [(''$ref'', JStr ''./base-event.schema.json'')],
      JObj [
        (''type'', JStr ''object''),
        (''properties'', JObj [
          (''type'', JObj [(''const'', JStr ''emoteChat'')]),
          (''user'', JObj [(''$ref'', JStr ''./event-user.schema.json'')]),
          (''emotes'', JObj [(''type'', JStr ''array''), (''items'', JObj [(''$ref'', JStr ''./live-emote.schema.json'')])])]),
        (''required'', JArr [JStr ''type'', JStr ''user'', JStr ''emotes'']),
        (''additionalProperties'', JBool True),
        (''x-typescript-no-index'', JBool True)]])]"

definition public_gift_event_document :: json where
  "public_gift_event_document = JObj [
    (''$schema'', JStr ''https://json-schema.org/draft/2020-12/schema''),
    (''$id'', JStr ''https://ttl-live.dev/schema/public/gift-event.schema.json''),
    (''title'', JStr ''ttl-live Gift Event''),
    (''x-typescript-name'', JStr ''GiftEvent''),
    (''allOf'', JArr [
      JObj [(''$ref'', JStr ''./base-event.schema.json'')],
      JObj [
        (''type'', JStr ''object''),
        (''properties'', JObj [
          (''type'', JObj [(''const'', JStr ''gift'')]),
          (''user'', JObj [(''$ref'', JStr ''./event-user.schema.json'')]),
          (''toUser'', JObj [(''$ref'', JStr ''./event-user.schema.json'')]),
          (''giftId'', JObj [(''type'', JStr ''string''), (''pattern'', JStr ''^[0-9]+$'')]),
          (''giftName'', JObj [(''type'', JStr ''string'')]),
          (''diamondCount'', JObj [(''type'', JStr ''integer''), (''minimum'', jint 0), (''maximum'', jint 9007199254740991)]),
          (''repeatCount'', JObj [(''type'', JStr ''integer''), (''minimum'', jint 0), (''maximum'', jint 9007199254740991)]),
          (''comboCount'', JObj [(''type'', JStr ''integer''), (''minimum'', jint 0), (''maximum'', jint 9007199254740991)]),
          (''groupId'', JObj [(''type'', JStr ''string''), (''pattern'', JStr ''^[0-9]+$'')]),
          (''repeatEnd'', JObj [(''type'', JStr ''boolean'')]),
          (''streakable'', JObj [(''type'', JStr ''boolean'')]),
          (''giftIconUrl'', JObj [(''type'', JStr ''string''), (''format'', JStr ''uri'')])]),
        (''required'', JArr [
          JStr ''type'',
          JStr ''user'',
          JStr ''toUser'',
          JStr ''giftId'',
          JStr ''giftName'',
          JStr ''diamondCount'',
          JStr ''repeatCount'',
          JStr ''comboCount'',
          JStr ''groupId'',
          JStr ''repeatEnd'']),
        (''additionalProperties'', JBool True),
        (''x-typescript-no-index'', JBool True)]])]"

definition public_like_event_document :: json where
  "public_like_event_document = JObj [
    (''$schema'', JStr ''https://json-schema.org/draft/2020-12/schema''),
    (''$id'', JStr ''https://ttl-live.dev/schema/public/like-event.schema.json''),
    (''title'', JStr ''ttl-live Like Event''),
    (''x-typescript-name'', JStr ''LikeEvent''),
    (''allOf'', JArr [
      JObj [(''$ref'', JStr ''./base-event.schema.json'')],
      JObj [
        (''type'', JStr ''object''),
        (''properties'', JObj [
          (''type'', JObj [(''const'', JStr ''like'')]),
          (''user'', JObj [(''$ref'', JStr ''./event-user.schema.json'')]),
          (''count'', JObj [(''type'', JStr ''integer''), (''minimum'', jint 0), (''maximum'', jint 9007199254740991)]),
          (''total'', JObj [(''type'', JStr ''integer''), (''minimum'', jint 0), (''maximum'', jint 9007199254740991)])]),
        (''required'', JArr [JStr ''type'', JStr ''user'', JStr ''count'', JStr ''total'']),
        (''additionalProperties'', JBool True),
        (''x-typescript-no-index'', JBool True)]])]"

definition public_member_event_document :: json where
  "public_member_event_document = JObj [
    (''$schema'', JStr ''https://json-schema.org/draft/2020-12/schema''),
    (''$id'', JStr ''https://ttl-live.dev/schema/public/member-event.schema.json''),
    (''title'', JStr ''ttl-live Member Event''),
    (''x-typescript-name'', JStr ''MemberEvent''),
    (''allOf'', JArr [
      JObj [(''$ref'', JStr ''./base-event.schema.json'')],
      JObj [
        (''type'', JStr ''object''),
        (''properties'', JObj [
          (''type'', JObj [(''const'', JStr ''member'')]),
          (''user'', JObj [(''$ref'', JStr ''./event-user.schema.json'')]),
          (''memberCount'', JObj [(''type'', JStr ''integer''), (''minimum'', jint 0), (''maximum'', jint 9007199254740991)]),
          (''action'', JObj [(''type'', JStr ''integer''), (''minimum'', jint 0), (''maximum'', jint 9007199254740991)])]),
        (''required'', JArr [JStr ''type'', JStr ''user'', JStr ''memberCount'', JStr ''action'']),
        (''additionalProperties'', JBool True),
        (''x-typescript-no-index'', JBool True)]])]"

definition public_social_event_document :: json where
  "public_social_event_document = JObj [
    (''$schema'', JStr ''https://json-schema.org/draft/2020-12/schema''),
    (''$id'', JStr ''https://ttl-live.dev/schema/public/social-event.schema.json''),
    (''title'', JStr ''ttl-live Social Event''),
    (''x-typescript-name'', JStr ''SocialEvent''),
    (''allOf'', JArr [
      JObj [(''$ref'', JStr ''./base-event.schema.json'')],
      JObj [
        (''type'', JStr ''object''),
        (''properties'', JObj [
          (''type'', JObj [(''const'', JStr ''social'')]),
          (''user'', JObj [(''$ref'', JStr ''./event-user.schema.json'')]),
          (''action'', JObj [(''type'', JStr ''integer''), (''minimum'', jint 0), (''maximum'', jint 9007199254740991)]),
          (''followCount'', JObj [(''type'', JStr ''integer''), (''minimum'', jint 0), (''maximum'', jint 9007199254740991)]),
          (''shareCount'', JObj [(''type'', JStr ''integer''), (''minimum'', jint 0), (''maximum'', jint 9007199254740991)]),
          (''shareType'', JObj [(''type'', JStr ''integer''), (''minimum'', jint 0), (''maximum'', jint 9007199254740991)]),
          (''shareTarget'', JObj [(''type'', JStr ''string'')]),
          (''shareDisplayStyle'', JObj [(''type'', JStr ''integer''), (''minimum'', jint 0), (''maximum'', jint 9007199254740991)]),
          (''followType'', JObj [(''type'', JStr ''integer''), (''minimum'', jint 0), (''maximum'', jint 9007199254740991)]),
          (''scene'', JObj [(''type'', JStr ''string'')]),
          (''targetUserId'', JObj [
            (''type'', JStr ''string''),
            (''pattern'', JStr ''^-?[0-9]+$''),
            (''description'', JStr ''Raw int64 target; negative wire sentinels are preserved.'')])]),
        (''required'', JArr [JStr ''type'', JStr ''user'', JStr ''action'', JStr ''followCount'', JStr ''shareCount'']),
        (''additionalProperties'', JBool True),
        (''x-typescript-no-index'', JBool True)]])]"

definition public_room_user_event_document :: json where
  "public_room_user_event_document = JObj [
    (''$schema'', JStr ''https://json-schema.org/draft/2020-12/schema''),
    (''$id'', JStr ''https://ttl-live.dev/schema/public/room-user-event.schema.json''),
    (''title'', JStr ''ttl-live Room User Event''),
    (''x-typescript-name'', JStr ''RoomUserEvent''),
    (''allOf'', JArr [
      JObj [(''$ref'', JStr ''./base-event.schema.json'')],
      JObj [
        (''type'', JStr ''object''),
        (''properties'', JObj [
          (''type'', JObj [(''const'', JStr ''roomUser'')]),
          (''viewers'', JObj [(''type'', JStr ''integer''), (''minimum'', jint 0), (''maximum'', jint 9007199254740991)]),
          (''popularity'', JObj [(''type'', JStr ''integer''), (''minimum'', jint 0), (''maximum'', jint 9007199254740991)]),
          (''totalUser'', JObj [(''type'', JStr ''integer''), (''minimum'', jint 0), (''maximum'', jint 9007199254740991)]),
          (''anonymous'', JObj [(''type'', JStr ''integer''), (''minimum'', jint 0), (''maximum'', jint 9007199254740991)]),
          (''topViewers'', JObj [(''type'', JStr ''array''), (''items'', JObj [(''$ref'', JStr ''./top-viewer.schema.json'')])]),
          (''rankedViewers'', JObj [(''type'', JStr ''array''), (''items'', JObj [(''$ref'', JStr ''./top-viewer.schema.json'')])])]),
        (''required'', JArr [
          JStr ''type'',
          JStr ''viewers'',
          JStr ''popularity'',
          JStr ''totalUser'',
          JStr ''anonymous'',
          JStr ''topViewers'',
          JStr ''rankedViewers'']),
        (''additionalProperties'', JBool True),
        (''x-typescript-no-index'', JBool True)]])]"

definition public_client_state_document :: json where
  "public_client_state_document = JObj [
    (''$schema'', JStr ''https://json-schema.org/draft/2020-12/schema''),
    (''$id'', JStr ''https://ttl-live.dev/schema/public/client-state.schema.json''),
    (''title'', JStr ''ttl-live Client State''),
    (''x-typescript-name'', JStr ''ClientState''),
    (''type'', JStr ''object''),
    (''properties'', JObj [
      (''uniqueId'', JObj [(''type'', JStr ''string'')]),
      (''roomId'', JObj [(''type'', JStr ''string''), (''pattern'', JStr ''^[0-9]*$'')]),
      (''connected'', JObj [(''type'', JStr ''boolean'')]),
      (''roomInfo'', JObj [
        (''anyOf'', JArr [JObj [(''$ref'', JStr ''./room-info.schema.json'')], JObj [(''type'', JStr ''null'')]])]),
      (''giftCount'', JObj [(''type'', JStr ''integer''), (''minimum'', jint 0), (''maximum'', jint 9007199254740991)])]),
    (''required'', JArr [JStr ''uniqueId'', JStr ''roomId'', JStr ''connected'', JStr ''roomInfo'', JStr ''giftCount'']),
    (''additionalProperties'', JBool False)]"

definition schema_directory :: "(string \<times> json) list" where
  "schema_directory = [
    (''/schema/json/tiktok/common.schema.json'', tiktok_common_document),
    (''/schema/json/tiktok/image.schema.json'', tiktok_image_document),
    (''/schema/json/tiktok/room-lookup.schema.json'', tiktok_room_lookup_document),
    (''/schema/json/tiktok/room-info.schema.json'', tiktok_room_info_document),
    (''/schema/json/tiktok/gift-list.schema.json'', tiktok_gift_list_document),
    (''/schema/json/tiktok/live-search.schema.json'', tiktok_live_search_document),
    (''/schema/json/tiktok/search-room.schema.json'', tiktok_search_room_document),
    (''/schema/json/public/base-event.schema.json'', public_base_event_document),
    (''/schema/json/public/event-user.schema.json'', public_event_user_document),
    (''/schema/json/public/live-emote.schema.json'', public_live_emote_document),
    (''/schema/json/public/top-viewer.schema.json'', public_top_viewer_document),
    (''/schema/json/public/gift.schema.json'', public_gift_document),
    (''/schema/json/public/room-owner.schema.json'', public_room_owner_document),
    (''/schema/json/public/live-room.schema.json'', public_live_room_document),
    (''/schema/json/public/reconnect-policy.schema.json'', public_reconnect_policy_document),
    (''/schema/json/public/room-lookup.schema.json'', public_room_lookup_document),
    (''/schema/json/public/room-info.schema.json'', public_room_info_document),
    (''/schema/json/public/chat-event.schema.json'', public_chat_event_document),
    (''/schema/json/public/emote-chat-event.schema.json'', public_emote_chat_event_document),
    (''/schema/json/public/gift-event.schema.json'', public_gift_event_document),
    (''/schema/json/public/like-event.schema.json'', public_like_event_document),
    (''/schema/json/public/member-event.schema.json'', public_member_event_document),
    (''/schema/json/public/social-event.schema.json'', public_social_event_document),
    (''/schema/json/public/room-user-event.schema.json'', public_room_user_event_document),
    (''/schema/json/public/client-state.schema.json'', public_client_state_document)]"

section \<open>The generated types\<close>

definition TikTokImage_type :: ts_type where
  "TikTokImage_type = Ts_object [(''url_list'', True, Ts_array (Ts_name ''string''))] (Some (Ts_name ''unknown''))"

definition TikTokRoomLookupResponse_type :: ts_type where
  "TikTokRoomLookupResponse_type = Ts_object [
    (''data'', True, Ts_object [
      (''user'', True, Ts_object [
        (''uniqueId'', True, Ts_name ''string''),
        (''roomId'', True, Ts_name ''string''),
        (''nickname'', True, Ts_name ''string''),
        (''status'', True, Ts_name ''number'')] (Some (Ts_name ''unknown''))),
      (''liveRoom'', True, Ts_object [(''status'', True, Ts_name ''number''), (''title'', True, Ts_name ''string'')] (Some (Ts_name ''unknown'')))] (Some (Ts_name ''unknown'')))] (Some (Ts_name ''unknown''))"

definition TikTokRoomInfoResponse_type :: ts_type where
  "TikTokRoomInfoResponse_type = Ts_object [
    (''status_code'', False, Ts_name ''number''),
    (''data'', True, Ts_object [
      (''message'', True, Ts_name ''string''),
      (''id_str'', True, Ts_name ''string''),
      (''title'', True, Ts_name ''string''),
      (''status'', True, Ts_name ''number''),
      (''user_count'', True, Ts_name ''number''),
      (''cover'', True, TikTokImage_type),
      (''share_url'', True, Ts_name ''string''),
      (''owner'', True, Ts_object [
        (''id_str'', True, Ts_name ''string''),
        (''display_id'', True, Ts_name ''string''),
        (''nickname'', True, Ts_name ''string''),
        (''sec_uid'', True, Ts_name ''string''),
        (''avatar_thumb'', True, TikTokImage_type),
        (''follow_info'', True, Ts_object [(''follower_count'', True, Ts_name ''number'')] (Some (Ts_name ''unknown'')))] (Some (Ts_name ''unknown''))),
      (''stats'', True, Ts_object [
        (''total_user'', True, Ts_name ''number''),
        (''like_count'', True, Ts_name ''number''),
        (''comment_count'', True, Ts_name ''number''),
        (''share_count'', True, Ts_name ''number''),
        (''follow_count'', True, Ts_name ''number'')] (Some (Ts_name ''unknown'')))] (Some (Ts_name ''unknown'')))] (Some (Ts_name ''unknown''))"

definition TikTokGiftListResponse_type :: ts_type where
  "TikTokGiftListResponse_type = Ts_object [
    (''status_code'', False, Ts_name ''number''),
    (''data'', True, Ts_object [
      (''message'', True, Ts_name ''string''),
      (''gifts'', True, Ts_array (Ts_object [
          (''id'', False, Ts_union [Ts_name ''string'', Ts_name ''number'']),
          (''name'', True, Ts_name ''string''),
          (''describe'', True, Ts_name ''string''),
          (''diamond_count'', True, Ts_name ''number''),
          (''combo'', True, Ts_name ''boolean''),
          (''type'', True, Ts_name ''number''),
          (''icon'', True, TikTokImage_type)] (Some (Ts_name ''unknown''))))] (Some (Ts_name ''unknown'')))] (Some (Ts_name ''unknown''))"

definition TikTokLiveSearchResponse_type :: ts_type where
  "TikTokLiveSearchResponse_type = Ts_object [
    (''status_code'', True, Ts_name ''number''),
    (''status_msg'', True, Ts_name ''string''),
    (''data'', True, Ts_array (Ts_object [
        (''live_info'', True, Ts_object [(''raw_data'', True, Ts_name ''string'')] (Some (Ts_name ''unknown'')))] (Some (Ts_name ''unknown''))))] (Some (Ts_name ''unknown''))"

definition TikTokSearchRoom_type :: ts_type where
  "TikTokSearchRoom_type = Ts_object [
    (''status'', True, Ts_name ''number''),
    (''id_str'', True, Ts_name ''string''),
    (''title'', True, Ts_name ''string''),
    (''user_count'', True, Ts_name ''number''),
    (''owner'', True, Ts_object [(''display_id'', True, Ts_name ''string''), (''nickname'', True, Ts_name ''string'')] (Some (Ts_name ''unknown'')))] (Some (Ts_name ''unknown''))"

definition BaseEvent_type :: ts_type where
  "BaseEvent_type = Ts_object [
    (''method'', False, Ts_name ''string''),
    (''msgId'', True, Ts_name ''string''),
    (''isHistory'', True, Ts_name ''boolean'')] None"

definition EventUser_type :: ts_type where
  "EventUser_type = Ts_object [
    (''userId'', False, Ts_name ''string''),
    (''nickname'', False, Ts_name ''string''),
    (''uniqueId'', False, Ts_name ''string''),
    (''secUid'', False, Ts_name ''string''),
    (''avatarUrl'', True, Ts_name ''string'')] None"

definition LiveEmote_type :: ts_type where
  "LiveEmote_type = Ts_object [
    (''id'', False, Ts_name ''string''),
    (''shortcode'', True, Ts_name ''string''),
    (''imageUrl'', True, Ts_name ''string''),
    (''index'', True, Ts_name ''number''),
    (''emoteType'', True, Ts_name ''number''),
    (''packageId'', True, Ts_name ''string'')] None"

definition TopViewer_type :: ts_type where
  "TopViewer_type = Ts_object [
    (''rank'', False, Ts_name ''number''),
    (''score'', False, Ts_name ''number''),
    (''delta'', False, Ts_name ''number''),
    (''user'', False, EventUser_type)] None"

definition Gift_type :: ts_type where
  "Gift_type = Ts_object [
    (''id'', False, Ts_name ''string''),
    (''name'', False, Ts_name ''string''),
    (''describe'', False, Ts_name ''string''),
    (''diamondCount'', False, Ts_name ''number''),
    (''combo'', False, Ts_name ''boolean''),
    (''giftType'', False, Ts_name ''number''),
    (''iconUrl'', False, Ts_name ''string'')] None"

definition RoomOwner_type :: ts_type where
  "RoomOwner_type = Ts_object [
    (''userId'', False, Ts_name ''string''),
    (''uniqueId'', False, Ts_name ''string''),
    (''nickname'', False, Ts_name ''string''),
    (''secUid'', False, Ts_name ''string''),
    (''avatarUrl'', False, Ts_name ''string''),
    (''followerCount'', False, Ts_name ''number'')] None"

definition LiveRoom_type :: ts_type where
  "LiveRoom_type = Ts_object [
    (''uniqueId'', False, Ts_name ''string''),
    (''roomId'', False, Ts_name ''string''),
    (''nickname'', False, Ts_name ''string''),
    (''title'', False, Ts_name ''string''),
    (''viewers'', False, Ts_name ''number'')] None"

definition ReconnectPolicy_type :: ts_type where
  "ReconnectPolicy_type = Ts_object [
    (''attempts'', False, Ts_name ''number''),
    (''initialMs'', False, Ts_name ''number''),
    (''maxMs'', False, Ts_name ''number'')] None"

definition RoomLookup_type :: ts_type where
  "RoomLookup_type = Ts_object [
    (''uniqueId'', False, Ts_name ''string''),
    (''roomId'', False, Ts_name ''string''),
    (''nickname'', False, Ts_name ''string''),
    (''status'', False, Ts_name ''number''),
    (''title'', False, Ts_name ''string''),
    (''isLive'', False, Ts_name ''boolean'')] None"

definition RoomInfo_type :: ts_type where
  "RoomInfo_type = Ts_object [
    (''roomId'', False, Ts_name ''string''),
    (''title'', False, Ts_name ''string''),
    (''status'', False, Ts_name ''number''),
    (''viewers'', False, Ts_name ''number''),
    (''likes'', False, Ts_name ''number''),
    (''comments'', False, Ts_name ''number''),
    (''shares'', False, Ts_name ''number''),
    (''follows'', False, Ts_name ''number''),
    (''coverUrl'', False, Ts_name ''string''),
    (''shareUrl'', False, Ts_name ''string''),
    (''owner'', False, RoomOwner_type)] None"

definition ChatEvent_type :: ts_type where
  "ChatEvent_type = Ts_intersection [BaseEvent_type, Ts_object [
      (''type'', False, Ts_literal (JStr ''chat'')),
      (''user'', False, EventUser_type),
      (''comment'', False, Ts_name ''string''),
      (''emotes'', True, Ts_array (LiveEmote_type))] None]"

definition EmoteChatEvent_type :: ts_type where
  "EmoteChatEvent_type = Ts_intersection [BaseEvent_type, Ts_object [
      (''type'', False, Ts_literal (JStr ''emoteChat'')),
      (''user'', False, EventUser_type),
      (''emotes'', False, Ts_array (LiveEmote_type))] None]"

definition GiftEvent_type :: ts_type where
  "GiftEvent_type = Ts_intersection [BaseEvent_type, Ts_object [
      (''type'', False, Ts_literal (JStr ''gift'')),
      (''user'', False, EventUser_type),
      (''toUser'', False, EventUser_type),
      (''giftId'', False, Ts_name ''string''),
      (''giftName'', False, Ts_name ''string''),
      (''diamondCount'', False, Ts_name ''number''),
      (''repeatCount'', False, Ts_name ''number''),
      (''comboCount'', False, Ts_name ''number''),
      (''groupId'', False, Ts_name ''string''),
      (''repeatEnd'', False, Ts_name ''boolean''),
      (''streakable'', True, Ts_name ''boolean''),
      (''giftIconUrl'', True, Ts_name ''string'')] None]"

definition LikeEvent_type :: ts_type where
  "LikeEvent_type = Ts_intersection [BaseEvent_type, Ts_object [
      (''type'', False, Ts_literal (JStr ''like'')),
      (''user'', False, EventUser_type),
      (''count'', False, Ts_name ''number''),
      (''total'', False, Ts_name ''number'')] None]"

definition MemberEvent_type :: ts_type where
  "MemberEvent_type = Ts_intersection [BaseEvent_type, Ts_object [
      (''type'', False, Ts_literal (JStr ''member'')),
      (''user'', False, EventUser_type),
      (''memberCount'', False, Ts_name ''number''),
      (''action'', False, Ts_name ''number'')] None]"

definition SocialEvent_type :: ts_type where
  "SocialEvent_type = Ts_intersection [BaseEvent_type, Ts_object [
      (''type'', False, Ts_literal (JStr ''social'')),
      (''user'', False, EventUser_type),
      (''action'', False, Ts_name ''number''),
      (''followCount'', False, Ts_name ''number''),
      (''shareCount'', False, Ts_name ''number''),
      (''shareType'', True, Ts_name ''number''),
      (''shareTarget'', True, Ts_name ''string''),
      (''shareDisplayStyle'', True, Ts_name ''number''),
      (''followType'', True, Ts_name ''number''),
      (''scene'', True, Ts_name ''string''),
      (''targetUserId'', True, Ts_name ''string'')] None]"

definition RoomUserEvent_type :: ts_type where
  "RoomUserEvent_type = Ts_intersection [BaseEvent_type, Ts_object [
      (''type'', False, Ts_literal (JStr ''roomUser'')),
      (''viewers'', False, Ts_name ''number''),
      (''popularity'', False, Ts_name ''number''),
      (''totalUser'', False, Ts_name ''number''),
      (''anonymous'', False, Ts_name ''number''),
      (''topViewers'', False, Ts_array (TopViewer_type)),
      (''rankedViewers'', False, Ts_array (TopViewer_type))] None]"

definition ClientState_type :: ts_type where
  "ClientState_type = Ts_object [
    (''uniqueId'', False, Ts_name ''string''),
    (''roomId'', False, Ts_name ''string''),
    (''connected'', False, Ts_name ''boolean''),
    (''roomInfo'', False, Ts_union [RoomInfo_type, Ts_name ''null'']),
    (''giftCount'', False, Ts_name ''number'')] None"

definition generated_files :: "(string \<times> json \<times> ts_type) list" where
  "generated_files = [
    (''/schema/json/tiktok/image.schema.json'', TikTokImageSchema, TikTokImage_type),
    (''/schema/json/tiktok/room-lookup.schema.json'', TikTokRoomLookupResponseSchema, TikTokRoomLookupResponse_type),
    (''/schema/json/tiktok/room-info.schema.json'', TikTokRoomInfoResponseSchema, TikTokRoomInfoResponse_type),
    (''/schema/json/tiktok/gift-list.schema.json'', TikTokGiftListResponseSchema, TikTokGiftListResponse_type),
    (''/schema/json/tiktok/live-search.schema.json'', TikTokLiveSearchResponseSchema, TikTokLiveSearchResponse_type),
    (''/schema/json/tiktok/search-room.schema.json'', TikTokSearchRoomSchema, TikTokSearchRoom_type),
    (''/schema/json/public/base-event.schema.json'', BaseEventSchema, BaseEvent_type),
    (''/schema/json/public/event-user.schema.json'', EventUserSchema, EventUser_type),
    (''/schema/json/public/live-emote.schema.json'', LiveEmoteSchema, LiveEmote_type),
    (''/schema/json/public/top-viewer.schema.json'', TopViewerSchema, TopViewer_type),
    (''/schema/json/public/gift.schema.json'', GiftSchema, Gift_type),
    (''/schema/json/public/room-owner.schema.json'', RoomOwnerSchema, RoomOwner_type),
    (''/schema/json/public/live-room.schema.json'', LiveRoomSchema, LiveRoom_type),
    (''/schema/json/public/reconnect-policy.schema.json'', ReconnectPolicySchema, ReconnectPolicy_type),
    (''/schema/json/public/room-lookup.schema.json'', RoomLookupSchema, RoomLookup_type),
    (''/schema/json/public/room-info.schema.json'', RoomInfoSchema, RoomInfo_type),
    (''/schema/json/public/chat-event.schema.json'', ChatEventSchema, ChatEvent_type),
    (''/schema/json/public/emote-chat-event.schema.json'', EmoteChatEventSchema, EmoteChatEvent_type),
    (''/schema/json/public/gift-event.schema.json'', GiftEventSchema, GiftEvent_type),
    (''/schema/json/public/like-event.schema.json'', LikeEventSchema, LikeEvent_type),
    (''/schema/json/public/member-event.schema.json'', MemberEventSchema, MemberEvent_type),
    (''/schema/json/public/social-event.schema.json'', SocialEventSchema, SocialEvent_type),
    (''/schema/json/public/room-user-event.schema.json'', RoomUserEventSchema, RoomUserEvent_type),
    (''/schema/json/public/client-state.schema.json'', ClientStateSchema, ClientState_type)]"

section \<open>The files are current\<close>

text \<open>\<open>readDocument\<close> on the package, and the same as a chain of comparisons, for evaluation.\<close>

definition package_reader :: "(string \<Rightarrow> js_error) \<Rightarrow> reader" where
  "package_reader failed path = doc_reader failed schema_directory path"

lemma doc_reader_Nil: "doc_reader failed [] p = Inl (failed p)"
  by (simp add: doc_reader_def)

lemma doc_reader_Cons: "doc_reader failed ((f, d) # docs) p = (if p = f then Inr d else doc_reader failed docs p)"
  by (simp add: doc_reader_def)

lemma package_reader_code [code]:
  "package_reader failed path = (
    if path = ''/schema/json/tiktok/common.schema.json'' then Inr tiktok_common_document else
    if path = ''/schema/json/tiktok/image.schema.json'' then Inr tiktok_image_document else
    if path = ''/schema/json/tiktok/room-lookup.schema.json'' then Inr tiktok_room_lookup_document else
    if path = ''/schema/json/tiktok/room-info.schema.json'' then Inr tiktok_room_info_document else
    if path = ''/schema/json/tiktok/gift-list.schema.json'' then Inr tiktok_gift_list_document else
    if path = ''/schema/json/tiktok/live-search.schema.json'' then Inr tiktok_live_search_document else
    if path = ''/schema/json/tiktok/search-room.schema.json'' then Inr tiktok_search_room_document else
    if path = ''/schema/json/public/base-event.schema.json'' then Inr public_base_event_document else
    if path = ''/schema/json/public/event-user.schema.json'' then Inr public_event_user_document else
    if path = ''/schema/json/public/live-emote.schema.json'' then Inr public_live_emote_document else
    if path = ''/schema/json/public/top-viewer.schema.json'' then Inr public_top_viewer_document else
    if path = ''/schema/json/public/gift.schema.json'' then Inr public_gift_document else
    if path = ''/schema/json/public/room-owner.schema.json'' then Inr public_room_owner_document else
    if path = ''/schema/json/public/live-room.schema.json'' then Inr public_live_room_document else
    if path = ''/schema/json/public/reconnect-policy.schema.json'' then Inr public_reconnect_policy_document else
    if path = ''/schema/json/public/room-lookup.schema.json'' then Inr public_room_lookup_document else
    if path = ''/schema/json/public/room-info.schema.json'' then Inr public_room_info_document else
    if path = ''/schema/json/public/chat-event.schema.json'' then Inr public_chat_event_document else
    if path = ''/schema/json/public/emote-chat-event.schema.json'' then Inr public_emote_chat_event_document else
    if path = ''/schema/json/public/gift-event.schema.json'' then Inr public_gift_event_document else
    if path = ''/schema/json/public/like-event.schema.json'' then Inr public_like_event_document else
    if path = ''/schema/json/public/member-event.schema.json'' then Inr public_member_event_document else
    if path = ''/schema/json/public/social-event.schema.json'' then Inr public_social_event_document else
    if path = ''/schema/json/public/room-user-event.schema.json'' then Inr public_room_user_event_document else
    if path = ''/schema/json/public/client-state.schema.json'' then Inr public_client_state_document else
    Inl (failed path))"
  unfolding package_reader_def schema_directory_def doc_reader_Cons doc_reader_Nil ..

lemma TikTokImage_resolved: "resolveNode (package_reader failed) 40 tiktok_image_document ''/schema/json/tiktok/image.schema.json'' [] = Inr TikTokImageSchema"
  by code_simp

lemma TikTokRoomLookupResponse_resolved: "resolveNode (package_reader failed) 40 tiktok_room_lookup_document ''/schema/json/tiktok/room-lookup.schema.json'' [] = Inr TikTokRoomLookupResponseSchema"
  by code_simp

lemma TikTokRoomInfoResponse_resolved: "resolveNode (package_reader failed) 40 tiktok_room_info_document ''/schema/json/tiktok/room-info.schema.json'' [] = Inr TikTokRoomInfoResponseSchema"
  by code_simp

lemma TikTokGiftListResponse_resolved: "resolveNode (package_reader failed) 40 tiktok_gift_list_document ''/schema/json/tiktok/gift-list.schema.json'' [] = Inr TikTokGiftListResponseSchema"
  by code_simp

lemma TikTokLiveSearchResponse_resolved: "resolveNode (package_reader failed) 40 tiktok_live_search_document ''/schema/json/tiktok/live-search.schema.json'' [] = Inr TikTokLiveSearchResponseSchema"
  by code_simp

lemma TikTokSearchRoom_resolved: "resolveNode (package_reader failed) 40 tiktok_search_room_document ''/schema/json/tiktok/search-room.schema.json'' [] = Inr TikTokSearchRoomSchema"
  by code_simp

lemma BaseEvent_resolved: "resolveNode (package_reader failed) 40 public_base_event_document ''/schema/json/public/base-event.schema.json'' [] = Inr BaseEventSchema"
  by code_simp

lemma EventUser_resolved: "resolveNode (package_reader failed) 40 public_event_user_document ''/schema/json/public/event-user.schema.json'' [] = Inr EventUserSchema"
  by code_simp

lemma LiveEmote_resolved: "resolveNode (package_reader failed) 40 public_live_emote_document ''/schema/json/public/live-emote.schema.json'' [] = Inr LiveEmoteSchema"
  by code_simp

lemma TopViewer_resolved: "resolveNode (package_reader failed) 40 public_top_viewer_document ''/schema/json/public/top-viewer.schema.json'' [] = Inr TopViewerSchema"
  by code_simp

lemma Gift_resolved: "resolveNode (package_reader failed) 40 public_gift_document ''/schema/json/public/gift.schema.json'' [] = Inr GiftSchema"
  by code_simp

lemma RoomOwner_resolved: "resolveNode (package_reader failed) 40 public_room_owner_document ''/schema/json/public/room-owner.schema.json'' [] = Inr RoomOwnerSchema"
  by code_simp

lemma LiveRoom_resolved: "resolveNode (package_reader failed) 40 public_live_room_document ''/schema/json/public/live-room.schema.json'' [] = Inr LiveRoomSchema"
  by code_simp

lemma ReconnectPolicy_resolved: "resolveNode (package_reader failed) 40 public_reconnect_policy_document ''/schema/json/public/reconnect-policy.schema.json'' [] = Inr ReconnectPolicySchema"
  by code_simp

lemma RoomLookup_resolved: "resolveNode (package_reader failed) 40 public_room_lookup_document ''/schema/json/public/room-lookup.schema.json'' [] = Inr RoomLookupSchema"
  by code_simp

lemma RoomInfo_resolved: "resolveNode (package_reader failed) 40 public_room_info_document ''/schema/json/public/room-info.schema.json'' [] = Inr RoomInfoSchema"
  by code_simp

lemma ChatEvent_resolved: "resolveNode (package_reader failed) 40 public_chat_event_document ''/schema/json/public/chat-event.schema.json'' [] = Inr ChatEventSchema"
  by code_simp

lemma EmoteChatEvent_resolved: "resolveNode (package_reader failed) 40 public_emote_chat_event_document ''/schema/json/public/emote-chat-event.schema.json'' [] = Inr EmoteChatEventSchema"
  by code_simp

lemma GiftEvent_resolved: "resolveNode (package_reader failed) 40 public_gift_event_document ''/schema/json/public/gift-event.schema.json'' [] = Inr GiftEventSchema"
  by code_simp

lemma LikeEvent_resolved: "resolveNode (package_reader failed) 40 public_like_event_document ''/schema/json/public/like-event.schema.json'' [] = Inr LikeEventSchema"
  by code_simp

lemma MemberEvent_resolved: "resolveNode (package_reader failed) 40 public_member_event_document ''/schema/json/public/member-event.schema.json'' [] = Inr MemberEventSchema"
  by code_simp

lemma SocialEvent_resolved: "resolveNode (package_reader failed) 40 public_social_event_document ''/schema/json/public/social-event.schema.json'' [] = Inr SocialEventSchema"
  by code_simp

lemma RoomUserEvent_resolved: "resolveNode (package_reader failed) 40 public_room_user_event_document ''/schema/json/public/room-user-event.schema.json'' [] = Inr RoomUserEventSchema"
  by code_simp

lemma ClientState_resolved: "resolveNode (package_reader failed) 40 public_client_state_document ''/schema/json/public/client-state.schema.json'' [] = Inr ClientStateSchema"
  by code_simp

lemma TikTokImage_typed: "ts_type_of TikTokImageSchema = Inr TikTokImage_type"
  by code_simp

lemma TikTokRoomLookupResponse_typed: "ts_type_of TikTokRoomLookupResponseSchema = Inr TikTokRoomLookupResponse_type"
  by code_simp

lemma TikTokRoomInfoResponse_typed: "ts_type_of TikTokRoomInfoResponseSchema = Inr TikTokRoomInfoResponse_type"
  by code_simp

lemma TikTokGiftListResponse_typed: "ts_type_of TikTokGiftListResponseSchema = Inr TikTokGiftListResponse_type"
  by code_simp

lemma TikTokLiveSearchResponse_typed: "ts_type_of TikTokLiveSearchResponseSchema = Inr TikTokLiveSearchResponse_type"
  by code_simp

lemma TikTokSearchRoom_typed: "ts_type_of TikTokSearchRoomSchema = Inr TikTokSearchRoom_type"
  by code_simp

lemma BaseEvent_typed: "ts_type_of BaseEventSchema = Inr BaseEvent_type"
  by code_simp

lemma EventUser_typed: "ts_type_of EventUserSchema = Inr EventUser_type"
  by code_simp

lemma LiveEmote_typed: "ts_type_of LiveEmoteSchema = Inr LiveEmote_type"
  by code_simp

lemma TopViewer_typed: "ts_type_of TopViewerSchema = Inr TopViewer_type"
  by code_simp

lemma Gift_typed: "ts_type_of GiftSchema = Inr Gift_type"
  by code_simp

lemma RoomOwner_typed: "ts_type_of RoomOwnerSchema = Inr RoomOwner_type"
  by code_simp

lemma LiveRoom_typed: "ts_type_of LiveRoomSchema = Inr LiveRoom_type"
  by code_simp

lemma ReconnectPolicy_typed: "ts_type_of ReconnectPolicySchema = Inr ReconnectPolicy_type"
  by code_simp

lemma RoomLookup_typed: "ts_type_of RoomLookupSchema = Inr RoomLookup_type"
  by code_simp

lemma RoomInfo_typed: "ts_type_of RoomInfoSchema = Inr RoomInfo_type"
  by code_simp

lemma ChatEvent_typed: "ts_type_of ChatEventSchema = Inr ChatEvent_type"
  by code_simp

lemma EmoteChatEvent_typed: "ts_type_of EmoteChatEventSchema = Inr EmoteChatEvent_type"
  by code_simp

lemma GiftEvent_typed: "ts_type_of GiftEventSchema = Inr GiftEvent_type"
  by code_simp

lemma LikeEvent_typed: "ts_type_of LikeEventSchema = Inr LikeEvent_type"
  by code_simp

lemma MemberEvent_typed: "ts_type_of MemberEventSchema = Inr MemberEvent_type"
  by code_simp

lemma SocialEvent_typed: "ts_type_of SocialEventSchema = Inr SocialEvent_type"
  by code_simp

lemma RoomUserEvent_typed: "ts_type_of RoomUserEventSchema = Inr RoomUserEvent_type"
  by code_simp

lemma ClientState_typed: "ts_type_of ClientStateSchema = Inr ClientState_type"
  by code_simp

lemmas files_resolved =
  TikTokImage_resolved TikTokRoomLookupResponse_resolved TikTokRoomInfoResponse_resolved TikTokGiftListResponse_resolved TikTokLiveSearchResponse_resolved TikTokSearchRoom_resolved BaseEvent_resolved EventUser_resolved LiveEmote_resolved TopViewer_resolved Gift_resolved RoomOwner_resolved LiveRoom_resolved ReconnectPolicy_resolved RoomLookup_resolved RoomInfo_resolved ChatEvent_resolved EmoteChatEvent_resolved GiftEvent_resolved LikeEvent_resolved MemberEvent_resolved SocialEvent_resolved RoomUserEvent_resolved ClientState_resolved

lemmas files_typed =
  TikTokImage_typed TikTokRoomLookupResponse_typed TikTokRoomInfoResponse_typed TikTokGiftListResponse_typed TikTokLiveSearchResponse_typed TikTokSearchRoom_typed BaseEvent_typed EventUser_typed LiveEmote_typed TopViewer_typed Gift_typed RoomOwner_typed LiveRoom_typed ReconnectPolicy_typed RoomLookup_typed RoomInfo_typed ChatEvent_typed EmoteChatEvent_typed GiftEvent_typed LikeEvent_typed MemberEvent_typed SocialEvent_typed RoomUserEvent_typed ClientState_typed

lemma paths_distinct: "distinct (map fst schema_directory)"
  by code_simp

lemma files_pair: "list_all2 (\<lambda>(p, schema, t) (p', d). p = p' \<and>
    resolveNode (package_reader failed) 40 d p' [] = Inr schema \<and> ts_type_of schema = Inr t) generated_files (tl schema_directory)"
  by (simp add: generated_files_def schema_directory_def files_resolved files_typed)

lemma files_read: "list_all (\<lambda>(p, schema, t). \<exists>d. map_of schema_directory p = Some d \<and>
    resolveNode (package_reader failed) 40 d p [] = Inr schema \<and> ts_type_of schema = Inr t) generated_files"
proof -
  have read: "map_of schema_directory p = Some d" if "(p, d) \<in> set (tl schema_directory)" for p d
    using paths_distinct list.set_sel(2) [OF _ that] that by (cases "schema_directory = []") auto
  have "\<exists>d. map_of schema_directory p = Some d \<and> resolveNode (package_reader failed) 40 d p [] = Inr schema \<and> ts_type_of schema = Inr t"
    if f: "(p, schema, t) \<in> set generated_files" for p schema t
  proof -
    from list_all2_mem_left [OF files_pair f] obtain d where "(p, d) \<in> set (tl schema_directory)"
      "resolveNode (package_reader failed) 40 d p [] = Inr schema" "ts_type_of schema = Inr t" by auto
    with read show ?thesis by blast
  qed
  then show ?thesis by (auto simp: list_all_iff)
qed

lemma files_of_directory: "map fst generated_files = filter (\<lambda>f. path_basename f \<noteq> ''common.schema.json'') (map fst schema_directory)"
  by code_simp

lemma files_schemas: "map (fst \<circ> snd) generated_files = response_schemas @ public_schemas"
  by (simp add: generated_files_def response_schemas_def public_schemas_def)

text \<open>No schema of the package names a type verbatim, and properties come with a type.\<close>

function plainly_typed :: "json \<Rightarrow> bool" where
  "plainly_typed schema \<longleftrightarrow> typed_node schema \<and> schema_str schema ''x-typescript-type'' = None \<and> list_all plainly_typed (sub_schemas schema)"
  by pat_completeness auto
termination
  by (relation "measure size") (auto dest: sub_schemas_size)

declare plainly_typed.simps [simp del]

lemma plainly_typed_sound: "plainly_typed schema \<Longrightarrow> typed_schema schema \<and> named_sound h named schema"
proof (induction schema rule: plainly_typed.induct)
  case (1 schema)
  then show ?case
    by (auto simp: plainly_typed.simps [of schema] typed_schema.simps [of schema] named_sound.simps [of h named schema] list_all_iff)
qed

lemma files_plain: "list_all (\<lambda>(p, schema, t). plainly_typed schema) generated_files"
  by code_simp

lemma published_types_sound:
  assumes "(p, schema, t) \<in> set generated_files" and "admits h schema v"
  shows "inhabits named t v"
proof -
  from assms(1) files_plain have "plainly_typed schema" by (auto simp: list_all_iff)
  moreover from assms(1) files_read [of "\<lambda>_. Err []"] have "ts_type_of schema = Inr t" by (auto simp: list_all_iff)
  ultimately show ?thesis using plainly_typed_sound ts_type_sound assms(2) by blast
qed

text \<open>One file in full: what the generator writes for the image schema, line by line.\<close>

definition package_generator :: generator where
  "package_generator = \<lparr>gn_host = \<lparr>host_URL = (\<lambda>_. None), host_number = (\<lambda>_. [])\<rparr>, gn_calls = 40,
     gn_text = (\<lambda>v. case v of JStr t \<Rightarrow> t | _ \<Rightarrow> []), gn_shown = id, gn_schemaRoot = ''/schema/json'', gn_outputRoot = ''/gen/json''\<rparr>"

definition image_file :: "string list" where
  "image_file = [
      ''// Generated file. Do not edit manually.'',
      ''// Source: schema/json/tiktok/image.schema.json'',
      [],
      ''export type TikTokImage = {'',
      ''  url_list?: Array<string>;'',
      ''  [key: string]: unknown;'',
      ''};'',
      [],
      ''export const TikTokImageSchema = {'',
      ''  '' @ [CHR 0x22] @ ''$schema'' @ [CHR 0x22] @ '': '' @ [CHR 0x22] @ ''https://json-schema.org/draft/2020-12/schema'' @ [CHR 0x22] @ '','',
      ''  '' @ [CHR 0x22] @ ''$id'' @ [CHR 0x22] @ '': '' @ [CHR 0x22] @ ''https://ttl-live.dev/schema/tiktok/image.schema.json'' @ [CHR 0x22] @ '','',
      ''  '' @ [CHR 0x22] @ ''title'' @ [CHR 0x22] @ '': '' @ [CHR 0x22] @ ''TikTok Image'' @ [CHR 0x22] @ '','',
      ''  '' @ [CHR 0x22] @ ''x-typescript-name'' @ [CHR 0x22] @ '': '' @ [CHR 0x22] @ ''TikTokImage'' @ [CHR 0x22] @ '','',
      ''  '' @ [CHR 0x22] @ ''type'' @ [CHR 0x22] @ '': '' @ [CHR 0x22] @ ''object'' @ [CHR 0x22] @ '','',
      ''  '' @ [CHR 0x22] @ ''properties'' @ [CHR 0x22] @ '': {'',
      ''    '' @ [CHR 0x22] @ ''url_list'' @ [CHR 0x22] @ '': {'',
      ''      '' @ [CHR 0x22] @ ''type'' @ [CHR 0x22] @ '': '' @ [CHR 0x22] @ ''array'' @ [CHR 0x22] @ '','',
      ''      '' @ [CHR 0x22] @ ''items'' @ [CHR 0x22] @ '': {'',
      ''        '' @ [CHR 0x22] @ ''type'' @ [CHR 0x22] @ '': '' @ [CHR 0x22] @ ''string'' @ [CHR 0x22] @ '','',
      ''        '' @ [CHR 0x22] @ ''format'' @ [CHR 0x22] @ '': '' @ [CHR 0x22] @ ''uri'' @ [CHR 0x22],
      ''      }'',
      ''    }'',
      ''  },'',
      ''  '' @ [CHR 0x22] @ ''additionalProperties'' @ [CHR 0x22] @ '': true'',
      ''} as const;'',
      []]"

lemma image_file_generated:
  "generate package_generator (package_reader (\<lambda>_. Err [])) ''/schema/json/tiktok/image.schema.json'' =
     ([Make_directory ''/gen/json/tiktok'', Write_file ''/gen/json/tiktok/image.ts'' (js_join newline image_file)], Inr ())"
  by code_simp

section \<open>Properties\<close>

text \<open>C23: the generated files are current: there is one for every schema file but the common one; its schema constant is what the generator resolves the schema
  file to, on any stack of 40 calls or more; and its type is the one \<open>typeFor\<close> writes for that schema.\<close>

theorem generated_files_current:
  "map fst generated_files = filter (\<lambda>f. path_basename f \<noteq> ''common.schema.json'') (map fst schema_directory) \<and>
   (\<forall>(p, schema, t) \<in> set generated_files. \<exists>d. map_of schema_directory p = Some d \<and>
     (\<forall>calls \<ge> 40. resolveNode (doc_reader failed schema_directory) calls d p [] = Inr schema) \<and>
     typeFor h schema 0 = Inr (ts_print h 0 t))"
proof (rule conjI [OF files_of_directory], clarify)
  fix p schema t
  assume "(p, schema, t) \<in> set generated_files"
  with files_read obtain d where d: "map_of schema_directory p = Some d" "resolveNode (package_reader failed) 40 d p [] = Inr schema"
    "ts_type_of schema = Inr t" by (fastforce simp: list_all_iff)
  have "package_reader failed = doc_reader failed schema_directory" by (simp add: fun_eq_iff package_reader_def)
  with d resolveNode_mono [OF d(2)] show "\<exists>d. map_of schema_directory p = Some d \<and>
     (\<forall>calls \<ge> 40. resolveNode (doc_reader failed schema_directory) calls d p [] = Inr schema) \<and>
     typeFor h schema 0 = Inr (ts_print h 0 t)"
    by (auto simp: typeFor_prints)
qed

theorem generated_files_current_witness:
  "resolveNode (doc_reader (\<lambda>_. Err []) schema_directory) 100 public_top_viewer_document ''/schema/json/public/top-viewer.schema.json'' [] = Inr TopViewerSchema"
proof -
  have "(''/schema/json/public/top-viewer.schema.json'', TopViewerSchema, TopViewer_type) \<in> set generated_files"
    by (simp add: generated_files_def)
  moreover have "map_of schema_directory ''/schema/json/public/top-viewer.schema.json'' = Some public_top_viewer_document"
    by (simp add: schema_directory_def)
  ultimately show ?thesis using generated_files_current [of "\<lambda>_. Err []"] by fastforce
qed

end
