(* ===== verification/Replay.thy ===== *)
theory Replay
  imports Event_Conformance Discovery Frames Schema_Types
begin

text \<open>
  \<open>packages/tiktok-live/scripts/audit-replay.mjs\<close>: recorded batches are decoded once more by the package, and every message is compared with the
  record the native implementation wrote for it. The record of a message is any JSON value, so reading a field of it may throw.
  Reading files and \<open>JSON.parse\<close> are arguments; no record has a member named \<open>toString\<close> or \<open>valueOf\<close>.

  Shown: the script ends with exit code 0 exactly if every file decodes and the records are, one for one and in order, those of the messages, each in agreement
  with what the package makes of its message.
\<close>

section \<open>Comparing values\<close>

text \<open>\<open>String(v)\<close> of a JSON value; \<open>None\<close> is \<open>undefined\<close>.\<close>

fun number_text :: "host \<Rightarrow> jsnumber \<Rightarrow> string" where
  "number_text h PosInf = ''Infinity''"
| "number_text h NegInf = ''-Infinity''"
| "number_text h NaN = ''NaN''"
| "number_text h n = number_str h n"

fun String_json :: "host \<Rightarrow> json \<Rightarrow> string" where
  "String_json h JNull = ''null''"
| "String_json h (JBool b) = (if b then ''true'' else ''false'')"
| "String_json h (JNum n) = number_text h n"
| "String_json h (JStr s) = s"
| "String_json h (JArr vs) = js_join '','' (map (\<lambda>v. if v = JNull then [] else String_json h v) vs)"
| "String_json h (JObj ps) = ''[object Object]''"

definition String_of :: "host \<Rightarrow> json option \<Rightarrow> string" where
  "String_of h v = (case v of None \<Rightarrow> ''undefined'' | Some w \<Rightarrow> String_json h w)"

text \<open>\<open>isDeepStrictEqual\<close>: numbers by \<open>Object.is\<close>, objects whatever the order of their members.\<close>

function deep_equal :: "json \<Rightarrow> json \<Rightarrow> bool" where
  "deep_equal v w = (case v of
       JArr xs \<Rightarrow> (case w of JArr ys \<Rightarrow> length xs = length ys \<and> list_all (\<lambda>(x, y). deep_equal x y) (zip xs ys) | _ \<Rightarrow> False)
     | JObj ps \<Rightarrow> (case w of
           JObj qs \<Rightarrow> length ps = length qs \<and> list_all (\<lambda>(k, x). case obj_get qs k of Some y \<Rightarrow> deep_equal x y | None \<Rightarrow> False) ps
         | _ \<Rightarrow> False)
     | _ \<Rightarrow> v = w)"
  by pat_completeness auto
termination
  by (relation "measure (\<lambda>(v, w). size v)") (auto dest!: set_zip_leftD dest: member_size entry_size)

declare deep_equal.simps [simp del]

definition isDeepStrictEqual :: "json option \<Rightarrow> json option \<Rightarrow> bool" where
  "isDeepStrictEqual v w = (case (v, w) of (None, None) \<Rightarrow> True | (Some x, Some y) \<Rightarrow> deep_equal x y | _ \<Rightarrow> False)"

definition or_empty :: "json option \<Rightarrow> json option" where
  "or_empty v = (case v of None \<Rightarrow> Some (JStr []) | Some JNull \<Rightarrow> Some (JStr []) | Some w \<Rightarrow> Some w)"

section \<open>The script\<close>

record audit =
  au_count :: nat
  au_schemaChecks :: nat
  au_failures :: "(string \<times> string) list"
  au_types :: "(string \<times> nat) list"

type_synonym audit_step = "audit \<Rightarrow> (js_error, audit) result"

definition compare :: "string \<Rightarrow> bool \<Rightarrow> string \<Rightarrow> audit_step" where
  "compare field same location a = Inr (if same then a else a\<lparr>au_failures := au_failures a @ [(location, field)]\<rparr>)"

definition followed_by :: "audit_step \<Rightarrow> audit_step \<Rightarrow> audit_step" where
  "followed_by f g a = res_bind (f a) g"

definition in_turn :: "audit_step list \<Rightarrow> audit_step" where
  "in_turn fs = foldr followed_by fs Inr"

definition read_undefined :: audit_step where
  "read_undefined a = Inl (TypeErr ''Cannot read properties of undefined'')"

definition user_fields :: "(string \<times> string) list" where
  "user_fields = [(''id'', ''userId''), (''nickname'', ''nickname''), (''unique_id'', ''uniqueId''), (''sec_uid'', ''secUid'')]"

definition audit_user :: "json option \<Rightarrow> json option \<Rightarrow> string \<Rightarrow> audit_step" where
  "audit_user rust node location = (case (rust, node) of
       (Some r, Some n) \<Rightarrow>
         if r = JNull \<or> n = JNull then read_undefined
         else in_turn (map (\<lambda>(left, right). compare (''user.'' @ left) (isDeepStrictEqual (j_get r left) (j_get n right)) location) user_fields @
           [compare ''user.avatar'' (isDeepStrictEqual (or_empty (j_get r ''avatar_url'')) (or_empty (j_get n ''avatarUrl''))) location])
     | _ \<Rightarrow> read_undefined)"

text \<open>\<open>projectEmotes\<close>: \<open>{ ...item }\<close> of a string or an array has the characters or elements by index.\<close>

definition spread_item :: "json \<Rightarrow> json jsobj" where
  "spread_item item = (case item of
       JObj ps \<Rightarrow> entries ps
     | JArr xs \<Rightarrow> map (\<lambda>(i, x). (nat_str i, x)) (enumerate 0 xs)
     | JStr s \<Rightarrow> map (\<lambda>(i, c). (nat_str i, JStr [c])) (enumerate 0 s)
     | _ \<Rightarrow> [])"

definition text_member :: "host \<Rightarrow> json \<Rightarrow> string \<Rightarrow> json jsobj \<Rightarrow> json jsobj" where
  "text_member h item k ps = (case j_get item k of Some v \<Rightarrow> obj_put k (JStr (String_json h v)) ps | None \<Rightarrow> ps)"

definition project_emote :: "host \<Rightarrow> json \<Rightarrow> (js_error, json) result" where
  "project_emote h item =
     (if item = JNull then Inl (TypeErr ''Cannot convert undefined or null to object'')
      else Inr (JObj (text_member h item ''emoteType'' (text_member h item ''index'' (spread_item item)))))"

definition projectEmotes :: "host \<Rightarrow> json option \<Rightarrow> (js_error, json) result" where
  "projectEmotes h items = (case items of
       None \<Rightarrow> Inr (JArr [])
     | Some (JArr xs) \<Rightarrow> res_bind (res_map (project_emote h) xs) (\<lambda>ys. Inr (JArr ys))
     | _ \<Rightarrow> Inl (TypeErr ''items.map is not a function''))"

definition audit_emotes :: "host \<Rightarrow> json option \<Rightarrow> json option \<Rightarrow> string \<Rightarrow> audit_step" where
  "audit_emotes h rust node location a =
     res_bind (projectEmotes h rust) (\<lambda>x. res_bind (projectEmotes h node) (\<lambda>y. compare ''emotes'' (deep_equal x y) location a))"

definition audit_rank :: "host \<Rightarrow> string \<Rightarrow> json \<Rightarrow> json \<Rightarrow> string \<Rightarrow> audit_step" where
  "audit_rank h left rank node location =
     in_turn (audit_user (j_get rank ''user'') (j_get node ''user'') location #
       map (\<lambda>name. compare (left @ ''.'' @ name) (String_of h (j_get rank name) = String_of h (j_get node name)) location)
         [''rank'', ''score'', ''delta''])"

definition audit_ranks :: "host \<Rightarrow> string \<Rightarrow> json option \<Rightarrow> json option \<Rightarrow> string \<Rightarrow> audit_step" where
  "audit_ranks h left rust node location = (case (rust, node) of
       (Some (JArr rs), Some (JArr ns)) \<Rightarrow>
         in_turn (compare (left @ ''.length'') (length rs = length ns) location #
           map (\<lambda>(rank, n). audit_rank h left rank n location) (zip rs ns))
     | _ \<Rightarrow> read_undefined)"

definition audit_schemas :: "string \<Rightarrow> json option" where
  "audit_schemas = map_of [(''chat'', ChatEventSchema), (''emoteChat'', EmoteChatEventSchema), (''gift'', GiftEventSchema),
     (''like'', LikeEventSchema), (''member'', MemberEventSchema), (''social'', SocialEventSchema), (''roomUser'', RoomUserEventSchema)]"

definition native_type :: "string \<Rightarrow> string" where
  "native_type t = (if t = ''roomUser'' then ''room_user'' else if t = ''emoteChat'' then ''emote_chat'' else t)"

definition shared_fields :: "string \<Rightarrow> (string \<times> string) list" where
  "shared_fields t = (case map_of
     [(''chat'', [(''comment'', ''comment'')]),
      (''gift'', [(''gift_id'', ''giftId''), (''gift_name'', ''giftName''), (''diamond_count'', ''diamondCount''), (''repeat_count'', ''repeatCount''),
        (''combo_count'', ''comboCount''), (''group_id'', ''groupId''), (''repeat_end'', ''repeatEnd'')]),
      (''like'', [(''count'', ''count''), (''total'', ''total'')]),
      (''member'', [(''member_count'', ''memberCount''), (''action'', ''action'')]),
      (''social'', [(''action'', ''action''), (''follow_count'', ''followCount''), (''share_count'', ''shareCount''), (''share_type'', ''shareType''),
        (''share_target'', ''shareTarget''), (''share_display_style'', ''shareDisplayStyle''), (''follow_type'', ''followType''), (''scene'', ''scene''),
        (''target_user_id'', ''targetUserId'')]),
      (''room_user'', [(''total'', ''viewers''), (''popularity'', ''popularity''), (''total_user'', ''totalUser''), (''anonymous'', ''anonymous'')])] t of
     Some fs \<Rightarrow> fs | None \<Rightarrow> [])"

definition event_type :: "LiveEvent \<Rightarrow> string" where
  "event_type event = (case obj_get (le_props event) ''type'' of Some (JStr t) \<Rightarrow> t | _ \<Rightarrow> [])"

text \<open>An error that is not a validation error has no \<open>path\<close>.\<close>

definition error_path :: "js_error \<Rightarrow> string" where
  "error_path e = (case e of JsonValidationErr endpoint path expect receive \<Rightarrow> path | _ \<Rightarrow> ''unknown'')"

definition audit_schema :: "nat \<Rightarrow> host \<Rightarrow> LiveEvent \<Rightarrow> string \<Rightarrow> audit_step" where
  "audit_schema depth h event location a = (case audit_schemas (event_type event) of
       None \<Rightarrow> Inr a
     | Some schema \<Rightarrow> (case validateJson depth h (JObj (le_props event)) schema ''captured normalized event'' of
           Inr _ \<Rightarrow> Inr (a\<lparr>au_schemaChecks := au_schemaChecks a + 1\<rparr>)
         | Inl e \<Rightarrow> Inr (a\<lparr>au_failures := au_failures a @ [(location, ''json_schema:'' @ error_path e)]\<rparr>)))"

definition count_type :: "string \<Rightarrow> audit_step" where
  "count_type t a = Inr (a\<lparr>au_types := obj_put t (case obj_get (au_types a) t of Some n \<Rightarrow> n + 1 | None \<Rightarrow> 1) (au_types a)\<rparr>)"

text \<open>What is compared once both sides know the event.\<close>

definition audit_event :: "host \<Rightarrow> string \<Rightarrow> json \<Rightarrow> json \<Rightarrow> string \<Rightarrow> audit_step" where
  "audit_event h t rust event location = in_turn
     ((if truthy (j_get rust ''user'') then [audit_user (j_get rust ''user'') (j_get event ''user'') location] else []) @
      map (\<lambda>(left, right). compare left (String_of h (j_get rust left) = String_of h (j_get event right)) location) (shared_fields t) @
      (if t = ''chat'' \<or> t = ''emote_chat'' then [audit_emotes h (j_get rust ''emotes'') (j_get event ''emotes'') location] else []) @
      (if t = ''room_user'' then map (\<lambda>(left, right). audit_ranks h left (j_get rust left) (j_get event right) location)
         [(''top_viewers'', ''topViewers''), (''ranked_viewers'', ''rankedViewers'')] else []))"

definition message_location :: "string \<Rightarrow> nat \<Rightarrow> string" where
  "message_location filename i = filename @ '':'' @ nat_str i"

definition audit_message :: "nat \<Rightarrow> host \<Rightarrow> decoders \<Rightarrow> string \<Rightarrow> nat \<Rightarrow> BaseProtoMessage \<Rightarrow> json \<Rightarrow> audit_step" where
  "audit_message depth h decs filename i message record =
     (let location = message_location filename i; event = decodeEvent h decs (bm_method message) (bm_payload message);
          rust = j_get record ''normalized''; t = native_type (event_type event)
      in in_turn
        ([compare ''order'' (isDeepStrictEqual (j_get record ''batch'') (Some (JStr filename)) \<and>
            isDeepStrictEqual (j_get record ''index'') (Some (jint (int i)))) location,
          compare ''method'' (isDeepStrictEqual (j_get record ''method'') (Some (JStr (bm_method message)))) location,
          compare ''message_id'' (isDeepStrictEqual (j_get record ''message_id'') (Some (JStr (int_str (bm_msgId message))))) location,
          compare ''history'' (isDeepStrictEqual (j_get record ''history'') (Some (JBool (bm_isHistory message)))) location,
          audit_schema depth h event location,
          count_type t,
          compare ''type'' (isDeepStrictEqual (case j_opt rust ''type'' of None \<Rightarrow> Some (JStr ''unknown'')
            | Some JNull \<Rightarrow> Some (JStr ''unknown'') | v \<Rightarrow> v) (Some (JStr t))) location] @
         (if \<not> truthy rust \<or> t = ''unknown'' then [] else [audit_event h t (the rust) (JObj (le_props event)) location])))"

fun audit_messages :: "nat \<Rightarrow> host \<Rightarrow> decoders \<Rightarrow> json list \<Rightarrow> string \<Rightarrow> (nat \<times> BaseProtoMessage) list \<Rightarrow> audit_step" where
  "audit_messages depth h decs records filename [] a = Inr a"
| "audit_messages depth h decs records filename ((i, message) # ms) a =
     (let record = (if au_count a < length records then Some (records ! au_count a) else None); a' = a\<lparr>au_count := au_count a + 1\<rparr>
      in if \<not> truthy record then Inl (Err (''missing Rust record at '' @ message_location filename i))
         else res_bind (audit_message depth h decs filename i message (the record) a')
           (audit_messages depth h decs records filename ms))"

record replay =
  rp_host :: host
  rp_depth :: nat
  rp_decoders :: decoders
  rp_batch :: "ProtoMessageFetchResult decoder"
  rp_parse :: "string \<Rightarrow> (js_error, json) result"
  rp_readText :: "string \<Rightarrow> (js_error, string) result"
  rp_readdir :: "string \<Rightarrow> (js_error, string list) result"
  rp_readBytes :: "string \<Rightarrow> (js_error, bytes) result"

definition read_batch :: "replay \<Rightarrow> string \<Rightarrow> string \<Rightarrow> (js_error, ProtoMessageFetchResult) result" where
  "read_batch rp directory filename = res_bind (rp_readBytes rp (path_join directory filename)) (decodeBatch (rp_batch rp))"

fun audit_files :: "replay \<Rightarrow> json list \<Rightarrow> string \<Rightarrow> string list \<Rightarrow> audit_step" where
  "audit_files rp records directory [] a = Inr a"
| "audit_files rp records directory (f # fs) a =
     res_bind (read_batch rp directory f) (\<lambda>batch.
     res_bind (audit_messages (rp_depth rp) (rp_host rp) (rp_decoders rp) records f (enumerate 0 (fr_messages batch)) a)
       (audit_files rp records directory fs))"

text \<open>\<open>/^batch-.*\.pb$/\<close>, and \<open>sort()\<close> by code units.\<close>

definition batch_name :: "string \<Rightarrow> bool" where
  "batch_name n \<longleftrightarrow> starts_with ''batch-'' n \<and> ends_with ''.pb'' (drop 6 n) \<and> list_all (\<lambda>c. c \<noteq> CHR 0x0A \<and> c \<noteq> CHR 0x0D) n"

fun str_le :: "string \<Rightarrow> string \<Rightarrow> bool" where
  "str_le [] t = True"
| "str_le (c # s) [] = False"
| "str_le (c # s) (d # t) = (code c < code d \<or> (c = d \<and> str_le s t))"

fun insert_name :: "string \<Rightarrow> string list \<Rightarrow> string list" where
  "insert_name x [] = [x]"
| "insert_name x (y # ys) = (if str_le x y then x # y # ys else y # insert_name x ys)"

definition batch_files :: "string list \<Rightarrow> string list" where
  "batch_files names = foldr insert_name (filter batch_name names) []"

definition read_records :: "replay \<Rightarrow> string \<Rightarrow> (js_error, json list) result" where
  "read_records rp rustOutput =
     res_bind (rp_readText rp rustOutput) (\<lambda>text. res_map (rp_parse rp) (split_on (CHR 0x0A) (js_trim text)))"

text \<open>The report and the exit code.\<close>

record report =
  re_events :: nat
  re_types :: "(string \<times> nat) list"
  re_schema_checks :: nat
  re_failures :: "(string \<times> string) list"
  re_failure_count :: nat
  re_exitCode :: nat

definition report_of :: "audit \<Rightarrow> report" where
  "report_of a = \<lparr>re_events = au_count a, re_types = au_types a, re_schema_checks = au_schemaChecks a,
     re_failures = take 100 (au_failures a), re_failure_count = length (au_failures a), re_exitCode = (if au_failures a \<noteq> [] then 1 else 0)\<rparr>"

definition audit_replay :: "replay \<Rightarrow> string list \<Rightarrow> (js_error, report) result" where
  "audit_replay rp args = (case args of
       directory # rustOutput # _ \<Rightarrow>
         if directory = [] \<or> rustOutput = [] then Inl (Err ''usage: audit-replay.mjs CAPTURE_DIR RUST_JSONL'')
         else res_bind (read_records rp rustOutput) (\<lambda>records.
           res_bind (rp_readdir rp directory) (\<lambda>names.
           res_bind (audit_files rp records directory (batch_files names) \<lparr>au_count = 0, au_schemaChecks = 0, au_failures = [], au_types = []\<rparr>) (\<lambda>a.
           res_bind (compare ''total_records'' (length records = au_count a) ''corpus'' a) (\<lambda>a'. Inr (report_of a')))))
     | _ \<Rightarrow> Inl (Err ''usage: audit-replay.mjs CAPTURE_DIR RUST_JSONL''))"

section \<open>Agreement\<close>

text \<open>When a record agrees with a message, without the bookkeeping of the script.\<close>

definition users_agree :: "json option \<Rightarrow> json option \<Rightarrow> bool" where
  "users_agree rust node \<longleftrightarrow> (\<exists>r n. rust = Some r \<and> node = Some n \<and> r \<noteq> JNull \<and> n \<noteq> JNull \<and>
     (\<forall>(left, right) \<in> set user_fields. isDeepStrictEqual (j_get r left) (j_get n right)) \<and>
     isDeepStrictEqual (or_empty (j_get r ''avatar_url'')) (or_empty (j_get n ''avatarUrl'')))"

definition emotes_agree :: "host \<Rightarrow> json option \<Rightarrow> json option \<Rightarrow> bool" where
  "emotes_agree h rust node \<longleftrightarrow> (\<exists>x y. projectEmotes h rust = Inr x \<and> projectEmotes h node = Inr y \<and> deep_equal x y)"

definition rank_agrees :: "host \<Rightarrow> json \<Rightarrow> json \<Rightarrow> bool" where
  "rank_agrees h rank node \<longleftrightarrow> users_agree (j_get rank ''user'') (j_get node ''user'') \<and>
     (\<forall>name \<in> {''rank'', ''score'', ''delta''}. String_of h (j_get rank name) = String_of h (j_get node name))"

definition ranks_agree :: "host \<Rightarrow> json option \<Rightarrow> json option \<Rightarrow> bool" where
  "ranks_agree h rust node \<longleftrightarrow> (\<exists>rs ns. rust = Some (JArr rs) \<and> node = Some (JArr ns) \<and> list_all2 (rank_agrees h) rs ns)"

definition event_agrees :: "host \<Rightarrow> string \<Rightarrow> json \<Rightarrow> json \<Rightarrow> bool" where
  "event_agrees h t rust event \<longleftrightarrow>
     (truthy (j_get rust ''user'') \<longrightarrow> users_agree (j_get rust ''user'') (j_get event ''user'')) \<and>
     (\<forall>(left, right) \<in> set (shared_fields t). String_of h (j_get rust left) = String_of h (j_get event right)) \<and>
     (t = ''chat'' \<or> t = ''emote_chat'' \<longrightarrow> emotes_agree h (j_get rust ''emotes'') (j_get event ''emotes'')) \<and>
     (t = ''room_user'' \<longrightarrow> ranks_agree h (j_get rust ''top_viewers'') (j_get event ''topViewers'') \<and>
        ranks_agree h (j_get rust ''ranked_viewers'') (j_get event ''rankedViewers''))"

definition agrees :: "host \<Rightarrow> decoders \<Rightarrow> json \<Rightarrow> string \<times> nat \<times> BaseProtoMessage \<Rightarrow> bool" where
  "agrees h decs record item = (case item of (filename, i, message) \<Rightarrow>
     j_get record ''batch'' = Some (JStr filename) \<and> j_get record ''index'' = Some (jint (int i)) \<and>
     j_get record ''method'' = Some (JStr (bm_method message)) \<and> j_get record ''message_id'' = Some (JStr (int_str (bm_msgId message))) \<and>
     j_get record ''history'' = Some (JBool (bm_isHistory message)) \<and>
     (let event = decodeEvent h decs (bm_method message) (bm_payload message); t = native_type (event_type event)
      in if t = ''unknown'' then j_opt (j_get record ''normalized'') ''type'' \<in> {None, Some JNull, Some (JStr ''unknown'')}
         else \<exists>rust. j_get record ''normalized'' = Some rust \<and> j_get rust ''type'' = Some (JStr t) \<and> event_agrees h t rust (JObj (le_props event))))"

definition listing :: "string list \<Rightarrow> ProtoMessageFetchResult list \<Rightarrow> (string \<times> nat \<times> BaseProtoMessage) list" where
  "listing files batches = concat (map2 (\<lambda>f b. map (Pair f) (enumerate 0 (fr_messages b))) files batches)"

section \<open>The script decides agreement\<close>

text \<open>A part of the script that finds no failure exactly if \<open>agreed\<close> holds, and does not count.\<close>

definition decides_agreement :: "audit_step \<Rightarrow> bool \<Rightarrow> bool" where
  "decides_agreement f agreed \<longleftrightarrow> (\<forall>a. case f a of
       Inl _ \<Rightarrow> \<not> (au_failures a = [] \<and> agreed)
     | Inr a' \<Rightarrow> au_count a' = au_count a \<and> (au_failures a' = [] \<longleftrightarrow> au_failures a = [] \<and> agreed))"

lemma agreement_compare: "decides_agreement (compare field same location) same"
  by (simp add: decides_agreement_def compare_def)

lemma agreement_throws: "\<not> agreed \<Longrightarrow> decides_agreement read_undefined agreed"
  by (simp add: decides_agreement_def read_undefined_def)

lemma agreement_Nil: "decides_agreement (in_turn []) True"
  by (simp add: decides_agreement_def in_turn_def)

lemma agreement_Cons:
  assumes "decides_agreement f A" and "decides_agreement (in_turn fs) B"
  shows "decides_agreement (in_turn (f # fs)) (A \<and> B)"
proof -
  have "in_turn (f # fs) a = res_bind (f a) (in_turn fs)" for a by (simp add: in_turn_def followed_by_def fun_eq_iff)
  with assms show ?thesis unfolding decides_agreement_def by (fastforce split: sum.splits simp: res_bind_def)
qed

lemma agreement_append:
  "decides_agreement (in_turn fs) A \<Longrightarrow> decides_agreement (in_turn gs) B \<Longrightarrow> decides_agreement (in_turn (fs @ gs)) (A \<and> B)"
proof -
  have "in_turn (fs @ gs) = (\<lambda>a. res_bind (in_turn fs a) (in_turn gs))"
    by (induction fs) (simp_all add: in_turn_def followed_by_def [abs_def] res_bind_assoc)
  then show "decides_agreement (in_turn fs) A \<Longrightarrow> decides_agreement (in_turn gs) B \<Longrightarrow> ?thesis"
    unfolding decides_agreement_def by (fastforce split: sum.splits simp: res_bind_def)
qed

lemma agreement_map:
  "(\<And>x. x \<in> set xs \<Longrightarrow> decides_agreement (f x) (P x)) \<Longrightarrow> decides_agreement (in_turn (map f xs)) (\<forall>x \<in> set xs. P x)"
  by (induction xs) (simp_all add: agreement_Nil agreement_Cons)

lemma agreement_cong: "decides_agreement f A \<Longrightarrow> A = B \<Longrightarrow> decides_agreement f B"
  by simp

lemma agreement_if: "(c \<Longrightarrow> decides_agreement (in_turn fs) A) \<Longrightarrow> decides_agreement (in_turn (if c then fs else [])) (c \<longrightarrow> A)"
  using agreement_Nil by auto

lemma agreement_user: "decides_agreement (audit_user rust node location) (users_agree rust node)"
proof (cases "\<exists>r n. rust = Some r \<and> node = Some n \<and> r \<noteq> JNull \<and> n \<noteq> JNull")
  case True
  then obtain r n where rn: "rust = Some r" "node = Some n" "r \<noteq> JNull" "n \<noteq> JNull" by blast
  have eq: "audit_user rust node location =
      in_turn (map (\<lambda>(left, right). compare (''user.'' @ left) (isDeepStrictEqual (j_get r left) (j_get n right)) location) user_fields @
        [compare ''user.avatar'' (isDeepStrictEqual (or_empty (j_get r ''avatar_url'')) (or_empty (j_get n ''avatarUrl''))) location])"
    using rn by (simp add: audit_user_def)
  have "decides_agreement (audit_user rust node location) ((\<forall>(left, right) \<in> set user_fields. isDeepStrictEqual (j_get r left) (j_get n right)) \<and>
      isDeepStrictEqual (or_empty (j_get r ''avatar_url'')) (or_empty (j_get n ''avatarUrl'')) \<and> True)"
    unfolding eq by (intro agreement_append agreement_Cons agreement_Nil agreement_compare agreement_map) (auto intro: agreement_compare)
  with rn show ?thesis by (simp add: users_agree_def)
next
  case False
  then have "audit_user rust node location = read_undefined" by (auto simp: audit_user_def split: option.splits)
  moreover have "\<not> users_agree rust node" using False by (auto simp: users_agree_def)
  ultimately show ?thesis by (simp add: agreement_throws)
qed

lemma agreement_emotes: "decides_agreement (audit_emotes h rust node location) (emotes_agree h rust node)"
  by (auto simp: decides_agreement_def audit_emotes_def emotes_agree_def res_bind_def compare_def split: sum.splits)

lemma agreement_rank: "decides_agreement (audit_rank h left rank node location) (rank_agrees h rank node)"
proof -
  have "decides_agreement (audit_rank h left rank node location) (users_agree (j_get rank ''user'') (j_get node ''user'') \<and>
      (\<forall>name \<in> set [''rank'', ''score'', ''delta'']. String_of h (j_get rank name) = String_of h (j_get node name)))"
    unfolding audit_rank_def by (intro agreement_Cons agreement_user agreement_map agreement_compare)
  then show ?thesis by (simp add: rank_agrees_def)
qed

lemma agreement_ranks: "decides_agreement (audit_ranks h left rust node location) (ranks_agree h rust node)"
proof (cases "\<exists>rs ns. rust = Some (JArr rs) \<and> node = Some (JArr ns)")
  case True
  then obtain rs ns where rn: "rust = Some (JArr rs)" "node = Some (JArr ns)" by blast
  have "decides_agreement (audit_ranks h left rust node location) (length rs = length ns \<and> (\<forall>(rank, n) \<in> set (zip rs ns). rank_agrees h rank n))"
    unfolding rn audit_ranks_def option.case json.case prod.case
    by (intro agreement_Cons agreement_compare agreement_map) (auto intro: agreement_rank)
  then show ?thesis by (simp add: rn ranks_agree_def list_all2_iff)
next
  case False
  then have "audit_ranks h left rust node location = read_undefined" by (auto simp: audit_ranks_def split: option.splits json.splits)
  moreover have "\<not> ranks_agree h rust node" using False by (auto simp: ranks_agree_def)
  ultimately show ?thesis by (simp add: agreement_throws)
qed

lemma agreement_event: "decides_agreement (audit_event h t rust event location) (event_agrees h t rust event)"
proof -
  have user: "decides_agreement (in_turn (if truthy (j_get rust ''user'') then [audit_user (j_get rust ''user'') (j_get event ''user'') location] else []))
      (truthy (j_get rust ''user'') \<longrightarrow> users_agree (j_get rust ''user'') (j_get event ''user'') \<and> True)"
    by (intro agreement_if agreement_Cons agreement_Nil agreement_user)
  have fields: "decides_agreement (in_turn (map (\<lambda>(left, right). compare left (String_of h (j_get rust left) = String_of h (j_get event right)) location) (shared_fields t)))
      (\<forall>(left, right) \<in> set (shared_fields t). String_of h (j_get rust left) = String_of h (j_get event right))"
    by (rule agreement_map) (auto intro: agreement_compare)
  have emotes: "decides_agreement (in_turn (if t = ''chat'' \<or> t = ''emote_chat'' then [audit_emotes h (j_get rust ''emotes'') (j_get event ''emotes'') location] else []))
      (t = ''chat'' \<or> t = ''emote_chat'' \<longrightarrow> emotes_agree h (j_get rust ''emotes'') (j_get event ''emotes'') \<and> True)"
    by (intro agreement_if agreement_Cons agreement_Nil agreement_emotes)
  have ranks: "decides_agreement (in_turn (if t = ''room_user'' then map (\<lambda>(left, right). audit_ranks h left (j_get rust left) (j_get event right) location)
         [(''top_viewers'', ''topViewers''), (''ranked_viewers'', ''rankedViewers'')] else []))
      (t = ''room_user'' \<longrightarrow> (\<forall>(left, right) \<in> set [(''top_viewers'', ''topViewers''), (''ranked_viewers'', ''rankedViewers'')].
         ranks_agree h (j_get rust left) (j_get event right)))"
    by (intro agreement_if agreement_map) (auto intro: agreement_ranks)
  show ?thesis unfolding audit_event_def
    by (rule agreement_cong [OF agreement_append [OF user agreement_append [OF fields agreement_append [OF emotes ranks]]]])
      (simp add: event_agrees_def)
qed

lemma deep_equal_scalar [simp]: "deep_equal v (JStr s) \<longleftrightarrow> v = JStr s" "deep_equal v (JNum n) \<longleftrightarrow> v = JNum n" "deep_equal v (JBool b) \<longleftrightarrow> v = JBool b"
  by (subst deep_equal.simps; auto split: json.split)+

lemma equal_scalar:
  "isDeepStrictEqual v (Some (JStr s)) \<longleftrightarrow> v = Some (JStr s)" "isDeepStrictEqual v (Some (JNum n)) \<longleftrightarrow> v = Some (JNum n)"
  "isDeepStrictEqual v (Some (JBool b)) \<longleftrightarrow> v = Some (JBool b)"
  by (auto simp: isDeepStrictEqual_def split: option.split)

lemma event_types:
  "event_type \<lparr>le_props = obj_put ''method'' v (normalize_chat h m1), le_payload = p\<rparr> = ''chat''"
  "event_type \<lparr>le_props = obj_put ''method'' v (normalize_emoteChat h m2), le_payload = p\<rparr> = ''emoteChat''"
  "event_type \<lparr>le_props = obj_put ''method'' v (normalize_gift m3), le_payload = p\<rparr> = ''gift''"
  "event_type \<lparr>le_props = obj_put ''method'' v (normalize_like m4), le_payload = p\<rparr> = ''like''"
  "event_type \<lparr>le_props = obj_put ''method'' v (normalize_member m5), le_payload = p\<rparr> = ''member''"
  "event_type \<lparr>le_props = obj_put ''method'' v (normalize_social m6), le_payload = p\<rparr> = ''social''"
  "event_type \<lparr>le_props = obj_put ''method'' v (normalize_roomUser m7), le_payload = p\<rparr> = ''roomUser''"
  "event_type (unknown_event name payload) = ''unknown''"
  unfolding put_method
  by (simp_all add: event_type_def unknown_event_def normalize_chat_def normalize_emoteChat_def normalize_gift_def normalize_like_def normalize_member_def
      normalize_social_def normalize_roomUser_def Let_def)

lemma audit_schemas_simps:
  "audit_schemas ''chat'' = Some ChatEventSchema" "audit_schemas ''emoteChat'' = Some EmoteChatEventSchema" "audit_schemas ''gift'' = Some GiftEventSchema"
  "audit_schemas ''like'' = Some LikeEventSchema" "audit_schemas ''member'' = Some MemberEventSchema" "audit_schemas ''social'' = Some SocialEventSchema"
  "audit_schemas ''roomUser'' = Some RoomUserEventSchema" "audit_schemas ''unknown'' = None"
  by (simp_all add: audit_schemas_def)

lemma known_event_schema:
  assumes "NORMALIZE h decs name = Some (\<lambda>p. res_bind (d p) (\<lambda>m. Inr (f m)))" and "event_schema name = Some schema"
    and "\<And>m. audit_schemas (event_type \<lparr>le_props = obj_put ''method'' (JStr name) (f m), le_payload = None\<rparr>) = Some schema"
  shows "audit_schemas (event_type (decodeEvent h decs name payload)) = (case event_schema name of None \<Rightarrow> None
     | Some schema \<Rightarrow> (case the (NORMALIZE h decs name) payload of Inl _ \<Rightarrow> None | Inr _ \<Rightarrow> Some schema))"
  using assms by (cases "d payload") (simp_all add: decodeEvent_def event_types audit_schemas_simps)

lemma event_type_known:
  "audit_schemas (event_type (decodeEvent h decs name payload)) = (case event_schema name of None \<Rightarrow> None
     | Some schema \<Rightarrow> (case the (NORMALIZE h decs name) payload of Inl _ \<Rightarrow> None | Inr _ \<Rightarrow> Some schema))"
proof -
  consider "name = METHOD_chat" | "name = METHOD_emoteChat" | "name = METHOD_gift" | "name = METHOD_like"
    | "name = METHOD_member" | "name = METHOD_social" | "name = METHOD_roomUser"
    | "event_schema name = None" "NORMALIZE h decs name = None"
    using unknown_method(1) [of name] unknown_method(2) [of name h decs] by satx
  then show ?thesis
  proof cases
    case 8
    then show ?thesis by (simp add: decodeEvent_def event_types audit_schemas_simps)
  qed (rule known_event_schema, simp only: NORMALIZE_simps, simp only: event_schema_simps, simp only: event_types audit_schemas_simps)+
qed

lemma agreement_schema:
  assumes "wire_ok h decs payload" and "1000 \<le> depth"
  shows "decides_agreement (audit_schema depth h (decodeEvent h decs name payload) location) True"
proof (cases "audit_schemas (event_type (decodeEvent h decs name payload))")
  case None
  then show ?thesis by (simp add: decides_agreement_def audit_schema_def)
next
  case (Some schema)
  let ?e = "JObj (le_props (decodeEvent h decs name payload))"
  have "admits h schema ?e" using Some decodeEvent_admits [OF assms(1), of name] by (auto simp: event_type_known split: option.splits sum.splits)
  moreover have "schema \<in> set public_schemas" using Some by (auto simp: audit_schemas_def public_schemas_def split: if_splits)
  then have "supported schema" "size schema < depth" using schema_supported [of schema] assms(2) by auto
  ultimately have "validateJson depth h ?e schema ''captured normalized event'' = Inr ?e"
    using check_decides [of schema depth h ?e "''$''" schema] by (auto simp: decides_def validateJson_def)
  with Some show ?thesis by (simp add: decides_agreement_def audit_schema_def)
qed

lemma agreement_count: "decides_agreement (count_type t) True"
  by (simp add: decides_agreement_def count_type_def)

lemma agreement_message:
  assumes "wire_ok h decs (bm_payload message)" and "1000 \<le> depth"
  shows "decides_agreement (audit_message depth h decs filename i message record) (agrees h decs record (filename, i, message))"
proof -
  let ?event = "decodeEvent h decs (bm_method message) (bm_payload message)" and ?rust = "j_get record ''normalized''"
  let ?t = "native_type (event_type ?event)" and ?l = "message_location filename i"
  let ?kind = "case j_opt ?rust ''type'' of None \<Rightarrow> Some (JStr ''unknown'') | Some JNull \<Rightarrow> Some (JStr ''unknown'') | v \<Rightarrow> v"
  note schema = agreement_schema [OF assms, of "bm_method message" ?l]
  have body: "decides_agreement (in_turn (if \<not> truthy ?rust \<or> ?t = ''unknown'' then [] else [audit_event h ?t (the ?rust) (JObj (le_props ?event)) ?l]))
      (\<not> truthy ?rust \<or> ?t = ''unknown'' \<or> event_agrees h ?t (the ?rust) (JObj (le_props ?event)))"
    using agreement_Nil agreement_Cons [OF agreement_event agreement_Nil] by auto
  have kind: "?kind = Some (JStr ?t) \<longleftrightarrow> (if ?t = ''unknown'' then j_opt ?rust ''type'' \<in> {None, Some JNull, Some (JStr ''unknown'')}
      else \<exists>rust. ?rust = Some rust \<and> j_get rust ''type'' = Some (JStr ?t))"
    by (cases ?rust) (auto split: option.splits json.splits)
  have "j_get v ''type'' = Some x \<Longrightarrow> truthy (Some v)" for v x by (cases v) auto
  then have agreed: "agrees h decs record (filename, i, message) \<longleftrightarrow> (j_get record ''batch'' = Some (JStr filename) \<and> j_get record ''index'' = Some (jint (int i))) \<and>
      j_get record ''method'' = Some (JStr (bm_method message)) \<and> j_get record ''message_id'' = Some (JStr (int_str (bm_msgId message))) \<and>
      j_get record ''history'' = Some (JBool (bm_isHistory message)) \<and> True \<and> True \<and> ?kind = Some (JStr ?t) \<and>
      (\<not> truthy ?rust \<or> ?t = ''unknown'' \<or> event_agrees h ?t (the ?rust) (JObj (le_props ?event)))"
    unfolding kind by (auto simp: agrees_def Let_def)
  show ?thesis
    unfolding agreed audit_message_def Let_def append.simps
    by (intro agreement_Cons schema agreement_count body agreement_cong [OF agreement_compare]) (simp_all add: equal_scalar)
qed

text \<open>The records from the \<open>n\<close>th on agree with the messages of a list; and a part of the script that takes one record after the other.\<close>

fun matched :: "('r \<Rightarrow> 'm \<Rightarrow> bool) \<Rightarrow> 'r list \<Rightarrow> nat \<Rightarrow> 'm list \<Rightarrow> bool" where
  "matched R records n [] = True"
| "matched R records n (m # ms) = (n < length records \<and> R (records ! n) m \<and> matched R records (Suc n) ms)"

lemma matched_append: "matched R records n (xs @ ys) \<longleftrightarrow> matched R records n xs \<and> matched R records (n + length xs) ys"
  by (induction xs arbitrary: n) auto

lemma matched_all: "matched R records n ms \<and> length records = n + length ms \<longleftrightarrow> n \<le> length records \<and> list_all2 R (drop n records) ms"
proof (induction ms arbitrary: n)
  case (Cons m ms)
  show ?case
  proof (cases "n < length records")
    case True
    then have "drop n records = records ! n # drop (Suc n) records" by (simp add: Cons_nth_drop_Suc)
    with True Cons.IH [of "Suc n"] show ?thesis by auto
  qed auto
qed auto

definition consumes :: "audit_step \<Rightarrow> ('r \<Rightarrow> 'm \<Rightarrow> bool) \<Rightarrow> 'r list \<Rightarrow> 'm list \<Rightarrow> bool" where
  "consumes f R records ms \<longleftrightarrow> (\<forall>a. case f a of
       Inl _ \<Rightarrow> \<not> (au_failures a = [] \<and> matched R records (au_count a) ms)
     | Inr a' \<Rightarrow> au_count a' = au_count a + length ms \<and> (au_failures a' = [] \<longleftrightarrow> au_failures a = [] \<and> matched R records (au_count a) ms))"

lemma consumes_append:
  assumes "consumes f R records xs" and "consumes g R records ys"
  shows "consumes (\<lambda>a. res_bind (f a) g) R records (xs @ ys)"
  unfolding consumes_def
proof
  fix a
  show "case res_bind (f a) g of Inl _ \<Rightarrow> \<not> (au_failures a = [] \<and> matched R records (au_count a) (xs @ ys))
     | Inr a' \<Rightarrow> au_count a' = au_count a + length (xs @ ys) \<and> (au_failures a' = [] \<longleftrightarrow> au_failures a = [] \<and> matched R records (au_count a) (xs @ ys))"
  proof (cases "f a")
    case (Inl e)
    with assms(1) show ?thesis by (auto simp: consumes_def matched_append dest: spec [of _ a])
  next
    case (Inr b)
    then have "au_count b = au_count a + length xs" "au_failures b = [] \<longleftrightarrow> au_failures a = [] \<and> matched R records (au_count a) xs"
      using assms(1) [unfolded consumes_def, rule_format, of a] by simp_all
    with Inr assms(2) [unfolded consumes_def, rule_format, of b] show ?thesis by (auto simp: matched_append split: sum.splits)
  qed
qed

lemma consumes_message:
  assumes "\<And>r. decides_agreement (audit_message depth h decs f i m r) (agrees h decs r (f, i, m))"
  shows "consumes (\<lambda>a. audit_messages depth h decs records f [(i, m)] a) (agrees h decs) records [(f, i, m)]"
  unfolding consumes_def
proof
  fix a :: audit
  let ?n = "au_count a" and ?b = "a\<lparr>au_count := au_count a + 1\<rparr>"
  have "truthy (Some r)" if "agrees h decs r (f, i, m)" for r using that by (cases r) (auto simp: agrees_def)
  then have falsy: "\<not> (?n < length records \<and> agrees h decs (records ! ?n) (f, i, m))"
    if "\<not> truthy (if ?n < length records then Some (records ! ?n) else None)"
    using that by (auto split: if_splits)
  show "case audit_messages depth h decs records f [(i, m)] a of
      Inl _ \<Rightarrow> \<not> (au_failures a = [] \<and> matched (agrees h decs) records ?n [(f, i, m)])
    | Inr a' \<Rightarrow> au_count a' = ?n + length [(f, i, m)] \<and>
        (au_failures a' = [] \<longleftrightarrow> au_failures a = [] \<and> matched (agrees h decs) records ?n [(f, i, m)])"
  proof (cases "truthy (if ?n < length records then Some (records ! ?n) else None)")
    case True
    then have "?n < length records" by (auto split: if_splits)
    with True assms [of "records ! ?n", unfolded decides_agreement_def, rule_format, of ?b] show ?thesis
      by (auto simp: Let_def res_bind_def split: sum.splits)
  next
    case False
    with falsy show ?thesis by (auto simp: Let_def)
  qed
qed

lemma audit_messages_append:
  "audit_messages depth h decs records f (xs @ ys) = (\<lambda>a. res_bind (audit_messages depth h decs records f xs a) (audit_messages depth h decs records f ys))"
proof (induction xs)
  case (Cons x xs)
  note IH = this
  show ?case by (rule ext, cases x) (simp add: IH Let_def res_bind_assoc)
qed (simp add: fun_eq_iff)

lemma consumes_messages:
  assumes "\<forall>(i, m) \<in> set ims. wire_ok h decs (bm_payload m)" and "1000 \<le> depth"
  shows "consumes (audit_messages depth h decs records f ims) (agrees h decs) records (map (Pair f) ims)"
  using assms(1)
proof (induction ims)
  case Nil
  then show ?case by (simp add: consumes_def)
next
  case (Cons x ims)
  obtain i m where x: "x = (i, m)" by (cases x)
  with Cons.prems have "wire_ok h decs (bm_payload m)" by simp
  then have "consumes (audit_messages depth h decs records f [(i, m)]) (agrees h decs) records [(f, i, m)]"
    by (intro consumes_message agreement_message assms(2))
  from consumes_append [OF this] Cons audit_messages_append [of depth h decs records f "[(i, m)]" ims] show ?case by (simp add: x)
qed

lemma consumes_files:
  assumes "\<forall>f b m. read_batch rp directory f = Inr b \<and> m \<in> set (fr_messages b) \<longrightarrow> wire_ok (rp_host rp) (rp_decoders rp) (bm_payload m)"
    and "1000 \<le> rp_depth rp"
  shows "case res_map (read_batch rp directory) fs of
      Inl _ \<Rightarrow> \<forall>a. \<not> is_ok (audit_files rp records directory fs a)
    | Inr batches \<Rightarrow> consumes (audit_files rp records directory fs) (agrees (rp_host rp) (rp_decoders rp)) records (listing fs batches)"
proof (induction fs)
  case Nil
  then show ?case by (simp add: consumes_def listing_def)
next
  case (Cons f fs)
  show ?case
  proof (cases "read_batch rp directory f")
    case (Inr b)
    let ?ms = "audit_messages (rp_depth rp) (rp_host rp) (rp_decoders rp) records f (enumerate 0 (fr_messages b))"
    have step: "audit_files rp records directory (f # fs) = (\<lambda>a. res_bind (?ms a) (audit_files rp records directory fs))"
      using Inr by (simp add: fun_eq_iff)
    have ms: "consumes ?ms (agrees (rp_host rp) (rp_decoders rp)) records (map (Pair f) (enumerate 0 (fr_messages b)))"
      using assms(1) Inr nth_mem [of _ "fr_messages b"] by (intro consumes_messages assms(2)) (fastforce simp: in_set_enumerate_eq)
    show ?thesis
    proof (cases "res_map (read_batch rp directory) fs")
      case (Inl e)
      with Cons.IH have "\<not> is_ok (audit_files rp records directory fs a)" for a by simp
      then have "\<not> is_ok (res_bind (?ms a) (audit_files rp records directory fs))" for a by (cases "?ms a") simp_all
      with Inr Inl show ?thesis unfolding step by simp
    next
      case (Inr bs)
      with Cons.IH consumes_append [OF ms] \<open>read_batch rp directory f = Inr b\<close> show ?thesis unfolding step by (simp add: listing_def)
    qed
  qed simp
qed

section \<open>Properties\<close>

text \<open>C24: when the recorded messages have ids that are not negative and avatar URLs that parse, the audit ends with exit code 0 exactly if the
  native records and the recorded batches can all be read and the records agree, one for one and in the order of files and messages, with what the package makes
  of the messages: place, method, id, history flag, kind of event, users, the shared fields, emotes and ranks.\<close>

theorem audit_replay_exact:
  assumes "\<forall>f b m. read_batch rp directory f = Inr b \<and> m \<in> set (fr_messages b) \<longrightarrow> wire_ok (rp_host rp) (rp_decoders rp) (bm_payload m)"
    and "1000 \<le> rp_depth rp" and "directory \<noteq> []" and "rustOutput \<noteq> []"
  shows "(\<exists>report. audit_replay rp [directory, rustOutput] = Inr report \<and> re_exitCode report = 0) \<longleftrightarrow>
    (\<exists>records names batches. read_records rp rustOutput = Inr records \<and> rp_readdir rp directory = Inr names \<and>
       res_map (read_batch rp directory) (batch_files names) = Inr batches \<and>
       list_all2 (agrees (rp_host rp) (rp_decoders rp)) records (listing (batch_files names) batches))"
proof (cases "\<exists>records names. read_records rp rustOutput = Inr records \<and> rp_readdir rp directory = Inr names")
  case True
  then obtain records names where r: "read_records rp rustOutput = Inr records" "rp_readdir rp directory = Inr names" by blast
  let ?a = "\<lparr>au_count = 0, au_schemaChecks = 0, au_failures = [], au_types = []\<rparr> :: audit"
  let ?run = "audit_files rp records directory (batch_files names) ?a" and ?R = "agrees (rp_host rp) (rp_decoders rp)"
  have run: "(\<exists>report. audit_replay rp [directory, rustOutput] = Inr report \<and> re_exitCode report = 0) \<longleftrightarrow>
      (\<exists>a. ?run = Inr a \<and> au_failures a = [] \<and> length records = au_count a)"
    using assms(3,4) r by (auto simp: audit_replay_def compare_def report_of_def res_bind_def split: sum.splits if_splits)
  show ?thesis
  proof (cases "res_map (read_batch rp directory) (batch_files names)")
    case (Inl e)
    with consumes_files [OF assms(1,2), where fs = "batch_files names" and records = records] have "\<not> is_ok ?run" by simp
    then show ?thesis unfolding run using r Inl by auto
  next
    case (Inr batches)
    with consumes_files [OF assms(1,2), where fs = "batch_files names" and records = records]
    have c: "consumes (audit_files rp records directory (batch_files names)) ?R records (listing (batch_files names) batches)" by simp
    have "(\<exists>a. ?run = Inr a \<and> au_failures a = [] \<and> length records = au_count a) \<longleftrightarrow>
        matched ?R records 0 (listing (batch_files names) batches) \<and> length records = 0 + length (listing (batch_files names) batches)"
      using c [unfolded consumes_def, rule_format, of ?a] by (cases ?run) auto
    then show ?thesis unfolding run matched_all using r Inr by simp
  qed
next
  case False
  with assms(3,4) show ?thesis by (auto simp: audit_replay_def res_bind_def split: sum.splits)
qed

text \<open>A batch with one \<open>like\<close> message, the record the native side writes for it, and the audit of both.\<close>

definition example_message :: BaseProtoMessage where
  "example_message = \<lparr>bm_method = METHOD_like, bm_payload = [1], bm_msgId = 7, bm_msgType = 0, bm_offset = 0, bm_isHistory = False, bm_sampleFlag = 0\<rparr>"

definition example_record :: json where
  "example_record = JObj [(''batch'', JStr ''batch-1.pb''), (''index'', jint 0), (''method'', JStr METHOD_like), (''message_id'', JStr ''7''),
     (''history'', JBool False), (''normalized'', JObj [(''type'', JStr ''like''), (''count'', JStr ''3''), (''total'', JStr (int_str 9007199254740991)),
       (''user'', JObj [(''id'', JStr ''42''), (''nickname'', JStr ''Ann''), (''unique_id'', JStr ''ann''), (''sec_uid'', JStr [])])])]"

definition example_replay :: replay where
  "example_replay = \<lparr>rp_host = \<lparr>host_URL = (\<lambda>_. None), host_number = (\<lambda>_. [])\<rparr>, rp_depth = 1000,
     rp_decoders = example_decoders,
     rp_batch = (\<lambda>_. Inr \<lparr>fr_messages = [example_message], fr_cursor = [], fr_fetchInterval = 0, fr_now = 0, fr_internalExt = [], fr_fetchType = 0,
       fr_routeParams = [], fr_heartbeatDuration = 0, fr_needAck = False, fr_pushServer = [], fr_isFirst = False, fr_historyCommentCursor = [],
       fr_historyNoMore = False\<rparr>),
     rp_parse = (\<lambda>_. Inr example_record), rp_readText = (\<lambda>_. Inr ''record''), rp_readdir = (\<lambda>_. Inr [''notes.md'', ''batch-1.pb'']),
     rp_readBytes = (\<lambda>_. Inr [])\<rparr>"

lemma example_names: "batch_files [''notes.md'', ''batch-1.pb''] = [''batch-1.pb'']" "split_on (CHR 0x0A) (js_trim ''record'') = [''record'']"
  by code_simp+

lemma example_texts: "int_str 3 = ''3''" "int_str 7 = ''7''" "int_str 42 = ''42''"
  by code_simp+

lemma example_batch: "read_batch example_replay directory f = Inr b \<Longrightarrow> fr_messages b = [example_message]"
  by (auto simp: read_batch_def decodeBatch_def example_replay_def res_bind_Inr_iff)

lemma example_event:
  "decodeEvent h example_decoders METHOD_like [1] = \<lparr>le_props = normalize_like \<lparr>lm_user = Some example_user, lm_count = 3, lm_total = 2 ^ 60\<rparr> @
     [(''method'', JStr METHOD_like)], le_payload = None\<rparr>"
  by (simp add: decodeEvent_def NORMALIZE_simps put_method example_decoders_def)

lemma example_agrees: "agrees h example_decoders example_record (''batch-1.pb'', 0, example_message)"
  by (simp add: agrees_def example_message_def example_record_def example_event event_type_def normalize_like_def native_type_def event_agrees_def
      users_agree_def user_fields_def equal_scalar normalizeUser_def example_user_def avatar_url_def firstImageUrl_def js_or_def asId_def
      example_texts or_empty_def shared_fields_def String_of_def jcount_def clampCount_def MAX_SAFE_INTEGER_def is_integral_numeral)

theorem audit_replay_exact_witness:
  "\<exists>report. audit_replay example_replay [''captures'', ''native.jsonl''] = Inr report \<and> re_exitCode report = 0"
proof -
  let ?rp = example_replay and ?dir = "''captures''"
  have "\<forall>f b m. read_batch ?rp ?dir f = Inr b \<and> m \<in> set (fr_messages b) \<longrightarrow> wire_ok (rp_host ?rp) (rp_decoders ?rp) (bm_payload m)"
    using example_wire_ok example_batch by (auto simp: example_replay_def example_message_def)
  moreover have "1000 \<le> rp_depth ?rp" by (simp add: example_replay_def)
  moreover have "preflightBatch [] = Inr ()" by (simp add: preflightBatch_def preflight_loop.simps)
  then obtain b where b: "read_batch ?rp ?dir ''batch-1.pb'' = Inr b"
    by (simp add: read_batch_def decodeBatch_def example_replay_def bounded_def)
  have "read_records ?rp ''native.jsonl'' = Inr [example_record]" by (simp add: read_records_def example_replay_def example_names)
  moreover have "rp_readdir ?rp ?dir = Inr [''notes.md'', ''batch-1.pb'']" by (simp add: example_replay_def)
  moreover have "res_map (read_batch ?rp ?dir) (batch_files [''notes.md'', ''batch-1.pb'']) = Inr [b]" by (simp add: example_names b)
  moreover have "list_all2 (agrees (rp_host ?rp) (rp_decoders ?rp)) [example_record] (listing (batch_files [''notes.md'', ''batch-1.pb'']) [b])"
    using example_agrees by (simp add: listing_def example_names example_batch [OF b] example_replay_def)
  ultimately show ?thesis by (subst audit_replay_exact) (fast | simp)+
qed

end
