(* ===== verification/Spec2Isabelle.thy ===== *)
theory Spec2Isabelle
  imports Event_Conformance Client_Guest Connection_Properties Page_Properties Golden Schema_Documents Replay
begin

text \<open>
  A verification development for the TypeScript clients of \<open>tiktok-signer\<close>: \<open>packages/tiktok-live\<close>, which joins a LIVE room
  directly, and \<open>packages/live-sdk\<close>, which joins it through a connect service; and for the generator of their
  JSON contracts, the audit that compares the decoder with the native one, and two of the examples that go with them.

  \<^bold>\<open>The program.\<close> A client looks a room up (\<open>discovery.ts\<close>) with a stored or anonymous session (\<open>session.ts\<close>), signs a socket
  URL built by \<open>player.ts\<close> with TikTok's own bundle (\<open>signer.ts\<close>), opens it and enters the room. The socket pushes frames
  (\<open>frames.ts\<close>) whose messages are decoded to events (\<open>events.ts\<close>) and handed to listeners through a bounded queue
  (\<open>delivery.ts\<close>). \<open>client.ts\<close> ties this together: generations, acknowledgements, heartbeats, reconnection. Everything
  that TikTok answers with JSON is read with a byte limit (\<open>http.ts\<close>) and checked by a schema validator
  (\<open>json-validation.ts\<close>, \<open>gen/json\<close>). The SDK has its own \<open>client.ts\<close>; it asks a connect service (\<open>api.ts\<close>) for a signed
  descriptor instead of signing, and shares frames, events and queue with the first package. The schemas and the TypeScript types that belong
  to them are written by \<open>scripts/generate-json-types.mjs\<close> from the documents under \<open>schema/json\<close>.

  \<^bold>\<open>The theories.\<close>
  \<^item> \<open>Prelude\<close>, \<open>Js_Numbers\<close>, \<open>Js_Strings\<close>, \<open>Js_Objects\<close>, \<open>Json\<close>, \<open>Errors\<close>: results with errors as values, and what the sources
    use of the language: numbers with NaN, infinities and negative zero, the rounding of doubles, trimming, splitting,
    decimal text, \<open>BigInt\<close>, insertion-ordered objects, parsed JSON, the regular expressions of the schemas, the error classes.
  \<^item> \<open>Delivery\<close>: \<open>delivery.ts\<close>. The ring buffer is a record with the source's fields. Draining refines the obvious list program,
    also when a listener clears the queue in the middle of it;
    an overflow discards everything and stops the client; the accounts balance. The locale \<open>delivery_owner\<close> is what the queue
    expects of the callbacks it is given: they may clear it and nothing else.
  \<^item> \<open>Protobuf_Types\<close>, \<open>Frames\<close>, \<open>Player\<close>: the transport messages, \<open>frames.ts\<close> and \<open>player.ts\<close>. The hand-written preflight of a
    batch accepts exactly the well-formed ones of at most 8192 messages; frames decode to what was meant; the socket query has
    the captured template's parameters in order.
  \<^item> \<open>Json_Validation\<close>, \<open>Json_Schemas\<close>: \<open>json-validation.ts\<close> and the generated schemas. On every schema without references the
    validator decides a declarative reading of the schema, for any call stack deeper than the schema (1000 frames suffice for
    those of the repository).
  \<^item> \<open>Schema_Generator\<close>, \<open>Schema_Keywords\<close>, \<open>Schema_Types\<close>, \<open>Schema_Output\<close>: \<open>scripts/generate-json-types.mjs\<close>. Following references ends and computes
    the one finite expansion of a document (\<open>expands\<close>), or fails when there is none; documents the generator accepts, and in which what it does not look at is well-shaped (\<open>shaped\<close>), become
    schemas on which the validator decides; the type it writes is a TypeScript type (\<open>ts_type\<close>, printed by \<open>ts_print\<close>) that every validated value inhabits when
    properties come with a type (and it need not without one); a run that ends well
    leaves exactly the files it generated.
  \<^item> \<open>Schema_Documents\<close>: the documents under \<open>schema/json\<close> and the types under \<open>src/gen/json\<close>. The committed files are what the generator makes of the documents.
  \<^item> \<open>Http\<close>, \<open>Discovery\<close>, \<open>Session\<close>, \<open>Signer\<close>: \<open>http.ts\<close>, \<open>discovery.ts\<close>, \<open>session.ts\<close>, \<open>signer.ts\<close>. Bodies are read exactly or
    refused; lookups conform to the published schemas; the requests and delays of the anonymous bootstrap are a prefix of a fixed schedule of three; a gift
    without an icon is returned though its published schema refuses it; a bundle is used only if
    its digest matches; equal downloads share one flight.
  \<^item> \<open>Events\<close>, \<open>Event_Conformance\<close>: \<open>events.ts\<close>. Decoded events conform to the public event schemas; the last section below adds that they have the published types; emotes are bounded and their
    URLs safe.
  \<^item> \<open>Client_Core\<close>: what both clients share. The record \<open>core\<close> has the fields both classes keep; the locale \<open>client_calls\<close> states what
    code called by a client (listeners, a signer, a socket constructor) can do to it, namely call \<open>connect()\<close> and \<open>disconnect()\<close> and
    throw, and gives once and for all that emitting, writing and handing events over keep a property those calls keep. It makes
    each client's callbacks an instance of \<open>delivery_owner\<close>. It extends \<open>guarded_calls\<close>, which asks less: only emissions that do not tell of a connection, and
    only writes to the current socket.
  \<^item> \<open>Client\<close>, \<open>Client_Invariants\<close>, \<open>Client_Runs\<close>, \<open>Client_Properties\<close>, \<open>Client_Guest\<close>: \<open>tiktok-live/src/client.ts\<close>. The \<open>async\<close> methods are cut
    at their \<open>await\<close>s into tasks with program counters; \<open>step\<close> is what a client does with an input (a call, an answer, a socket
    event, a timer, the immediate of the queue), in any order; \<open>reachable\<close> is what can come of it. The interpretations \<open>calls\<close>,
    \<open>ext\<close> and \<open>ref\<close> of \<open>client_calls\<close> carry the invariant, what only grows, and the bookkeeping of guest identities.
  \<^item> \<open>Sdk_Api\<close>, \<open>Sdk\<close>, \<open>Sdk_Invariants\<close>, \<open>Sdk_Properties\<close>: \<open>live-sdk/src\<close>, in the same way; \<open>sdk\<close> and \<open>sdk_ext\<close> interpret \<open>client_calls\<close>. The
    delay of a reconnection is what \<open>setTimeout\<close> is asked for; \<open>node_timeout\<close> is what Node makes of it. The
    answers of the connect service are computed from what \<open>fetch\<close> yields, so that the sockets the SDK opens can be traced
    back to the validation of descriptors.
  \<^item> \<open>Connection_Spec\<close>, \<open>Client_Refinement\<close>, \<open>Sdk_Refinement\<close>, \<open>Connection_Properties\<close>: an abstract connection both clients implement, a machine of
    four phases over what can be seen from outside. The interpretations \<open>conn\<close> and \<open>scon\<close> of \<open>guarded_calls\<close> show that every input
    takes a client along its steps; the locale \<open>connection\<close>, interpreted as \<open>tl_connection\<close> and \<open>sdk_connection\<close>, then gives for both: listeners hear of connections and
    losses in turn, and frames go to the current socket only. \<open>connection_fields\<close> is what the simulation needs of a class's own notion of being open.
  \<^item> \<open>Page\<close>, \<open>Page_Properties\<close>: \<open>examples/live-sdk-bun/live.ts\<close>, the browser page that speaks the protocol over the service's relay. It reads
    frames as the SDK does, but for the acknowledgement of a batch without \<open>internalExt\<close>, and runs one interval at a time; a room that cannot
    be encoded and two ways in which its heartbeat differs from the packages' are shown.
  \<^item> \<open>Golden\<close>: \<open>examples/node-connector/golden-fixtures.ts\<close>, the oracle that writes the expected events of the recorded messages. Its objects are the
    package's events under other names, but for numbers and URLs the two read differently; which these are is exact.
  \<^item> \<open>Replay\<close>: \<open>scripts/audit-replay.mjs\<close>, which decodes recorded batches and compares every event with the record of the native implementation. It passes exactly if the
    records agree (\<open>agrees\<close>) with the messages, one for one; \<open>decides_agreement\<close> and \<open>consumes\<close> are the contracts its parts meet.

  \<^bold>\<open>Arguments of the model.\<close> Listeners, signer, socket constructor, buffered amounts and the random source are the record \<open>env\<close>, which may
  depend on the whole state and change with every step. The protobuf and gzip codecs, \<open>URL\<close>, \<open>JSON.parse\<close>, SHA-256, \<open>vm\<close>, the network, the
  file system and the clock are arguments of the definitions that use them. Theorems that rely on one of them say so in a hypothesis.

  \<^bold>\<open>Bounds.\<close> The validator's recursion takes the depth of the call stack as fuel; running out is the error the runtime raises. So does the generator's;
  \<open>resolve_bound\<close>, the number of references times the size of the documents, is enough for any documents, and 40 for those of the repository. The
  loops over bytes end by a measure on the position, the drain by the batch size, the bootstrap by its retries.

  \<^bold>\<open>Simplifications.\<close> Strings are lists of 8-bit characters, except where UTF-16 units matter (\<open>utf8Length\<close>). Delays are exact rationals,
  and the numbers of a reconnection policy are finite. Members that objects inherit and the length of an array are not targets of references, and no document has a member \<open>__proto__\<close>. Socket methods do not call back synchronously; \<open>close()\<close> queues its event. Between
  two \<open>await\<close>s anything may happen, also where the language would only run microtasks, so the invariants hold of more
  interleavings than can occur.

  \<^bold>\<open>Not modelled.\<close> The generated protobuf classes beyond the fields the sources read: they are data for a third-party runtime. The script the
  signer evaluates in its sandbox, which imitates a browser for TikTok's bundle. The two command-line examples
  (\<open>verify-signer.ts\<close>, \<open>listen.ts\<close>), which print what a client emits; type declarations and re-exports. The scripts under \<open>scripts/headless\<close>, which
  probe TikTok's bundle and servers by experiment and are not part of a client, and the copies of its browser surroundings they share. The Rust crates
  and the Android application, which are other programs.
\<close>

section \<open>Events have their published types\<close>

lemma event_schema_generated:
  assumes "event_schema name = Some schema"
  shows "\<exists>p t. (p, schema, t) \<in> set generated_files"
proof -
  have "schema \<in> set public_schemas" using assms by (auto simp: event_schema_def public_schemas_def split: if_splits)
  then have "schema \<in> set (map (fst \<circ> snd) generated_files)" unfolding files_schemas by simp
  then show ?thesis by force
qed

text \<open>C22: every method and payload is answered. A method the package knows, whose payload decodes to a message with non-negative ids and parsable avatar
  URLs, becomes an event that conforms to the published schema of that event and has the TypeScript type published for it;
  every other method or payload becomes an \<open>unknown\<close> event that keeps the method and the bytes.\<close>

theorem decodeEvent_has_published_type:
  assumes "wire_ok h decs payload"
  shows "case event_schema name of
      None \<Rightarrow> decodeEvent h decs name payload = unknown_event name payload
    | Some schema \<Rightarrow> (case the (NORMALIZE h decs name) payload of
          Inl _ \<Rightarrow> decodeEvent h decs name payload = unknown_event name payload
        | Inr _ \<Rightarrow> le_payload (decodeEvent h decs name payload) = None \<and>
            admits h schema (JObj (le_props (decodeEvent h decs name payload))) \<and>
            (\<exists>p t. (p, schema, t) \<in> set generated_files \<and> inhabits named t (JObj (le_props (decodeEvent h decs name payload)))))"
  using decodeEvent_admits [OF assms, of name] event_schema_generated [of name] published_types_sound
  by (auto split: option.splits sum.splits) (metis (no_types, lifting))

theorem decodeEvent_has_published_type_witness:
  "let h = \<lparr>host_URL = (\<lambda>_. None), host_number = (\<lambda>_. [])\<rparr>
   in admits h LikeEventSchema (JObj (le_props (decodeEvent h example_decoders METHOD_like [1]))) \<and>
      inhabits (\<lambda>_ _. False) LikeEvent_type (JObj (le_props (decodeEvent h example_decoders METHOD_like [1])))"
proof -
  let ?h = "\<lparr>host_URL = (\<lambda>_. None), host_number = (\<lambda>_. [])\<rparr> :: host"
  have "(p, LikeEventSchema, t) \<in> set generated_files \<Longrightarrow> t = LikeEvent_type" for p t
    using files_read [of "\<lambda>_. Err []"] LikeEvent_typed by (fastforce simp: list_all_iff)
  with decodeEvent_has_published_type [OF example_wire_ok, of METHOD_like "\<lambda>_ _. False"] show ?thesis
    by (auto simp: event_schema_simps example_like Let_def)
qed

end
